(* ===== verification/Go_Prelude.thy ===== *)
theory Go_Prelude
  imports Complex_Main "HOL-Library.Word" "HOL-Library.Log_Nat"
begin

text \<open>
  The vocabulary every component of the development shares.

  \<^item> Machine integers: Go's \<^verbatim>\<open>int32\<close> and \<^verbatim>\<open>int64\<close> (and \<^verbatim>\<open>int\<close>, 64 bits wide on the
    platforms the program targets) are HOL integers kept in range by the wrap functions
    \<open>i32\<close> and \<open>i64\<close>, written at every operation of the source that can overflow; the
    laws they share are proved once in the locale \<open>machine_int\<close>.
  \<^item> Strings are byte strings (\<open>char list\<close>), as Go's are; the functions of the packages
    \<^verbatim>\<open>strings\<close>, \<^verbatim>\<open>strconv\<close> and \<^verbatim>\<open>fmt\<close> the program uses are defined here.
  \<^item> A Go \<^verbatim>\<open>error\<close> is its text; a nil error is \<open>None\<close>.
\<close>

section \<open>Collections of facts\<close>

named_theorems wrap_simps \<open>wrap-around of machine integers\<close>
named_theorems go_defs \<open>definitions unfolded by the component proofs\<close>

section \<open>Go's types\<close>

type_synonym error = string
type_synonym byte = "8 word"
type_synonym duration = int

text \<open>A Go slice of bytes: \<open>None\<close> is nil, which differs from the empty slice.\<close>

type_synonym bytes = "byte list option"

section \<open>Machine integers\<close>

text \<open>Two's complement wrap-around at 32 and at 64 bits.\<close>

definition i32 :: "int \<Rightarrow> int" where
  "i32 x = (x + 2147483648) mod 4294967296 - 2147483648"

definition i64 :: "int \<Rightarrow> int" where
  "i64 x = (x + 9223372036854775808) mod 18446744073709551616 - 9223372036854775808"

locale machine_int =
  fixes wrap :: "int \<Rightarrow> int" and lo :: int and hi :: int and m :: int
  assumes wrap_def: "wrap x = (x - lo) mod m + lo"
    and modulus: "m = hi - lo" and room: "lo < 0" "0 < hi"
begin

lemma wrap_range: "lo \<le> wrap x \<and> wrap x < hi"
proof -
  have "0 < m" using room modulus by linarith
  then have "0 \<le> (x - lo) mod m" and "(x - lo) mod m < m" by simp_all
  then show ?thesis unfolding wrap_def using modulus by linarith
qed

lemma wrap_id: "lo \<le> x \<Longrightarrow> x < hi \<Longrightarrow> wrap x = x"
  using modulus by (simp add: wrap_def)

lemma wrap_eq_iff: "wrap x = x \<longleftrightarrow> lo \<le> x \<and> x < hi"
  using wrap_range [of x] wrap_id [of x] by auto

lemma wrap_add_left: "wrap (wrap x + y) = wrap (x + y)"
  by (simp add: wrap_def mod_simps algebra_simps)

lemma wrap_add_right: "wrap (x + wrap y) = wrap (x + y)"
  using wrap_add_left [of y x] by (simp add: add.commute)

lemma wrap_wrap: "wrap (wrap x) = wrap x"
  using wrap_range [of x] by (intro wrap_id) auto

lemma wrap_zero: "wrap 0 = 0"
  using room by (intro wrap_id) auto

end

interpretation i32: machine_int i32 "-2147483648" 2147483648 4294967296
  by unfold_locales (simp_all add: i32_def)

interpretation i64: machine_int i64 "-9223372036854775808" 9223372036854775808
    18446744073709551616
  by unfold_locales (simp_all add: i64_def)

lemmas i64_laws [wrap_simps] =
  i64.wrap_add_left i64.wrap_add_right i64.wrap_wrap i64.wrap_zero

lemmas i32_laws [wrap_simps] =
  i32.wrap_add_left i32.wrap_add_right i32.wrap_wrap i32.wrap_zero

text \<open>Go's \<^verbatim>\<open>/\<close> on integers truncates towards zero.\<close>

definition quo :: "int \<Rightarrow> int \<Rightarrow> int" where
  "quo a b = sgn a * sgn b * (\<bar>a\<bar> div \<bar>b\<bar>)"

lemma quo_nonneg: "0 \<le> a \<Longrightarrow> 0 < b \<Longrightarrow> quo a b = a div b"
  by (cases "a = 0") (simp_all add: quo_def)


lemma int_div_bounds:
  fixes b d :: int
  assumes "0 < d"
  shows "d * (b div d) \<le> b" and "b < d * (b div d) + d"
  using mult_div_mod_eq [of d b] pos_mod_bound [OF assms, of b] pos_mod_sign [OF assms, of b]
  by linarith+

section \<open>Strings\<close>

text \<open>Decimal digits, and the text the verb \<^verbatim>\<open>%d\<close> gives an integer.\<close>

definition digit_char :: "nat \<Rightarrow> char" where
  "digit_char d = char_of (48 + d)"

fun nat_digits :: "nat \<Rightarrow> string" where
  "nat_digits n =
     (if n < 10 then [digit_char n] else nat_digits (n div 10) @ [digit_char (n mod 10)])"

declare nat_digits.simps [simp del]

definition itoa :: "int \<Rightarrow> string" where
  "itoa x = (if x < 0 then ''-'' @ nat_digits (nat (- x)) else nat_digits (nat x))"

text \<open>The value of a digit, and of a string of digits.\<close>

definition digit_val :: "char \<Rightarrow> nat option" where
  "digit_val c =
     (let k = (of_char c :: nat) in if 48 \<le> k \<and> k \<le> 57 then Some (k - 48) else None)"

fun digits_val :: "nat \<Rightarrow> string \<Rightarrow> nat option" where
  "digits_val acc [] = Some acc"
| "digits_val acc (c # cs) =
     (case digit_val c of None \<Rightarrow> None | Some d \<Rightarrow> digits_val (10 * acc + d) cs)"

text \<open>
  \<^verbatim>\<open>strconv.ParseInt(s, 10, 64)\<close>: an optional sign and at least one decimal digit; a value
  outside the range of \<^verbatim>\<open>int64\<close> is an error. \<open>None\<close> is a non-nil error, whose text the
  program never uses.
\<close>

definition ParseInt :: "string \<Rightarrow> int option" where
  "ParseInt s =
     (let (neg, ds) = (case s of
            [] \<Rightarrow> (False, [])
          | c # cs \<Rightarrow> if c = CHR ''-'' then (True, cs)
                      else if c = CHR ''+'' then (False, cs) else (False, s))
      in if ds = [] then None
         else case digits_val 0 ds of
                None \<Rightarrow> None
              | Some n \<Rightarrow>
                  if neg then (if n \<le> 9223372036854775808 then Some (- int n) else None)
                  else (if n < 9223372036854775808 then Some (int n) else None))"

text \<open>
  \<^verbatim>\<open>strings.TrimSpace\<close> removes the white space of Unicode from both ends. Each white space
  character is listed with its UTF-8 encoding.
\<close>

definition white_spaces :: "string list" where
  "white_spaces =
     [[CHR 0x09], [CHR 0x0A], [CHR 0x0B], [CHR 0x0C], [CHR 0x0D], [CHR 0x20],
      [CHR 0xC2, CHR 0x85], [CHR 0xC2, CHR 0xA0], [CHR 0xE1, CHR 0x9A, CHR 0x80],
      [CHR 0xE2, CHR 0x80, CHR 0x80], [CHR 0xE2, CHR 0x80, CHR 0x81],
      [CHR 0xE2, CHR 0x80, CHR 0x82], [CHR 0xE2, CHR 0x80, CHR 0x83],
      [CHR 0xE2, CHR 0x80, CHR 0x84], [CHR 0xE2, CHR 0x80, CHR 0x85],
      [CHR 0xE2, CHR 0x80, CHR 0x86], [CHR 0xE2, CHR 0x80, CHR 0x87],
      [CHR 0xE2, CHR 0x80, CHR 0x88], [CHR 0xE2, CHR 0x80, CHR 0x89],
      [CHR 0xE2, CHR 0x80, CHR 0x8A], [CHR 0xE2, CHR 0x80, CHR 0xA8],
      [CHR 0xE2, CHR 0x80, CHR 0xA9], [CHR 0xE2, CHR 0x80, CHR 0xAF],
      [CHR 0xE2, CHR 0x81, CHR 0x9F], [CHR 0xE3, CHR 0x80, CHR 0x80]]"

fun strip_first :: "string list \<Rightarrow> string \<Rightarrow> string option" where
  "strip_first [] s = None"
| "strip_first (w # ws) s =
     (if w \<noteq> [] \<and> take (length w) s = w then Some (drop (length w) s) else strip_first ws s)"

lemma strip_first_shorter: "strip_first ws s = Some t \<Longrightarrow> length t < length s"
proof (induction ws)
  case (Cons w ws)
  show ?case
  proof (cases "w \<noteq> [] \<and> take (length w) s = w")
    case True
    then have "t = drop (length w) s" and "0 < length w" and "length w \<le> length s"
      using Cons.prems by (auto dest: arg_cong [where f = length])
    then show ?thesis by (metis diff_less length_drop order_less_le_trans)
  next
    case False
    then show ?thesis using Cons by auto
  qed
qed simp

function trim_left :: "string list \<Rightarrow> string \<Rightarrow> string" where
  "trim_left ws s = (case strip_first ws s of None \<Rightarrow> s | Some t \<Rightarrow> trim_left ws t)"
  by pat_completeness auto
termination
  by (relation "measure (length \<circ> snd)") (auto dest: strip_first_shorter)

declare trim_left.simps [simp del]

definition TrimSpace :: "string \<Rightarrow> string" where
  "TrimSpace s =
     rev (trim_left (map rev white_spaces) (rev (trim_left white_spaces s)))"

text \<open>
  \<^verbatim>\<open>strings.ToUpper\<close>, on the characters that can decide the comparison with an ASCII name:
  the ASCII letters, and the two characters outside ASCII whose upper case is an ASCII letter
  (the long s, to \<^verbatim>\<open>S\<close>, and the dotless i, to \<^verbatim>\<open>I\<close>). Every other character outside ASCII has
  an upper case outside ASCII, and is kept as it is.
\<close>

definition upper_char :: "char \<Rightarrow> char" where
  "upper_char c =
     (let k = (of_char c :: nat) in if 97 \<le> k \<and> k \<le> 122 then char_of (k - 32) else c)"

fun ToUpper :: "string \<Rightarrow> string" where
  "ToUpper [] = []"
| "ToUpper [c] = [upper_char c]"
| "ToUpper (c # d # s) =
     (if c = CHR 0xC5 \<and> d = CHR 0xBF then CHR ''S'' # ToUpper s
      else if c = CHR 0xC4 \<and> d = CHR 0xB1 then CHR ''I'' # ToUpper s
      else upper_char c # ToUpper (d # s))"

text \<open>The text of a slice of strings under \<^verbatim>\<open>%v\<close>: the elements in brackets, a blank between.\<close>

fun join_blank :: "string list \<Rightarrow> string" where
  "join_blank [] = []"
| "join_blank [s] = s"
| "join_blank (s # t # ss) = s @ '' '' @ join_blank (t # ss)"

definition sprint_strings :: "string list \<Rightarrow> string" where
  "sprint_strings ss = ''['' @ join_blank ss @ '']''"

subsection \<open>Printing and parsing integers\<close>

lemma digit_char_numeral [simp]:
  "digit_char 0 = CHR ''0''"
  "digit_char (Suc 0) = CHR ''1''"
  "digit_char 2 = CHR ''2''"
  "digit_char 3 = CHR ''3''"
  "digit_char 4 = CHR ''4''"
  "digit_char 5 = CHR ''5''"
  "digit_char 6 = CHR ''6''"
  "digit_char 7 = CHR ''7''"
  "digit_char 8 = CHR ''8''"
  "digit_char 9 = CHR ''9''"
  "digit_char 1 = CHR ''1''"
  by (code_simp)+

lemma digit_val_digit_char [simp]: "d < 10 \<Longrightarrow> digit_val (digit_char d) = Some d"
  by (simp add: digit_val_def digit_char_def)

lemma digits_val_append:
  "digits_val acc (xs @ ys) =
     (case digits_val acc xs of None \<Rightarrow> None | Some n \<Rightarrow> digits_val n ys)"
  by (induction xs arbitrary: acc) (auto split: option.splits)

lemma nat_digits_nonempty [simp]: "nat_digits n \<noteq> []"
  by (subst nat_digits.simps) simp

lemma digits_val_nat_digits [simp]: "digits_val 0 (nat_digits n) = Some n"
proof (induction n rule: nat_digits.induct)
  case (1 n)
  then show ?case
    by (cases "n < 10") (simp_all add: nat_digits.simps [of n] digits_val_append)
qed

lemma nat_digits_all_digits: "c \<in> set (nat_digits n) \<Longrightarrow> \<exists>d < 10. c = digit_char d"
proof (induction n rule: nat_digits.induct)
  case (1 n)
  then show ?case
  proof (cases "n < 10")
    case True
    then show ?thesis using 1 by (auto simp: nat_digits.simps [of n])
  next
    case False
    then consider "c \<in> set (nat_digits (n div 10))" | "c = digit_char (n mod 10)"
      using 1 by (auto simp: nat_digits.simps [of n])
    then show ?thesis
      using 1 False by cases (auto intro: exI [of _ "n mod 10"])
  qed
qed

lemma nat_digits_hd: "nat_digits n = c # cs \<Longrightarrow> c \<noteq> CHR ''-'' \<and> c \<noteq> CHR ''+''"
proof -
  assume "nat_digits n = c # cs"
  then have "c \<in> set (nat_digits n)" by simp
  then obtain d where "d < 10" and c: "c = digit_char d"
    using nat_digits_all_digits by blast
  then have "of_char c = 48 + d" by (simp add: digit_char_def)
  moreover have "(of_char CHR ''-'' :: nat) = 45" and "(of_char CHR ''+'' :: nat) = 43" by simp_all
  ultimately show ?thesis by auto
qed

lemma nat_digits_cons:
  obtains c cs where "nat_digits n = c # cs" and "c \<noteq> CHR ''-''" and "c \<noteq> CHR ''+''"
  using nat_digits_hd by (metis nat_digits_nonempty list.exhaust)

text \<open>Parsing what \<^verbatim>\<open>%d\<close> printed gives the integer back, for every \<^verbatim>\<open>int64\<close>.\<close>

lemma ParseInt_itoa:
  assumes "-9223372036854775808 \<le> x" and "x < 9223372036854775808"
  shows "ParseInt (itoa x) = Some x"
proof (cases "x < 0")
  case True
  then have "nat (- x) \<le> 9223372036854775808" using assms by linarith
  then show ?thesis using True by (simp add: ParseInt_def itoa_def)
next
  case False
  obtain c cs where d: "nat_digits (nat x) = c # cs" and c: "c \<noteq> CHR ''-''" "c \<noteq> CHR ''+''"
    by (rule nat_digits_cons)
  have v: "digits_val 0 (c # cs) = Some (nat x)"
    by (metis d digits_val_nat_digits)
  have b: "nat x < 9223372036854775808" using False assms by linarith
  have "itoa x = c # cs" using False d by (simp add: itoa_def)
  then show ?thesis using False c b
    by (simp add: ParseInt_def v del: digits_val.simps)
qed

lemma ParseInt_range:
  "ParseInt s = Some n \<Longrightarrow> -9223372036854775808 \<le> n \<and> n < 9223372036854775808"
  by (auto simp: ParseInt_def Let_def split: list.splits if_splits option.splits)

subsection \<open>Trimming\<close>

lemma strip_first_None:
  "(\<forall>w \<in> set ws. w \<noteq> [] \<and> hd w \<noteq> c) \<Longrightarrow> strip_first ws (c # s) = None"
proof (induction ws)
  case (Cons w ws)
  then obtain a v where "w = a # v" and "a \<noteq> c" by (cases w) auto
  with Cons show ?case by simp
qed simp

lemma strip_first_Nil [simp]: "strip_first ws [] = None"
  by (induction ws) auto

lemma trim_left_Nil [simp]: "trim_left ws [] = []"
  by (simp add: trim_left.simps)

lemma trim_left_fix:
  "(\<forall>w \<in> set ws. w \<noteq> [] \<and> hd w \<noteq> c) \<Longrightarrow> trim_left ws (c # s) = c # s"
  by (simp add: trim_left.simps strip_first_None)

text \<open>A printable ASCII character neither starts nor ends the encoding of a white space.\<close>

definition printable :: "char \<Rightarrow> bool" where
  "printable c \<longleftrightarrow> 33 \<le> (of_char c :: nat) \<and> (of_char c :: nat) \<le> 126"

lemma white_spaces_hd: "w \<in> set white_spaces \<Longrightarrow> w \<noteq> [] \<and> \<not> printable (hd w) \<and> \<not> printable (last w)"
  by (simp add: white_spaces_def upt_rec) (elim disjE; simp add: printable_def)

lemma TrimSpace_fix:
  assumes "s \<noteq> []" and "printable (hd s)" and "printable (last s)"
  shows "TrimSpace s = s"
proof -
  obtain c t where s: "s = c # t" using assms(1) by (cases s) auto
  have "trim_left white_spaces s = s"
    unfolding s using assms(2) white_spaces_hd s by (intro trim_left_fix) auto
  moreover obtain d u where r: "rev s = d # u" and d: "d = last s"
    using assms(1) by (cases s rule: rev_cases) auto
  have "trim_left (map rev white_spaces) (d # u) = d # u"
  proof (rule trim_left_fix, rule ballI)
    fix w assume "w \<in> set (map rev white_spaces)"
    then obtain v where "v \<in> set white_spaces" and "w = rev v" by auto
    then show "w \<noteq> [] \<and> hd w \<noteq> d"
      using white_spaces_hd [of v] assms(3) d by (auto simp: hd_rev)
  qed
  ultimately show ?thesis by (simp add: TrimSpace_def r [symmetric])
qed

lemma digit_char_printable [simp]: "d < 10 \<Longrightarrow> printable (digit_char d)"
  by (simp add: printable_def digit_char_def)

lemma nat_digits_last: "nat_digits n = xs @ [c] \<Longrightarrow> \<exists>d < 10. c = digit_char d"
  using nat_digits_all_digits [of c n] by simp

lemma itoa_last: "\<exists>d < 10. last (itoa x) = digit_char d"
proof -
  have *: "\<exists>d < 10. last (nat_digits n) = digit_char d" for n
    by (rule nat_digits_all_digits [of _ n]) simp
  show ?thesis using * [of "nat x"] * [of "nat (- x)"] by (simp add: itoa_def)
qed

lemma itoa_nonempty [simp]: "itoa x \<noteq> []"
  by (simp add: itoa_def)

lemma itoa_hd_printable: "printable (hd (itoa x))"
proof (cases "x < 0")
  case True
  then show ?thesis by (simp add: itoa_def printable_def)
next
  case False
  then have "hd (itoa x) \<in> set (nat_digits (nat x))" by (simp add: itoa_def)
  then obtain d where "d < 10" and "hd (itoa x) = digit_char d"
    using nat_digits_all_digits by blast
  then show ?thesis by simp
qed

section \<open>Systems of steps\<close>

text \<open>
  The interface of a system that only moves forward: a relation between states that every step
  keeps holds between any state and those reached from it.
\<close>

locale forward_system =
  fixes forward :: "'s \<Rightarrow> 's \<Rightarrow> bool" and trans_step :: "'s \<Rightarrow> 's \<Rightarrow> bool"
  assumes forward_refl: "forward s s"
    and forward_trans: "forward s t \<Longrightarrow> forward t u \<Longrightarrow> forward s u"
    and forward_step: "trans_step s t \<Longrightarrow> forward s t"
begin

lemma forward_steps: "trans_step\<^sup>*\<^sup>* s t \<Longrightarrow> forward s t"
  by (induction rule: rtranclp_induct) (blast intro: forward_refl forward_trans forward_step)+

lemma invariant_steps:
  assumes "trans_step\<^sup>*\<^sup>* s t" and "\<And>s t. trans_step s t \<Longrightarrow> I s \<Longrightarrow> I t" and "I s"
  shows "I t"
  using assms(1,3) by (induction rule: rtranclp_induct) (blast intro: assms(2))+

end

end
