(* ===== verification/App_Strategy.thy ===== *)
theory App_Strategy
  imports Go_Prelude
begin

text \<open>
  \<^verbatim>\<open>app/strategy.go\<close>: the sample sets of file sizes and the names they are chosen by. The Go
  type \<^verbatim>\<open>Strategy\<close> is an \<^verbatim>\<open>int32\<close> whose values in the program are the eighteen declared constants;
  it is a datatype here, and \<open>strategy_index\<close> is the number behind a constant. A read of the
  table of names out of range is a run-time panic, \<open>None\<close>.
\<close>

section \<open>The enumeration\<close>

datatype strategy =
    S50K | S100K | S200K | S300K | S400K | S500K | S600K | S700K | S800K | S900K
  | S1M | S5M | S10M | S100M | S600M | S1G | S2G | SMax

definition strategies :: "strategy list" where
  "strategies =
     [S50K, S100K, S200K, S300K, S400K, S500K, S600K, S700K, S800K, S900K,
      S1M, S5M, S10M, S100M, S600M, S1G, S2G, SMax]"

definition Strategy_of :: "nat \<Rightarrow> strategy" where
  "Strategy_of i = strategies ! i"

fun strategy_index :: "strategy \<Rightarrow> nat" where
  "strategy_index S50K = 0" | "strategy_index S100K = 1" | "strategy_index S200K = 2"
| "strategy_index S300K = 3" | "strategy_index S400K = 4" | "strategy_index S500K = 5"
| "strategy_index S600K = 6" | "strategy_index S700K = 7" | "strategy_index S800K = 8"
| "strategy_index S900K = 9" | "strategy_index S1M = 10" | "strategy_index S5M = 11"
| "strategy_index S10M = 12" | "strategy_index S100M = 13" | "strategy_index S600M = 14"
| "strategy_index S1G = 15" | "strategy_index S2G = 16" | "strategy_index SMax = 17"

section \<open>The tables\<close>

definition c1K :: int where "c1K = 1024"
definition c1M :: int where "c1M = 1024 * 1024"

fun mapSample :: "strategy \<Rightarrow> int list" where
  "mapSample S50K = [c1K, c1K * 5, c1K * 10, c1K * 20, c1K * 30, c1K * 40]"
| "mapSample S100K = [c1K * 50, c1K * 60, c1K * 70, c1K * 80, c1K * 90, c1K * 100]"
| "mapSample S200K = [c1K * 110, c1K * 120, c1K * 140, c1K * 160, c1K * 180, c1K * 200]"
| "mapSample S300K = [c1K * 210, c1K * 220, c1K * 240, c1K * 260, c1K * 280, c1K * 300]"
| "mapSample S400K = [c1K * 310, c1K * 320, c1K * 340, c1K * 360, c1K * 380, c1K * 400]"
| "mapSample S500K = [c1K * 410, c1K * 420, c1K * 440, c1K * 460, c1K * 480, c1K * 500]"
| "mapSample S600K = [c1K * 510, c1K * 520, c1K * 540, c1K * 560, c1K * 580, c1K * 600]"
| "mapSample S700K = [c1K * 610, c1K * 620, c1K * 640, c1K * 660, c1K * 680, c1K * 700]"
| "mapSample S800K = [c1K * 710, c1K * 720, c1K * 740, c1K * 760, c1K * 780, c1K * 800]"
| "mapSample S900K = [c1K * 810, c1K * 820, c1K * 840, c1K * 860, c1K * 880, c1K * 900]"
| "mapSample S1M = [c1K * 910, c1K * 920, c1K * 940, c1K * 960, c1K * 980, c1M]"
| "mapSample S5M = [c1M, c1M * 2, c1M * 3, c1M * 4, c1M * 5]"
| "mapSample S10M = [c1M * 5, c1M * 6, c1M * 7, c1M * 8, c1M * 9, c1M * 10]"
| "mapSample S100M = [c1M * 10, c1M * 20, c1M * 40, c1M * 50, c1M * 70, c1M * 100]"
| "mapSample S600M = [c1M * 100, c1M * 200, c1M * 300, c1M * 400, c1M * 500, c1M * 600]"
| "mapSample S1G = [c1M * 600, c1M * 800, c1M * 900, c1M * 1024, c1M * 1300, c1M * 1500]"
| "mapSample S2G = [c1M * 1024, c1M * 1300, c1M * 1500, c1M * 1700, c1M * 1800, c1M * 2000]"
| "mapSample SMax = []"

definition samples :: "string list" where
  "samples =
     [''S50K'', ''S100K'', ''S200K'', ''S300K'', ''S400K'', ''S500K'', ''S600K'',
      ''S700K'', ''S800K'', ''S900K'', ''S1M'', ''S5M'', ''S10M'', ''S100M'', ''S600M'',
      ''S1G'', ''S2G'']"

section \<open>Operations\<close>

definition strategy_String :: "strategy \<Rightarrow> string option" where
  "strategy_String s =
     (if strategy_index s < length samples then Some (samples ! strategy_index s) else None)"

text \<open>The loop of \<^verbatim>\<open>StrategyFromString\<close> over the names, from position \<open>i\<close> on.\<close>

fun find_sample :: "nat \<Rightarrow> string list \<Rightarrow> string \<Rightarrow> strategy option" where
  "find_sample i [] s = None"
| "find_sample i (v # vs) s =
     (if v = s then Some (Strategy_of i) else find_sample (Suc i) vs s)"

definition StrategyFromString :: "string \<Rightarrow> strategy \<times> error option" where
  "StrategyFromString s0 =
     (let s = ToUpper s0 in
      case find_sample 0 samples s of
        Some st \<Rightarrow> (st, None)
      | None \<Rightarrow> (SMax, Some (''Invalid sample['' @ s @ '']. You must choose ''
                            @ sprint_strings samples)))"

definition Samples :: "strategy \<Rightarrow> int list" where
  "Samples s = mapSample s"

text \<open>\<open>intn n\<close> is the value the generator draws below \<open>n\<close>.\<close>

definition RandomStrategy :: "(nat \<Rightarrow> nat) \<Rightarrow> strategy" where
  "RandomStrategy intn = Strategy_of (intn (strategy_index SMax))"

section \<open>Lemmas\<close>

lemma strategy_index_Strategy_of: "i < 18 \<Longrightarrow> strategy_index (Strategy_of i) = i"
proof -
  assume "i < 18"
  then have "i \<in> set [0..<18]" by simp
  then show ?thesis
    by (simp add: upt_rec) (elim disjE; simp add: Strategy_of_def strategies_def)
qed

lemma Strategy_of_strategy_index [simp]: "Strategy_of (strategy_index s) = s"
  by (cases s) (simp_all add: Strategy_of_def strategies_def)

lemma strategy_index_bound: "strategy_index s \<le> 17"
  by (cases s) simp_all

lemma strategy_index_less: "s \<noteq> SMax \<Longrightarrow> strategy_index s < 17"
  by (cases s) simp_all

lemma find_sample_Some:
  "find_sample i vs s = Some st \<Longrightarrow> \<exists>j < length vs. vs ! j = s \<and> st = Strategy_of (i + j)"
proof (induction vs arbitrary: i)
  case (Cons v vs)
  show ?case
  proof (cases "v = s")
    case True
    with Cons.prems show ?thesis by (intro exI [of _ 0]) simp
  next
    case False
    with Cons.prems have "find_sample (Suc i) vs s = Some st" by simp
    then obtain j where "j < length vs" "vs ! j = s" "st = Strategy_of (Suc i + j)"
      using Cons.IH by blast
    then show ?thesis by (intro exI [of _ "Suc j"]) simp
  qed
qed simp

lemma find_sample_None: "find_sample i vs s = None \<longleftrightarrow> s \<notin> set vs"
  by (induction vs arbitrary: i) auto

lemma samples_length [simp]: "length samples = 17"
  by (simp add: samples_def)

lemma strategy_String_Some: "s \<noteq> SMax \<Longrightarrow> \<exists>n. strategy_String s = Some n"
  using strategy_index_less [of s] by (simp add: strategy_String_def)

lemma mapSample_nonempty: "s \<noteq> SMax \<Longrightarrow> mapSample s \<noteq> []"
  by (cases s) simp_all

lemma mapSample_bounds: "v \<in> set (mapSample s) \<Longrightarrow> 1024 \<le> v \<and> v \<le> 2097152000"
  by (cases s) (auto simp: c1K_def c1M_def)

lemma samples_distinct: "distinct samples"
  by (simp add: samples_def)

lemma StrategyFromString_cases:
  "(\<exists>j < 17. samples ! j = ToUpper t \<and> StrategyFromString t = (Strategy_of j, None)) \<or>
   (ToUpper t \<notin> set samples \<and> fst (StrategyFromString t) = SMax
      \<and> snd (StrategyFromString t) \<noteq> None)"
proof (cases "find_sample 0 samples (ToUpper t)")
  case None
  then have "ToUpper t \<notin> set samples" by (simp add: find_sample_None)
  with None show ?thesis by (simp add: StrategyFromString_def Let_def)
next
  case (Some st)
  then show ?thesis
    using find_sample_Some [OF Some] by (auto simp: StrategyFromString_def Let_def)
qed

lemma StrategyFromString_char:
  "StrategyFromString t = (s, None) \<longleftrightarrow> s \<noteq> SMax \<and> strategy_String s = Some (ToUpper t)"
proof
  assume ok: "StrategyFromString t = (s, None)"
  with StrategyFromString_cases [of t] obtain j
    where j: "j < 17" "samples ! j = ToUpper t" "s = Strategy_of j" by auto
  then have "strategy_index s = j" by (simp add: strategy_index_Strategy_of)
  with j show "s \<noteq> SMax \<and> strategy_String s = Some (ToUpper t)"
    by (auto simp: strategy_String_def)
next
  assume "s \<noteq> SMax \<and> strategy_String s = Some (ToUpper t)"
  then have i: "strategy_index s < 17" and t: "samples ! strategy_index s = ToUpper t"
    by (auto simp: strategy_String_def split: if_splits)
  then have "ToUpper t \<in> set samples" by (metis nth_mem samples_length)
  with StrategyFromString_cases [of t] obtain j
    where j: "j < 17" "samples ! j = ToUpper t" "StrategyFromString t = (Strategy_of j, None)"
    by auto
  with i t have "j = strategy_index s"
    using nth_eq_iff_index_eq [OF samples_distinct, of j "strategy_index s"] by simp
  with j show "StrategyFromString t = (s, None)" by simp
qed

section \<open>Properties\<close>

text \<open>
  Parsing a sample name succeeds exactly on the names the enumeration prints, in any
  mixture of upper and lower case, and then returns the constant with that name: the parser and
  the printer of \<^verbatim>\<open>Strategy\<close> are inverse to each other, and \<^verbatim>\<open>SMax\<close> is never returned without
  an error.
\<close>

theorem StrategyFromString_iff:
  "StrategyFromString t = (s, None) \<longleftrightarrow> s \<noteq> SMax \<and> strategy_String s = Some (ToUpper t)"
  by (rule StrategyFromString_char)

end
