(* ===== verification/App_Config.thy ===== *)
theory App_Config
  imports App_Strategy
begin

text \<open>
  \<^verbatim>\<open>app/app.go\<close>: the configuration of a run, the command line variables it is filled from, the
  parser of byte counts and the validation of the parameters. The record \<open>flags\<close> holds the
  package variables the \<^verbatim>\<open>flag\<close> package fills; what \<^verbatim>\<open>validateParams\<close> asks of the operating
  system and of the packages \<^verbatim>\<open>runtime\<close> and \<^verbatim>\<open>net\<close> is the record \<open>host\<close>. Log output is not
  modelled.
\<close>

section \<open>State\<close>

record Config =
  cfg_Routines :: int
  cfg_EnableConcurrent :: bool
  cfg_Sample :: strategy
  cfg_ExpectedWrites :: int
  cfg_DataDir :: string
  cfg_Server :: string
  cfg_MaxSlice :: int
  cfg_CacheSize :: int
  cfg_VerifyHash :: bool
  cfg_Fast :: bool
  cfg_Profile :: bool
  cfg_Ipc :: bool
  cfg_IpcAddr :: string
  cfg_TaskName :: string
  cfg_IpcClient :: bool
  cfg_Web :: bool
  cfg_WebServer :: string
  cfg_LogLevel :: string

text \<open>The zero value of the struct.\<close>

definition zero_Config :: Config where
  "zero_Config =
     \<lparr>cfg_Routines = 0, cfg_EnableConcurrent = False, cfg_Sample = S50K,
      cfg_ExpectedWrites = 0, cfg_DataDir = [], cfg_Server = [], cfg_MaxSlice = 0,
      cfg_CacheSize = 0, cfg_VerifyHash = False, cfg_Fast = False, cfg_Profile = False,
      cfg_Ipc = False, cfg_IpcAddr = [], cfg_TaskName = [], cfg_IpcClient = False,
      cfg_Web = False, cfg_WebServer = [], cfg_LogLevel = []\<rparr>"

record flags =
  routines :: int
  enableConcurrent :: bool
  sample :: string
  expectedWrites :: string
  dataDir :: string
  server :: string
  maxSlice :: string
  loglevel :: string
  cacheSize :: string
  verifyHash :: bool
  enableFast :: bool
  enableProfile :: bool
  ipcClient :: bool
  ipc :: bool
  ipcAddr :: string
  taskName :: string
  web :: bool
  webServer :: string

text \<open>The defaults \<^verbatim>\<open>init\<close> registers.\<close>

definition default_flags :: flags where
  "default_flags =
     \<lparr>routines = 0, enableConcurrent = False, sample = ''S1M'', expectedWrites = ''100M'',
      dataDir = [], server = [], maxSlice = ''1M'', loglevel = ''info'', cacheSize = ''1G'',
      verifyHash = False, enableFast = False, enableProfile = False, ipcClient = False,
      ipc = False, ipcAddr = [], taskName = [], web = False, webServer = '':9527''\<rparr>"

record host =
  NumCPU :: int
  MkdirAll :: "string \<Rightarrow> error option"
  SplitHostPort :: "string \<Rightarrow> error option"

section \<open>Operations\<close>

text \<open>
  The unit is the last byte; a digit there is not a unit and belongs to the number. The product
  wraps at 64 bits.
\<close>

definition byte_scale :: "char \<Rightarrow> int" where
  "byte_scale u =
     (if u = CHR ''k'' \<or> u = CHR ''K'' then 1024
      else if u = CHR ''m'' \<or> u = CHR ''M'' then 1024 * 1024
      else if u = CHR ''g'' \<or> u = CHR ''G'' then 1024 * 1024 * 1024
      else 1)"

definition ParseBytes :: "string \<Rightarrow> int" where
  "ParseBytes str0 =
     (let str = TrimSpace str0 in
      if length str = 0 then 0
      else let unit = last str;
               value = (if digit_val unit \<noteq> None then str else butlast str)
           in case ParseInt value of
                None \<Rightarrow> 0
              | Some nvalue \<Rightarrow> i64 (nvalue * byte_scale unit))"

text \<open>
  \<^verbatim>\<open>validateParams\<close> writes the package variables \<^verbatim>\<open>Cfg\<close> and \<^verbatim>\<open>routines\<close> as it goes, and keeps what
  it has written when it returns an error.
\<close>

definition validateParams :: "host \<Rightarrow> flags \<Rightarrow> Config \<Rightarrow> error option \<times> flags \<times> Config" where
  "validateParams h f c =
     (let expectedBytes = ParseBytes (expectedWrites f) in
      if expectedBytes \<le> 0 then (Some (''invalid expected-writes,'' @ expectedWrites f), f, c)
      else
      let c1 = c\<lparr>cfg_ExpectedWrites := expectedBytes\<rparr> in
      case StrategyFromString (sample f) of (s, Some err) \<Rightarrow> (Some err, f, c1) | (s, None) \<Rightarrow>
      let c2 = c1\<lparr>cfg_Sample := s\<rparr>;
          f1 = (if routines f \<le> 0 then f\<lparr>routines := NumCPU h\<rparr> else f);
          c3 = c2\<lparr>cfg_Routines := routines f1\<rparr> in
      case (if dataDir f1 \<noteq> [] then MkdirAll h (dataDir f1) else None) of
        Some err \<Rightarrow> (Some err, f1, c3) | None \<Rightarrow>
      let c4 = (if dataDir f1 \<noteq> [] then c3\<lparr>cfg_DataDir := dataDir f1\<rparr> else c3) in
      case (if server f1 \<noteq> [] then SplitHostPort h (server f1) else None) of
        Some err \<Rightarrow> (Some err, f1, c4) | None \<Rightarrow>
      let c5 = (if server f1 \<noteq> [] then c4\<lparr>cfg_Server := server f1\<rparr> else c4);
          c6 = c5\<lparr>cfg_MaxSlice := i32 (ParseBytes (maxSlice f1)),
                  cfg_CacheSize := ParseBytes (cacheSize f1)\<rparr> in
      if cfg_CacheSize c6 \<le> 0 then (Some (''Invalid CacheSize=> '' @ cacheSize f1), f1, c6)
      else
        (None, f1,
         c6\<lparr>cfg_VerifyHash := verifyHash f1, cfg_Fast := enableFast f1,
            cfg_Profile := enableProfile f1, cfg_Ipc := ipc f1, cfg_IpcAddr := ipcAddr f1,
            cfg_IpcClient := ipcClient f1, cfg_TaskName := taskName f1, cfg_Web := web f1,
            cfg_WebServer := webServer f1\<rparr>))"

text \<open>\<^verbatim>\<open>ParseArgs\<close>, after \<^verbatim>\<open>flag.Parse\<close> has filled the variables.\<close>

definition ParseArgs :: "host \<Rightarrow> flags \<Rightarrow> Config \<Rightarrow> error option \<times> flags \<times> Config" where
  "ParseArgs h f c = validateParams h f (c\<lparr>cfg_EnableConcurrent := enableConcurrent f\<rparr>)"

section \<open>Byte counts\<close>

lemma ParseBytes_range:
  "-9223372036854775808 \<le> ParseBytes s \<and> ParseBytes s < 9223372036854775808"
  using i64.wrap_range by (auto simp: ParseBytes_def Let_def split: option.splits)

lemma byte_scale_pos: "0 < byte_scale u"
  by (simp add: byte_scale_def)

lemma ParseBytes_digits:
  assumes "-9223372036854775808 \<le> n" and "n < 9223372036854775808"
  shows "ParseBytes (itoa n) = n"
proof -
  obtain d where d: "d < 10" "last (itoa n) = digit_char d" using itoa_last by blast
  have "TrimSpace (itoa n) = itoa n"
    using d by (intro TrimSpace_fix) (simp_all add: itoa_hd_printable)
  moreover have "byte_scale (digit_char d) = 1"
  proof -
    have "(of_char (digit_char d) :: nat) = 48 + d" using d(1) by (simp add: digit_char_def)
    then show ?thesis using d(1) by (auto simp: byte_scale_def)
  qed
  ultimately show ?thesis
    using d assms by (simp add: ParseBytes_def ParseInt_itoa i64.wrap_id)
qed

lemma ParseBytes_unit:
  assumes "-9223372036854775808 \<le> n" and "n < 9223372036854775808"
    and "printable u" and "digit_val u = None"
  shows "ParseBytes (itoa n @ [u]) = i64 (n * byte_scale u)"
proof -
  have "TrimSpace (itoa n @ [u]) = itoa n @ [u]"
    using assms(3) itoa_hd_printable [of n] by (intro TrimSpace_fix) simp_all
  then show ?thesis
    using assms by (simp add: ParseBytes_def ParseInt_itoa)
qed

lemma validateParams_fst_None:
  "fst (validateParams h f c) = None \<longleftrightarrow>
     0 < ParseBytes (expectedWrites f)
     \<and> (\<exists>s. s \<noteq> SMax \<and> strategy_String s = Some (ToUpper (sample f)))
     \<and> (dataDir f = [] \<or> MkdirAll h (dataDir f) = None)
     \<and> (server f = [] \<or> SplitHostPort h (server f) = None)
     \<and> 0 < ParseBytes (cacheSize f)"
proof (cases "StrategyFromString (sample f)")
  case (Pair s e)
  have "e = None \<longleftrightarrow> (\<exists>s. s \<noteq> SMax \<and> strategy_String s = Some (ToUpper (sample f)))"
  proof
    assume "e = None"
    with Pair StrategyFromString_char [of "sample f" s] show
      "\<exists>s. s \<noteq> SMax \<and> strategy_String s = Some (ToUpper (sample f))" by auto
  next
    assume "\<exists>s. s \<noteq> SMax \<and> strategy_String s = Some (ToUpper (sample f))"
    then obtain s' where "StrategyFromString (sample f) = (s', None)"
      by (auto simp: StrategyFromString_char)
    with Pair show "e = None" by simp
  qed
  then show ?thesis
    by (cases e) (auto simp: validateParams_def Let_def Pair split: option.splits)
qed

section \<open>Properties\<close>

text \<open>The configurations a run may start from.\<close>

definition valid_Config :: "Config \<Rightarrow> bool" where
  "valid_Config c \<longleftrightarrow>
     0 < cfg_ExpectedWrites c \<and> cfg_ExpectedWrites c < 9223372036854775808
     \<and> cfg_Sample c \<noteq> SMax \<and> 0 < cfg_Routines c
     \<and> 0 < cfg_CacheSize c \<and> cfg_CacheSize c < 9223372036854775808
     \<and> -2147483648 \<le> cfg_MaxSlice c \<and> cfg_MaxSlice c < 2147483648"

lemma StrategyFromString_None: "StrategyFromString t = (s, None) \<Longrightarrow> s \<noteq> SMax"
  using StrategyFromString_cases [of t] by (auto simp: Strategy_of_def strategies_def nth_Cons'
    split: if_splits)

text \<open>
  Claim C38: a byte count written as a decimal number and one of the units of the program is read
  as the exact product if and only if the product fits an \<^verbatim>\<open>int64\<close>: the parser does not check
  the multiplication, so a larger count is silently another number.
\<close>

theorem ParseBytes_exact_iff:
  assumes "0 \<le> n" and "n < 9223372036854775808" and "u \<in> set ''kKmMgG''"
  shows "ParseBytes (itoa n @ [u]) = n * byte_scale u \<longleftrightarrow> n * byte_scale u < 9223372036854775808"
proof -
  have "printable u \<and> digit_val u = None"
    using assms(3) by (auto simp: printable_def digit_val_def)
  then have "ParseBytes (itoa n @ [u]) = i64 (n * byte_scale u)"
    using assms by (intro ParseBytes_unit) auto
  moreover have "0 \<le> n * byte_scale u"
    using assms(1) byte_scale_pos [of u] by simp
  ultimately show ?thesis using i64.wrap_eq_iff [of "n * byte_scale u"] by auto
qed

theorem ParseBytes_exact_iff_witness:
  "ParseBytes (itoa 17179869184 @ ''G'') \<noteq> 17179869184 * byte_scale CHR ''G''"
  using ParseBytes_exact_iff [of 17179869184 "CHR ''G''"] by (simp add: byte_scale_def)

text \<open>
  Whenever the validation of the parameters succeeds, the configuration it leaves is a
  valid one: a positive number of bytes to write, a real sample set, at least one routine and a
  positive cache, each within the width of its field.
\<close>

theorem validateParams_sound:
  assumes "validateParams h f c = (None, f', c')" and "0 < NumCPU h"
  shows "valid_Config c'"
  using assms ParseBytes_range [of "expectedWrites f"] ParseBytes_range [of "cacheSize f"]
    i32.wrap_range [of "ParseBytes (maxSlice f)"]
  by (auto simp: validateParams_def valid_Config_def Let_def dest: StrategyFromString_None
      split: if_splits prod.splits option.splits)

definition demo_host :: host where
  "demo_host = \<lparr>NumCPU = 4, MkdirAll = (\<lambda>_. None), SplitHostPort = (\<lambda>_. None)\<rparr>"

text \<open>What the default sizes stand for.\<close>

lemma default_sizes:
  "ParseBytes ''100M'' = 104857600" "ParseBytes ''1M'' = 1048576" "ParseBytes ''1G'' = 1073741824"
  using ParseBytes_unit [of 100 "CHR ''M''"] ParseBytes_unit [of 1 "CHR ''M''"]
    ParseBytes_unit [of 1 "CHR ''G''"]
  by (simp_all add: itoa_def nat_digits.simps printable_def digit_val_def byte_scale_def i64_def)

lemma demo_validate: "fst (validateParams demo_host default_flags zero_Config) = None"
proof -
  note default_sizes
  moreover have "strategy_String S1M = Some (ToUpper ''S1M'')"
    by (simp add: strategy_String_def samples_def upper_char_def)
  ultimately show ?thesis
    by (auto simp: validateParams_fst_None demo_host_def default_flags_def
        intro!: exI [of _ S1M])
qed

theorem validateParams_sound_witness:
  "valid_Config (snd (snd (validateParams demo_host default_flags zero_Config)))"
proof -
  obtain f' c' where r: "validateParams demo_host default_flags zero_Config = (None, f', c')"
    using demo_validate by (metis prod.collapse)
  have "0 < NumCPU demo_host" by (simp add: demo_host_def)
  from validateParams_sound [OF r this] show ?thesis by (simp add: r)
qed

text \<open>
  The validation of the parameters fails in exactly five cases: a byte count that is
  not positive, an unknown sample name, a data directory that cannot be made, a server address
  that does not split into host and port, and a cache size that is not positive. The size of a
  slice is never a reason to fail.
\<close>

theorem validateParams_ok_iff:
  "fst (validateParams h f c) = None \<longleftrightarrow>
     0 < ParseBytes (expectedWrites f)
     \<and> (\<exists>s. s \<noteq> SMax \<and> strategy_String s = Some (ToUpper (sample f)))
     \<and> (dataDir f = [] \<or> MkdirAll h (dataDir f) = None)
     \<and> (server f = [] \<or> SplitHostPort h (server f) = None)
     \<and> 0 < ParseBytes (cacheSize f)"
  by (rule validateParams_fst_None)

end
