(* ===== verification/Go_Float.thy ===== *)
theory Go_Float
  imports Go_Prelude
begin

text \<open>
  Go's floating point numbers, as the program uses them: a finite value is a rational, every
  operation rounds its exact result to the nearest value with a 24-bit (\<^verbatim>\<open>float32\<close>) or 53-bit
  (\<^verbatim>\<open>float64\<close>) significand, ties to even, and infinities and NaNs are one value
  \<open>NonFinite\<close>, which every operation propagates. The exponent is not bounded: the program's
  values are far from the largest and smallest ones. No operation is fused with the next
  (the amd64 behaviour).
\<close>

definition round_half_even :: "rat \<Rightarrow> int" where
  "round_half_even x =
     (let f = \<lfloor>x\<rfloor>; d = x - of_int f
      in if d < 1/2 then f else if 1/2 < d then f + 1 else if even f then f else f + 1)"

text \<open>Rounding to a significand of \<open>p\<close> bits.\<close>

definition fl :: "nat \<Rightarrow> rat \<Rightarrow> rat" where
  "fl p x =
     (if x = 0 then 0
      else let (a, b) = quotient_of x;
               k = bitlen \<bar>a\<bar> - bitlen b;
               e = (if \<bar>x\<bar> < 2 powi k then k else k + 1) - int p
           in of_int (round_half_even (x / 2 powi e)) * 2 powi e)"

datatype gofloat = Finite rat | NonFinite

fun float_of_int :: "nat \<Rightarrow> int \<Rightarrow> gofloat" where
  "float_of_int p i = Finite (fl p (of_int i))"

fun float_add :: "nat \<Rightarrow> gofloat \<Rightarrow> gofloat \<Rightarrow> gofloat" where
  "float_add p (Finite a) (Finite b) = Finite (fl p (a + b))"
| "float_add p _ _ = NonFinite"

fun float_mul :: "nat \<Rightarrow> gofloat \<Rightarrow> gofloat \<Rightarrow> gofloat" where
  "float_mul p (Finite a) (Finite b) = Finite (fl p (a * b))"
| "float_mul p _ _ = NonFinite"

fun float_div :: "nat \<Rightarrow> gofloat \<Rightarrow> gofloat \<Rightarrow> gofloat" where
  "float_div p (Finite a) (Finite b) = (if b = 0 then NonFinite else Finite (fl p (a / b)))"
| "float_div p _ _ = NonFinite"

text \<open>
  Conversion to an integer truncates; the conversion of a value that is not finite gives the
  smallest integer (the amd64 behaviour).
\<close>

fun int_of_float :: "gofloat \<Rightarrow> int" where
  "int_of_float (Finite x) = i64 (if x < 0 then \<lceil>x\<rceil> else \<lfloor>x\<rfloor>)"
| "int_of_float NonFinite = -9223372036854775808"

text \<open>The verb \<^verbatim>\<open>%.<k>f\<close> on a value that is not negative: \<open>k\<close> decimals, correctly rounded.\<close>

fun pad_digits :: "nat \<Rightarrow> nat \<Rightarrow> string" where
  "pad_digits 0 n = []"
| "pad_digits (Suc k) n = pad_digits k (n div 10) @ [digit_char (n mod 10)]"

definition fmt_fixed :: "nat \<Rightarrow> rat \<Rightarrow> string" where
  "fmt_fixed k x =
     (let n = nat (round_half_even (x * 10 ^ k))
      in nat_digits (n div 10 ^ k) @ ''.'' @ pad_digits k (n mod 10 ^ k))"

text \<open>\<^verbatim>\<open>Duration.Seconds\<close>: the whole seconds and the nanoseconds apart.\<close>

definition Seconds :: "duration \<Rightarrow> gofloat" where
  "Seconds d =
     float_add 53 (float_of_int 53 (quo d 1000000000))
       (float_div 53 (float_of_int 53 (d - quo d 1000000000 * 1000000000)) (float_of_int 53 1000000000))"

section \<open>Rounding\<close>

lemma round_half_even_of_int [simp]: "round_half_even (of_int n) = n"
  by (simp add: round_half_even_def)

lemma round_half_even_mono: "x \<le> y \<Longrightarrow> round_half_even x \<le> round_half_even y"
proof -
  assume le: "x \<le> y"
  have fx: "of_int \<lfloor>x\<rfloor> \<le> x" "x < of_int \<lfloor>x\<rfloor> + 1" by linarith+
  have fy: "of_int \<lfloor>y\<rfloor> \<le> y" "y < of_int \<lfloor>y\<rfloor> + 1" by linarith+
  have "\<lfloor>x\<rfloor> \<le> \<lfloor>y\<rfloor>" using le by (rule floor_mono)
  then consider "\<lfloor>x\<rfloor> = \<lfloor>y\<rfloor>" | "\<lfloor>x\<rfloor> + 1 \<le> \<lfloor>y\<rfloor>" by linarith
  then show ?thesis
    using le by cases (auto simp: round_half_even_def Let_def)
qed

lemma fl_zero [simp]: "fl p 0 = 0"
  by (simp add: fl_def)

lemma fl_nonneg: "0 \<le> x \<Longrightarrow> 0 \<le> fl p x"
proof (cases "x = 0")
  case False
  assume "0 \<le> x"
  have *: "0 \<le> round_half_even (x / 2 powi e)" for e :: int
    using round_half_even_mono [of 0 "x / 2 powi e"] \<open>0 \<le> x\<close>
      round_half_even_of_int [of 0] by simp
  then show ?thesis
    by (auto simp: fl_def Let_def split: prod.split intro!: mult_nonneg_nonneg)
qed simp

lemma powi_pos: "0 < (2::rat) powi e"
  by (simp add: zero_less_power_int)

lemma bitlen_rat_bounds:
  assumes "0 < a"
  shows "2 powi (bitlen a - 1) \<le> (of_int a :: rat)" and "(of_int a :: rat) < 2 powi bitlen a"
proof -
  have b: "2 ^ nat (bitlen a - 1) \<le> a" "a < 2 ^ nat (bitlen a)" "0 < bitlen a"
    using bitlen_bounds [OF assms] bitlen_nonneg [of a] bitlen_eq_zero_iff [of a] assms by simp_all
  have "(of_int (2 ^ nat (bitlen a - 1)) :: rat) \<le> of_int a" using b(1) by (simp only: of_int_le_iff)
  moreover have "(of_int a :: rat) < of_int (2 ^ nat (bitlen a))" using b(2) by (simp only: of_int_less_iff)
  ultimately show "2 powi (bitlen a - 1) \<le> (of_int a :: rat)" "(of_int a :: rat) < 2 powi bitlen a"
    using b(3) by (simp_all add: power_int_def)
qed

lemma fl_pos:
  assumes "0 < x" and "0 < p"
  shows "0 < fl p x"
proof -
  obtain a b where q: "quotient_of x = (a, b)" by fastforce
  have b: "0 < b" using quotient_of_denom_pos [OF q] .
  have x: "x = of_int a / of_int b" using quotient_of_div [OF q] .
  have a: "0 < a" using assms(1) b by (simp add: x zero_less_divide_iff)
  let ?k = "bitlen \<bar>a\<bar> - bitlen b"
  define e where "e = (if \<bar>x\<bar> < 2 powi ?k then ?k else ?k + 1) - int p"
  note A = bitlen_rat_bounds [OF a] and B = bitlen_rat_bounds [OF b]
  have "2 powi (?k - 1) = (2 powi (bitlen a - 1) :: rat) / 2 powi bitlen b"
    using a by (simp add: power_int_diff [symmetric] algebra_simps)
  also have "\<dots> \<le> x"
    unfolding x using A B a b by (intro frac_le) (simp_all add: powi_pos)
  finally have lo: "2 powi (?k - 1) \<le> x" .
  have "1 \<le> x / 2 powi e"
  proof -
    have "(2::rat) powi e \<le> 2 powi (if \<bar>x\<bar> < 2 powi ?k then ?k - 1 else ?k)"
      using assms(2) unfolding e_def by (intro power_int_increasing) auto
    also have "\<dots> \<le> x" using lo assms(1) by simp
    finally show ?thesis using powi_pos [of e] by simp
  qed
  then have "1 \<le> round_half_even (x / 2 powi e)"
    using round_half_even_mono [of 1 "x / 2 powi e"] round_half_even_of_int [of 1] by simp
  then have "0 < (of_int (round_half_even (x / 2 powi e)) :: rat) * 2 powi e"
    by (intro mult_pos_pos) (simp_all add: powi_pos)
  then show ?thesis using assms(1) by (simp add: fl_def q Let_def e_def)
qed

lemma Seconds_pos:
  assumes "0 < d"
  shows "\<exists>x. Seconds d = Finite x \<and> 0 < x"
proof -
  let ?q = "quo d 1000000000" let ?r = "d - ?q * 1000000000"
  have q: "?q = d div 1000000000" using assms by (simp add: quo_nonneg)
  have r: "0 \<le> ?r" "0 \<le> ?q" using assms by (simp_all add: q minus_div_mult_eq_mod pos_imp_zdiv_nonneg_iff)
  have one: "0 < ?q \<or> 0 < ?r" using assms r by auto
  have E: "0 < fl 53 (1000000000 :: rat)" by (rule fl_pos) simp_all
  have fl_int: "0 < fl 53 (of_int n :: rat)" if "0 < n" for n :: int
    by (rule fl_pos) (use that in simp_all)
  have "0 \<le> fl 53 (of_int ?q)" "0 \<le> fl 53 (of_int ?r)" using r by (intro fl_nonneg; simp)+
  moreover have "0 < fl 53 (of_int ?q :: rat) \<or> 0 < fl 53 (of_int ?r :: rat)"
    using one fl_int by blast
  ultimately have "0 < fl 53 (of_int ?q) + fl 53 (fl 53 (of_int ?r) / fl 53 1000000000)"
    using E fl_pos [of "fl 53 (of_int ?r) / fl 53 1000000000" 53]
      fl_nonneg [of "fl 53 (of_int ?r) / fl 53 1000000000" 53]
    by (auto intro: add_pos_nonneg add_nonneg_pos simp: zero_less_divide_iff)
  then show ?thesis using E [THEN order_less_imp_not_eq2] fl_pos [of _ 53] by (simp add: Seconds_def)
qed

lemma Seconds_finite: "\<exists>x. Seconds d = Finite x"
  using fl_pos [of "1000000000" 53] by (simp add: Seconds_def)

end
