(* ===== verification/App_Stats.thy ===== *)
theory App_Stats
  imports App_Config Go_Float
begin

text \<open>
  \<^verbatim>\<open>app/stats.go\<close>: the statistics of the files a routine has written, their accumulation, the
  split of a job over routines and the merge of what the routines report, and the text of a
  byte count. The mutex of \<^verbatim>\<open>PerfStats\<close> only makes each method one atomic step and has no field
  here. All totals are \<^verbatim>\<open>int64\<close> and wrap.
\<close>

section \<open>State\<close>

record FileStats =
  fs_Name :: string
  fs_Size :: int
  fs_Hash :: string
  fs_Head :: bytes
  fs_HashVerified :: string
  fs_CreateObjectTime :: duration
  fs_CreateObjectLinkTime :: duration
  fs_WriteTime :: duration
  fs_CompleteObjectTime :: duration
  fs_WriteCount :: int
  fs_StartAt :: int

record PerfStats =
  Files :: "FileStats list"
  TotalCreateObjectTime :: duration
  TotalWriteTime :: duration
  TotalCompleteObjectTime :: duration
  TestRunTime :: duration
  TotalGetObjectInfoTime :: duration
  TotalDeleteObjectTime :: duration
  TotalWrites :: int
  TotalWriteCount :: int
  TotalPreparedWrites :: int
  TotalPreparedFiles :: int
  ExpectedWrites :: int
  MaxSlice :: int
  Sample :: strategy
  ExpectedFiles :: int
  Routines :: int
  CacheSize :: int
  Tag :: int

text \<open>The zero value of the struct.\<close>

definition zero_PerfStats :: PerfStats where
  "zero_PerfStats =
     \<lparr>Files = [], TotalCreateObjectTime = 0, TotalWriteTime = 0, TotalCompleteObjectTime = 0,
      TestRunTime = 0, TotalGetObjectInfoTime = 0, TotalDeleteObjectTime = 0,
      TotalWrites = 0, TotalWriteCount = 0, TotalPreparedWrites = 0, TotalPreparedFiles = 0,
      ExpectedWrites = 0, MaxSlice = 0, Sample = S50K, ExpectedFiles = 0, Routines = 0,
      CacheSize = 0, Tag = 0\<rparr>"

section \<open>Operations\<close>

definition Add :: "FileStats \<Rightarrow> PerfStats \<Rightarrow> PerfStats" where
  "Add fs s =
     s\<lparr>Files := Files s @ [fs],
       TotalCompleteObjectTime := i64 (TotalCompleteObjectTime s + fs_CompleteObjectTime fs),
       TotalCreateObjectTime := i64 (TotalCreateObjectTime s + fs_CreateObjectTime fs),
       TotalWriteTime := i64 (TotalWriteTime s + fs_WriteTime fs),
       TotalWrites := i64 (TotalWrites s + fs_Size fs),
       TotalWriteCount := i64 (TotalWriteCount s + fs_WriteCount fs)\<rparr>"

definition AddPreparedWrites :: "int \<Rightarrow> PerfStats \<Rightarrow> PerfStats" where
  "AddPreparedWrites n s = s\<lparr>TotalPreparedWrites := i64 (TotalPreparedWrites s + n)\<rparr>"

definition AddPreparedFiles :: "int \<Rightarrow> PerfStats \<Rightarrow> PerfStats" where
  "AddPreparedFiles n s = s\<lparr>TotalPreparedFiles := i32 (TotalPreparedFiles s + n)\<rparr>"

text \<open>With no routines the list holds the given statistics themselves.\<close>

definition SplitPerfStats :: "PerfStats \<Rightarrow> PerfStats list" where
  "SplitPerfStats stats =
     (if Routines stats \<le> 0 then [stats]
      else let expectedWrites = quo (ExpectedWrites stats) (Routines stats);
               cacheSize = quo (CacheSize stats) (Routines stats)
           in map (\<lambda>i. zero_PerfStats
                     \<lparr>ExpectedWrites := i64 (expectedWrites + 1024),
                      MaxSlice := MaxSlice stats,
                      Sample := Sample stats,
                      ExpectedFiles := ExpectedFiles stats,
                      Routines := Routines stats,
                      CacheSize := cacheSize\<rparr>)
                [0..<nat (Routines stats)])"

text \<open>The body of the loop of \<^verbatim>\<open>MergePerfStats\<close>, and the loop.\<close>

definition merge_one :: "PerfStats \<Rightarrow> PerfStats \<Rightarrow> PerfStats" where
  "merge_one stats s =
     stats\<lparr>Files := Files stats @ Files s,
           TotalCreateObjectTime := i64 (TotalCreateObjectTime stats + TotalCreateObjectTime s),
           TotalWriteTime := i64 (TotalWriteTime stats + TotalWriteTime s),
           TotalCompleteObjectTime :=
             i64 (TotalCompleteObjectTime stats + TotalCompleteObjectTime s),
           TotalGetObjectInfoTime :=
             i64 (TotalGetObjectInfoTime stats + TotalGetObjectInfoTime s),
           TotalDeleteObjectTime := i64 (TotalDeleteObjectTime stats + TotalDeleteObjectTime s),
           TotalWrites := i64 (TotalWrites stats + TotalWrites s),
           TotalWriteCount := i64 (TotalWriteCount stats + TotalWriteCount s)\<rparr>"

definition MergePerfStats :: "PerfStats \<Rightarrow> PerfStats list \<Rightarrow> error option \<times> PerfStats" where
  "MergePerfStats stats list =
     (if list = [] then (Some ''Empty PerfStats'', stats) else (None, foldl merge_one stats list))"

text \<open>
  \<^verbatim>\<open>ByteCountDecimal\<close>: the loop divides by 1024 and counts; an index past the six unit letters
  would be a run-time panic, \<open>None\<close>.
\<close>

function byte_count_loop :: "int \<Rightarrow> int \<Rightarrow> nat \<Rightarrow> int \<times> nat" where
  "byte_count_loop n dv ex =
     (if 1024 \<le> n then byte_count_loop (quo n 1024) (i64 (dv * 1024)) (ex + 1) else (dv, ex))"
  by pat_completeness auto
termination
  by (relation "measure (\<lambda>(n, dv, ex). nat n)") (auto simp: quo_nonneg)

declare byte_count_loop.simps [simp del]

definition unit_letters :: string where
  "unit_letters = ''kMGTPE''"

definition ByteCountDecimal :: "int \<Rightarrow> string option" where
  "ByteCountDecimal b =
     (if b < 1024 then Some (itoa b @ '' B'')
      else let (dv, ex) = byte_count_loop (quo b 1024) 1024 0;
               x = fl 53 (fl 53 (of_int b) / fl 53 (of_int dv))
           in if ex < length unit_letters
              then Some (fmt_fixed (if ex = 0 then 3 else if ex = 1 then 6 else 9) x
                         @ '' '' @ [unit_letters ! ex] @ ''B'')
              else None)"

section \<open>Accumulating and merging\<close>

text \<open>Adding the files of a list, in order; the totals of a record within \<^verbatim>\<open>int64\<close>.\<close>

definition add_files :: "PerfStats \<Rightarrow> FileStats list \<Rightarrow> PerfStats" where
  "add_files s fs = foldl (\<lambda>a f. Add f a) s fs"

definition totals :: "PerfStats \<Rightarrow> int list" where
  "totals s =
     [TotalCreateObjectTime s, TotalWriteTime s, TotalCompleteObjectTime s,
      TotalGetObjectInfoTime s, TotalDeleteObjectTime s, TotalWrites s, TotalWriteCount s]"

definition in_range :: "PerfStats \<Rightarrow> bool" where
  "in_range s \<longleftrightarrow> (\<forall>t \<in> set (totals s). i64 t = t)"

definition fresh :: "PerfStats \<Rightarrow> bool" where
  "fresh s \<longleftrightarrow> Files s = [] \<and> (\<forall>t \<in> set (totals s). t = 0)"

lemma merge_one_Add: "merge_one a (Add f s) = Add f (merge_one a s)"
  by (simp add: merge_one_def Add_def wrap_simps add.assoc)

lemma merge_one_fresh: "fresh s \<Longrightarrow> in_range a \<Longrightarrow> merge_one a s = a"
  by (simp add: merge_one_def fresh_def in_range_def totals_def)

lemma merge_one_add_files: "merge_one a (add_files s fs) = add_files (merge_one a s) fs"
  by (induction fs rule: rev_induct) (simp_all add: add_files_def merge_one_Add)

lemma in_range_Add: "in_range a \<Longrightarrow> in_range (Add f a)"
  by (simp add: in_range_def totals_def Add_def wrap_simps)

lemma in_range_add_files: "in_range a \<Longrightarrow> in_range (add_files a fs)"
  by (induction fs rule: rev_induct) (simp_all add: add_files_def in_range_Add)

lemma in_range_zero: "in_range zero_PerfStats"
  by (simp add: in_range_def totals_def zero_PerfStats_def wrap_simps)

lemma merge_all_add_files:
  assumes "\<forall>s \<in> set ss. fresh s" and "in_range a" and "length ss = length fss"
  shows "foldl merge_one a (map2 add_files ss fss) = add_files a (concat fss)"
  using assms(3,1,2)
proof (induction ss fss arbitrary: a rule: list_induct2)
  case (Cons s ss fs fss)
  have "merge_one a (add_files s fs) = add_files a fs"
    using Cons.prems by (simp add: merge_one_add_files merge_one_fresh)
  then show ?case
    using Cons.IH [of "add_files a fs"] Cons.prems in_range_add_files [of a fs]
    by (simp add: add_files_def)
qed (simp add: add_files_def)

lemma SplitPerfStats_fresh:
  "0 < Routines stats \<Longrightarrow> s \<in> set (SplitPerfStats stats) \<Longrightarrow> fresh s"
  by (auto simp: SplitPerfStats_def fresh_def totals_def zero_PerfStats_def)

lemma SplitPerfStats_length: "length (SplitPerfStats stats) = nat (max 1 (Routines stats))"
  by (simp add: SplitPerfStats_def)

lemma add_files_Nil [simp]: "add_files s [] = s"
  by (simp add: add_files_def)

lemma add_files_frame:
  "ExpectedWrites (add_files s fs) = ExpectedWrites s" "Sample (add_files s fs) = Sample s"
  "MaxSlice (add_files s fs) = MaxSlice s" "CacheSize (add_files s fs) = CacheSize s"
  by (induction fs rule: rev_induct) (simp_all add: add_files_def Add_def)

section \<open>Byte counts as text\<close>

lemma byte_count_loop_spec:
  assumes "dv = 1024 ^ (ex + 1)" and "dv \<le> b" and "b < 9223372036854775808" and "n = b div dv"
  shows "\<exists>k. byte_count_loop n dv ex = (1024 ^ (k + 1), k)
           \<and> 1024 ^ (k + 1) \<le> b \<and> b < 1024 ^ (k + 2)"
  using assms
proof (induction n dv ex rule: byte_count_loop.induct)
  case (1 n dv ex)
  have pos: "0 < dv" using "1.prems"(1) by simp
  have bnd: "dv * n \<le> b" "b < dv * (n + 1)"
    using "1.prems"(4) int_div_bounds [OF pos, of b] by (simp_all add: distrib_left)
  show ?case
  proof (cases "1024 \<le> n")
    case True
    then have "dv * 1024 \<le> dv * n" using pos by (intro mult_left_mono) auto
    with bnd(1) have le: "dv * 1024 \<le> b" by linarith
    then have w: "i64 (dv * 1024) = dv * 1024"
      using pos "1.prems"(3) by (intro i64.wrap_id) auto
    have q: "quo n 1024 = b div (dv * 1024)"
      using True "1.prems"(4) pos by (simp add: quo_nonneg zdiv_zmult2_eq)
    have "byte_count_loop n dv ex = byte_count_loop (quo n 1024) (i64 (dv * 1024)) (ex + 1)"
      using True by (subst byte_count_loop.simps) simp
    moreover have "i64 (dv * 1024) = 1024 ^ (ex + 1 + 1)"
      using w "1.prems"(1) by simp
    ultimately show ?thesis
      using "1.IH" [OF True] "1.prems"(3) le w q by metis
  next
    case False
    then have "dv * (n + 1) \<le> dv * 1024" using pos by (intro mult_left_mono) auto
    with bnd(2) have "b < dv * 1024" by linarith
    then show ?thesis
      using False "1.prems" by (subst byte_count_loop.simps) (auto intro!: exI [of _ ex])
  qed
qed

section \<open>Types\<close>

text \<open>The fields within the ranges of their Go types; a Go \<^verbatim>\<open>int\<close> has 64 bits.\<close>

definition FileStats_typed :: "FileStats \<Rightarrow> bool" where
  "FileStats_typed f \<longleftrightarrow>
     (\<forall>x \<in> {fs_Size f, fs_CreateObjectTime f, fs_CreateObjectLinkTime f, fs_WriteTime f,
            fs_CompleteObjectTime f, fs_WriteCount f}. i64 x = x)"

definition PerfStats_typed :: "PerfStats \<Rightarrow> bool" where
  "PerfStats_typed s \<longleftrightarrow>
     list_all FileStats_typed (Files s)
     \<and> (\<forall>x \<in> {TotalCreateObjectTime s, TotalWriteTime s, TotalCompleteObjectTime s, TestRunTime s,
               TotalGetObjectInfoTime s, TotalDeleteObjectTime s, TotalWrites s, TotalWriteCount s,
               TotalPreparedWrites s, ExpectedWrites s, Routines s, CacheSize s, Tag s}. i64 x = x)
     \<and> (\<forall>x \<in> {TotalPreparedFiles s, MaxSlice s, ExpectedFiles s}. i32 x = x)"

lemma quo_range:
  assumes "i64 a = a" and "0 < b"
  shows "i64 (quo a b) = quo a b"
proof -
  have a: "-9223372036854775808 \<le> a" "a < 9223372036854775808"
    using assms(1) by (simp_all add: i64.wrap_eq_iff)
  have d: "\<bar>a\<bar> div \<bar>b\<bar> \<le> \<bar>a\<bar>" "0 \<le> \<bar>a\<bar> div \<bar>b\<bar>"
    using assms(2) zdiv_mono2 [of "\<bar>a\<bar>" 1 b] by (simp_all add: pos_imp_zdiv_nonneg_iff)
  have "quo a b = (if a < 0 then - (\<bar>a\<bar> div \<bar>b\<bar>) else \<bar>a\<bar> div \<bar>b\<bar>)"
    using assms(2) by (auto simp: quo_def sgn_if)
  then show ?thesis using a d by (intro i64.wrap_id) (auto split: if_splits)
qed

lemma merge_one_typed: "PerfStats_typed a \<Longrightarrow> PerfStats_typed s \<Longrightarrow> PerfStats_typed (merge_one a s)"
  by (simp add: PerfStats_typed_def merge_one_def wrap_simps)

section \<open>Properties\<close>

text \<open>
  Claim C3: splitting a job over its routines, letting each routine add its files to its own
  statistics and merging the statistics at the end gives exactly the statistics of one routine
  that adds all the files in order: no file and no byte is lost or counted twice.
\<close>

theorem split_merge_sequential:
  assumes "0 < Routines stats" and "in_range stats" and "length fss = nat (Routines stats)"
  shows "MergePerfStats stats (map2 add_files (SplitPerfStats stats) fss)
       = (None, add_files stats (concat fss))"
proof -
  have len: "length (SplitPerfStats stats) = length fss"
    using assms by (simp add: SplitPerfStats_length)
  moreover have "\<forall>s \<in> set (SplitPerfStats stats). fresh s"
    using assms(1) SplitPerfStats_fresh by blast
  ultimately have "foldl merge_one stats (map2 add_files (SplitPerfStats stats) fss)
      = add_files stats (concat fss)"
    using assms(2) by (intro merge_all_add_files)
  moreover have "map2 add_files (SplitPerfStats stats) fss \<noteq> []"
    using assms len by (auto simp: zip_eq_Nil_iff)
  ultimately show ?thesis by (simp add: MergePerfStats_def)
qed

definition demo_file :: "string \<Rightarrow> int \<Rightarrow> FileStats" where
  "demo_file n sz =
     \<lparr>fs_Name = n, fs_Size = sz, fs_Hash = [], fs_Head = None, fs_HashVerified = [],
      fs_CreateObjectTime = 1, fs_CreateObjectLinkTime = 0, fs_WriteTime = 2,
      fs_CompleteObjectTime = 3, fs_WriteCount = 4, fs_StartAt = 0\<rparr>"

theorem split_merge_sequential_witness:
  "TotalWrites (snd (MergePerfStats (zero_PerfStats\<lparr>Routines := 2\<rparr>)
     (map2 add_files (SplitPerfStats (zero_PerfStats\<lparr>Routines := 2\<rparr>))
        [[demo_file ''a'' 10, demo_file ''b'' 20], [demo_file ''c'' 30]]))) = 60"
proof -
  let ?s = "zero_PerfStats\<lparr>Routines := 2\<rparr>"
  have "0 < Routines ?s" by simp
  moreover have "in_range ?s" using in_range_zero by (simp add: in_range_def totals_def)
  moreover have "length [[demo_file ''a'' 10, demo_file ''b'' 20], [demo_file ''c'' 30]]
      = nat (Routines ?s)" by simp
  ultimately have "MergePerfStats ?s (map2 add_files (SplitPerfStats ?s)
        [[demo_file ''a'' 10, demo_file ''b'' 20], [demo_file ''c'' 30]])
      = (None, add_files ?s [demo_file ''a'' 10, demo_file ''b'' 20, demo_file ''c'' 30])"
    by (subst split_merge_sequential) simp_all
  then show ?thesis
    by (simp only: snd_conv) (simp add: add_files_def Add_def zero_PerfStats_def demo_file_def
        i64_def)
qed

text \<open>
  The shares of a split job are enough and not too much: together the routines are
  asked for at least the bytes of the job and at most one KiB per routine more, and their caches
  together do not exceed the cache of the job.
\<close>

theorem SplitPerfStats_shares:
  assumes "0 < Routines stats" and "0 \<le> ExpectedWrites stats"
    and "ExpectedWrites stats + 1024 < 9223372036854775808" and "0 \<le> CacheSize stats"
  shows "ExpectedWrites stats \<le> sum_list (map ExpectedWrites (SplitPerfStats stats))
    \<and> sum_list (map ExpectedWrites (SplitPerfStats stats))
        \<le> ExpectedWrites stats + 1024 * Routines stats
    \<and> sum_list (map CacheSize (SplitPerfStats stats)) \<le> CacheSize stats"
proof -
  let ?r = "Routines stats" and ?e = "ExpectedWrites stats" and ?c = "CacheSize stats"
  have div_le: "x div ?r \<le> x" if "0 \<le> x" for x
    using that assms(1) zdiv_mono2 [of x 1 ?r] by simp
  have nonneg: "0 \<le> ?e div ?r" using assms(1,2) by (simp add: pos_imp_zdiv_nonneg_iff)
  have "i64 (?e div ?r + 1024) = ?e div ?r + 1024"
    using div_le [of ?e] nonneg assms by (intro i64.wrap_id) auto
  then have es: "sum_list (map ExpectedWrites (SplitPerfStats stats))
      = ?r * (?e div ?r) + 1024 * ?r"
    using assms by (simp add: SplitPerfStats_def quo_nonneg comp_def sum_list_triv algebra_simps)
  have cs: "sum_list (map CacheSize (SplitPerfStats stats)) = ?r * (?c div ?r)"
    using assms by (simp add: SplitPerfStats_def quo_nonneg comp_def sum_list_triv)
  note dm = int_div_bounds [OF assms(1)]
  show ?thesis
    using dm [of ?e] dm [of ?c] assms(1) unfolding es cs by linarith
qed

theorem SplitPerfStats_shares_witness:
  "1000 \<le> sum_list (map ExpectedWrites
     (SplitPerfStats (zero_PerfStats\<lparr>Routines := 3, ExpectedWrites := 1000, CacheSize := 10\<rparr>)))"
  using SplitPerfStats_shares
    [of "zero_PerfStats\<lparr>Routines := 3, ExpectedWrites := 1000, CacheSize := 10\<rparr>"] by simp

text \<open>
  The text of a byte count of at least one KiB always exists (the table of unit letters
  is never read out of range), and its unit is the largest one that fits: the count lies between
  one unit and 1024 of them.
\<close>

theorem ByteCountDecimal_unit:
  assumes "1024 \<le> b" and "b < 9223372036854775808"
  shows "\<exists>k < length unit_letters. 1024 ^ (k + 1) \<le> b \<and> b < 1024 ^ (k + 2)
    \<and> ByteCountDecimal b =
        Some (fmt_fixed (if k = 0 then 3 else if k = 1 then 6 else 9)
                (fl 53 (fl 53 (of_int b) / fl 53 (of_int (1024 ^ (k + 1)))))
              @ '' '' @ [unit_letters ! k] @ ''B'')"
proof -
  obtain k where k: "byte_count_loop (quo b 1024) 1024 0 = (1024 ^ (k + 1), k)"
      "1024 ^ (k + 1) \<le> b" "b < 1024 ^ (k + 2)"
    using byte_count_loop_spec [of 1024 0 b "quo b 1024"] assms by (auto simp: quo_nonneg)
  have "(1024::int) ^ (k + 1) < 1024 ^ 7" using k(2) assms(2) by simp
  then have "k + 1 < 7" by (rule power_less_imp_less_exp [rotated]) simp
  then have "k < length unit_letters" by (simp add: unit_letters_def)
  moreover have "ByteCountDecimal b =
        Some (fmt_fixed (if k = 0 then 3 else if k = 1 then 6 else 9)
                (fl 53 (fl 53 (of_int b) / fl 53 (of_int (1024 ^ (k + 1)))))
              @ '' '' @ [unit_letters ! k] @ ''B'')"
    using assms(1) \<open>k < length unit_letters\<close> by (simp add: ByteCountDecimal_def k(1))
  ultimately show ?thesis using k by blast
qed

theorem ByteCountDecimal_unit_witness: "\<exists>s. ByteCountDecimal 1048576 = Some s"
  using ByteCountDecimal_unit [of 1048576] by auto



end
