(* ===== verification/App_Task.thy ===== *)
theory App_Task
  imports App_Stats
begin

text \<open>
  \<^verbatim>\<open>app/task.go\<close>: tasks, the processes that carry them out, and the registry of tasks. The mutexes
  make each operation one atomic step. A \<^verbatim>\<open>*Task\<close> is the position of the task in the registry
  (tasks are only ever appended), a \<^verbatim>\<open>*Process\<close> its position in \<^verbatim>\<open>Units\<close>; \<^verbatim>\<open>ProcInfo\<close>, the handle
  only \<^verbatim>\<open>WaitAll\<close> uses, has no field. The operating system's answers to the attempts to start a
  process, the time and the order in which the run-time system walks a map are arguments.
\<close>

section \<open>Types\<close>

datatype Mode = MRoutine | MProcess

datatype Status = Ready | Running | Done | Waiting

fun status_String :: "Status \<Rightarrow> string" where
  "status_String Ready = ''Ready''"
| "status_String Running = ''Running''"
| "status_String Done = ''Done''"
| "status_String Waiting = ''Waiting''"

record Routine =
  r_Progress :: int
  r_Speed :: gofloat

definition zero_Routine :: Routine where
  "zero_Routine = \<lparr>r_Progress = 0, r_Speed = Finite 0\<rparr>"

text \<open>The map of routines is an association list with distinct keys.\<close>

record Process =
  p_ID :: int
  p_ExpectedWrites :: int
  p_Sample :: strategy
  p_Routines :: "(int \<times> Routine) list"
  p_Stats :: "PerfStats option"
  p_Status :: Status

record Task =
  t_Name :: string
  t_Units :: "Process list"
  t_Cfg :: Config
  t_ProcessCount :: int
  t_Status :: Status
  t_Progress :: int
  t_Speed :: gofloat
  t_CreatedAt :: int
  t_StartedAt :: int
  t_DoneAt :: int

text \<open>The package variables: the registry, and the tasks waiting in the schedule channel.\<close>

record app_state =
  tasks :: "Task list"
  taskChan :: "nat list"

definition taskChan_cap :: nat where
  "taskChan_cap = 1000"

definition init_app :: app_state where
  "init_app = \<lparr>tasks = [], taskChan = []\<rparr>"

section \<open>The registry\<close>

text \<open>The loops over a list that return the first element with a property: its position.\<close>

fun find_first :: "('a \<Rightarrow> bool) \<Rightarrow> 'a list \<Rightarrow> nat option" where
  "find_first P [] = None"
| "find_first P (x # xs) = (if P x then Some 0 else map_option Suc (find_first P xs))"

definition new_Task :: "string \<Rightarrow> Config \<Rightarrow> int \<Rightarrow> int \<Rightarrow> Task" where
  "new_Task nm cfg p now =
     \<lparr>t_Name = nm, t_Units = [], t_Cfg = cfg, t_ProcessCount = p, t_Status = Ready,
      t_Progress = 0, t_Speed = Finite 0, t_CreatedAt = now, t_StartedAt = 0, t_DoneAt = 0\<rparr>"

definition NewTask ::
  "string \<Rightarrow> Config \<Rightarrow> int \<Rightarrow> int \<Rightarrow> app_state \<Rightarrow> (error + nat) \<times> app_state" where
  "NewTask nm cfg p now s =
     (if \<exists>t \<in> set (tasks s). t_Name t = nm
      then (Inl (''Duplicate Task name=> '' @ nm), s)
      else (Inr (length (tasks s)), s\<lparr>tasks := tasks s @ [new_Task nm cfg p now]\<rparr>))"

definition AllTasks :: "app_state \<Rightarrow> nat list" where
  "AllTasks s = [0..<length (tasks s)]"

definition FindTask :: "string \<Rightarrow> app_state \<Rightarrow> nat option" where
  "FindTask nm s = find_first (\<lambda>t. t_Name t = nm) (tasks s)"

text \<open>The task behind a pointer, and its update.\<close>

definition the_task :: "app_state \<Rightarrow> nat \<Rightarrow> Task" where
  "the_task s i = tasks s ! i"

definition upd_task :: "nat \<Rightarrow> (Task \<Rightarrow> Task) \<Rightarrow> app_state \<Rightarrow> app_state" where
  "upd_task i f s = s\<lparr>tasks := (tasks s)[i := f (tasks s ! i)]\<rparr>"

text \<open>
  \<^verbatim>\<open>AddSchedule\<close> sets the status under the task's lock and then sends the task to the channel;
  while the channel is full the sender is blocked, \<open>None\<close>.
\<close>

definition AddSchedule_mark :: "nat \<Rightarrow> app_state \<Rightarrow> app_state" where
  "AddSchedule_mark i s = upd_task i (\<lambda>t. t\<lparr>t_Status := Waiting\<rparr>) s"

definition AddSchedule_send :: "nat \<Rightarrow> app_state \<Rightarrow> app_state option" where
  "AddSchedule_send i s =
     (if length (taskChan s) < taskChan_cap then Some (s\<lparr>taskChan := taskChan s @ [i]\<rparr>) else None)"

definition AddSchedule :: "nat \<Rightarrow> app_state \<Rightarrow> app_state option" where
  "AddSchedule i s = AddSchedule_send i (AddSchedule_mark i s)"

section \<open>Operations of a task\<close>

definition FindProcess :: "int \<Rightarrow> Task \<Rightarrow> nat option" where
  "FindProcess pid t = find_first (\<lambda>p. p_ID p = pid) (t_Units t)"

text \<open>What the operating system answers to the attempt to start a process.\<close>

datatype spawn = ExecutableErr error | StartErr error | Started int

definition new_Process :: "int \<Rightarrow> int \<Rightarrow> strategy \<Rightarrow> Process" where
  "new_Process pid ew sm =
     \<lparr>p_ID = pid, p_ExpectedWrites = ew, p_Sample = sm, p_Routines = [], p_Stats = None,
      p_Status = Ready\<rparr>"

text \<open>
  The loop of \<^verbatim>\<open>Start\<close>, with \<open>k\<close> processes left to start; \<open>os i\<close> is the answer to the
  attempt number \<open>i\<close>.
\<close>

fun start_loop ::
  "nat \<Rightarrow> nat \<Rightarrow> (nat \<Rightarrow> spawn) \<Rightarrow> int \<Rightarrow> strategy \<Rightarrow> Process list \<Rightarrow> error option \<times> Process list"
where
  "start_loop 0 i os ew sm us = (None, us)"
| "start_loop (Suc k) i os ew sm us =
     (case os i of
        ExecutableErr e \<Rightarrow> (Some e, us)
      | StartErr e \<Rightarrow> (Some e, us)
      | Started pid \<Rightarrow> start_loop k (Suc i) os ew sm (us @ [new_Process pid ew sm]))"

text \<open>The number of processes to start, and the bytes each is asked for.\<close>

definition process_total :: "Task \<Rightarrow> int" where
  "process_total t = (if t_ProcessCount t \<le> 0 then 1 else t_ProcessCount t)"

definition process_share :: "Task \<Rightarrow> int" where
  "process_share t = i64 (quo (cfg_ExpectedWrites (t_Cfg t)) (process_total t) + 1024)"

definition Start :: "(nat \<Rightarrow> spawn) \<Rightarrow> int \<Rightarrow> Task \<Rightarrow> error option \<times> Task" where
  "Start os now t =
     (if t_Status t \<noteq> Ready \<and> t_Status t \<noteq> Waiting
      then (Some (''Task status error=> Status: '' @ status_String (t_Status t)), t)
      else case start_loop (nat (process_total t)) 0 os (process_share t)
                  (cfg_Sample (t_Cfg t)) (t_Units t) of
             (Some e, us) \<Rightarrow> (Some e, t\<lparr>t_Units := us\<rparr>)
           | (None, us) \<Rightarrow> (None, t\<lparr>t_Units := us, t_Status := Running, t_StartedAt := now\<rparr>))"

definition GetStats :: "Task \<Rightarrow> PerfStats list" where
  "GetStats t =
     (if t_Status t \<noteq> Done then []
      else concat (map (\<lambda>u. case p_Stats u of None \<Rightarrow> [] | Some st \<Rightarrow> [st]) (t_Units t)))"

text \<open>A write to a key of the map of routines.\<close>

fun alist_update :: "'k \<Rightarrow> 'v \<Rightarrow> ('k \<times> 'v) list \<Rightarrow> ('k \<times> 'v) list" where
  "alist_update k v [] = [(k, v)]"
| "alist_update k v (p # ps) = (if fst p = k then (k, v) # ps else p # alist_update k v ps)"

text \<open>A process id that is not found is a nil pointer, whose use is a run-time panic, \<open>None\<close>.\<close>

definition UpdateProgress :: "int \<Rightarrow> int \<Rightarrow> Routine \<Rightarrow> Task \<Rightarrow> Task option" where
  "UpdateProgress pid tg r t =
     (case FindProcess pid t of
        None \<Rightarrow> None
      | Some i \<Rightarrow>
          Some (t\<lparr>t_Units := (t_Units t)
            [i := (t_Units t ! i)
               \<lparr>p_Routines := alist_update tg r (p_Routines (t_Units t ! i))\<rparr>]\<rparr>))"

text \<open>
  \<^verbatim>\<open>UpdateStatus\<close>. \<open>iter\<close> is the order in which the run-time system walks a map of routines;
  \<open>add_routine\<close> is the body of the inner loop, \<open>add_unit\<close> that of the outer one.
\<close>

definition add_routine :: "gofloat \<Rightarrow> gofloat \<times> gofloat \<Rightarrow> Routine \<Rightarrow> gofloat \<times> gofloat" where
  "add_routine w acc v =
     (float_add 24 (fst acc) (float_mul 24 (float_of_int 24 (r_Progress v)) w),
      float_add 53 (snd acc) (r_Speed v))"

definition routine_zero :: "Process \<Rightarrow> Routine" where
  "routine_zero u = (case map_of (p_Routines u) 0 of None \<Rightarrow> zero_Routine | Some r \<Rightarrow> r)"

definition by_routine :: "Task \<Rightarrow> bool" where
  "by_routine t \<longleftrightarrow> cfg_EnableConcurrent (t_Cfg t) \<and> 0 < cfg_Routines (t_Cfg t)"

definition pweight :: "Task \<Rightarrow> gofloat" where
  "pweight t = float_div 24 (float_of_int 24 1) (float_of_int 24 (t_ProcessCount t))"

definition rweight :: "Task \<Rightarrow> gofloat" where
  "rweight t =
     (if by_routine t then float_div 24 (pweight t) (float_of_int 24 (cfg_Routines (t_Cfg t)))
      else Finite 0)"

definition add_unit ::
  "((int \<times> Routine) list \<Rightarrow> (int \<times> Routine) list) \<Rightarrow> Task \<Rightarrow> gofloat \<times> gofloat \<Rightarrow> Process
     \<Rightarrow> gofloat \<times> gofloat" where
  "add_unit iter t acc u =
     (if by_routine t then foldl (add_routine (rweight t)) acc (map snd (iter (p_Routines u)))
      else add_routine (pweight t) acc (routine_zero u))"

definition UpdateStatus ::
  "((int \<times> Routine) list \<Rightarrow> (int \<times> Routine) list) \<Rightarrow> int \<Rightarrow> Task \<Rightarrow> Task" where
  "UpdateStatus iter now t =
     (if t_Units t = [] then t
      else let (progress, speed) = foldl (add_unit iter t) (Finite 0, Finite 0) (t_Units t);
               done = (\<forall>u \<in> set (t_Units t). p_Status u = Done);
               t1 = t\<lparr>t_Progress := int_of_float progress, t_Speed := speed\<rparr>
           in if done then t1\<lparr>t_Status := Done, t_Progress := 100, t_DoneAt := now\<rparr> else t1)"

section \<open>Lists searched by a key\<close>

lemma find_first_Some: "find_first P xs = Some i \<Longrightarrow> i < length xs \<and> P (xs ! i)"
  by (induction xs arbitrary: i) (auto split: if_splits)

lemma find_first_None: "find_first P xs = None \<longleftrightarrow> (\<forall>x \<in> set xs. \<not> P x)"
  by (induction xs) auto

text \<open>
  The interface of a search by key: what \<^verbatim>\<open>FindTask\<close> promises of the registry and \<^verbatim>\<open>FindProcess\<close>
  of the units of a task.
\<close>

locale keyed_list =
  fixes key :: "'v \<Rightarrow> 'k" and elems :: "'s \<Rightarrow> 'v list" and find :: "'k \<Rightarrow> 's \<Rightarrow> nat option"
  assumes find_Some: "find k s = Some i \<Longrightarrow> i < length (elems s) \<and> key (elems s ! i) = k"
    and find_None: "find k s = None \<longleftrightarrow> k \<notin> key ` set (elems s)"
begin

lemma find_iff:
  assumes "distinct (map key (elems s))"
  shows "find k s = Some i \<longleftrightarrow> i < length (elems s) \<and> key (elems s ! i) = k"
proof
  assume "i < length (elems s) \<and> key (elems s ! i) = k"
  then have i: "i < length (elems s)" and k: "key (elems s ! i) = k" by auto
  then have "find k s \<noteq> None" by (auto simp: find_None)
  then obtain j where j: "find k s = Some j" by auto
  with find_Some have "j < length (elems s)" and "key (elems s ! j) = k" by auto
  with i k have "i = j"
    using nth_eq_iff_index_eq [OF assms, of i j] by simp
  with j show "find k s = Some i" by simp
qed (rule find_Some)

lemma find_cong:
  assumes "map key (elems s) = map key (elems s')" and "distinct (map key (elems s))"
  shows "find k s = find k s'"
proof (cases "find k s")
  case None
  then show ?thesis using assms(1) by (metis find_None list.set_map)
next
  case (Some i)
  have len: "length (elems s) = length (elems s')" using assms(1) by (rule map_eq_imp_length_eq)
  have "i < length (elems s)" "key (elems s ! i) = k" using find_Some [OF Some] by auto
  then have "i < length (elems s')" "key (elems s' ! i) = k"
    using assms(1) len by (auto dest: arg_cong [where f = "\<lambda>xs. xs ! i"])
  then show ?thesis using Some assms by (metis find_iff)
qed

end

text \<open>A search by key in a list that also grows, refusing a key it already holds.\<close>

locale keyed_registry = keyed_list key elems find
  for key :: "'v \<Rightarrow> 'k" and elems :: "'s \<Rightarrow> 'v list" and find :: "'k \<Rightarrow> 's \<Rightarrow> nat option" +
  fixes elem :: "'a \<Rightarrow> 'v" and add :: "'a \<Rightarrow> 's \<Rightarrow> ('e + nat) \<times> 's"
  assumes add_dup: "find (key (elem a)) s \<noteq> None \<Longrightarrow> \<exists>e. add a s = (Inl e, s)"
    and add_new: "find (key (elem a)) s = None \<Longrightarrow>
      \<exists>s'. add a s = (Inr (length (elems s)), s') \<and> elems s' = elems s @ [elem a]"
begin

lemma distinct_add:
  "distinct (map key (elems s)) \<Longrightarrow> distinct (map key (elems (snd (add a s))))"
  using add_dup [of a s] add_new [of a s] by (cases "find (key (elem a)) s") (auto simp: find_None)

lemma find_add:
  assumes "distinct (map key (elems s))" and "add a s = (Inr i, s')"
  shows "find k s' = (if k = key (elem a) then Some i else find k s)"
proof -
  have nf: "find (key (elem a)) s = None" using add_dup [of a s] assms(2) by fastforce
  then have i: "i = length (elems s)" and e: "elems s' = elems s @ [elem a]"
    using add_new [of a s] assms(2) by auto
  have d: "distinct (map key (elems s'))"
    using distinct_add [OF assms(1), of a] assms(2) by simp
  show ?thesis
  proof (cases "k = key (elem a)")
    case True
    then show ?thesis using d e i by (simp add: find_iff [OF d] nth_append)
  next
    case False
    show ?thesis
    proof (cases "find k s")
      case None
      then have "find k s' = None" using False by (simp add: find_None e)
      with None False show ?thesis by simp
    next
      case (Some j)
      then have "j < length (elems s) \<and> key (elems s ! j) = k" by (rule find_Some)
      then have "find k s' = Some j" by (simp add: find_iff [OF d] e nth_append)
      with Some False show ?thesis by simp
    qed
  qed
qed

end

interpretation units: keyed_list p_ID t_Units FindProcess
  by unfold_locales (auto simp: FindProcess_def find_first_None dest: find_first_Some)

interpretation registry: keyed_registry t_Name tasks FindTask
    "\<lambda>(nm, cfg, p, now). new_Task nm cfg p now" "\<lambda>(nm, cfg, p, now). NewTask nm cfg p now"
  by unfold_locales
    (auto simp: FindTask_def find_first_None NewTask_def new_Task_def dest: find_first_Some)

section \<open>Starting the processes of a task\<close>

fun is_started :: "spawn \<Rightarrow> bool" where
  "is_started (Started pid) = True"
| "is_started _ = False"

fun pid_of :: "spawn \<Rightarrow> int" where
  "pid_of (Started pid) = pid"
| "pid_of _ = 0"

text \<open>The number of attempts that succeed before the first failure, among the first \<open>n\<close>.\<close>

definition started_upto :: "nat \<Rightarrow> (nat \<Rightarrow> spawn) \<Rightarrow> nat" where
  "started_upto n os = length (takeWhile (\<lambda>i. is_started (os i)) [0..<n])"

lemma start_loop_spec:
  "start_loop k i os ew sm us =
     (let j = length (takeWhile (\<lambda>i. is_started (os i)) [i..<i + k]) in
      (case os (i + j) of
         Started _ \<Rightarrow> None
       | ExecutableErr e \<Rightarrow> if j = k then None else Some e
       | StartErr e \<Rightarrow> if j = k then None else Some e,
       us @ map (\<lambda>l. new_Process (pid_of (os l)) ew sm) [i..<i + j]))"
proof (induction k arbitrary: i us)
  case (Suc k)
  show ?case
  proof (cases "os i")
    case (Started pid)
    then show ?thesis
      using Suc [of "Suc i" "us @ [new_Process pid ew sm]"]
      by (simp add: upt_conv_Cons Let_def del: upt_Suc split: spawn.splits)
  qed (simp_all add: upt_conv_Cons del: upt_Suc)
qed (simp split: spawn.splits)

lemma process_total_pos: "0 < process_total t"
  by (simp add: process_total_def)

lemma started_upto_le: "started_upto n os \<le> n"
  unfolding started_upto_def by (metis length_takeWhile_le length_upt minus_nat.diff_0)

lemma Start_error_iff:
  "t_Status t \<in> {Ready, Waiting} \<Longrightarrow>
     fst (Start os now t) = None \<longleftrightarrow>
       started_upto (nat (process_total t)) os = nat (process_total t)"
proof -
  let ?n = "nat (process_total t)"
  let ?j = "length (takeWhile (\<lambda>i. is_started (os i)) [0..<?n])"
  assume st: "t_Status t \<in> {Ready, Waiting}"
  have "?j \<le> ?n" using started_upto_le [of ?n os] by (simp add: started_upto_def)
  then consider "?j < ?n" | "?j = ?n" by linarith
  then show ?thesis
  proof cases
    case 1
    then have "\<not> is_started (os ?j)"
      using nth_length_takeWhile [of "\<lambda>i. is_started (os i)" "[0..<?n]"] by simp
    with 1 st show ?thesis
      by (auto simp: Start_def start_loop_spec Let_def started_upto_def split: spawn.splits)
  next
    case 2
    with st show ?thesis
      by (auto simp: Start_def start_loop_spec Let_def started_upto_def split: spawn.splits)
  qed
qed

lemma UpdateStatus_Status:
  "t_Status (UpdateStatus iter now t) =
     (if t_Units t \<noteq> [] \<and> (\<forall>u \<in> set (t_Units t). p_Status u = Done) then Done else t_Status t)"
  by (simp add: UpdateStatus_def Let_def split: prod.split)

section \<open>Properties\<close>

text \<open>
  Claim C18: creating a task under a new name returns a pointer by which that name, and no other
  name, is found from then on, every other lookup being as before; creating one under a name in
  use is refused and changes nothing.
\<close>

theorem NewTask_FindTask:
  assumes "distinct (map t_Name (tasks s))"
  shows "case NewTask nm cfg p now s of
      (Inl e, s') \<Rightarrow> s' = s \<and> FindTask nm s \<noteq> None
    | (Inr i, s') \<Rightarrow> FindTask nm s = None \<and> distinct (map t_Name (tasks s'))
        \<and> (\<forall>k. FindTask k s' = (if k = nm then Some i else FindTask k s))"
proof (cases "NewTask nm cfg p now s")
  case (Pair r s')
  show ?thesis
  proof (cases r)
    case (Inl e)
    with Pair show ?thesis
      using registry.find_None [of nm s] by (auto simp: NewTask_def split: if_splits)
  next
    case (Inr i)
    then have add: "(case (nm, cfg, p, now) of (nm, cfg, p, now) \<Rightarrow> NewTask nm cfg p now) s
        = (Inr i, s')" using Pair by simp
    have "FindTask nm s = None"
      using Pair Inr registry.find_None [of nm s] by (auto simp: NewTask_def split: if_splits)
    moreover have "FindTask k s' = (if k = nm then Some i else FindTask k s)" for k
      using registry.find_add [OF assms add, of k] by (simp add: new_Task_def)
    moreover have "distinct (map t_Name (tasks s'))"
      using registry.distinct_add [OF assms, of "(nm, cfg, p, now)"] Pair by simp
    ultimately show ?thesis using Pair Inr by simp
  qed
qed

theorem NewTask_FindTask_witness:
  "FindTask ''b'' (snd (NewTask ''b'' zero_Config 1 0
     (init_app\<lparr>tasks := [new_Task ''a'' zero_Config 1 0]\<rparr>))) = Some 1"
proof -
  let ?s = "init_app\<lparr>tasks := [new_Task ''a'' zero_Config 1 0]\<rparr>"
  have "distinct (map t_Name (tasks ?s))" by simp
  from NewTask_FindTask [OF this, of "''b''" zero_Config 1 0] show ?thesis
    by (auto simp: NewTask_def new_Task_def init_app_def FindTask_def split: if_splits)
qed

text \<open>
  Claim C16: what a start does, whatever the operating system answers. It appends, to the units of
  the task, one process for each attempt that succeeds before the first failure, in order, with
  its share of the bytes and the sample of the task. The task is running if and only if every
  attempt succeeded, which is when no error is returned; after a failure the status is unchanged
  while the processes already started stay in the task.
\<close>

theorem Start_spec:
  assumes "t_Status t \<in> {Ready, Waiting}"
  shows "let n = nat (process_total t); k = started_upto n os; t' = snd (Start os now t) in
      t_Units t' = t_Units t
        @ map (\<lambda>i. new_Process (pid_of (os i)) (process_share t) (cfg_Sample (t_Cfg t))) [0..<k]
      \<and> (fst (Start os now t) = None \<longleftrightarrow> k = n)
      \<and> t_Status t' = (if k = n then Running else t_Status t)"
proof -
  have "t_Units (snd (Start os now t)) = t_Units t
      @ map (\<lambda>i. new_Process (pid_of (os i)) (process_share t) (cfg_Sample (t_Cfg t)))
          [0..<started_upto (nat (process_total t)) os]"
    using assms by (auto simp: Start_def start_loop_spec Let_def started_upto_def
        split: spawn.splits)
  moreover have "t_Status (snd (Start os now t))
      = (if fst (Start os now t) = None then Running else t_Status t)"
    using assms by (auto simp: Start_def split: prod.splits option.splits)
  ultimately show ?thesis
    unfolding Let_def Start_error_iff [OF assms, of os now, symmetric] by blast
qed

definition demo_task :: Task where
  "demo_task = new_Task ''a'' (zero_Config\<lparr>cfg_ExpectedWrites := 4096\<rparr>) 2 0"

definition demo_os :: "nat \<Rightarrow> spawn" where
  "demo_os i = (if i = 0 then Started 41 else StartErr ''no memory'')"

theorem Start_spec_witness:
  "t_Status (snd (Start demo_os 7 demo_task)) = Ready
   \<and> map p_ID (t_Units (snd (Start demo_os 7 demo_task))) = [41]"
proof -
  have "t_Status demo_task \<in> {Ready, Waiting}" by (simp add: demo_task_def new_Task_def)
  from Start_spec [OF this, of demo_os 7] show ?thesis
    by (simp add: demo_task_def new_Task_def process_total_def started_upto_def demo_os_def
        new_Process_def numeral_2_eq_2 Let_def)
qed


end
