(* ===== verification/Ipc_Server.thy ===== *)
theory Ipc_Server
  imports App_Task
begin

text \<open>
  \<^verbatim>\<open>ipc/server.go\<close> and \<^verbatim>\<open>ipc/client.go\<close>: the calls by which a running process fetches its
  configuration from the server and reports its progress, its status and its statistics. A
  handler returns the error of the call and the new registry; a run-time panic in a handler is
  \<open>None\<close>. Calls travel by \<^verbatim>\<open>net/rpc\<close>, whose \<^verbatim>\<open>gob\<close> encoding leaves out the fields that have the
  zero value: the receiver keeps its own value there (\<open>gob_decode_Config\<close>).
\<close>

section \<open>Requests\<close>

record Request =
  TaskName :: string
  ProcessID :: int

record ProgressRequest =
  pr_Request :: Request
  pr_Tag :: int
  pr_Value :: int
  pr_Speed :: gofloat

record StatsRequest =
  sr_Request :: Request
  sr_Stats :: PerfStats

record StatusRequest =
  st_Request :: Request
  st_Status :: Status

section \<open>The server\<close>

text \<open>The pointers of the task and of the process a request is about.\<close>

definition validateRequest :: "Request \<Rightarrow> app_state \<Rightarrow> error + nat \<times> nat" where
  "validateRequest req s =
     (case FindTask (TaskName req) s of
        None \<Rightarrow> Inl (''Illegal TaskName: '' @ TaskName req)
      | Some t \<Rightarrow>
          (case FindProcess (ProcessID req) (the_task s t) of
             None \<Rightarrow> Inl (''Illegal Process Id=> '' @ itoa (ProcessID req))
           | Some p \<Rightarrow> Inr (t, p)))"

definition Server_FetchCfg :: "Request \<Rightarrow> app_state \<Rightarrow> error + Config" where
  "Server_FetchCfg req s =
     (case validateRequest req s of
        Inl e \<Rightarrow> Inl e
      | Inr (t, p) \<Rightarrow>
          let tk = the_task s t; pr = t_Units tk ! p
          in Inr ((t_Cfg tk)\<lparr>cfg_ExpectedWrites := p_ExpectedWrites pr,
                             cfg_Sample := p_Sample pr\<rparr>))"

definition Server_UpdateProgress ::
  "ProgressRequest \<Rightarrow> app_state \<Rightarrow> (error option \<times> app_state) option" where
  "Server_UpdateProgress req s =
     (case validateRequest (pr_Request req) s of
        Inl e \<Rightarrow> Some (Some e, s)
      | Inr (t, p) \<Rightarrow>
          let tk = the_task s t; pr = t_Units tk ! p;
              r = \<lparr>r_Progress = pr_Value req, r_Speed = pr_Speed req\<rparr>
          in case UpdateProgress (p_ID pr) (pr_Tag req) r tk of
               None \<Rightarrow> None
             | Some tk' \<Rightarrow> Some (None, upd_task t (\<lambda>_. tk') s))"

text \<open>A write through the pointer to a process.\<close>

definition upd_unit :: "nat \<Rightarrow> (Process \<Rightarrow> Process) \<Rightarrow> Task \<Rightarrow> Task" where
  "upd_unit p f t = t\<lparr>t_Units := (t_Units t)[p := f (t_Units t ! p)]\<rparr>"

definition Server_CommitStats ::
  "StatsRequest \<Rightarrow> app_state \<Rightarrow> error option \<times> app_state" where
  "Server_CommitStats req s =
     (case validateRequest (sr_Request req) s of
        Inl e \<Rightarrow> (Some e, s)
      | Inr (t, p) \<Rightarrow>
          (None, upd_task t (upd_unit p (\<lambda>u. u\<lparr>p_Stats := Some (sr_Stats req)\<rparr>)) s))"

definition Server_UpdateStatus ::
  "((int \<times> Routine) list \<Rightarrow> (int \<times> Routine) list) \<Rightarrow> int \<Rightarrow> StatusRequest \<Rightarrow> app_state
     \<Rightarrow> error option \<times> app_state" where
  "Server_UpdateStatus iter now req s =
     (case validateRequest (st_Request req) s of
        Inl e \<Rightarrow> (Some e, s)
      | Inr (t, p) \<Rightarrow>
          (None, upd_task t (UpdateStatus iter now \<circ> upd_unit p (\<lambda>u. u\<lparr>p_Status := st_Status req\<rparr>)) s))"

section \<open>The client\<close>

text \<open>
  What arrives of a configuration: a field with the zero value is not transmitted, and the
  receiver's field is left as it was.
\<close>

definition gob_field :: "'a \<Rightarrow> 'a \<Rightarrow> 'a \<Rightarrow> 'a" where
  "gob_field zero sent own = (if sent = zero then own else sent)"

definition gob_decode_Config :: "Config \<Rightarrow> Config \<Rightarrow> Config" where
  "gob_decode_Config sent own =
     \<lparr>cfg_Routines = gob_field 0 (cfg_Routines sent) (cfg_Routines own),
      cfg_EnableConcurrent = gob_field False (cfg_EnableConcurrent sent) (cfg_EnableConcurrent own),
      cfg_Sample = gob_field S50K (cfg_Sample sent) (cfg_Sample own),
      cfg_ExpectedWrites = gob_field 0 (cfg_ExpectedWrites sent) (cfg_ExpectedWrites own),
      cfg_DataDir = gob_field [] (cfg_DataDir sent) (cfg_DataDir own),
      cfg_Server = gob_field [] (cfg_Server sent) (cfg_Server own),
      cfg_MaxSlice = gob_field 0 (cfg_MaxSlice sent) (cfg_MaxSlice own),
      cfg_CacheSize = gob_field 0 (cfg_CacheSize sent) (cfg_CacheSize own),
      cfg_VerifyHash = gob_field False (cfg_VerifyHash sent) (cfg_VerifyHash own),
      cfg_Fast = gob_field False (cfg_Fast sent) (cfg_Fast own),
      cfg_Profile = gob_field False (cfg_Profile sent) (cfg_Profile own),
      cfg_Ipc = gob_field False (cfg_Ipc sent) (cfg_Ipc own),
      cfg_IpcAddr = gob_field [] (cfg_IpcAddr sent) (cfg_IpcAddr own),
      cfg_TaskName = gob_field [] (cfg_TaskName sent) (cfg_TaskName own),
      cfg_IpcClient = gob_field False (cfg_IpcClient sent) (cfg_IpcClient own),
      cfg_Web = gob_field False (cfg_Web sent) (cfg_Web own),
      cfg_WebServer = gob_field [] (cfg_WebServer sent) (cfg_WebServer own),
      cfg_LogLevel = gob_field [] (cfg_LogLevel sent) (cfg_LogLevel own)\<rparr>"

lemma gob_decode_Config_sel [simp]:
  "cfg_Sample (gob_decode_Config sent own) = gob_field S50K (cfg_Sample sent) (cfg_Sample own)"
  "cfg_ExpectedWrites (gob_decode_Config sent own)
     = gob_field 0 (cfg_ExpectedWrites sent) (cfg_ExpectedWrites own)"
  by (simp_all add: gob_decode_Config_def)

text \<open>The request every call carries: the task name of the configuration and the process id.\<close>

definition client_Request :: "Config \<Rightarrow> int \<Rightarrow> Request" where
  "client_Request cfg pid = \<lparr>TaskName = cfg_TaskName cfg, ProcessID = pid\<rparr>"

text \<open>
  A call either fails on the way, with the error \<open>Some e\<close> in \<open>net\<close>, or is carried out by the
  server. \<open>own\<close> is the configuration the call fills, \<open>cfg\<close> the one that names the task.
\<close>

definition Client_FetchCfg ::
  "error option \<Rightarrow> Config \<Rightarrow> int \<Rightarrow> Config \<Rightarrow> app_state \<Rightarrow> error option \<times> Config" where
  "Client_FetchCfg net cfg pid own s =
     (case net of
        Some e \<Rightarrow> (Some e, own)
      | None \<Rightarrow>
          (case Server_FetchCfg (client_Request cfg pid) s of
             Inl e \<Rightarrow> (Some e, own)
           | Inr sent \<Rightarrow> (None, gob_decode_Config sent own)))"

definition Client_UpdateProgress ::
  "error option \<Rightarrow> Config \<Rightarrow> int \<Rightarrow> int \<Rightarrow> int \<Rightarrow> gofloat \<Rightarrow> app_state
     \<Rightarrow> (error option \<times> app_state) option" where
  "Client_UpdateProgress net cfg pid tg v speed s =
     (case net of
        Some e \<Rightarrow> Some (Some e, s)
      | None \<Rightarrow>
          Server_UpdateProgress
            \<lparr>pr_Request = client_Request cfg pid, pr_Tag = tg, pr_Value = v, pr_Speed = speed\<rparr> s)"

definition Client_CommitStats ::
  "error option \<Rightarrow> Config \<Rightarrow> int \<Rightarrow> PerfStats \<Rightarrow> app_state \<Rightarrow> error option \<times> app_state" where
  "Client_CommitStats net cfg pid st s =
     (case net of
        Some e \<Rightarrow> (Some e, s)
      | None \<Rightarrow> Server_CommitStats \<lparr>sr_Request = client_Request cfg pid, sr_Stats = st\<rparr> s)"

definition Client_UpdateStatus ::
  "error option \<Rightarrow> ((int \<times> Routine) list \<Rightarrow> (int \<times> Routine) list) \<Rightarrow> int \<Rightarrow> Config \<Rightarrow> int
     \<Rightarrow> Status \<Rightarrow> app_state \<Rightarrow> error option \<times> app_state" where
  "Client_UpdateStatus net iter now cfg pid st s =
     (case net of
        Some e \<Rightarrow> (Some e, s)
      | None \<Rightarrow>
          Server_UpdateStatus iter now
            \<lparr>st_Request = client_Request cfg pid, st_Status = st\<rparr> s)"

section \<open>Requests and the registry\<close>

lemma validateRequest_Inr:
  "validateRequest req s = Inr (t, p) \<Longrightarrow>
     t < length (tasks s) \<and> t_Name (the_task s t) = TaskName req
     \<and> p < length (t_Units (the_task s t)) \<and> p_ID (t_Units (the_task s t) ! p) = ProcessID req"
  by (auto simp: validateRequest_def the_task_def split: option.splits
      dest!: registry.find_Some units.find_Some)

lemma upd_unit_keys [simp]:
  "(\<And>u. p_ID (f u) = p_ID u) \<Longrightarrow> map p_ID (t_Units (upd_unit p f t)) = map p_ID (t_Units t)"
  by (cases "p < length (t_Units t)")
    (simp_all add: upd_unit_def map_update list_update_same_conv list_update_beyond)

lemma upd_task_keys [simp]:
  "t_Name (f (tasks s ! i)) = t_Name (tasks s ! i) \<Longrightarrow>
     map t_Name (tasks (upd_task i f s)) = map t_Name (tasks s)"
  by (cases "i < length (tasks s)")
    (simp_all add: upd_task_def map_update list_update_same_conv list_update_beyond)

lemma UpdateStatus_frame [simp]:
  "t_Name (UpdateStatus iter now t) = t_Name t" "t_Units (UpdateStatus iter now t) = t_Units t"
  "t_Cfg (UpdateStatus iter now t) = t_Cfg t"
  by (simp_all add: UpdateStatus_def Let_def split: prod.split)

lemma upd_unit_frame [simp]: "t_Name (upd_unit p f t) = t_Name t" "t_Status (upd_unit p f t) = t_Status t"
  by (simp_all add: upd_unit_def)

lemma map_of_alist_update: "map_of (alist_update k v m) = (map_of m)(k \<mapsto> v)"
  by (induction m) (auto simp: fun_eq_iff)

lemma the_task_upd [simp]:
  "i < length (tasks s) \<Longrightarrow> the_task (upd_task i f s) j = (if j = i then f (the_task s i) else the_task s j)"
  by (simp add: the_task_def upd_task_def)

lemma FindTask_less: "FindTask nm s = Some t \<Longrightarrow> t < length (tasks s)"
  using registry.find_Some by blast

lemma FindTask_cong:
  "map t_Name (tasks s) = map t_Name (tasks s') \<Longrightarrow> FindTask nm s = FindTask nm s'"
proof -
  have "find_first (\<lambda>t. t_Name t = nm) ts = find_first (\<lambda>n. n = nm) (map t_Name ts)" for ts
    by (induction ts) auto
  then show "map t_Name (tasks s) = map t_Name (tasks s') \<Longrightarrow> FindTask nm s = FindTask nm s'"
    unfolding FindTask_def by metis
qed

lemma FindProcess_cong:
  "map p_ID (t_Units t) = map p_ID (t_Units t') \<Longrightarrow> FindProcess pid t = FindProcess pid t'"
proof -
  have "find_first (\<lambda>p. p_ID p = pid) us = find_first (\<lambda>n. n = pid) (map p_ID us)" for us
    by (induction us) auto
  then show "map p_ID (t_Units t) = map p_ID (t_Units t') \<Longrightarrow> ?thesis"
    unfolding FindProcess_def by metis
qed

text \<open>What a valid status report does.\<close>

lemma Server_UpdateStatus_valid:
  assumes "FindTask nm s = Some t" and "FindProcess pid (the_task s t) = Some p"
  shows "Server_UpdateStatus iter now
           \<lparr>st_Request = \<lparr>TaskName = nm, ProcessID = pid\<rparr>, st_Status = st\<rparr> s
       = (None, upd_task t (UpdateStatus iter now \<circ> upd_unit p (\<lambda>u. u\<lparr>p_Status := st\<rparr>)) s)"
  using assms by (simp add: Server_UpdateStatus_def validateRequest_def)

lemma Server_UpdateStatus_keys:
  "map t_Name (tasks (snd (Server_UpdateStatus iter now req s))) = map t_Name (tasks s)"
  by (auto simp: Server_UpdateStatus_def split: sum.split prod.split)

section \<open>All processes done\<close>

definition report_done ::
  "((int \<times> Routine) list \<Rightarrow> (int \<times> Routine) list) \<Rightarrow> int \<Rightarrow> string \<Rightarrow> app_state \<Rightarrow> int \<Rightarrow> app_state"
where
  "report_done iter now nm s pid =
     snd (Server_UpdateStatus iter now
            \<lparr>st_Request = \<lparr>TaskName = nm, ProcessID = pid\<rparr>, st_Status = Done\<rparr> s)"

lemma report_done_step:
  fixes iter now
  assumes t: "FindTask nm s = Some t" and d: "distinct (map p_ID (t_Units (the_task s t)))"
    and pid: "pid \<in> p_ID ` set (t_Units (the_task s t))"
  defines "us \<equiv> t_Units (the_task s t)" and "s' \<equiv> report_done iter now nm s pid"
  shows "FindTask nm s' = Some t" (is ?find)
    and "t_Units (the_task s' t) = map (\<lambda>u. if p_ID u = pid then u\<lparr>p_Status := Done\<rparr> else u) us"
      (is ?units)
    and "list_all (\<lambda>u. p_Status u = Done) (t_Units (the_task s' t)) \<Longrightarrow>
      t_Status (the_task s' t) = Done" (is "?all \<Longrightarrow> ?done")
proof -
  obtain p where p: "FindProcess pid (the_task s t) = Some p"
    using pid units.find_None [of pid "the_task s t"] by (cases "FindProcess pid (the_task s t)") auto
  have s': "s' = upd_task t (UpdateStatus iter now \<circ> upd_unit p (\<lambda>u. u\<lparr>p_Status := Done\<rparr>)) s"
    unfolding s'_def report_done_def by (simp add: Server_UpdateStatus_valid [OF t p])
  have "map t_Name (tasks s') = map t_Name (tasks s)"
    unfolding s'_def report_done_def by (rule Server_UpdateStatus_keys)
  with t show ?find using FindTask_cong by metis
  have pl: "p < length us" "p_ID (us ! p) = pid"
    using units.find_Some [OF p] by (simp_all add: us_def)
  have "us[p := (us ! p)\<lparr>p_Status := Done\<rparr>]
      = map (\<lambda>u. if p_ID u = pid then u\<lparr>p_Status := Done\<rparr> else u) us"
  proof (rule nth_equalityI)
    fix j assume "j < length (us[p := (us ! p)\<lparr>p_Status := Done\<rparr>])"
    then have j: "j < length us" by simp
    have "p_ID (us ! j) = pid \<longleftrightarrow> j = p"
      using nth_eq_iff_index_eq [OF d, of j p] j pl by (simp add: us_def)
    then show "us[p := (us ! p)\<lparr>p_Status := Done\<rparr>] ! j
        = map (\<lambda>u. if p_ID u = pid then u\<lparr>p_Status := Done\<rparr> else u) us ! j"
      using j by (simp add: nth_list_update)
  qed simp
  then show un: ?units using FindTask_less [OF t] by (simp add: s' upd_unit_def us_def)
  have "t_Units (the_task s' t) \<noteq> []" using un pl by auto
  then show "?all \<Longrightarrow> ?done"
    using FindTask_less [OF t] by (simp add: s' UpdateStatus_Status list_all_iff)
qed

lemma report_done_all:
  assumes "FindTask nm s = Some t" and "distinct (map p_ID (t_Units (the_task s t)))"
    and "set pids \<subseteq> p_ID ` set (t_Units (the_task s t))" and "pids \<noteq> []"
    and "\<forall>u \<in> set (t_Units (the_task s t)). p_ID u \<in> set pids \<or> p_Status u = Done"
  shows "t_Status (the_task (foldl (report_done iter now nm) s pids) t) = Done"
  using assms
proof (induction pids arbitrary: s)
  case (Cons pid pids)
  let ?s = "report_done iter now nm s pid"
  have pid: "pid \<in> p_ID ` set (t_Units (the_task s t))" using Cons.prems(3) by simp
  note st = report_done_step [OF Cons.prems(1,2) pid, of iter now]
  have ids: "map p_ID (t_Units (the_task ?s t)) = map p_ID (t_Units (the_task s t))"
    unfolding st(2) by simp
  show ?case
  proof (cases "pids = []")
    case True
    have "list_all (\<lambda>u. p_Status u = Done) (t_Units (the_task ?s t))"
      unfolding st(2) using Cons.prems(5) True by (auto simp: list_all_iff)
    then show ?thesis using st(3) True by simp
  next
    case False
    have "set pids \<subseteq> p_ID ` set (t_Units (the_task ?s t))"
      using Cons.prems(3) ids by (metis list.set_map set_subset_Cons subset_trans)
    moreover have "\<forall>u \<in> set (t_Units (the_task ?s t)). p_ID u \<in> set pids \<or> p_Status u = Done"
      unfolding st(2) using Cons.prems(5) by auto
    ultimately show ?thesis
      using Cons.IH [OF st(1)] Cons.prems(2) ids False by simp
  qed
qed simp

section \<open>Properties\<close>

text \<open>A registry with one running task of two processes, for the witnesses.\<close>

definition demo_unit :: "int \<Rightarrow> strategy \<Rightarrow> Process" where
  "demo_unit pid sm = new_Process pid 3072 sm"

definition demo_registry :: app_state where
  "demo_registry =
     \<lparr>tasks = [(new_Task ''a'' (zero_Config\<lparr>cfg_ExpectedWrites := 4096\<rparr>) 2 0)
                 \<lparr>t_Units := [demo_unit 41 S50K, demo_unit 42 S50K], t_Status := Running\<rparr>],
      taskChan = []\<rparr>"



text \<open>
  Claim C26: a progress report never panics in the server. A report for an unknown task or process
  changes nothing; a valid one sets the entry of its routine, and leaves every other routine,
  process and task, and the statuses, as they were.
\<close>

theorem Server_UpdateProgress_effect:
  "case Server_UpdateProgress req s of
     None \<Rightarrow> False
   | Some (Some e, s') \<Rightarrow> s' = s \<and> validateRequest (pr_Request req) s = Inl e
   | Some (None, s') \<Rightarrow>
       \<exists>t p. validateRequest (pr_Request req) s = Inr (t, p)
         \<and> (let u = t_Units (the_task s t) ! p
            in the_task s' t = (the_task s t)\<lparr>t_Units := (t_Units (the_task s t))
                 [p := u\<lparr>p_Routines := alist_update (pr_Tag req)
                          \<lparr>r_Progress = pr_Value req, r_Speed = pr_Speed req\<rparr> (p_Routines u)\<rparr>]\<rparr>
               \<and> map_of (p_Routines (t_Units (the_task s' t) ! p))
                 = (map_of (p_Routines u))
                     (pr_Tag req \<mapsto> \<lparr>r_Progress = pr_Value req, r_Speed = pr_Speed req\<rparr>))
         \<and> (\<forall>t'. t' = t \<or> the_task s' t' = the_task s t')"
proof (cases "validateRequest (pr_Request req) s")
  case (Inl e)
  then show ?thesis by (simp add: Server_UpdateProgress_def)
next
  case (Inr tp)
  then obtain t p where v: "validateRequest (pr_Request req) s = Inr (t, p)" by (cases tp) auto
  from validateRequest_Inr [OF v] have t: "t < length (tasks s)"
    and p: "p < length (t_Units (the_task s t))"
    and id: "p_ID (t_Units (the_task s t) ! p) = ProcessID (pr_Request req)" by auto
  have "FindProcess (p_ID (t_Units (the_task s t) ! p)) (the_task s t) = Some p"
    using v id by (auto simp: validateRequest_def split: option.splits)
  then show ?thesis
    using v t p by (simp add: Server_UpdateProgress_def UpdateProgress_def Let_def map_of_alist_update)
qed

text \<open>
  Claim C40: a process that fetches its configuration gets its own share of the bytes, and the
  sample of its task with one exception: the first sample set, \<^verbatim>\<open>S50K\<close>, is the zero value, is not
  transmitted, and leaves the process with the sample it had from its own command line.
\<close>

theorem Client_FetchCfg_sample:
  assumes "Client_FetchCfg net cfg pid own s = (None, c)"
  shows "\<exists>t p. validateRequest (client_Request cfg pid) s = Inr (t, p)
    \<and> (let u = t_Units (the_task s t) ! p
       in cfg_Sample c = (if p_Sample u = S50K then cfg_Sample own else p_Sample u)
          \<and> cfg_ExpectedWrites c
            = (if p_ExpectedWrites u = 0 then cfg_ExpectedWrites own else p_ExpectedWrites u))"
proof (cases "validateRequest (client_Request cfg pid) s")
  case (Inl e)
  with assms show ?thesis by (simp add: Client_FetchCfg_def Server_FetchCfg_def split: option.splits)
next
  case (Inr tp)
  with assms show ?thesis
    by (cases tp) (auto simp: Client_FetchCfg_def Server_FetchCfg_def gob_field_def Let_def
        split: option.splits)
qed

theorem Client_FetchCfg_sample_witness:
  "cfg_Sample (snd (Client_FetchCfg None (zero_Config\<lparr>cfg_TaskName := ''a''\<rparr>) 41
      (zero_Config\<lparr>cfg_Sample := S1M\<rparr>) demo_registry)) = S1M
   \<and> p_Sample (t_Units (the_task demo_registry 0) ! 0) = S50K"
proof -
  let ?cfg = "zero_Config\<lparr>cfg_TaskName := ''a''\<rparr>" and ?own = "zero_Config\<lparr>cfg_Sample := S1M\<rparr>"
  obtain c where c: "Client_FetchCfg None ?cfg 41 ?own demo_registry = (None, c)"
    by (simp add: Client_FetchCfg_def Server_FetchCfg_def validateRequest_def client_Request_def
        demo_registry_def FindTask_def the_task_def new_Task_def FindProcess_def demo_unit_def
        new_Process_def Let_def)
  have "validateRequest (client_Request ?cfg 41) demo_registry = Inr (0, 0)"
    by (simp add: validateRequest_def client_Request_def demo_registry_def FindTask_def
        the_task_def new_Task_def FindProcess_def demo_unit_def new_Process_def)
  with Client_FetchCfg_sample [OF c] c show ?thesis
    by (simp add: demo_registry_def the_task_def demo_unit_def new_Process_def)
qed

end
