(* ===== verification/Web_Handler.thy ===== *)
theory Web_Handler
  imports Ipc_Server
begin

text \<open>
  \<^verbatim>\<open>web/handler/task.go\<close>: the handlers of the web interface by which tasks are created, queried,
  started and exported. A handler takes what \<^verbatim>\<open>gin\<close> has parsed of the request (the bound JSON body
  or its error, the query parameter \<^verbatim>\<open>name\<close> if present) and the registry; it gives the reply and
  the new registry. Writing a spreadsheet is a parameter, \<open>export\<close>, which may fail.
\<close>

section \<open>Replies\<close>

definition CodeOK :: string where "CodeOK = ''E_OK''"
definition CodeError :: string where "CodeError = ''E_Error''"
definition CodeInvalidParam :: string where "CodeInvalidParam = ''E_Invalid_Params''"
definition CodeInvalidStatus :: string where "CodeInvalidStatus = ''E_Invalid_Status''"
definition CodeNoTask :: string where "CodeNoTask = ''E_No_Task''"
definition CodeNoReadyTask :: string where "CodeNoReadyTask = ''E_No_Ready_Task''"

record taskSummary =
  ts_Name :: string
  ts_ProcessCount :: int
  ts_Speed :: gofloat
  ts_ExpectedWrites :: int
  ts_Sample :: strategy
  ts_CreatedAt :: int
  ts_StartedAt :: int
  ts_DoneAt :: int
  ts_TotalFiles :: int
  ts_TotalWriteTime :: duration
  ts_TotalWrites :: int
  ts_TotalWriteCount :: int

datatype resp_data =
    NoData | DataTasks "Task list" | DataTask Task | DataRuns int | DataSummaries "taskSummary list"

text \<open>
  A JSON reply (code, message, data), or a file: the name it was asked for, the statistics in it,
  and the JSON error that follows it when the export fails.
\<close>

datatype reply =
    JSON string string resp_data
  | Sheet string "PerfStats list" "(string \<times> string) option"

record taskConfig =
  tc_Name :: string
  tc_ProcessCount :: int
  tc_Sample :: string
  tc_ExpectedWrites :: string
  tc_Server :: string
  tc_LogLevel :: string
  tc_CacheSize :: string

section \<open>Creating a task\<close>

definition validateConfig :: "taskConfig \<Rightarrow> strategy \<times> int \<times> error option" where
  "validateConfig tc =
     (if length (TrimSpace (tc_Name tc)) = 0 then (SMax, 0, Some ''Task name empty'')
      else if tc_ProcessCount tc \<le> 0
      then (SMax, 0, Some (''Invalid ProcessCount=> '' @ itoa (tc_ProcessCount tc)))
      else case StrategyFromString (tc_Sample tc) of
        (s, Some err) \<Rightarrow> (SMax, 0, Some err)
      | (s, None) \<Rightarrow>
          let expectedWrites = ParseBytes (tc_ExpectedWrites tc) in
          if expectedWrites \<le> 0
          then (SMax, 0, Some (''Invalid ExpectedWrites=> '' @ tc_ExpectedWrites tc))
          else let cs = ParseBytes (tc_CacheSize tc) in
          if cs \<le> 0 then (SMax, 0, Some (''Invalid CacheSize=> '' @ tc_CacheSize tc))
          else if length (TrimSpace (tc_Server tc)) = 0 then (SMax, 0, Some ''Invalid server'')
          else (s, expectedWrites, None))"

definition task_Config :: "taskConfig \<Rightarrow> strategy \<Rightarrow> int \<Rightarrow> Config" where
  "task_Config tc s ew =
     zero_Config\<lparr>cfg_Sample := s, cfg_ExpectedWrites := ew, cfg_Server := tc_Server tc,
                 cfg_LogLevel := tc_LogLevel tc, cfg_CacheSize := ParseBytes (tc_CacheSize tc)\<rparr>"

definition handle_NewTask :: "error + taskConfig \<Rightarrow> int \<Rightarrow> app_state \<Rightarrow> reply \<times> app_state" where
  "handle_NewTask body now s =
     (case body of
        Inl err \<Rightarrow> (JSON CodeError err NoData, s)
      | Inr tc \<Rightarrow>
          (case validateConfig tc of
             (_, _, Some err) \<Rightarrow> (JSON CodeInvalidParam err NoData, s)
           | (sm, ew, None) \<Rightarrow>
               (case NewTask (TrimSpace (tc_Name tc)) (task_Config tc sm ew) (tc_ProcessCount tc)
                       now s of
                  (Inl err, s') \<Rightarrow> (JSON CodeError err NoData, s')
                | (Inr _, s') \<Rightarrow> (JSON CodeOK ''success'' NoData, s'))))"

section \<open>Querying tasks\<close>

definition handle_AllTasks :: "app_state \<Rightarrow> reply" where
  "handle_AllTasks s = JSON CodeOK ''success'' (DataTasks (map (the_task s) (AllTasks s)))"

definition handle_QueryTask :: "string option \<Rightarrow> app_state \<Rightarrow> reply" where
  "handle_QueryTask q s =
     (case q of
        None \<Rightarrow> handle_AllTasks s
      | Some name0 \<Rightarrow>
          (case FindTask (TrimSpace name0) s of
             None \<Rightarrow> JSON CodeInvalidParam ''Invalid Task name'' NoData
           | Some t \<Rightarrow> JSON CodeOK ''success'' (DataTask (the_task s t))))"

section \<open>Starting tasks\<close>

text \<open>
  The loop of \<^verbatim>\<open>startAllTasks\<close> over the pointers, with the number of tasks scheduled so far;
  \<open>None\<close> while \<^verbatim>\<open>AddSchedule\<close> is blocked on the full channel.
\<close>

fun start_all :: "nat list \<Rightarrow> int \<Rightarrow> app_state \<Rightarrow> (int \<times> app_state) option" where
  "start_all [] runs s = Some (runs, s)"
| "start_all (t # ts) runs s =
     (if t_Status (the_task s t) \<noteq> Ready then start_all ts runs s
      else case AddSchedule t s of None \<Rightarrow> None | Some s' \<Rightarrow> start_all ts (runs + 1) s')"

definition startAllTasks :: "app_state \<Rightarrow> (reply \<times> app_state) option" where
  "startAllTasks s =
     (if AllTasks s = [] then Some (JSON CodeNoTask ''No Schedule Task'' NoData, s)
      else case start_all (AllTasks s) 0 s of
             None \<Rightarrow> None
           | Some (runs, s') \<Rightarrow>
               Some (if runs = 0 then JSON CodeNoReadyTask ''No Ready Task'' NoData
                     else JSON CodeOK ''success'' (DataRuns runs), s'))"

definition handle_StartTask ::
  "string option \<Rightarrow> (nat \<Rightarrow> spawn) \<Rightarrow> int \<Rightarrow> app_state \<Rightarrow> (reply \<times> app_state) option" where
  "handle_StartTask q os now s =
     (case q of
        None \<Rightarrow> startAllTasks s
      | Some name0 \<Rightarrow>
          let nm = TrimSpace name0 in
          if length nm = 0 then Some (JSON CodeInvalidParam ''Task name is empty'' NoData, s)
          else case FindTask nm s of
            None \<Rightarrow> Some (JSON CodeInvalidParam ''Invalid Task name'' NoData, s)
          | Some t \<Rightarrow>
              (case Start os now (the_task s t) of
                 (Some err, tk) \<Rightarrow> Some (JSON CodeError err NoData, upd_task t (\<lambda>_. tk) s)
               | (None, tk) \<Rightarrow> Some (JSON CodeOK ''success'' NoData, upd_task t (\<lambda>_. tk) s)))"

section \<open>Exporting statistics\<close>

definition writeStats :: "(PerfStats list \<Rightarrow> error option) \<Rightarrow> string \<Rightarrow> PerfStats list \<Rightarrow> reply" where
  "writeStats export nm stats =
     Sheet nm stats (case export stats of None \<Rightarrow> None | Some err \<Rightarrow> Some (CodeError, err))"

definition exportAll :: "(PerfStats list \<Rightarrow> error option) \<Rightarrow> app_state \<Rightarrow> reply" where
  "exportAll export s =
     writeStats export ''ALL''
       (concat (map (\<lambda>t. if t_Status (the_task s t) \<noteq> Done then [] else GetStats (the_task s t))
                    (AllTasks s)))"

definition handle_ExportStats ::
  "(PerfStats list \<Rightarrow> error option) \<Rightarrow> string option \<Rightarrow> app_state \<Rightarrow> reply" where
  "handle_ExportStats export q s =
     (case q of
        None \<Rightarrow> exportAll export s
      | Some name0 \<Rightarrow>
          let nm = TrimSpace name0 in
          case FindTask nm s of
            None \<Rightarrow> JSON CodeInvalidParam ''Invalid Task name'' NoData
          | Some t \<Rightarrow>
              if t_Status (the_task s t) \<noteq> Done then JSON CodeInvalidStatus ''Task not done'' NoData
              else writeStats export nm (GetStats (the_task s t)))"

section \<open>Summaries\<close>

definition summary_of :: "Task \<Rightarrow> taskSummary" where
  "summary_of t =
     (let stats = snd (MergePerfStats zero_PerfStats (GetStats t)) in
      \<lparr>ts_Name = t_Name t, ts_ProcessCount = t_ProcessCount t, ts_Speed = t_Speed t,
       ts_ExpectedWrites = cfg_ExpectedWrites (t_Cfg t), ts_Sample = cfg_Sample (t_Cfg t),
       ts_CreatedAt = t_CreatedAt t, ts_StartedAt = t_StartedAt t, ts_DoneAt = t_DoneAt t,
       ts_TotalFiles = int (length (Files stats)), ts_TotalWriteTime = TotalWriteTime stats,
       ts_TotalWrites = TotalWrites stats, ts_TotalWriteCount = TotalWriteCount stats\<rparr>)"

definition handle_QueryTaskSummary :: "app_state \<Rightarrow> reply" where
  "handle_QueryTaskSummary s =
     JSON CodeOK ''success''
       (DataSummaries (concat (map (\<lambda>t. if t_Status (the_task s t) \<noteq> Done then []
                                         else [summary_of (the_task s t)])
                                   (AllTasks s))))"

section \<open>Lemmas\<close>

lemmas code_defs =
  CodeOK_def CodeError_def CodeInvalidParam_def CodeInvalidStatus_def CodeNoTask_def
  CodeNoReadyTask_def

lemma validateConfig_ok:
  assumes "validateConfig tc = (sm, ew, None)"
  shows "TrimSpace (tc_Name tc) \<noteq> [] \<and> 0 < tc_ProcessCount tc \<and> sm \<noteq> SMax
    \<and> StrategyFromString (tc_Sample tc) = (sm, None)
    \<and> ew = ParseBytes (tc_ExpectedWrites tc) \<and> 0 < ew \<and> 0 < ParseBytes (tc_CacheSize tc)
    \<and> TrimSpace (tc_Server tc) \<noteq> []"
  using assms StrategyFromString_None [of "tc_Sample tc"]
  by (auto simp: validateConfig_def Let_def split: if_splits prod.splits option.splits)

definition ready_tasks :: "app_state \<Rightarrow> nat list \<Rightarrow> nat list" where
  "ready_tasks s ts = filter (\<lambda>i. t_Status (the_task s i) = Ready) ts"

lemma AddSchedule_room:
  assumes "length (taskChan s) < taskChan_cap"
  shows "AddSchedule t s =
    Some ((upd_task t (\<lambda>t. t\<lparr>t_Status := Waiting\<rparr>) s)\<lparr>taskChan := taskChan s @ [t]\<rparr>)"
  using assms by (simp add: AddSchedule_def AddSchedule_send_def AddSchedule_mark_def upd_task_def)

lemma start_all_spec:
  assumes "distinct ts" and "\<forall>i \<in> set ts. i < length (tasks s)"
    and "length (taskChan s) + length (ready_tasks s ts) \<le> taskChan_cap"
  shows "\<exists>s'. start_all ts runs s = Some (runs + int (length (ready_tasks s ts)), s')
    \<and> taskChan s' = taskChan s @ ready_tasks s ts \<and> length (tasks s') = length (tasks s)
    \<and> (\<forall>i. the_task s' i =
         (if i \<in> set (ready_tasks s ts) then (the_task s i)\<lparr>t_Status := Waiting\<rparr>
          else the_task s i))"
  using assms
proof (induction ts arbitrary: s runs)
  case Nil
  then show ?case by (simp add: ready_tasks_def)
next
  case (Cons t ts)
  show ?case
  proof (cases "t_Status (the_task s t) = Ready")
    case False
    then have "ready_tasks s (t # ts) = ready_tasks s ts" by (simp add: ready_tasks_def)
    with Cons.IH [of s runs] Cons.prems False show ?thesis by simp
  next
    case True
    define s1 where
      "s1 = (upd_task t (\<lambda>t. t\<lparr>t_Status := Waiting\<rparr>) s)\<lparr>taskChan := taskChan s @ [t]\<rparr>"
    have rd: "ready_tasks s (t # ts) = t # ready_tasks s ts"
      using True by (simp add: ready_tasks_def)
    have t: "t < length (tasks s)" using Cons.prems(2) by simp
    have s1: "the_task s1 i = (if i = t then (the_task s t)\<lparr>t_Status := Waiting\<rparr> else the_task s i)"
      for i using t by (simp add: s1_def the_task_def upd_task_def)
    have len: "length (tasks s1) = length (tasks s)" "taskChan s1 = taskChan s @ [t]"
      by (simp_all add: s1_def upd_task_def)
    have r1: "ready_tasks s1 ts = ready_tasks s ts"
      unfolding ready_tasks_def using Cons.prems(1) by (intro filter_cong) (auto simp: s1)
    have add: "AddSchedule t s = Some s1"
      unfolding s1_def using Cons.prems(3) rd by (intro AddSchedule_room) simp
    have nt: "t \<notin> set (ready_tasks s ts)"
      using Cons.prems(1) by (simp add: ready_tasks_def)
    have "distinct ts" "\<forall>i \<in> set ts. i < length (tasks s1)"
      "length (taskChan s1) + length (ready_tasks s1 ts) \<le> taskChan_cap"
      using Cons.prems len r1 rd by simp_all
    from Cons.IH [OF this, of "runs + 1"] obtain s' where
      s': "start_all ts (runs + 1) s1 = Some (runs + 1 + int (length (ready_tasks s ts)), s')"
        "taskChan s' = taskChan s @ t # ready_tasks s ts" "length (tasks s') = length (tasks s)"
        "\<forall>i. the_task s' i = (if i \<in> set (ready_tasks s ts)
          then (the_task s1 i)\<lparr>t_Status := Waiting\<rparr> else the_task s1 i)"
      unfolding r1 len by auto
    have "the_task s' i = (if i \<in> set (ready_tasks s (t # ts))
        then (the_task s i)\<lparr>t_Status := Waiting\<rparr> else the_task s i)" for i
      using nt by (simp add: s'(4) s1 rd)
    moreover have "start_all (t # ts) runs s
        = Some (runs + int (length (ready_tasks s (t # ts))), s')"
      using True add s'(1) rd by simp
    ultimately show ?thesis
      using s'(2,3) by (intro exI [of _ s'] conjI allI) (simp_all only: rd)
  qed
qed

lemma startAllTasks_spec:
  assumes "length (taskChan s) + length (ready_tasks s (AllTasks s)) \<le> taskChan_cap"
  shows "\<exists>s'. startAllTasks s =
      Some (if tasks s = [] then JSON CodeNoTask ''No Schedule Task'' NoData
            else if ready_tasks s (AllTasks s) = [] then JSON CodeNoReadyTask ''No Ready Task'' NoData
            else JSON CodeOK ''success'' (DataRuns (int (length (ready_tasks s (AllTasks s))))), s')
    \<and> taskChan s' = taskChan s @ ready_tasks s (AllTasks s)
    \<and> tasks s' = map (\<lambda>t. if t_Status t = Ready then t\<lparr>t_Status := Waiting\<rparr> else t) (tasks s)"
proof (cases "tasks s = []")
  case True
  then show ?thesis by (simp add: startAllTasks_def AllTasks_def ready_tasks_def)
next
  case False
  have "distinct (AllTasks s)" "\<forall>i \<in> set (AllTasks s). i < length (tasks s)"
    by (simp_all add: AllTasks_def)
  from start_all_spec [OF this assms, of 0] obtain s' where s':
      "start_all (AllTasks s) 0 s = Some (int (length (ready_tasks s (AllTasks s))), s')"
      "taskChan s' = taskChan s @ ready_tasks s (AllTasks s)" "length (tasks s') = length (tasks s)"
      "\<forall>i. the_task s' i = (if i \<in> set (ready_tasks s (AllTasks s))
         then (the_task s i)\<lparr>t_Status := Waiting\<rparr> else the_task s i)"
    by auto
  have "tasks s' = map (\<lambda>t. if t_Status t = Ready then t\<lparr>t_Status := Waiting\<rparr> else t) (tasks s)"
    using s'(3,4) by (intro nth_equalityI) (auto simp: the_task_def ready_tasks_def AllTasks_def)
  then show ?thesis
    using s'(1,2) False by (simp add: startAllTasks_def AllTasks_def)
qed

lemma foldl_i64_sum:
  assumes "\<And>a x. f (g a x) = i64 (f a + f x)" and "i64 (f a) = f a"
  shows "f (foldl g a xs) = i64 (f a + sum_list (map f xs))"
  using assms(2)
proof (induction xs arbitrary: a)
  case (Cons x xs)
  have "i64 (f (g a x)) = f (g a x)" by (simp add: assms(1) wrap_simps)
  then have "f (foldl g (g a x) xs) = i64 (i64 (f a + f x) + sum_list (map f xs))"
    using Cons.IH by (simp add: assms(1))
  then show ?case by (simp add: wrap_simps add.assoc)
qed simp

lemma merge_files: "Files (foldl merge_one a ss) = Files a @ concat (map Files ss)"
  by (induction ss arbitrary: a) (simp_all add: merge_one_def)

lemma merged_zero: "snd (MergePerfStats zero_PerfStats ss) = foldl merge_one zero_PerfStats ss"
  by (simp add: MergePerfStats_def)

lemma summary_totals:
  "ts_TotalWrites (summary_of t) = i64 (sum_list (map TotalWrites (GetStats t)))"
  "ts_TotalWriteTime (summary_of t) = i64 (sum_list (map TotalWriteTime (GetStats t)))"
  "ts_TotalWriteCount (summary_of t) = i64 (sum_list (map TotalWriteCount (GetStats t)))"
  "ts_TotalFiles (summary_of t) = int (length (concat (map Files (GetStats t))))"
proof -
  have z: "i64 0 = 0" by (simp add: wrap_simps)
  let ?z = zero_PerfStats
  have e: "TotalWrites ?z = 0" "TotalWriteTime ?z = 0" "TotalWriteCount ?z = 0" "Files ?z = []"
    by (simp_all add: zero_PerfStats_def)
  have 1: "TotalWrites (foldl merge_one ?z ss) = i64 (TotalWrites ?z + sum_list (map TotalWrites ss))"
    for ss by (rule foldl_i64_sum) (simp_all add: merge_one_def e z)
  have 2: "TotalWriteTime (foldl merge_one ?z ss)
      = i64 (TotalWriteTime ?z + sum_list (map TotalWriteTime ss))"
    for ss by (rule foldl_i64_sum) (simp_all add: merge_one_def e z)
  have 3: "TotalWriteCount (foldl merge_one ?z ss)
      = i64 (TotalWriteCount ?z + sum_list (map TotalWriteCount ss))"
    for ss by (rule foldl_i64_sum) (simp_all add: merge_one_def e z)
  show "ts_TotalWrites (summary_of t) = i64 (sum_list (map TotalWrites (GetStats t)))"
    "ts_TotalWriteTime (summary_of t) = i64 (sum_list (map TotalWriteTime (GetStats t)))"
    "ts_TotalWriteCount (summary_of t) = i64 (sum_list (map TotalWriteCount (GetStats t)))"
    "ts_TotalFiles (summary_of t) = int (length (concat (map Files (GetStats t))))"
    by (simp_all only: summary_of_def Let_def taskSummary.simps merged_zero 1 2 3 e merge_files
        add_0 append_Nil)
qed

lemma filter_the_task:
  "map (\<lambda>i. f (the_task s i)) (filter (\<lambda>i. P (the_task s i)) (AllTasks s)) = map f (filter P (tasks s))"
proof -
  have "map (the_task s) (AllTasks s) = tasks s"
    by (simp add: AllTasks_def the_task_def map_nth cong: map_cong)
  then have "map f (filter P (tasks s)) = map f (filter P (map (the_task s) (AllTasks s)))" by simp
  then show ?thesis by (simp add: filter_map comp_def)
qed

lemma concat_if: "concat (map (\<lambda>x. if P x then [] else [g x]) xs) = map g (filter (\<lambda>x. \<not> P x) xs)"
  by (induction xs) simp_all

lemma handle_QueryTaskSummary_eq:
  "handle_QueryTaskSummary s = JSON CodeOK ''success''
     (DataSummaries (map summary_of (filter (\<lambda>t. t_Status t = Done) (tasks s))))"
  using filter_the_task [of summary_of s "\<lambda>t. t_Status t = Done"]
  by (simp add: handle_QueryTaskSummary_def concat_if)

section \<open>Properties\<close>

text \<open>
  Claim C17: a request for a new task is answered with success exactly when one task is added to
  the registry, and that task is well formed: it is ready, it has no process yet, its name is not
  empty and was not in use, and its number of processes, sample, bytes, cache and server are all
  valid. Any other answer leaves the registry unchanged.
\<close>

theorem handle_NewTask_effect:
  "let (r, s') = handle_NewTask body now s in
   if r = JSON CodeOK ''success'' NoData
   then \<exists>t. tasks s' = tasks s @ [t] \<and> taskChan s' = taskChan s
     \<and> t_Status t = Ready \<and> t_Units t = [] \<and> t_CreatedAt t = now
     \<and> t_Name t \<noteq> [] \<and> FindTask (t_Name t) s = None \<and> 0 < t_ProcessCount t
     \<and> cfg_Sample (t_Cfg t) \<noteq> SMax \<and> 0 < cfg_ExpectedWrites (t_Cfg t)
     \<and> 0 < cfg_CacheSize (t_Cfg t) \<and> TrimSpace (cfg_Server (t_Cfg t)) \<noteq> []
   else s' = s"
proof (cases body)
  case (Inl err)
  then show ?thesis by (simp add: handle_NewTask_def code_defs)
next
  case (Inr tc)
  obtain sm ew e where v: "validateConfig tc = (sm, ew, e)" by (cases "validateConfig tc")
  show ?thesis
  proof (cases e)
    case (Some err)
    with v Inr show ?thesis by (simp add: handle_NewTask_def code_defs)
  next
    case None
    note ok = validateConfig_ok [OF v [unfolded None]]
    have "sm \<noteq> SMax" using ok by blast
    then show ?thesis
      using v Inr None ok registry.find_None [of "TrimSpace (tc_Name tc)" s]
      by (auto simp: handle_NewTask_def code_defs NewTask_def new_Task_def task_Config_def)
  qed
qed

text \<open>
  Claim C14: when the channel has room for them, starting all tasks puts exactly the ready tasks
  into the channel, in the order of the registry, and makes them waiting; every other task is
  untouched, and the reply tells their number, or that there is no task, or no ready one.
\<close>

theorem startAllTasks_effect:
  assumes "length (taskChan s) + length (ready_tasks s (AllTasks s)) \<le> taskChan_cap"
  shows "\<exists>s'. startAllTasks s =
      Some (if tasks s = [] then JSON CodeNoTask ''No Schedule Task'' NoData
            else if ready_tasks s (AllTasks s) = [] then JSON CodeNoReadyTask ''No Ready Task'' NoData
            else JSON CodeOK ''success'' (DataRuns (int (length (ready_tasks s (AllTasks s))))), s')
    \<and> taskChan s' = taskChan s @ ready_tasks s (AllTasks s)
    \<and> tasks s' = map (\<lambda>t. if t_Status t = Ready then t\<lparr>t_Status := Waiting\<rparr> else t) (tasks s)"
  using assms by (rule startAllTasks_spec)

definition demo_tasks :: app_state where
  "demo_tasks =
     \<lparr>tasks = [new_Task ''a'' zero_Config 1 0, (new_Task ''b'' zero_Config 1 0)\<lparr>t_Status := Done\<rparr>,
               new_Task ''c'' zero_Config 1 0], taskChan = []\<rparr>"

lemma demo_tasks_ready: "ready_tasks demo_tasks (AllTasks demo_tasks) = [0, 2]"
  by (simp add: ready_tasks_def AllTasks_def demo_tasks_def the_task_def new_Task_def upt_rec
      numeral_2_eq_2)

theorem startAllTasks_effect_witness:
  "\<exists>s'. startAllTasks demo_tasks = Some (JSON CodeOK ''success'' (DataRuns 2), s')
     \<and> taskChan s' = [0, 2] \<and> map t_Status (tasks s') = [Waiting, Done, Waiting]"
proof -
  have "length (taskChan demo_tasks) + length (ready_tasks demo_tasks (AllTasks demo_tasks))
      \<le> taskChan_cap"
    unfolding demo_tasks_ready by (simp add: demo_tasks_def taskChan_cap_def)
  from startAllTasks_effect [OF this] show ?thesis
    unfolding demo_tasks_ready by (auto simp: demo_tasks_def new_Task_def)
qed


end
