(* ===== verification/Pressure_System.thy ===== *)
theory Pressure_System
  imports Web_Handler "HOL-Library.Sublist"
begin

text \<open>
  The schedule loop of \<^verbatim>\<open>app/task.go\<close> (\<^verbatim>\<open>startLoop\<close>, \<^verbatim>\<open>WaitAll\<close>) and the server as a whole: the
  handlers of the web interface and of the IPC server, the schedule loop and the routines that
  start all tasks, all working on the one registry and the one channel.

  \<open>atomic_step\<close> takes every handler and every turn of the schedule loop as one step. \<open>fine_step\<close>
  follows the locks: a handler that holds the lock of the task from its check to its update is one
  step, but \<^verbatim>\<open>startAllTasks\<close> reads a status, sets it and sends the task in three steps, and the
  schedule loop receives, checks, starts and waits in four.
\<close>

section \<open>The schedule loop\<close>

text \<open>\<^verbatim>\<open>WaitAll\<close> returns when every process of the task has exited.\<close>

definition WaitAll :: "(int \<Rightarrow> bool) \<Rightarrow> Task \<Rightarrow> bool" where
  "WaitAll exited t \<longleftrightarrow> list_all (\<lambda>u. exited (p_ID u)) (t_Units t)"

text \<open>
  One turn of \<^verbatim>\<open>startLoop\<close>; it is blocked, \<open>None\<close>, while the channel is empty or a process of the
  started task runs. The error of \<^verbatim>\<open>Start\<close> is ignored.
\<close>

definition startLoop_body ::
  "(nat \<Rightarrow> spawn) \<Rightarrow> int \<Rightarrow> (int \<Rightarrow> bool) \<Rightarrow> app_state \<Rightarrow> app_state option" where
  "startLoop_body os now exited s =
     (case taskChan s of
        [] \<Rightarrow> None
      | t # ts \<Rightarrow>
          let s1 = s\<lparr>taskChan := ts\<rparr> in
          if t_Status (the_task s1 t) \<noteq> Waiting then Some s1
          else let s2 = upd_task t (\<lambda>tk. snd (Start os now tk)) s1
               in if WaitAll exited (the_task s2 t) then Some s2 else None)"

text \<open>A number of turns; the answers of the operating system are those of the turn.\<close>

fun startLoop ::
  "nat \<Rightarrow> (nat \<Rightarrow> nat \<Rightarrow> spawn) \<Rightarrow> int \<Rightarrow> (int \<Rightarrow> bool) \<Rightarrow> app_state \<Rightarrow> app_state option" where
  "startLoop 0 os now exited s = Some s"
| "startLoop (Suc k) os now exited s =
     Option.bind (startLoop_body (os k) now exited s) (startLoop k os now exited)"

section \<open>The system with atomic handlers\<close>

text \<open>The handlers that take effect at one moment.\<close>

inductive handler_step :: "app_state \<Rightarrow> app_state \<Rightarrow> bool" where
  new_task: "handle_NewTask body now s = (r, s') \<Longrightarrow> handler_step s s'"
| start_task: "handle_StartTask (Some nm) os now s = Some (r, s') \<Longrightarrow> handler_step s s'"
| progress: "Server_UpdateProgress req s = Some (e, s') \<Longrightarrow> handler_step s s'"
| commit: "Server_CommitStats req s = (e, s') \<Longrightarrow> handler_step s s'"
| status: "Server_UpdateStatus iter now req s = (e, s') \<Longrightarrow> handler_step s s'"

inductive atomic_step :: "app_state \<Rightarrow> app_state \<Rightarrow> bool" where
  handle: "handler_step s s' \<Longrightarrow> atomic_step s s'"
| start_all: "startAllTasks s = Some (r, s') \<Longrightarrow> atomic_step s s'"
| schedule: "startLoop_body os now exited s = Some s' \<Longrightarrow> atomic_step s s'"

section \<open>The system with its interleavings\<close>

text \<open>
  Where the schedule loop is, and where each running \<^verbatim>\<open>startAllTasks\<close> is: before the tasks left to
  look at, before the update of a status, before the send, with the tasks counted.
\<close>

datatype sched_pc = Receiving | Checking nat | Starting nat | Exiting nat

datatype starter_pc =
    Scanning "nat list" int | Marking nat "nat list" int | Sending nat "nat list" int

record system =
  sys_app :: app_state
  sys_sched :: sched_pc
  sys_starters :: "starter_pc list"

definition init_system :: system where
  "init_system = \<lparr>sys_app = init_app, sys_sched = Receiving, sys_starters = []\<rparr>"

inductive starter_step :: "app_state \<Rightarrow> starter_pc \<Rightarrow> app_state \<Rightarrow> starter_pc \<Rightarrow> bool" where
  skip: "t_Status (the_task s t) \<noteq> Ready \<Longrightarrow>
    starter_step s (Scanning (t # ts) runs) s (Scanning ts runs)"
| found: "t_Status (the_task s t) = Ready \<Longrightarrow>
    starter_step s (Scanning (t # ts) runs) s (Marking t ts (runs + 1))"
| mark: "starter_step s (Marking t ts runs) (AddSchedule_mark t s) (Sending t ts runs)"
| send: "AddSchedule_send t s = Some s' \<Longrightarrow>
    starter_step s (Sending t ts runs) s' (Scanning ts runs)"

inductive sched_step :: "app_state \<Rightarrow> sched_pc \<Rightarrow> app_state \<Rightarrow> sched_pc \<Rightarrow> bool" where
  receive: "taskChan s = t # ts \<Longrightarrow> sched_step s Receiving (s\<lparr>taskChan := ts\<rparr>) (Checking t)"
| reject: "t_Status (the_task s t) \<noteq> Waiting \<Longrightarrow> sched_step s (Checking t) s Receiving"
| accept: "t_Status (the_task s t) = Waiting \<Longrightarrow> sched_step s (Checking t) s (Starting t)"
| start: "sched_step s (Starting t) (upd_task t (\<lambda>tk. snd (Start os now tk)) s) (Exiting t)"
| exited: "WaitAll exited (the_task s t) \<Longrightarrow> sched_step s (Exiting t) s Receiving"

inductive fine_step :: "system \<Rightarrow> system \<Rightarrow> bool" where
  handler: "handler_step (sys_app S) s' \<Longrightarrow> fine_step S (S\<lparr>sys_app := s'\<rparr>)"
| begin_all: "fine_step S (S\<lparr>sys_starters := sys_starters S @ [Scanning (AllTasks (sys_app S)) 0]\<rparr>)"
| starter: "sys_starters S = xs @ p # ys \<Longrightarrow> starter_step (sys_app S) p s' p' \<Longrightarrow>
    fine_step S (S\<lparr>sys_app := s', sys_starters := xs @ p' # ys\<rparr>)"
| end_all: "sys_starters S = xs @ Scanning [] runs # ys \<Longrightarrow>
    fine_step S (S\<lparr>sys_starters := xs @ ys\<rparr>)"
| scheduler: "sched_step (sys_app S) (sys_sched S) s' p' \<Longrightarrow>
    fine_step S (S\<lparr>sys_app := s', sys_sched := p'\<rparr>)"

inductive_cases handler_stepE: "handler_step s s'"
inductive_cases starter_stepE: "starter_step s p s' p'"
inductive_cases sched_stepE: "sched_step s p s' p'"

inductive_simps sched_step_Checking: "sched_step s (Checking t) s' p'"

section \<open>What every step keeps\<close>

text \<open>The statuses in the order of the life of a task.\<close>

fun status_rank :: "Status \<Rightarrow> nat" where
  "status_rank Ready = 0"
| "status_rank Waiting = 1"
| "status_rank Running = 2"
| "status_rank Done = 3"

lemma status_rank_inject: "status_rank a = status_rank b \<Longrightarrow> a = b"
  by (cases a; cases b) simp_all

instantiation Status :: linorder
begin

definition less_eq_Status :: "Status \<Rightarrow> Status \<Rightarrow> bool" where
  "less_eq_Status a b \<longleftrightarrow> status_rank a \<le> status_rank b"

definition less_Status :: "Status \<Rightarrow> Status \<Rightarrow> bool" where
  "less_Status a b \<longleftrightarrow> status_rank a < status_rank b"

instance
  by standard (auto simp: less_eq_Status_def less_Status_def intro: status_rank_inject)

end

lemma Status_order [simp]:
  "Ready \<le> a" "a \<le> Done" "Running \<le> a \<longleftrightarrow> a = Running \<or> a = Done" "\<not> Running \<le> Ready"
  "Waiting \<le> Running" "\<not> Running \<le> Waiting" "a \<le> Ready \<longleftrightarrow> a = Ready" "Done \<le> a \<longleftrightarrow> a = Done"
  by (cases a; simp add: less_eq_Status_def)+

definition unit_ids :: "Task \<Rightarrow> int list" where
  "unit_ids t = map p_ID (t_Units t)"

text \<open>
  \<open>same_task\<close>: what identifies a task is kept, its processes are only added to, and it never gets
  ready again. \<open>later_task\<close>: its status moves forward as well, and once it is running no process is
  added.
\<close>

definition same_task :: "Task \<Rightarrow> Task \<Rightarrow> bool" where
  "same_task t t' \<longleftrightarrow>
     t_Name t' = t_Name t \<and> t_Cfg t' = t_Cfg t \<and> t_ProcessCount t' = t_ProcessCount t
     \<and> t_CreatedAt t' = t_CreatedAt t \<and> prefix (unit_ids t) (unit_ids t')
     \<and> (t_Status t' = Ready \<longrightarrow> t_Status t = Ready)"

definition later_task :: "Task \<Rightarrow> Task \<Rightarrow> bool" where
  "later_task t t' \<longleftrightarrow>
     same_task t t' \<and> t_Status t \<le> t_Status t'
     \<and> (Running \<le> t_Status t \<longrightarrow> unit_ids t' = unit_ids t)"

definition registry_rel :: "(Task \<Rightarrow> Task \<Rightarrow> bool) \<Rightarrow> app_state \<Rightarrow> app_state \<Rightarrow> bool" where
  "registry_rel R s s' \<longleftrightarrow>
     length (tasks s) \<le> length (tasks s')
     \<and> (\<forall>i < length (tasks s). R (the_task s i) (the_task s' i))"

lemma same_task_refl [simp]: "same_task t t"
  by (simp add: same_task_def)

lemma same_task_trans: "same_task t u \<Longrightarrow> same_task u v \<Longrightarrow> same_task t v"
  by (auto simp: same_task_def intro: prefix_order.trans)

lemma later_task_refl [simp]: "later_task t t"
  by (simp add: later_task_def)

lemma later_task_trans: "later_task t u \<Longrightarrow> later_task u v \<Longrightarrow> later_task t v"
  unfolding later_task_def using same_task_trans by (metis order_trans)

lemma registry_rel_refl: "(\<And>t. R t t) \<Longrightarrow> registry_rel R s s"
  by (simp add: registry_rel_def)

lemma registry_rel_trans:
  assumes "\<And>t u v. R t u \<Longrightarrow> R u v \<Longrightarrow> R t v"
  shows "registry_rel R s t \<Longrightarrow> registry_rel R t u \<Longrightarrow> registry_rel R s u"
  using assms by (force simp: registry_rel_def)

lemma registry_rel_mono:
  "(\<And>t u. R t u \<Longrightarrow> Q t u) \<Longrightarrow> registry_rel R s s' \<Longrightarrow> registry_rel Q s s'"
  by (simp add: registry_rel_def)

lemma length_upd_task [simp]: "length (tasks (upd_task i f s)) = length (tasks s)"
  by (simp add: upd_task_def)

lemma taskChan_upd_task [simp]: "taskChan (upd_task i f s) = taskChan s"
  by (simp add: upd_task_def)

lemma the_task_chan [simp]: "the_task (s\<lparr>taskChan := c\<rparr>) i = the_task s i"
  by (simp add: the_task_def)

lemma registry_rel_upd:
  assumes "\<And>t. R t t" and "R (the_task s i) (f (the_task s i))"
  shows "registry_rel R s (upd_task i f s)"
proof (cases "i < length (tasks s)")
  case True
  then show ?thesis using assms by (simp add: registry_rel_def)
next
  case False
  then have "upd_task i f s = s" by (simp add: upd_task_def list_update_beyond)
  then show ?thesis using assms(1) by (simp add: registry_rel_def)
qed

lemma Start_later: "later_task t (snd (Start os now t))"
proof (cases "t_Status t \<in> {Ready, Waiting}")
  case True
  then show ?thesis
    by (auto simp: Start_def start_loop_spec Let_def later_task_def same_task_def unit_ids_def
        split: spawn.splits)
qed (simp add: Start_def)

lemma UpdateStatus_later: "later_task t (UpdateStatus iter now t)"
  by (simp add: later_task_def same_task_def unit_ids_def UpdateStatus_def Let_def split: prod.split)

lemma upd_unit_later: "(\<And>u. p_ID (f u) = p_ID u) \<Longrightarrow> later_task t (upd_unit p f t)"
  by (simp add: later_task_def same_task_def unit_ids_def)
    (simp add: upd_unit_def)

lemma UpdateProgress_later: "UpdateProgress pid tg r t = Some t' \<Longrightarrow> later_task t t'"
  using upd_unit_later [of "\<lambda>u. u\<lparr>p_Routines := alist_update tg r (p_Routines u)\<rparr>" t]
  by (auto simp: UpdateProgress_def upd_unit_def split: option.splits)

lemma handler_step_later: "handler_step s s' \<Longrightarrow> registry_rel later_task s s'"
proof (induction rule: handler_step.induct)
  case (new_task body now s r s')
  then show ?case
    by (auto simp: handle_NewTask_def NewTask_def registry_rel_def the_task_def nth_append
        split: sum.splits prod.splits option.splits if_splits)
next
  case (start_task nm os now s r s')
  have "registry_rel later_task s (upd_task t (\<lambda>_. tk) s)"
    if "Start os now (the_task s t) = (e, tk)" for t e tk
    using registry_rel_upd [of later_task s t "\<lambda>_. tk"] Start_later [of "the_task s t" os now] that
    by simp
  with start_task show ?case
    by (auto simp: handle_StartTask_def Let_def registry_rel_refl
        split: if_splits option.splits prod.splits)
next
  case (progress req s e s')
  then show ?case
    by (auto simp: Server_UpdateProgress_def Let_def registry_rel_refl
        split: sum.splits prod.splits option.splits
        intro!: registry_rel_upd dest: UpdateProgress_later)
next
  case (commit req s e s')
  then show ?case
    by (auto simp: Server_CommitStats_def registry_rel_refl split: sum.splits prod.splits
        intro!: registry_rel_upd upd_unit_later)
next
  case (status iter now req s e s')
  then show ?case
    by (auto simp: Server_UpdateStatus_def registry_rel_refl split: sum.splits prod.splits
        intro!: registry_rel_upd later_task_trans [OF upd_unit_later UpdateStatus_later])
qed

lemma handler_step_chan: "handler_step s s' \<Longrightarrow> taskChan s' = taskChan s"
  by (induction rule: handler_step.induct)
    (auto simp: handle_NewTask_def NewTask_def handle_StartTask_def Server_UpdateProgress_def
      Server_CommitStats_def Server_UpdateStatus_def Let_def
      split: sum.splits prod.splits option.splits if_splits)

section \<open>The system with atomic handlers moves forward\<close>

lemma AddSchedule_later:
  assumes "t_Status (the_task s t) = Ready" and "AddSchedule t s = Some s'"
  shows "registry_rel later_task s s'"
proof -
  have "later_task (the_task s t) ((the_task s t)\<lparr>t_Status := Waiting\<rparr>)"
    using assms(1) by (simp add: later_task_def same_task_def unit_ids_def)
  then have "registry_rel later_task s (upd_task t (\<lambda>t. t\<lparr>t_Status := Waiting\<rparr>) s)"
    by (intro registry_rel_upd) simp_all
  then show ?thesis
    using assms(2) by (auto simp: AddSchedule_def AddSchedule_send_def AddSchedule_mark_def
      registry_rel_def split: if_splits)
qed

lemma start_all_later: "start_all ts runs s = Some (n, s') \<Longrightarrow> registry_rel later_task s s'"
proof (induction ts arbitrary: runs s)
  case Nil
  then show ?case by (simp add: registry_rel_refl)
next
  case (Cons t ts)
  show ?case
  proof (cases "t_Status (the_task s t) = Ready")
    case False
    then show ?thesis using Cons by simp
  next
    case True
    with Cons.prems obtain s1 where s1: "AddSchedule t s = Some s1"
      "start_all ts (runs + 1) s1 = Some (n, s')" by (auto split: option.splits)
    then show ?thesis
      using AddSchedule_later [OF True s1(1)] Cons.IH [OF s1(2)]
        registry_rel_trans [of later_task] later_task_trans by blast
  qed
qed

lemma startAllTasks_later: "startAllTasks s = Some (r, s') \<Longrightarrow> registry_rel later_task s s'"
  by (auto simp: startAllTasks_def registry_rel_refl dest: start_all_later
      split: if_splits option.splits prod.splits)

lemma startLoop_body_later:
  assumes "startLoop_body os now exited s = Some s'"
  shows "registry_rel later_task s s'"
proof (cases "taskChan s")
  case Nil
  then show ?thesis using assms by (simp add: startLoop_body_def)
next
  case (Cons t ts)
  let ?s1 = "s\<lparr>taskChan := ts\<rparr>"
  have "registry_rel later_task ?s1 (upd_task t (\<lambda>tk. snd (Start os now tk)) ?s1)"
    by (intro registry_rel_upd Start_later) simp
  then show ?thesis
    using assms Cons
    by (auto simp: startLoop_body_def Let_def registry_rel_def split: if_splits)
qed

lemma atomic_step_later: "atomic_step s s' \<Longrightarrow> registry_rel later_task s s'"
  by (induction rule: atomic_step.induct)
    (auto dest: handler_step_later startAllTasks_later startLoop_body_later)

interpretation atomic: forward_system "registry_rel later_task" atomic_step
  by unfold_locales
    (auto intro: registry_rel_refl atomic_step_later registry_rel_trans [of later_task]
      later_task_trans)

section \<open>Every interleaving keeps the tasks\<close>

text \<open>What a part of the system may do to the registry and its queue.\<close>

lemma AddSchedule_mark_same: "registry_rel same_task s (AddSchedule_mark t s)"
  unfolding AddSchedule_mark_def
  by (intro registry_rel_upd) (simp_all add: same_task_def unit_ids_def)

lemma AddSchedule_send_eq:
  "AddSchedule_send t s = Some s' \<longleftrightarrow>
     length (taskChan s) < taskChan_cap \<and> s' = s\<lparr>taskChan := taskChan s @ [t]\<rparr>"
  by (auto simp: AddSchedule_send_def)

lemma starter_step_same: "starter_step s p s' p' \<Longrightarrow> registry_rel same_task s s'"
proof (induction rule: starter_step.induct)
  case (mark s t ts runs)
  show ?case by (rule AddSchedule_mark_same)
qed (auto simp: AddSchedule_send_eq registry_rel_def)

lemma sched_step_same: "sched_step s p s' p' \<Longrightarrow> registry_rel same_task s s'"
proof (induction rule: sched_step.induct)
  case (start s t os now)
  show ?case using Start_later [of "the_task s t" os now]
    by (intro registry_rel_upd) (simp_all add: later_task_def)
qed (simp_all add: registry_rel_refl registry_rel_def)

lemma fine_step_same: "fine_step S S' \<Longrightarrow> registry_rel same_task (sys_app S) (sys_app S')"
proof (induction rule: fine_step.induct)
  case (handler S s')
  then show ?case
    using registry_rel_mono [of later_task same_task, OF _ handler_step_later]
    by (simp add: later_task_def)
qed (auto simp: registry_rel_refl dest: starter_step_same sched_step_same)

interpretation fine: forward_system "\<lambda>S S'. registry_rel same_task (sys_app S) (sys_app S')" fine_step
  by unfold_locales
    (auto intro: registry_rel_refl fine_step_same registry_rel_trans [of same_task] same_task_trans)

text \<open>The pointers a part of the system holds to a task that has been made waiting or is to be.\<close>

fun sched_ptrs :: "sched_pc \<Rightarrow> nat list" where
  "sched_ptrs Receiving = []"
| "sched_ptrs (Checking t) = [t]"
| "sched_ptrs (Starting t) = [t]"
| "sched_ptrs (Exiting t) = [t]"

fun starter_sent :: "starter_pc \<Rightarrow> nat list" where
  "starter_sent (Scanning ts runs) = []"
| "starter_sent (Marking t ts runs) = []"
| "starter_sent (Sending t ts runs) = [t]"

fun starter_ptrs :: "starter_pc \<Rightarrow> nat list" where
  "starter_ptrs (Scanning ts runs) = ts"
| "starter_ptrs (Marking t ts runs) = t # ts"
| "starter_ptrs (Sending t ts runs) = t # ts"

definition marked :: "app_state \<Rightarrow> nat \<Rightarrow> bool" where
  "marked s t \<longleftrightarrow> t < length (tasks s) \<and> t_Status (the_task s t) \<noteq> Ready"

text \<open>
  The invariant: names are distinct, the channel is never over its capacity, every pointer is one
  of the registry, and a task in the channel or in the schedule loop is not ready.
\<close>

definition good_app :: "app_state \<Rightarrow> bool" where
  "good_app s \<longleftrightarrow>
     distinct (map t_Name (tasks s)) \<and> length (taskChan s) \<le> taskChan_cap
     \<and> list_all (marked s) (taskChan s)"

definition good_starter :: "app_state \<Rightarrow> starter_pc \<Rightarrow> bool" where
  "good_starter s p \<longleftrightarrow>
     list_all (\<lambda>t. t < length (tasks s)) (starter_ptrs p) \<and> list_all (marked s) (starter_sent p)"

definition good_system :: "system \<Rightarrow> bool" where
  "good_system S \<longleftrightarrow>
     good_app (sys_app S) \<and> list_all (marked (sys_app S)) (sched_ptrs (sys_sched S))
     \<and> list_all (good_starter (sys_app S)) (sys_starters S)"

lemma marked_same: "registry_rel same_task s s' \<Longrightarrow> marked s t \<Longrightarrow> marked s' t"
  by (auto simp: marked_def registry_rel_def same_task_def)

lemma good_starter_same: "registry_rel same_task s s' \<Longrightarrow> good_starter s p \<Longrightarrow> good_starter s' p"
  unfolding good_starter_def list_all_iff
  by (metis marked_same order_less_le_trans registry_rel_def)

lemma handler_step_names:
  "handler_step s s' \<Longrightarrow> distinct (map t_Name (tasks s)) \<Longrightarrow> distinct (map t_Name (tasks s'))"
proof (induction rule: handler_step.induct)
  case (new_task body now s r s')
  then show ?case
    by (auto simp: handle_NewTask_def NewTask_def new_Task_def
        split: sum.splits prod.splits option.splits if_splits) blast
next
  case (start_task nm os now s r s')
  have "t_Name (snd (Start os now t)) = t_Name t" for t
    using Start_later [of t os now] by (simp add: later_task_def same_task_def)
  with start_task show ?case
    by (auto simp: handle_StartTask_def Let_def split: if_splits option.splits prod.splits)
      (metis snd_conv the_task_def upd_task_keys)+
next
  case (progress req s e s')
  then show ?case
    by (auto simp: Server_UpdateProgress_def UpdateProgress_def Let_def the_task_def
        split: sum.splits prod.splits option.splits)
qed (auto simp: Server_CommitStats_def Server_UpdateStatus_def split: sum.splits prod.splits)

section \<open>The invariant holds in every interleaving\<close>

lemma handler_step_good:
  assumes "handler_step s s'" and "good_app s"
  shows "good_app s'"
proof -
  have "registry_rel same_task s s'"
    using handler_step_later [OF assms(1)] by (rule registry_rel_mono [rotated]) (simp add: later_task_def)
  then show ?thesis
    using assms handler_step_names [OF assms(1)] handler_step_chan [OF assms(1)]
    by (auto simp: good_app_def list_all_iff dest: marked_same)
qed

lemma AddSchedule_mark_marked: "t < length (tasks s) \<Longrightarrow> marked (AddSchedule_mark t s) t"
  by (simp add: marked_def AddSchedule_mark_def)

lemma AddSchedule_mark_good: "good_app s \<Longrightarrow> good_app (AddSchedule_mark t s)"
  using marked_same [OF AddSchedule_mark_same]
  by (auto simp: good_app_def list_all_iff AddSchedule_mark_def)

lemma marked_chan [simp]: "marked (s\<lparr>taskChan := c\<rparr>) = marked s"
  by (simp add: marked_def fun_eq_iff)

lemma starter_step_good:
  assumes "starter_step s p s' p'" and "good_app s" and "good_starter s p"
  shows "good_app s' \<and> good_starter s' p'"
  using assms
proof (induction rule: starter_step.induct)
  case (mark s t ts runs)
  then show ?case
    using AddSchedule_mark_good AddSchedule_mark_marked
    by (auto simp: good_starter_def AddSchedule_mark_def)
next
  case (send t s s' ts runs)
  then show ?case
    by (auto simp: AddSchedule_send_eq good_app_def good_starter_def)
qed (auto simp: good_starter_def)

lemma Start_names: "map t_Name (tasks (upd_task t (\<lambda>tk. snd (Start os now tk)) s)) = map t_Name (tasks s)"
  using Start_later [of "tasks s ! t" os now]
  by (intro upd_task_keys) (simp add: later_task_def same_task_def)

lemma sched_step_good:
  assumes "sched_step s p s' p'" and "good_app s" and "list_all (marked s) (sched_ptrs p)"
  shows "good_app s' \<and> list_all (marked s') (sched_ptrs p')"
proof -
  have m: "marked s t \<Longrightarrow> marked s' t" for t
    using marked_same [OF sched_step_same [OF assms(1)]] .
  from assms show ?thesis
  proof (cases rule: sched_step.cases)
    case (start t os now)
    have "list_all (marked s') (taskChan s)"
      using assms(2) m by (auto simp: good_app_def list_all_iff)
    then show ?thesis
      using assms(2,3) m start Start_names [of t os now s] by (simp add: good_app_def)
  qed (auto simp: good_app_def)
qed

lemma fine_step_good:
  assumes "fine_step S S'" and "good_system S"
  shows "good_system S'"
proof -
  note same = fine_step_same [OF assms(1)]
  have st: "list_all (good_starter (sys_app S')) ps" if "list_all (good_starter (sys_app S)) ps" for ps
    using that good_starter_same [OF same] by (auto simp: list_all_iff)
  have mk: "list_all (marked (sys_app S')) ts" if "list_all (marked (sys_app S)) ts" for ts
    using that marked_same [OF same] by (auto simp: list_all_iff)
  from assms show ?thesis
  proof (cases rule: fine_step.cases)
    case (handler s')
    then show ?thesis
      using assms(2) handler_step_good st mk by (simp add: good_system_def)
  next
    case begin_all
    then show ?thesis
      using assms(2) by (simp add: good_system_def good_starter_def AllTasks_def list_all_iff)
  next
    case (starter xs p ys s' p')
    then have "good_app s' \<and> good_starter s' p'"
      using assms(2) starter_step_good by (simp add: good_system_def)
    then show ?thesis
      using assms(2) starter st mk by (simp add: good_system_def)
  next
    case (end_all xs runs ys)
    then show ?thesis using assms(2) by (simp add: good_system_def)
  next
    case (scheduler s' p')
    then have "good_app s' \<and> list_all (marked s') (sched_ptrs p')"
      using assms(2) sched_step_good by (simp add: good_system_def)
    then show ?thesis
      using assms(2) scheduler st by (simp add: good_system_def)
  qed
qed

lemma good_init: "good_system init_system"
  by (simp add: good_system_def good_app_def init_system_def init_app_def)

section \<open>Atomic handlers are one of the interleavings\<close>

definition quiet_system :: "app_state \<Rightarrow> system" where
  "quiet_system s = \<lparr>sys_app = s, sys_sched = Receiving, sys_starters = []\<rparr>"

definition with_starter :: "app_state \<Rightarrow> starter_pc \<Rightarrow> system" where
  "with_starter s p = \<lparr>sys_app = s, sys_sched = Receiving, sys_starters = [p]\<rparr>"

lemma fine_starter:
  "starter_step s p s' p' \<Longrightarrow> fine_step (with_starter s p) (with_starter s' p')"
  using fine_step.starter [of "with_starter s p" "[]" p "[]" s' p'] by (simp add: with_starter_def)

lemma start_all_fine:
  "start_all ts runs s = Some (n, s') \<Longrightarrow>
     fine_step\<^sup>*\<^sup>* (with_starter s (Scanning ts runs)) (with_starter s' (Scanning [] n))"
proof (induction ts arbitrary: runs s)
  case (Cons t ts)
  show ?case
  proof (cases "t_Status (the_task s t) = Ready")
    case False
    with Cons show ?thesis
      using fine_starter [OF starter_step.skip [of s t ts runs]]
      by (auto intro: converse_rtranclp_into_rtranclp)
  next
    case True
    with Cons.prems obtain s1 where s1: "AddSchedule t s = Some s1"
      "start_all ts (runs + 1) s1 = Some (n, s')" by (auto split: option.splits)
    have "fine_step (with_starter s (Scanning (t # ts) runs)) (with_starter s (Marking t ts (runs + 1)))"
      using True by (intro fine_starter starter_step.found)
    moreover have "fine_step (with_starter s (Marking t ts (runs + 1)))
        (with_starter (AddSchedule_mark t s) (Sending t ts (runs + 1)))"
      by (intro fine_starter starter_step.mark)
    moreover have "fine_step (with_starter (AddSchedule_mark t s) (Sending t ts (runs + 1)))
        (with_starter s1 (Scanning ts (runs + 1)))"
      using s1(1) by (intro fine_starter starter_step.send) (simp add: AddSchedule_def)
    ultimately show ?thesis
      using Cons.IH [OF s1(2)] by (meson converse_rtranclp_into_rtranclp)
  qed
qed simp

lemma startAllTasks_fine:
  assumes "startAllTasks s = Some (r, s')"
  shows "fine_step\<^sup>*\<^sup>* (quiet_system s) (quiet_system s')"
proof (cases "AllTasks s = []")
  case True
  then show ?thesis using assms by (simp add: startAllTasks_def)
next
  case False
  then obtain n where n: "start_all (AllTasks s) 0 s = Some (n, s')"
    using assms by (auto simp: startAllTasks_def split: option.splits)
  have "fine_step (quiet_system s) (with_starter s (Scanning (AllTasks s) 0))"
    using fine_step.begin_all [of "quiet_system s"] by (simp add: quiet_system_def with_starter_def)
  moreover have "fine_step (with_starter s' (Scanning [] n)) (quiet_system s')"
    using fine_step.end_all [of "with_starter s' (Scanning [] n)" "[]" n "[]"]
    by (simp add: quiet_system_def with_starter_def)
  ultimately show ?thesis
    using start_all_fine [OF n]
    by (meson converse_rtranclp_into_rtranclp rtranclp.rtrancl_into_rtrancl)
qed

definition with_sched :: "app_state \<Rightarrow> sched_pc \<Rightarrow> system" where
  "with_sched s p = \<lparr>sys_app = s, sys_sched = p, sys_starters = []\<rparr>"

lemma fine_sched: "sched_step s p s' p' \<Longrightarrow> fine_step (with_sched s p) (with_sched s' p')"
  using fine_step.scheduler [of "with_sched s p" s' p'] by (simp add: with_sched_def)

lemma startLoop_body_fine:
  assumes "startLoop_body os now exited s = Some s'"
  shows "fine_step\<^sup>*\<^sup>* (quiet_system s) (quiet_system s')"
proof -
  obtain t ts where c: "taskChan s = t # ts"
    using assms by (auto simp: startLoop_body_def split: list.splits)
  let ?s1 = "s\<lparr>taskChan := ts\<rparr>"
  let ?s2 = "upd_task t (\<lambda>tk. snd (Start os now tk)) ?s1"
  have q: "quiet_system u = with_sched u Receiving" for u
    by (simp add: quiet_system_def with_sched_def)
  have 1: "fine_step (with_sched s Receiving) (with_sched ?s1 (Checking t))"
    by (intro fine_sched sched_step.receive c)
  show ?thesis
  proof (cases "t_Status (the_task s t) = Waiting")
    case False
    then have "s' = ?s1" using assms c by (simp add: startLoop_body_def)
    moreover have "fine_step (with_sched ?s1 (Checking t)) (with_sched ?s1 Receiving)"
      using False by (intro fine_sched sched_step.reject) simp
    ultimately show ?thesis
      using 1 by (simp add: q)
  next
    case True
    then have s': "s' = ?s2" and w: "WaitAll exited (the_task ?s2 t)"
      using assms c by (auto simp: startLoop_body_def Let_def split: if_splits)
    have "fine_step (with_sched ?s1 (Checking t)) (with_sched ?s1 (Starting t))"
      using True by (intro fine_sched sched_step.accept) simp
    moreover have "fine_step (with_sched ?s1 (Starting t)) (with_sched ?s2 (Exiting t))"
      by (intro fine_sched sched_step.start)
    moreover have "fine_step (with_sched ?s2 (Exiting t)) (with_sched ?s2 Receiving)"
      using w by (intro fine_sched sched_step.exited)
    ultimately show ?thesis
      using 1 by (simp add: q s')
  qed
qed

lemma atomic_step_fine: "atomic_step s s' \<Longrightarrow> fine_step\<^sup>*\<^sup>* (quiet_system s) (quiet_system s')"
proof (induction rule: atomic_step.induct)
  case (handle s s')
  then show ?case
    using fine_step.handler [of "quiet_system s" s'] by (auto simp: quiet_system_def)
qed (auto intro: startAllTasks_fine startLoop_body_fine)

section \<open>The schedule loop empties the channel\<close>

text \<open>Every process can be started, and every process exits.\<close>

definition host_ok :: "(nat \<Rightarrow> nat \<Rightarrow> spawn) \<Rightarrow> (int \<Rightarrow> bool) \<Rightarrow> bool" where
  "host_ok os exited \<longleftrightarrow> (\<forall>k i. is_started (os k i)) \<and> (\<forall>pid. exited pid)"

lemma Start_ok:
  assumes "\<forall>i. is_started (os i)" and "t_Status t = Waiting"
  shows "t_Status (snd (Start os now t)) = Running"
    and "length (t_Units (snd (Start os now t))) = length (t_Units t) + nat (process_total t)"
proof -
  have all: "takeWhile (\<lambda>i. is_started (os i)) [0..<n] = [0..<n]" for n
    using assms(1) by (simp add: takeWhile_eq_all_conv)
  have "\<exists>pid. os i = Started pid" for i
    using assms(1) by (metis is_started.elims(2))
  then show "t_Status (snd (Start os now t)) = Running"
    and "length (t_Units (snd (Start os now t))) = length (t_Units t) + nat (process_total t)"
    using assms(2) by (auto simp: Start_def start_loop_spec all Let_def split: spawn.splits)
qed

definition runs_to :: "Task \<Rightarrow> Task \<Rightarrow> bool" where
  "runs_to t t' \<longleftrightarrow>
     t_Status t' = Running \<and> later_task t t'
     \<and> length (t_Units t') = length (t_Units t) + nat (process_total t)"

lemma startLoop_drains:
  assumes "host_ok os exited" and "list_all (\<lambda>t. t < length (tasks s)) (taskChan s)"
  shows "\<exists>s'. startLoop (length (taskChan s)) os now exited s = Some s' \<and> taskChan s' = []
    \<and> length (tasks s') = length (tasks s)
    \<and> (\<forall>i. if i \<in> set (taskChan s) \<and> t_Status (the_task s i) = Waiting
           then runs_to (the_task s i) (the_task s' i) else the_task s' i = the_task s i)"
  using assms(2)
proof (induction "taskChan s" arbitrary: s)
  case Nil
  then show ?case by simp
next
  case (Cons t ts)
  note c = Cons.hyps(2) [symmetric]
  define k where "k = length ts"
  define s1 where "s1 = (if t_Status (the_task s t) \<noteq> Waiting then s\<lparr>taskChan := ts\<rparr>
    else upd_task t (\<lambda>tk. snd (Start (os k) now tk)) (s\<lparr>taskChan := ts\<rparr>))"
  have ex: "WaitAll exited u" for u using assms(1) by (simp add: WaitAll_def host_ok_def list_all_iff)
  have body: "startLoop_body (os k) now exited s = Some s1"
    by (simp add: startLoop_body_def c s1_def ex)
  have t: "t < length (tasks s)" using Cons.prems c by simp
  have s1: "taskChan s1 = ts" "length (tasks s1) = length (tasks s)"
      "the_task s1 i = (if i = t \<and> t_Status (the_task s t) = Waiting
         then snd (Start (os k) now (the_task s t)) else the_task s i)" for i
    using t by (simp_all add: s1_def)
  obtain s' where s': "startLoop (length ts) os now exited s1 = Some s'" "taskChan s' = []"
      "length (tasks s') = length (tasks s)"
      "\<And>i. if i \<in> set ts \<and> t_Status (the_task s1 i) = Waiting
         then runs_to (the_task s1 i) (the_task s' i) else the_task s' i = the_task s1 i"
    using Cons.hyps(1) [of s1] Cons.prems c by (auto simp: s1(1,2))
  have "startLoop (length (taskChan s)) os now exited s = Some s'"
    using body s'(1) by (simp add: c k_def)
  moreover have "if i \<in> set (taskChan s) \<and> t_Status (the_task s i) = Waiting
      then runs_to (the_task s i) (the_task s' i) else the_task s' i = the_task s i" for i
  proof (cases "i = t \<and> t_Status (the_task s t) = Waiting")
    case True
    then have r: "runs_to (the_task s t) (the_task s1 t)"
      using Start_ok [of "os k" "the_task s t" now] Start_later assms(1)
      by (simp add: s1(3) runs_to_def host_ok_def)
    then have "t_Status (the_task s1 t) \<noteq> Waiting" by (simp add: runs_to_def)
    then show ?thesis using s'(4) [of t] True r by (simp add: c)
  next
    case False
    then have "the_task s1 i = the_task s i" by (auto simp: s1(3))
    then show ?thesis using s'(4) [of i] False by (auto simp: c)
  qed
  ultimately show ?case using s'(2,3) by blast
qed

section \<open>A run in which a task is started twice\<close>

definition one_task :: "Task \<Rightarrow> nat list \<Rightarrow> app_state" where
  "one_task t c = \<lparr>tasks = [t], taskChan = c\<rparr>"

lemma one_task_simps [simp]:
  "the_task (one_task t c) 0 = t" "upd_task 0 f (one_task t c) = one_task (f t) c"
  "taskChan (one_task t c) = c" "(one_task t c)\<lparr>taskChan := c'\<rparr> = one_task t c'"
  "AllTasks (one_task t c) = [0]"
  by (simp_all add: one_task_def the_task_def upd_task_def AllTasks_def)

definition started :: "int \<Rightarrow> int \<Rightarrow> Task \<Rightarrow> Task" where
  "started pid now t =
     t\<lparr>t_Units := t_Units t @ [new_Process pid (process_share t) (cfg_Sample (t_Cfg t))],
       t_Status := Running, t_StartedAt := now\<rparr>"

lemma Start_one:
  assumes "process_total t = 1" and "t_Status t = Ready \<or> t_Status t = Waiting"
  shows "Start (\<lambda>i. Started pid) now t = (None, started pid now t)"
  using assms by (auto simp: Start_def started_def)

lemma race_steps:
  fixes p q :: int
  assumes "t_Status t = Ready" and "process_total t = 1"
    and "TrimSpace (t_Name t) = t_Name t" and "t_Name t \<noteq> []"
  defines "t1 \<equiv> started p 0 t"
  defines "t2 \<equiv> t1\<lparr>t_Status := Waiting\<rparr>"
  shows "fine_step\<^sup>*\<^sup>* (quiet_system (one_task t []))
           (with_starter (one_task t1 []) (Marking 0 [] 1))" (is ?before)
    and "fine_step\<^sup>*\<^sup>* (with_starter (one_task t1 []) (Marking 0 [] 1))
           (quiet_system (one_task t2 [0]))" (is ?send)
    and "fine_step\<^sup>*\<^sup>* (quiet_system (one_task t2 [0]))
           (with_sched (one_task (started q 0 t2) []) (Exiting 0))" (is ?again)
proof -
  let ?s = "one_task t []" and ?s1 = "one_task t1 []"
  have h: "handler_step ?s ?s1"
    using assms(1,3,4) Start_one [OF assms(2), of p 0]
    by (intro handler_step.start_task [of "t_Name t" "\<lambda>i. Started p" 0 _ "JSON CodeOK ''success'' NoData"])
      (simp add: handle_StartTask_def FindTask_def one_task_def [of t] t1_def,
        simp add: one_task_def the_task_def upd_task_def)
  have "fine_step (quiet_system ?s) (with_starter ?s (Scanning [0] 0))"
    using fine_step.begin_all [of "quiet_system ?s"] by (simp add: quiet_system_def with_starter_def)
  moreover have "fine_step (with_starter ?s (Scanning [0] 0)) (with_starter ?s (Marking 0 [] 1))"
    using starter_step.found [of ?s 0 "[]" 0] assms(1) by (intro fine_starter) simp
  moreover have "fine_step (with_starter ?s (Marking 0 [] 1)) (with_starter ?s1 (Marking 0 [] 1))"
    using fine_step.handler [of "with_starter ?s (Marking 0 [] 1)" ?s1] h by (simp add: with_starter_def)
  ultimately show ?before by (meson converse_rtranclp_into_rtranclp rtranclp.rtrancl_refl)
  have "fine_step (with_starter ?s1 (Marking 0 [] 1)) (with_starter (one_task t2 []) (Sending 0 [] 1))"
    using starter_step.mark [of ?s1 0 "[]" 1]
    by (intro fine_starter) (simp add: AddSchedule_mark_def t2_def)
  moreover have "fine_step (with_starter (one_task t2 []) (Sending 0 [] 1))
      (with_starter (one_task t2 [0]) (Scanning [] 1))"
    by (intro fine_starter starter_step.send) (simp add: AddSchedule_send_eq taskChan_cap_def)
  moreover have "fine_step (with_starter (one_task t2 [0]) (Scanning [] 1)) (quiet_system (one_task t2 [0]))"
    using fine_step.end_all [of "with_starter (one_task t2 [0]) (Scanning [] 1)" "[]" 1 "[]"]
    by (simp add: quiet_system_def with_starter_def)
  ultimately show ?send by (meson converse_rtranclp_into_rtranclp rtranclp.rtrancl_refl)
  have w: "t_Status t2 = Waiting" "process_total t2 = 1"
    using assms(2) by (simp_all add: t2_def t1_def started_def process_total_def split: if_splits)
  have "fine_step (quiet_system (one_task t2 [0])) (with_sched (one_task t2 []) (Checking 0))"
    using fine_sched [OF sched_step.receive [of "one_task t2 [0]" 0 "[]"]]
    by (simp add: quiet_system_def with_sched_def)
  moreover have "fine_step (with_sched (one_task t2 []) (Checking 0)) (with_sched (one_task t2 []) (Starting 0))"
    using w(1) by (intro fine_sched sched_step.accept) simp
  moreover have "fine_step (with_sched (one_task t2 []) (Starting 0))
      (with_sched (one_task (started q 0 t2) []) (Exiting 0))"
    using fine_sched [OF sched_step.start [of "one_task t2 []" 0 "\<lambda>i. Started q" 0]]
      Start_one [OF w(2), of q 0] w(1) by simp
  ultimately show ?again by (meson converse_rtranclp_into_rtranclp rtranclp.rtrancl_refl)
qed

section \<open>Properties\<close>

text \<open>
  Claim C10: in every interleaving of the handlers, the routines that start all tasks and the
  schedule loop, the names of the tasks stay distinct, the channel stays within its capacity, no
  pointer dangles, and a task that is in the channel or in the hands of the schedule loop is not
  ready; and whatever runs, the tasks are never removed, their names, configurations and numbers
  of processes never change, their processes are only added to and no task gets ready again.
\<close>

theorem fine_invariant:
  assumes "fine_step\<^sup>*\<^sup>* init_system S" and "fine_step\<^sup>*\<^sup>* S S'"
  shows "good_system S \<and> good_system S' \<and> registry_rel same_task (sys_app S) (sys_app S')"
proof -
  have good: "good_system S"
    by (rule fine.invariant_steps [where I = good_system, OF assms(1) fine_step_good good_init])
  have "good_system S'"
    by (rule fine.invariant_steps [where I = good_system, OF assms(2) fine_step_good good])
  with good show ?thesis using fine.forward_steps [OF assms(2)] by blast
qed

theorem fine_invariant_witness:
  "good_system (init_system\<lparr>sys_starters := [Scanning [] 0]\<rparr>)"
proof -
  have "fine_step init_system (init_system\<lparr>sys_starters := [Scanning [] 0]\<rparr>)"
    using fine_step.begin_all [of init_system] by (simp add: init_system_def init_app_def AllTasks_def)
  then have "fine_step\<^sup>*\<^sup>* init_system (init_system\<lparr>sys_starters := [Scanning [] 0]\<rparr>)"
    by (rule r_into_rtranclp)
  from fine_invariant [OF rtranclp.rtrancl_refl this] show ?thesis by blast
qed

text \<open>
  Claim C11: if each handler takes effect at one moment, a task only moves forward, from ready to
  waiting, to running, to done, and it is started at most once: as soon as it is running, no
  handler and no turn of the schedule loop ever adds a process to it.
\<close>

theorem atomic_started_once:
  assumes "atomic_step\<^sup>*\<^sup>* s s'" and "i < length (tasks s)"
  shows "t_Status (the_task s i) \<le> t_Status (the_task s' i)
    \<and> (t_Status (the_task s i) \<in> {Running, Done} \<longrightarrow>
         map p_ID (t_Units (the_task s' i)) = map p_ID (t_Units (the_task s i)))"
  using atomic.forward_steps [OF assms(1)] assms(2)
  by (auto simp: registry_rel_def later_task_def unit_ids_def)

theorem atomic_started_once_witness:
  "t_Status (the_task (snd (handle_NewTask (Inl ''eof'') 0 demo_registry)) 0) \<in> {Running, Done}"
proof -
  let ?s = "snd (handle_NewTask (Inl ''eof'') 0 demo_registry)"
  have "atomic_step demo_registry ?s"
    by (intro atomic_step.handle handler_step.new_task [of "Inl ''eof''" 0 _ _]) (rule prod.collapse [symmetric])
  then have "Running \<le> t_Status (the_task ?s 0)"
    using atomic_started_once [OF r_into_rtranclp, of demo_registry ?s 0]
    by (simp add: demo_registry_def the_task_def)
  then show ?thesis by simp
qed

text \<open>
  Claim C33: \<^verbatim>\<open>startAllTasks\<close> reads the status of a task without its lock, so a task may be started
  twice: whatever ready task there is, if it is started by its name between the test and the update
  of its status, it is put back to waiting, and the schedule loop starts its processes again.
\<close>

theorem startAllTasks_race:
  assumes "t_Status t = Ready" and "t_Units t = []" and "process_total t = 1"
    and "TrimSpace (t_Name t) = t_Name t" and "t_Name t \<noteq> []"
  shows "\<exists>S S' S''. fine_step\<^sup>*\<^sup>* (quiet_system \<lparr>tasks = [t], taskChan = []\<rparr>) S
    \<and> fine_step\<^sup>*\<^sup>* S S' \<and> fine_step\<^sup>*\<^sup>* S' S''
    \<and> t_Status (the_task (sys_app S) 0) = Running
    \<and> map p_ID (t_Units (the_task (sys_app S) 0)) = [p]
    \<and> t_Status (the_task (sys_app S') 0) = Waiting
    \<and> t_Status (the_task (sys_app S'') 0) = Running
    \<and> map p_ID (t_Units (the_task (sys_app S'') 0)) = [p, q]"
proof -
  note run = race_steps [OF assms(1,3,4,5), of p, unfolded one_task_def [of t]]
  show ?thesis
    by (intro exI conjI; (rule run(1,2) run(3) [of q])?)
      (simp_all add: assms(2) with_starter_def quiet_system_def with_sched_def started_def
        new_Process_def)
qed

theorem startAllTasks_race_witness:
  "\<exists>S. fine_step\<^sup>*\<^sup>* (quiet_system \<lparr>tasks = [new_Task ''a'' zero_Config 1 0], taskChan = []\<rparr>) S
     \<and> map p_ID (t_Units (the_task (sys_app S) 0)) = [41, 42]"
proof -
  let ?t = "new_Task ''a'' zero_Config 1 0"
  have "t_Status ?t = Ready" "t_Units ?t = []" "process_total ?t = 1"
    "TrimSpace (t_Name ?t) = t_Name ?t" "t_Name ?t \<noteq> []"
    by (simp_all add: new_Task_def process_total_def) code_simp
  from startAllTasks_race [OF this, of 41 42] show ?thesis by (meson rtranclp_trans)
qed



text \<open>
  Claim C9: starting all tasks gets every ready task running, when the processes can be started and
  exit: with an empty channel and room for the ready tasks, as many turns of the schedule loop as
  there are ready tasks empty the channel, leave each of those tasks running with its number of
  processes added, and every other task untouched.
\<close>

theorem startAllTasks_runs:
  assumes "taskChan s = []" and "length (ready_tasks s (AllTasks s)) \<le> taskChan_cap"
    and "host_ok os exited"
  shows "\<exists>r s1 s2. startAllTasks s = Some (r, s1)
    \<and> startLoop (length (ready_tasks s (AllTasks s))) os now exited s1 = Some s2
    \<and> taskChan s2 = [] \<and> length (tasks s2) = length (tasks s)
    \<and> (\<forall>i < length (tasks s).
         if t_Status (the_task s i) = Ready
         then t_Status (the_task s2 i) = Running
           \<and> length (t_Units (the_task s2 i))
             = length (t_Units (the_task s i)) + nat (process_total (the_task s i))
         else the_task s2 i = the_task s i)"
proof -
  let ?q = "ready_tasks s (AllTasks s)"
  have q: "i \<in> set ?q \<longleftrightarrow> i < length (tasks s) \<and> t_Status (the_task s i) = Ready" for i
    by (auto simp: ready_tasks_def AllTasks_def)
  obtain r s1 where s1: "startAllTasks s = Some (r, s1)" "taskChan s1 = ?q"
      "tasks s1 = map (\<lambda>t. if t_Status t = Ready then t\<lparr>t_Status := Waiting\<rparr> else t) (tasks s)"
    using startAllTasks_spec [of s] assms(1,2) by auto
  have at1: "the_task s1 i = (if t_Status (the_task s i) = Ready
      then (the_task s i)\<lparr>t_Status := Waiting\<rparr> else the_task s i)" if "i < length (tasks s)" for i
    using that by (simp add: the_task_def s1(3))
  have "list_all (\<lambda>t. t < length (tasks s1)) (taskChan s1)"
    using q by (auto simp: list_all_iff s1(2,3))
  from startLoop_drains [OF assms(3) this, of now] obtain s2 where s2:
      "startLoop (length ?q) os now exited s1 = Some s2" "taskChan s2 = []"
      "length (tasks s2) = length (tasks s)"
      "\<And>i. if i \<in> set ?q \<and> t_Status (the_task s1 i) = Waiting
         then runs_to (the_task s1 i) (the_task s2 i) else the_task s2 i = the_task s1 i"
    by (auto simp: s1(2,3))
  have "if t_Status (the_task s i) = Ready
      then t_Status (the_task s2 i) = Running
        \<and> length (t_Units (the_task s2 i))
          = length (t_Units (the_task s i)) + nat (process_total (the_task s i))
      else the_task s2 i = the_task s i" if "i < length (tasks s)" for i
    using s2(4) [of i] q [of i] that at1 [OF that] by (auto simp: runs_to_def process_total_def)
  then show ?thesis using s1(1) s2(1-3) by blast
qed

theorem startAllTasks_runs_witness:
  "\<exists>r s1 s2. startAllTasks demo_tasks = Some (r, s1)
     \<and> startLoop 2 (\<lambda>k i. Started 41) 0 (\<lambda>pid. True) s1 = Some s2
     \<and> t_Status (the_task s2 2) = Running"
proof -
  have "taskChan demo_tasks = []" "length (ready_tasks demo_tasks (AllTasks demo_tasks)) \<le> taskChan_cap"
    "host_ok (\<lambda>k i. Started 41) (\<lambda>pid. True)"
    by (simp_all add: demo_tasks_ready) (simp_all add: demo_tasks_def taskChan_cap_def host_ok_def)
  from startAllTasks_runs [OF this, of 0] obtain r s1 s2 where
      "startAllTasks demo_tasks = Some (r, s1)"
      "startLoop 2 (\<lambda>k i. Started 41) 0 (\<lambda>pid. True) s1 = Some s2"
      "\<forall>i < length (tasks demo_tasks). if t_Status (the_task demo_tasks i) = Ready
         then t_Status (the_task s2 i) = Running
           \<and> length (t_Units (the_task s2 i))
             = length (t_Units (the_task demo_tasks i)) + nat (process_total (the_task demo_tasks i))
         else the_task s2 i = the_task demo_tasks i"
    unfolding demo_tasks_ready by (auto simp: numeral_2_eq_2)
  moreover have "2 < length (tasks demo_tasks)" "t_Status (the_task demo_tasks 2) = Ready"
    by (simp_all add: demo_tasks_def the_task_def new_Task_def)
  ultimately show ?thesis by metis
qed

end
