(* ===== verification/BFSS_Result.thy ===== *)
theory BFSS_Result
  imports Go_Prelude
begin

text \<open>
  \<^verbatim>\<open>bfss_web/bfss/bfss_result.go\<close>: the result codes of the storage service. A \<^verbatim>\<open>BFSS_RESULT\<close> is an
  \<^verbatim>\<open>int64\<close>, which may hold any number; seventeen of them have names. The code converts names to
  numbers and back, and stores results as text and in a database.
\<close>

section \<open>Codes\<close>

type_synonym BFSS_RESULT = int

definition BFSS_DATA_READ_INCOMPLETE :: BFSS_RESULT where "BFSS_DATA_READ_INCOMPLETE = 1"
definition BFSS_DATA_WRITE_INCOMPLETE :: BFSS_RESULT where "BFSS_DATA_WRITE_INCOMPLETE = 2"
definition BFSS_SUCCESS :: BFSS_RESULT where "BFSS_SUCCESS = 0"
definition BFSS_UNKNOWN_ERROR :: BFSS_RESULT where "BFSS_UNKNOWN_ERROR = -255"
definition BFSS_PARAM_ERROR :: BFSS_RESULT where "BFSS_PARAM_ERROR = -51"
definition BFSS_SCHEME_ERROR :: BFSS_RESULT where "BFSS_SCHEME_ERROR = -52"
definition BFSS_NO_SPACE :: BFSS_RESULT where "BFSS_NO_SPACE = -53"
definition BFSS_NO_MEMORY :: BFSS_RESULT where "BFSS_NO_MEMORY = -54"
definition BFSS_TIMEOUT :: BFSS_RESULT where "BFSS_TIMEOUT = -55"
definition BFSS_NOTFOUND :: BFSS_RESULT where "BFSS_NOTFOUND = -60"
definition BFSS_DUPLICATED :: BFSS_RESULT where "BFSS_DUPLICATED = -61"
definition BFSS_COMPLETED :: BFSS_RESULT where "BFSS_COMPLETED = -62"
definition BFSS_INCOMPLETED :: BFSS_RESULT where "BFSS_INCOMPLETED = -63"
definition BFSS_DATA_WRITE_FAILED :: BFSS_RESULT where "BFSS_DATA_WRITE_FAILED = -70"
definition BFSS_DATA_READ_FAILED :: BFSS_RESULT where "BFSS_DATA_READ_FAILED = -71"
definition BFSS_DATA_COMPLETE_FAILED :: BFSS_RESULT where "BFSS_DATA_COMPLETE_FAILED = -72"
definition BFSS_DATA_UNINITED :: BFSS_RESULT where "BFSS_DATA_UNINITED = -73"

lemmas result_code_defs =
  BFSS_DATA_READ_INCOMPLETE_def BFSS_DATA_WRITE_INCOMPLETE_def BFSS_SUCCESS_def
  BFSS_UNKNOWN_ERROR_def BFSS_PARAM_ERROR_def BFSS_SCHEME_ERROR_def
  BFSS_NO_SPACE_def BFSS_NO_MEMORY_def BFSS_TIMEOUT_def
  BFSS_NOTFOUND_def BFSS_DUPLICATED_def BFSS_COMPLETED_def
  BFSS_INCOMPLETED_def BFSS_DATA_WRITE_FAILED_def BFSS_DATA_READ_FAILED_def
  BFSS_DATA_COMPLETE_FAILED_def BFSS_DATA_UNINITED_def

section \<open>Operations\<close>

definition BFSS_RESULT_String :: "BFSS_RESULT \<Rightarrow> string" where
  "BFSS_RESULT_String p =
     (if p = BFSS_DATA_READ_INCOMPLETE then ''BFSS_DATA_READ_INCOMPLETE'' else
      if p = BFSS_DATA_WRITE_INCOMPLETE then ''BFSS_DATA_WRITE_INCOMPLETE'' else
      if p = BFSS_SUCCESS then ''BFSS_SUCCESS'' else
      if p = BFSS_UNKNOWN_ERROR then ''BFSS_UNKNOWN_ERROR'' else
      if p = BFSS_PARAM_ERROR then ''BFSS_PARAM_ERROR'' else
      if p = BFSS_SCHEME_ERROR then ''BFSS_SCHEME_ERROR'' else
      if p = BFSS_NO_SPACE then ''BFSS_NO_SPACE'' else
      if p = BFSS_NO_MEMORY then ''BFSS_NO_MEMORY'' else
      if p = BFSS_TIMEOUT then ''BFSS_TIMEOUT'' else
      if p = BFSS_NOTFOUND then ''BFSS_NOTFOUND'' else
      if p = BFSS_DUPLICATED then ''BFSS_DUPLICATED'' else
      if p = BFSS_COMPLETED then ''BFSS_COMPLETED'' else
      if p = BFSS_INCOMPLETED then ''BFSS_INCOMPLETED'' else
      if p = BFSS_DATA_WRITE_FAILED then ''BFSS_DATA_WRITE_FAILED'' else
      if p = BFSS_DATA_READ_FAILED then ''BFSS_DATA_READ_FAILED'' else
      if p = BFSS_DATA_COMPLETE_FAILED then ''BFSS_DATA_COMPLETE_FAILED'' else
      if p = BFSS_DATA_UNINITED then ''BFSS_DATA_UNINITED'' else
      ''<UNSET>'')"

definition not_valid :: error where
  "not_valid = ''not a valid BFSS_RESULT string''"

definition BFSS_RESULTFromString :: "string \<Rightarrow> BFSS_RESULT \<times> error option" where
  "BFSS_RESULTFromString s =
     (if s = ''BFSS_DATA_READ_INCOMPLETE'' then (BFSS_DATA_READ_INCOMPLETE, None) else
      if s = ''BFSS_DATA_WRITE_INCOMPLETE'' then (BFSS_DATA_WRITE_INCOMPLETE, None) else
      if s = ''BFSS_SUCCESS'' then (BFSS_SUCCESS, None) else
      if s = ''BFSS_UNKNOWN_ERROR'' then (BFSS_UNKNOWN_ERROR, None) else
      if s = ''BFSS_PARAM_ERROR'' then (BFSS_PARAM_ERROR, None) else
      if s = ''BFSS_SCHEME_ERROR'' then (BFSS_SCHEME_ERROR, None) else
      if s = ''BFSS_NO_SPACE'' then (BFSS_NO_SPACE, None) else
      if s = ''BFSS_NO_MEMORY'' then (BFSS_NO_MEMORY, None) else
      if s = ''BFSS_TIMEOUT'' then (BFSS_TIMEOUT, None) else
      if s = ''BFSS_NOTFOUND'' then (BFSS_NOTFOUND, None) else
      if s = ''BFSS_DUPLICATED'' then (BFSS_DUPLICATED, None) else
      if s = ''BFSS_COMPLETED'' then (BFSS_COMPLETED, None) else
      if s = ''BFSS_INCOMPLETED'' then (BFSS_INCOMPLETED, None) else
      if s = ''BFSS_DATA_WRITE_FAILED'' then (BFSS_DATA_WRITE_FAILED, None) else
      if s = ''BFSS_DATA_READ_FAILED'' then (BFSS_DATA_READ_FAILED, None) else
      if s = ''BFSS_DATA_COMPLETE_FAILED'' then (BFSS_DATA_COMPLETE_FAILED, None) else
      if s = ''BFSS_DATA_UNINITED'' then (BFSS_DATA_UNINITED, None) else
      (0, Some not_valid))"

definition MarshalText :: "BFSS_RESULT \<Rightarrow> string \<times> error option" where
  "MarshalText p = (BFSS_RESULT_String p, None)"

text \<open>The receiver keeps its value when there is an error.\<close>

definition UnmarshalText :: "BFSS_RESULT \<Rightarrow> string \<Rightarrow> error option \<times> BFSS_RESULT" where
  "UnmarshalText p text_in =
     (case BFSS_RESULTFromString text_in of (q, Some err) \<Rightarrow> (Some err, p) | (q, None) \<Rightarrow> (None, q))"

text \<open>A value from a database: an \<^verbatim>\<open>int64\<close> or something else.\<close>

datatype db_value = Int64 int | NotInt64 | Nil

definition Scan :: "BFSS_RESULT \<Rightarrow> db_value \<Rightarrow> error option \<times> BFSS_RESULT" where
  "Scan p v = (case v of Int64 n \<Rightarrow> (None, n) | _ \<Rightarrow> (Some ''Scan value is not int64'', p))"

definition Value :: "BFSS_RESULT option \<Rightarrow> db_value \<times> error option" where
  "Value p = (case p of None \<Rightarrow> (Nil, None) | Some q \<Rightarrow> (Int64 q, None))"

section \<open>Lemmas\<close>

definition codes :: "BFSS_RESULT list" where
  "codes =
     [BFSS_DATA_READ_INCOMPLETE, BFSS_DATA_WRITE_INCOMPLETE, BFSS_SUCCESS,
      BFSS_UNKNOWN_ERROR, BFSS_PARAM_ERROR, BFSS_SCHEME_ERROR,
      BFSS_NO_SPACE, BFSS_NO_MEMORY, BFSS_TIMEOUT,
      BFSS_NOTFOUND, BFSS_DUPLICATED, BFSS_COMPLETED,
      BFSS_INCOMPLETED, BFSS_DATA_WRITE_FAILED, BFSS_DATA_READ_FAILED,
      BFSS_DATA_COMPLETE_FAILED, BFSS_DATA_UNINITED]"

text \<open>The names are those of the codes, and no other string is a name.\<close>

lemma String_inj:
  "p \<in> set codes \<Longrightarrow> q \<in> set codes \<Longrightarrow> BFSS_RESULT_String p = BFSS_RESULT_String q \<Longrightarrow> p = q"
  by (simp add: codes_def result_code_defs BFSS_RESULT_String_def split: if_splits)

lemma FromString_Some:
  "BFSS_RESULTFromString s = (q, None) \<Longrightarrow> q \<in> set codes \<and> BFSS_RESULT_String q = s"
  by (simp add: BFSS_RESULTFromString_def result_code_defs codes_def BFSS_RESULT_String_def split: if_splits)

lemma From_String: "\<forall>p \<in> set codes. BFSS_RESULTFromString (BFSS_RESULT_String p) = (p, None)"
  by (simp add: codes_def result_code_defs BFSS_RESULT_String_def BFSS_RESULTFromString_def)

lemma String_unset: "p \<notin> set codes \<Longrightarrow> BFSS_RESULT_String p = ''<UNSET>''"
  by (simp add: codes_def BFSS_RESULT_String_def)

section \<open>Properties\<close>

text \<open>
  Claim C39: a result that is marshalled as text is unmarshalled again exactly when it is one of
  the named codes; any other number is marshalled without an error, and its text is refused,
  the receiver keeping its value.
\<close>

theorem UnmarshalText_MarshalText:
  "UnmarshalText q (fst (MarshalText p)) = (if p \<in> set codes then (None, p) else (Some not_valid, q))"
  by (simp add: UnmarshalText_def MarshalText_def From_String String_unset)
    (simp add: BFSS_RESULTFromString_def)

end
