(* ===== verification/Load_Writer.thy ===== *)
theory Load_Writer
  imports App_Task BFSS_Result
begin

text \<open>
  \<^verbatim>\<open>test/slice.go\<close>, \<^verbatim>\<open>test/create_object.go\<close> (\<^verbatim>\<open>genFileSize\<close>) and the writing half of
  \<^verbatim>\<open>test/write.go\<close>: a routine of the load tester generates files of sample sizes, writes them to the
  storage service in slices and keeps statistics of them.

  What the routine talks to is the record \<open>world\<close>, over one state \<open>'s\<close>: the clock, the random
  source, the UUID generator, the connection to the service, the IPC client. A computation that
  does not return, by a run-time panic or by an endless loop, is \<open>None\<close>.
\<close>

section \<open>The world of a routine\<close>

record 's world =
  now :: "'s \<Rightarrow> int \<times> 's"
  time_text :: "int \<Rightarrow> string"
  rand_bytes :: "nat \<Rightarrow> 's \<Rightarrow> byte list \<times> 's"
  rand_Intn :: "int \<Rightarrow> 's \<Rightarrow> int \<times> 's"
  uuid :: "'s \<Rightarrow> string \<times> 's"
  sha256_hex :: "byte list \<Rightarrow> string"
  new_client :: "'s \<Rightarrow> error option \<times> 's"
  close_client :: "'s \<Rightarrow> 's"
  cl_CreateObject :: "string \<Rightarrow> int \<Rightarrow> int \<Rightarrow> string \<Rightarrow> 's \<Rightarrow> (BFSS_RESULT \<times> error option) \<times> 's"
  cl_Write :: "string \<Rightarrow> int \<Rightarrow> bytes \<Rightarrow> 's \<Rightarrow> (BFSS_RESULT \<times> error option) \<times> 's"
  cl_CompleteObject :: "string \<Rightarrow> 's \<Rightarrow> (BFSS_RESULT \<times> error option) \<times> 's"
  ipc_UpdateProgress :: "int \<Rightarrow> int \<Rightarrow> gofloat \<Rightarrow> 's \<Rightarrow> 's"
  ipc_UpdateStatus :: "Status \<Rightarrow> 's \<Rightarrow> 's"

text \<open>The test of a call, \<^verbatim>\<open>err != nil || r != BFSS_RESULT_BFSS_SUCCESS\<close>.\<close>

definition call_failed :: "BFSS_RESULT \<times> error option \<Rightarrow> bool" where
  "call_failed re \<longleftrightarrow> snd re \<noteq> None \<or> fst re \<noteq> BFSS_SUCCESS"

text \<open>\<^verbatim>\<open>%s\<close> of an error that may be nil.\<close>

definition fmt_error :: "error option \<Rightarrow> string" where
  "fmt_error e = (case e of None \<Rightarrow> ''%!s(<nil>)'' | Some t \<Rightarrow> t)"

definition call_error :: "BFSS_RESULT \<times> error option \<Rightarrow> string \<Rightarrow> error" where
  "call_error re nm = BFSS_RESULT_String (fst re) @ '','' @ fmt_error (snd re) @ '',Name:'' @ nm"

section \<open>Slices\<close>

record sliceCache =
  sc_Data :: "byte list"
  sc_Size :: int

definition newSliceCache :: "int \<Rightarrow> sliceCache option" where
  "newSliceCache sz =
     (let sz = if sz \<le> 0 then 1024 * 1024 else sz
      in if sz < 16 then None else Some \<lparr>sc_Data = replicate (nat sz) 0, sc_Size = sz\<rparr>)"

definition genSliceFileBytes :: "('s, 'm) world_scheme \<Rightarrow> sliceCache \<Rightarrow> 's \<Rightarrow> sliceCache \<times> 's" where
  "genSliceFileBytes w sl s =
     (if sc_Size sl \<le> 0 then (sl, s)
      else case rand_bytes w (length (sc_Data sl)) s of (d, s') \<Rightarrow> (sl\<lparr>sc_Data := d\<rparr>, s'))"

text \<open>\<^verbatim>\<open>Time.Sub\<close>: the difference of two times, saturated at the bounds of \<^verbatim>\<open>int64\<close>.\<close>

definition time_Sub :: "int \<Rightarrow> int \<Rightarrow> duration" where
  "time_Sub t u = max (-9223372036854775808) (min 9223372036854775807 (t - u))"

lemma time_Sub_same [simp]: "time_Sub t t = 0"
  by (simp add: time_Sub_def)

text \<open>Go's \<^verbatim>\<open>copy\<close> into a slice, and the bytes of a string.\<close>

definition copy_into :: "'b list \<Rightarrow> 'b list \<Rightarrow> 'b list" where
  "copy_into dst src = take (length dst) src @ drop (length src) dst"

definition string_bytes :: "string \<Rightarrow> byte list" where
  "string_bytes s = map of_char s"

definition genFileSize :: "('s, 'm) world_scheme \<Rightarrow> strategy \<Rightarrow> 's \<Rightarrow> int \<times> 's" where
  "genFileSize w sm s =
     (let sample = Samples sm in
      if sample = [] then (0, s)
      else if \<exists>v \<in> set sample. v \<le> 0 then (0, s)
      else case rand_Intn w (int (length sample)) s of (f, s') \<Rightarrow> (sample ! nat f, s'))"

section \<open>Writing a file\<close>

text \<open>
  The loop of \<^verbatim>\<open>writeFile\<close>: \<open>acc\<close> is what has been given to the hash. Slicing the data beyond its
  end panics.
\<close>

partial_function (option) writeFile_loop ::
  "('s, 'm) world_scheme \<Rightarrow> FileStats \<Rightarrow> sliceCache \<Rightarrow> int \<Rightarrow> duration \<Rightarrow> byte list \<Rightarrow> 's
     \<Rightarrow> ((BFSS_RESULT \<times> error option) \<times> FileStats \<times> sliceCache \<times> 's) option" where
  "writeFile_loop w fs sl writes writeTime acc s =
     (let remain = i64 (fs_Size fs - writes);
          offset = if remain < sc_Size sl \<and> 0 < remain then remain else sc_Size sl
      in if offset < 0 \<or> int (length (sc_Data sl)) < offset then None
         else let chunk = take (nat offset) (sc_Data sl);
                  (t, s1) = now w s;
                  (re, s2) = cl_Write w (fs_Name fs) writes (Some chunk) s1
              in if call_failed re then Some (re, fs, sl, s2)
                 else let (t', s3) = now w s2;
                          writeTime' = i64 (writeTime + time_Sub t' t);
                          fs' = fs\<lparr>fs_WriteCount := i64 (fs_WriteCount fs + 1)\<rparr>;
                          writes' = i32 (writes + i32 offset)
                      in if i32 (fs_Size fs) \<le> writes'
                         then Some ((BFSS_SUCCESS, None),
                                fs'\<lparr>fs_Hash := sha256_hex w (acc @ chunk), fs_WriteTime := writeTime'\<rparr>,
                                sl, s3)
                         else case genSliceFileBytes w sl s3 of
                                (sl', s4) \<Rightarrow>
                                  writeFile_loop w fs' sl' writes' writeTime' (acc @ chunk) s4)"

definition writeFile ::
  "('s, 'm) world_scheme \<Rightarrow> FileStats \<Rightarrow> sliceCache \<Rightarrow> 's
     \<Rightarrow> ((BFSS_RESULT \<times> error option) \<times> FileStats \<times> sliceCache \<times> 's) option" where
  "writeFile w fs sl s =
     (case genSliceFileBytes w sl s of
        (sl0, s') \<Rightarrow>
          let sl' = sl0\<lparr>sc_Data := copy_into (sc_Data sl0) (string_bytes (fs_Name fs))\<rparr>
          in if length (sc_Data sl') < 16 then None
             else writeFile_loop w (fs\<lparr>fs_Head := Some (take 16 (sc_Data sl'))\<rparr>) sl' 0 0 [] s')"

section \<open>Progress\<close>

definition speed_of :: "PerfStats \<Rightarrow> gofloat" where
  "speed_of stats =
     (if 0 < TotalWriteTime stats
      then float_div 53 (float_of_int 53 (TotalWrites stats)) (Seconds (TotalWriteTime stats))
      else Finite 0)"

definition doneRoutine :: "('s, 'm) world_scheme \<Rightarrow> PerfStats \<Rightarrow> 's \<Rightarrow> 's" where
  "doneRoutine w stats s = ipc_UpdateProgress w (Tag stats) 100 (speed_of stats) s"

definition updateRoutine :: "('s, 'm) world_scheme \<Rightarrow> PerfStats \<Rightarrow> 's \<Rightarrow> 's" where
  "updateRoutine w stats s =
     (let progress = float_div 53 (float_of_int 53 (TotalWrites stats))
                                  (float_of_int 53 (ExpectedWrites stats))
      in ipc_UpdateStatus w Running
           (ipc_UpdateProgress w (Tag stats)
              (int_of_float (float_mul 53 progress (float_of_int 53 100))) (speed_of stats) s))"

section \<open>Writing files until the expected bytes are written\<close>

text \<open>
  The body of the loop of \<^verbatim>\<open>Write\<close> for one file: an error or the new statistics. The slice may be
  nil, whose use panics.
\<close>

definition new_FileStats :: "string \<Rightarrow> int \<Rightarrow> int \<Rightarrow> FileStats" where
  "new_FileStats nm sz t =
     \<lparr>fs_Name = nm, fs_Size = sz, fs_Hash = [], fs_Head = None, fs_HashVerified = [],
      fs_CreateObjectTime = 0, fs_CreateObjectLinkTime = 0, fs_WriteTime = 0,
      fs_CompleteObjectTime = 0, fs_WriteCount = 0, fs_StartAt = t\<rparr>"

definition Write_file ::
  "('s, 'm) world_scheme \<Rightarrow> bool \<Rightarrow> string \<Rightarrow> sliceCache option \<Rightarrow> PerfStats \<Rightarrow> 's
     \<Rightarrow> (error option \<times> PerfStats \<times> sliceCache option \<times> 's) option" where
  "Write_file w is_ipc tag sl stats s =
     (let s0 = if is_ipc then updateRoutine w stats s else s;
          (sz, s1) = genFileSize w (Sample stats) s0;
          (nm, s2) = uuid w s1;
          (t0, s3) = now w s2;
          fs = new_FileStats nm sz t0;
          (t1, s4) = now w s3;
          (re, s5) = cl_CreateObject w nm sz 0 tag s4
      in if call_failed re then Some (Some (call_error re nm), stats, sl, s5)
         else let (t1', s6) = now w s5;
                  fs1 = fs\<lparr>fs_CreateObjectTime := time_Sub t1' t1\<rparr>
              in case Option.bind sl (\<lambda>sl. writeFile w fs1 sl s6) of
                   None \<Rightarrow> None
                 | Some (re, fs2, sl', s7) \<Rightarrow>
                     if call_failed re then Some (Some (call_error re nm), stats, Some sl', s7)
                     else let (t3, s8) = now w s7;
                              (re, s9) = cl_CompleteObject w nm s8
                          in if call_failed re then Some (Some (call_error re nm), stats, Some sl', s9)
                             else let (t3', s10) = now w s9
                                  in Some (None,
                                       Add (fs2\<lparr>fs_CompleteObjectTime := time_Sub t3' t3\<rparr>) stats,
                                       Some sl', s10))"

partial_function (option) Write_loop ::
  "('s, 'm) world_scheme \<Rightarrow> bool \<Rightarrow> string \<Rightarrow> sliceCache option \<Rightarrow> PerfStats \<Rightarrow> 's
     \<Rightarrow> (error option \<times> PerfStats \<times> 's) option" where
  "Write_loop w is_ipc tag sl stats s =
     (if ExpectedWrites stats \<le> TotalWrites stats then Some (None, stats, s)
      else Option.bind (Write_file w is_ipc tag sl stats s) (\<lambda>(err, stats', sl', s').
             case err of
               Some e \<Rightarrow> Some (Some e, stats', s')
             | None \<Rightarrow> Write_loop w is_ipc tag sl' stats' s'))"

text \<open>
  \<^verbatim>\<open>Write\<close>: the connection is closed on success only; the deferred \<^verbatim>\<open>doneRoutine\<close> runs always.
\<close>

definition Write_body ::
  "('s, 'm) world_scheme \<Rightarrow> bool \<Rightarrow> PerfStats \<Rightarrow> 's \<Rightarrow> (error option \<times> PerfStats \<times> 's) option" where
  "Write_body w is_ipc stats s =
     (if ExpectedWrites stats \<le> 0 then Some (Some ''ExpectedWrites must be positive'', stats, s)
      else case new_client w s of
        (Some e, s1) \<Rightarrow> Some (Some e, stats, s1)
      | (None, s1) \<Rightarrow>
          let (t, s2) = now w s1;
              tag = ''[Write]['' @ time_text w t @ '']''
          in (case Write_loop w is_ipc tag (newSliceCache (MaxSlice stats)) stats s2 of
                None \<Rightarrow> None
              | Some (Some e, stats', s3) \<Rightarrow> Some (Some e, stats', s3)
              | Some (None, stats', s3) \<Rightarrow> Some (None, stats', close_client w s3)))"

definition Write ::
  "('s, 'm) world_scheme \<Rightarrow> bool \<Rightarrow> PerfStats \<Rightarrow> 's \<Rightarrow> (error option \<times> PerfStats \<times> 's) option" where
  "Write w is_ipc stats s =
     (case Write_body w is_ipc stats s of
        None \<Rightarrow> None
      | Some (err, stats', s') \<Rightarrow>
          Some (err, stats', if is_ipc then doneRoutine w stats' s' else s'))"

section \<open>Writing a prepared file\<close>

record sliceFile =
  sf_Name :: string
  sf_Offset :: int
  sf_Size :: int
  sf_Hash :: string
  sf_Head :: bytes
  sf_Data :: "byte list"
  sf_CreateObjectTime :: duration

text \<open>The loop of \<^verbatim>\<open>fastWriteFile\<close>; a slice expression out of range panics.\<close>

partial_function (option) fastWriteFile_loop ::
  "('s, 'm) world_scheme \<Rightarrow> FileStats \<Rightarrow> sliceFile \<Rightarrow> int \<Rightarrow> int \<Rightarrow> duration \<Rightarrow> 's
     \<Rightarrow> ((BFSS_RESULT \<times> error option) \<times> FileStats \<times> 's) option" where
  "fastWriteFile_loop w fs sfile len0 writes writeTime s =
     (let remain = i64 (fs_Size fs - writes);
          len = if remain < len0 \<and> 0 < remain then i32 remain else len0;
          hi = i32 (writes + len)
      in if writes < 0 \<or> hi < writes \<or> int (length (sf_Data sfile)) < hi then None
         else let (t, s1) = now w s;
                  (re, s2) = cl_Write w (fs_Name fs) writes
                    (Some (take (nat (hi - writes)) (drop (nat writes) (sf_Data sfile)))) s1
              in if call_failed re then Some (re, fs, s2)
                 else let (t', s3) = now w s2;
                          writeTime' = i64 (writeTime + time_Sub t' t);
                          fs' = fs\<lparr>fs_WriteCount := i64 (fs_WriteCount fs + 1)\<rparr>
                      in if i32 (fs_Size fs) \<le> hi
                         then Some ((BFSS_SUCCESS, None), fs'\<lparr>fs_WriteTime := writeTime'\<rparr>, s3)
                         else fastWriteFile_loop w fs' sfile len hi writeTime' s3)"

definition fastWriteFile ::
  "('s, 'm) world_scheme \<Rightarrow> FileStats \<Rightarrow> sliceFile \<Rightarrow> int \<Rightarrow> 's
     \<Rightarrow> ((BFSS_RESULT \<times> error option) \<times> FileStats \<times> 's) option" where
  "fastWriteFile w fs sfile max_len s = fastWriteFile_loop w fs sfile max_len 0 0 s"

section \<open>What the storage service promises\<close>

text \<open>
  \<open>content s oid\<close> is what the service stores for an object in state \<open>s\<close>. Creating an object that
  succeeds makes an empty object where there was none, a write at the end of an object that
  succeeds appends to it, and nothing else changes the stored data. The random source gives as
  many bytes as it is asked for, and numbers below the bound.
\<close>

definition quiet :: "('s \<Rightarrow> string \<Rightarrow> byte list option) \<Rightarrow> ('s \<Rightarrow> 's) \<Rightarrow> bool" where
  "quiet content f \<longleftrightarrow> (\<forall>s. content (f s) = content s)"

definition local_quiet :: "('s, 'm) world_scheme \<Rightarrow> ('s \<Rightarrow> string \<Rightarrow> byte list option) \<Rightarrow> bool" where
  "local_quiet w content \<longleftrightarrow>
     quiet content (\<lambda>s. snd (now w s)) \<and> (\<forall>n. quiet content (\<lambda>s. snd (rand_bytes w n s)))
     \<and> (\<forall>n. quiet content (\<lambda>s. snd (rand_Intn w n s))) \<and> quiet content (\<lambda>s. snd (uuid w s))
     \<and> quiet content (\<lambda>s. snd (new_client w s)) \<and> quiet content (close_client w)
     \<and> (\<forall>t v x. quiet content (ipc_UpdateProgress w t v x)) \<and> (\<forall>st. quiet content (ipc_UpdateStatus w st))"

definition random_source :: "('s, 'm) world_scheme \<Rightarrow> bool" where
  "random_source w \<longleftrightarrow>
     (\<forall>n s. length (fst (rand_bytes w n s)) = n)
     \<and> (\<forall>n s. 0 < n \<longrightarrow> 0 \<le> fst (rand_Intn w n s) \<and> fst (rand_Intn w n s) < n)"

definition object_store :: "('s, 'm) world_scheme \<Rightarrow> ('s \<Rightarrow> string \<Rightarrow> byte list option) \<Rightarrow> bool" where
  "object_store w content \<longleftrightarrow>
     local_quiet w content \<and> random_source w
     \<and> (\<forall>oid sz flag tag s s'. cl_CreateObject w oid sz flag tag s = ((BFSS_SUCCESS, None), s') \<longrightarrow>
          content s oid = None \<and> content s' = (content s)(oid \<mapsto> []))
     \<and> (\<forall>oid c d s s'. cl_Write w oid (int (length c)) (Some d) s = ((BFSS_SUCCESS, None), s') \<longrightarrow>
          content s oid = Some c \<longrightarrow> content s' = (content s)(oid \<mapsto> c @ d))
     \<and> (\<forall>oid s s'. cl_CompleteObject w oid s = ((BFSS_SUCCESS, None), s') \<longrightarrow> content s' = content s)"

lemma not_call_failed: "\<not> call_failed re \<longleftrightarrow> re = (BFSS_SUCCESS, None)"
  by (cases re) (auto simp: call_failed_def)

lemma call_failed_success [simp]: "\<not> call_failed (BFSS_SUCCESS, None)"
  by (simp add: call_failed_def)

lemma store_quiet:
  assumes "object_store w content"
  shows "now w s = (t, s') \<Longrightarrow> content s' = content s"
    and "rand_bytes w n s = (d, s') \<Longrightarrow> content s' = content s \<and> length d = n"
    and "uuid w s = (nm, s') \<Longrightarrow> content s' = content s"
    and "new_client w s = (err, s') \<Longrightarrow> content s' = content s"
    and "content (close_client w s) = content s"
    and "content (ipc_UpdateProgress w tg v x s) = content s"
    and "content (ipc_UpdateStatus w st s) = content s"
    and "rand_Intn w m s = (k, s') \<Longrightarrow> content s' = content s \<and> (0 < m \<longrightarrow> 0 \<le> k \<and> k < m)"
proof -
  have L: "local_quiet w content" and R: "random_source w"
    using assms by (simp_all add: object_store_def)
  note L = L [unfolded local_quiet_def quiet_def]
  show "content s' = content s" if "now w s = (t, s')" using L that by (metis snd_conv)
  show "content s' = content s \<and> length d = n" if "rand_bytes w n s = (d, s')"
    using L R that unfolding random_source_def by (metis fst_conv snd_conv)
  show "content s' = content s" if "uuid w s = (nm, s')" using L that by (metis snd_conv)
  show "content s' = content s" if "new_client w s = (err, s')" using L that by (metis snd_conv)
  show "content (close_client w s) = content s" using L by blast
  show "content (ipc_UpdateProgress w tg v x s) = content s" using L by blast
  show "content (ipc_UpdateStatus w st s) = content s" using L by blast
  show "content s' = content s \<and> (0 < m \<longrightarrow> 0 \<le> k \<and> k < m)" if "rand_Intn w m s = (k, s')"
    using L R that unfolding random_source_def by (metis fst_conv snd_conv)
qed

lemma store_calls:
  assumes "object_store w content"
  shows "cl_CreateObject w oid sz flag tag s = ((BFSS_SUCCESS, None), s') \<Longrightarrow>
      content s oid = None \<and> content s' = (content s)(oid \<mapsto> [])"
    and "cl_Write w oid off (Some d) s = ((BFSS_SUCCESS, None), s') \<Longrightarrow> content s oid = Some c \<Longrightarrow>
      off = int (length c) \<Longrightarrow> content s' = (content s)(oid \<mapsto> c @ d)"
    and "cl_CompleteObject w oid s = ((BFSS_SUCCESS, None), s') \<Longrightarrow> content s' = content s"
  using assms unfolding object_store_def by blast+

lemma genSliceFileBytes_spec:
  assumes "object_store w content" and "genSliceFileBytes w sl s = (sl', s')"
  shows "content s' = content s \<and> length (sc_Data sl') = length (sc_Data sl) \<and> sc_Size sl' = sc_Size sl"
  using assms store_quiet(2) [OF assms(1)]
  by (auto simp: genSliceFileBytes_def split: if_splits prod.splits)

section \<open>Writing a file is correct\<close>

text \<open>A slice cache as \<^verbatim>\<open>newSliceCache\<close> makes it.\<close>

definition good_slice :: "sliceCache \<Rightarrow> bool" where
  "good_slice sl \<longleftrightarrow> sc_Size sl = int (length (sc_Data sl)) \<and> 16 \<le> sc_Size sl"

text \<open>The number of slices of size \<open>k\<close> that \<open>n\<close> bytes take.\<close>

definition slices :: "int \<Rightarrow> int \<Rightarrow> int" where
  "slices n k = (n + k - 1) div k"

lemma slices_step: "0 < k \<Longrightarrow> slices n k = 1 + slices (n - k) k"
  unfolding slices_def using div_add_self2 [of k "n - 1"] by (simp add: algebra_simps)

lemma slices_last: "0 < n \<Longrightarrow> n \<le> k \<Longrightarrow> slices n k = 1"
  using slices_step [of k n] div_pos_pos_trivial [of "n - 1" k] by (simp add: slices_def)

lemma newSliceCache_good: "newSliceCache n = Some sl \<Longrightarrow> good_slice sl"
  by (auto simp: newSliceCache_def good_slice_def Let_def split: if_splits)

lemma writeFile_loop_spec:
  assumes "object_store w content" and "good_slice sl" and "0 \<le> writes" and "writes < fs_Size fs"
    and "fs_Size fs < 2147483648" and "content s (fs_Name fs) = Some acc" and "int (length acc) = writes"
  shows "\<exists>re fs' sl' s'. writeFile_loop w fs sl writes wt acc s = Some (re, fs', sl', s')
    \<and> length (sc_Data sl') = length (sc_Data sl) \<and> sc_Size sl' = sc_Size sl
    \<and> (\<not> call_failed re \<longrightarrow> (\<exists>d t.
          content s' = (content s)(fs_Name fs \<mapsto> acc @ d) \<and> int (length (acc @ d)) = fs_Size fs
          \<and> take (length (sc_Data sl)) d = take (length d) (sc_Data sl)
          \<and> fs' = fs\<lparr>fs_WriteCount := i64 (fs_WriteCount fs + slices (fs_Size fs - writes) (sc_Size sl)),
              fs_Hash := sha256_hex w (acc @ d), fs_WriteTime := t\<rparr>))"
  using assms(2-7)
proof (induction "nat (fs_Size fs - writes)" arbitrary: fs sl writes wt acc s rule: less_induct)
  case less
  let ?S = "sc_Size sl"
  have S: "?S = int (length (sc_Data sl))" "16 \<le> ?S" using less.prems(1) by (simp_all add: good_slice_def)
  have rem: "i64 (fs_Size fs - writes) = fs_Size fs - writes"
    using less.prems by (intro i64.wrap_id) auto
  define offset where
    "offset = (if fs_Size fs - writes < ?S then fs_Size fs - writes else ?S)"
  have off: "0 < offset" "offset \<le> ?S" "offset \<le> fs_Size fs - writes"
    using less.prems S unfolding offset_def by auto
  define chunk where "chunk = take (nat offset) (sc_Data sl)"
  have lc: "int (length chunk) = offset" using off S by (simp add: chunk_def)
  obtain t s1 where n1: "now w s = (t, s1)" by fastforce
  obtain re s2 where c: "cl_Write w (fs_Name fs) writes (Some chunk) s1 = (re, s2)" by fastforce
  obtain t' s3 where n3: "now w s2 = (t', s3)" by fastforce
  define fs' where "fs' = fs\<lparr>fs_WriteCount := i64 (fs_WriteCount fs + 1)\<rparr>"
  define wt' where "wt' = i64 (wt + time_Sub t' t)"
  obtain sl' s4 where g: "genSliceFileBytes w sl s3 = (sl', s4)" by fastforce
  have w1: "i32 (writes + i32 offset) = writes + offset"
    using less.prems off by (simp add: i32.wrap_id)
  have sz: "i32 (fs_Size fs) = fs_Size fs" using less.prems by (simp add: i32.wrap_id)
  have o: "(if fs_Size fs - writes < ?S \<and> 0 < fs_Size fs - writes then fs_Size fs - writes else ?S)
      = offset" using less.prems by (simp add: offset_def)
  have ok: "(offset < 0 \<or> int (length (sc_Data sl)) < offset) = False" using off S by simp
  have unfold: "writeFile_loop w fs sl writes wt acc s =
    (if call_failed re then Some (re, fs, sl, s2)
     else if fs_Size fs \<le> writes + offset
     then Some ((BFSS_SUCCESS, None),
       fs'\<lparr>fs_Hash := sha256_hex w (acc @ chunk), fs_WriteTime := wt'\<rparr>, sl, s3)
     else writeFile_loop w fs' sl' (writes + offset) wt' (acc @ chunk) s4)"
    by (subst writeFile_loop.simps)
      (simp only: Let_def rem o ok if_False chunk_def [symmetric] n1 c n3 g w1 sz prod.case
        fs'_def [symmetric] wt'_def [symmetric])
  show ?case
  proof (cases "call_failed re")
    case True
    then show ?thesis by (simp add: unfold)
  next
    case False
    then have re: "re = (BFSS_SUCCESS, None)" by (simp add: not_call_failed)
    have c1: "content s1 (fs_Name fs) = Some acc" "content s1 = content s"
      using store_quiet(1) [OF assms(1) n1] less.prems by simp_all
    have "content s2 = (content s1)(fs_Name fs \<mapsto> acc @ chunk)"
      using store_calls(2) [OF assms(1)] c re c1(1) less.prems by simp
    then have c3: "content s3 = (content s)(fs_Name fs \<mapsto> acc @ chunk)"
      using store_quiet(1) [OF assms(1) n3] c1 by simp
    show ?thesis
    proof (cases "fs_Size fs \<le> writes + offset")
      case True
      then have "offset = fs_Size fs - writes" using off by simp
      moreover have "slices (fs_Size fs - writes) ?S = 1"
        using off less.prems calculation by (intro slices_last) auto
      moreover have "take (length (sc_Data sl)) chunk = take (length chunk) (sc_Data sl)"
        using lc off S by (simp add: chunk_def min_def)
      ultimately show ?thesis
        using True False c3 lc less.prems re
        by (auto simp: unfold fs'_def call_failed_def intro!: exI [of _ chunk])
    next
      case nlast: False
      then have oS: "offset = ?S" using off less.prems unfolding offset_def by (auto split: if_splits)
      note sl' = genSliceFileBytes_spec [OF assms(1) g]
      have gs: "good_slice sl'" using sl' less.prems(1) by (simp add: good_slice_def)
      have prems: "0 \<le> writes + offset" "writes + offset < fs_Size fs'" "fs_Size fs' < 2147483648"
          "content s4 (fs_Name fs') = Some (acc @ chunk)" "int (length (acc @ chunk)) = writes + offset"
          "nat (fs_Size fs' - (writes + offset)) < nat (fs_Size fs - writes)"
        using nlast off less.prems lc c3 sl' by (simp_all add: fs'_def)
      from less.hyps [OF prems(6) gs prems(1-5), of wt'] obtain re2 fs2 sl2 s5 where r:
          "writeFile_loop w fs' sl' (writes + offset) wt' (acc @ chunk) s4 = Some (re2, fs2, sl2, s5)"
          "length (sc_Data sl2) = length (sc_Data sl')" "sc_Size sl2 = sc_Size sl'"
          "\<not> call_failed re2 \<longrightarrow> (\<exists>d t. content s5 = (content s4)(fs_Name fs' \<mapsto> (acc @ chunk) @ d)
            \<and> int (length ((acc @ chunk) @ d)) = fs_Size fs'
            \<and> take (length (sc_Data sl')) d = take (length d) (sc_Data sl')
            \<and> fs2 = fs'\<lparr>fs_WriteCount := i64 (fs_WriteCount fs' + slices (fs_Size fs' - (writes + offset)) (sc_Size sl')),
                fs_Hash := sha256_hex w ((acc @ chunk) @ d), fs_WriteTime := t\<rparr>)"
        by (elim exE conjE) (rule that)
      have sc: "slices (fs_Size fs - writes) ?S = 1 + slices (fs_Size fs - (writes + offset)) ?S"
      proof -
        have "0 < ?S" using S(2) by linarith
        moreover have "fs_Size fs - (writes + offset) = fs_Size fs - writes - ?S" using oS by simp
        ultimately show ?thesis using slices_step [of ?S "fs_Size fs - writes"] by metis
      qed
      have tk: "take (length (sc_Data sl)) (chunk @ d) = take (length (chunk @ d)) (sc_Data sl)" for d
        using oS S lc by (simp add: chunk_def)
      have ok2: "\<exists>d t. content s5 = (content s)(fs_Name fs \<mapsto> acc @ d) \<and> int (length (acc @ d)) = fs_Size fs
          \<and> take (length (sc_Data sl)) d = take (length d) (sc_Data sl)
          \<and> fs2 = fs\<lparr>fs_WriteCount := i64 (fs_WriteCount fs + slices (fs_Size fs - writes) ?S),
              fs_Hash := sha256_hex w (acc @ d), fs_WriteTime := t\<rparr>"
        if "\<not> call_failed re2"
      proof -
        from that r(4) obtain d t where d: "content s5 = (content s4)(fs_Name fs' \<mapsto> (acc @ chunk) @ d)"
            "int (length ((acc @ chunk) @ d)) = fs_Size fs'"
            "fs2 = fs'\<lparr>fs_WriteCount := i64 (fs_WriteCount fs' + slices (fs_Size fs' - (writes + offset)) ?S),
                fs_Hash := sha256_hex w ((acc @ chunk) @ d), fs_WriteTime := t\<rparr>"
          using sl' by auto
        have "content s5 = (content s)(fs_Name fs \<mapsto> acc @ (chunk @ d))"
          using d(1) c3 sl' by (simp add: fs'_def)
        moreover have "int (length (acc @ chunk @ d)) = fs_Size fs" using d(2) by (simp add: fs'_def)
        moreover have "fs2 = fs\<lparr>fs_WriteCount := i64 (fs_WriteCount fs + slices (fs_Size fs - writes) ?S),
            fs_Hash := sha256_hex w (acc @ chunk @ d), fs_WriteTime := t\<rparr>"
          using d(3) by (simp add: fs'_def sc wrap_simps add.assoc)
        ultimately show ?thesis using tk by blast
      qed
      have "writeFile_loop w fs sl writes wt acc s = Some (re2, fs2, sl2, s5)"
        using False nlast r(1) by (simp add: unfold)
      then show ?thesis using r(2,3) sl' ok2 by simp
    qed
  qed
qed

text \<open>
  Writing a file whose object is still empty: it returns; when it succeeds, the object holds as
  many bytes as the file has, the hash is that of these bytes, the head is their first sixteen,
  and a call was made for each slice.
\<close>

lemma length_copy_into [simp]: "length (copy_into dst src) = length dst"
  by (simp add: copy_into_def)

lemma writeFile_spec:
  assumes "object_store w content" and "good_slice sl" and "16 \<le> fs_Size fs"
    and "fs_Size fs < 2147483648" and "content s (fs_Name fs) = Some []"
  shows "\<exists>re fs' sl' s'. writeFile w fs sl s = Some (re, fs', sl', s') \<and> good_slice sl'
    \<and> (\<not> call_failed re \<longrightarrow> (\<exists>d t.
          content s' = (content s)(fs_Name fs \<mapsto> d) \<and> int (length d) = fs_Size fs
          \<and> fs' = fs\<lparr>fs_Head := Some (take 16 d),
              fs_WriteCount := i64 (fs_WriteCount fs + slices (fs_Size fs) (sc_Size sl)),
              fs_Hash := sha256_hex w d, fs_WriteTime := t\<rparr>))"
proof -
  obtain sl0 s1 where g: "genSliceFileBytes w sl s = (sl0, s1)" by fastforce
  note gs = genSliceFileBytes_spec [OF assms(1) g]
  define sl1 where "sl1 = sl0\<lparr>sc_Data := copy_into (sc_Data sl0) (string_bytes (fs_Name fs))\<rparr>"
  define fs1 where "fs1 = fs\<lparr>fs_Head := Some (take 16 (sc_Data sl1))\<rparr>"
  have len: "length (sc_Data sl1) = length (sc_Data sl)" "sc_Size sl1 = sc_Size sl"
    using gs by (simp_all add: sl1_def)
  have good: "good_slice sl1" using assms(2) len by (simp add: good_slice_def)
  have l16: "16 \<le> length (sc_Data sl1)" using good by (simp add: good_slice_def)
  have u: "writeFile w fs sl s = writeFile_loop w fs1 sl1 0 0 [] s1"
  proof -
    have "(length (sc_Data sl1) < 16) = False" using l16 by simp
    then show ?thesis
      by (simp only: writeFile_def g Let_def prod.case sl1_def [symmetric] fs1_def [symmetric] if_False)
  qed
  have c: "content s1 (fs_Name fs1) = Some []" "0 < fs_Size fs1" "fs_Size fs1 < 2147483648"
      "int (length []) = 0"
    using gs assms(3-5) by (simp_all add: fs1_def)
  obtain re fs' sl' s' where r:
      "writeFile_loop w fs1 sl1 0 0 [] s1 = Some (re, fs', sl', s')"
      "length (sc_Data sl') = length (sc_Data sl1)" "sc_Size sl' = sc_Size sl1"
      "\<not> call_failed re \<longrightarrow> (\<exists>d t. content s' = (content s1)(fs_Name fs1 \<mapsto> [] @ d)
        \<and> int (length ([] @ d)) = fs_Size fs1
        \<and> take (length (sc_Data sl1)) d = take (length d) (sc_Data sl1)
        \<and> fs' = fs1\<lparr>fs_WriteCount := i64 (fs_WriteCount fs1 + slices (fs_Size fs1 - 0) (sc_Size sl1)),
            fs_Hash := sha256_hex w ([] @ d), fs_WriteTime := t\<rparr>)"
    using writeFile_loop_spec [OF assms(1) good order_refl c(2,3,1,4), of 0] by (elim exE conjE) (rule that)
  have hd: "take 16 (sc_Data sl1) = take 16 d"
    if "take (length (sc_Data sl1)) d = take (length d) (sc_Data sl1)" and "int (length d) = fs_Size fs"
    for d :: "byte list"
  proof -
    have "take 16 (take (length (sc_Data sl1)) d) = take 16 (take (length d) (sc_Data sl1))"
      using that(1) by simp
    then show ?thesis using l16 that(2) assms(3) by (simp add: min_def split: if_splits)
  qed
  have "good_slice sl'" using r(2,3) good by (simp add: good_slice_def)
  then show ?thesis
    using r(1,4) gs len hd unfolding u by (fastforce simp: fs1_def)
qed

section \<open>Writing a prepared file is correct\<close>

text \<open>A service that accepts every write at the end of an object it has.\<close>

definition accepting :: "('s, 'm) world_scheme \<Rightarrow> ('s \<Rightarrow> string \<Rightarrow> byte list option) \<Rightarrow> bool" where
  "accepting w content \<longleftrightarrow>
     (\<forall>s oid c d. content s oid = Some c \<longrightarrow>
        fst (cl_Write w oid (int (length c)) (Some d) s) = (BFSS_SUCCESS, None))"

lemma acceptingD:
  "accepting w content \<Longrightarrow> content s oid = Some c \<Longrightarrow> off = int (length c) \<Longrightarrow>
     fst (cl_Write w oid off (Some d) s) = (BFSS_SUCCESS, None)"
  by (simp add: accepting_def)

lemma fastWriteFile_loop_spec:
  assumes "object_store w content" and "0 < len0" and "len0 < 2147483648" and "0 \<le> writes"
    and "writes < fs_Size fs" and "fs_Size fs = int (length (sf_Data sfile))"
    and "fs_Size fs < 2147483648" and "content s (fs_Name fs) = Some (take (nat writes) (sf_Data sfile))"
  shows "\<exists>re fs' s'. fastWriteFile_loop w fs sfile len0 writes wt s = Some (re, fs', s')
    \<and> (\<not> call_failed re \<longrightarrow> content s' = (content s)(fs_Name fs \<mapsto> sf_Data sfile)
        \<and> (\<exists>n t. fs' = fs\<lparr>fs_WriteCount := n, fs_WriteTime := t\<rparr>))
    \<and> (accepting w content \<longrightarrow> \<not> call_failed re)"
  using assms(2-)
proof (induction "nat (fs_Size fs - writes)" arbitrary: fs len0 writes wt s rule: less_induct)
  case less
  let ?D = "sf_Data sfile"
  have rem: "i64 (fs_Size fs - writes) = fs_Size fs - writes"
    using less.prems by (intro i64.wrap_id) auto
  define len where "len = (if fs_Size fs - writes < len0 then fs_Size fs - writes else len0)"
  have len: "0 < len" "len \<le> fs_Size fs - writes" "len < 2147483648"
    using less.prems unfolding len_def by auto
  have l: "(if fs_Size fs - writes < len0 \<and> 0 < fs_Size fs - writes then i32 (fs_Size fs - writes) else len0)
      = len" using less.prems by (auto simp: len_def i32.wrap_id)
  have hi: "i32 (writes + len) = writes + len" using len less.prems by (intro i32.wrap_id) auto
  have ok: "(writes < 0 \<or> writes + len < writes \<or> int (length ?D) < writes + len) = False"
    using len less.prems by auto
  define chunk where "chunk = take (nat (writes + len - writes)) (drop (nat writes) ?D)"
  have chunk: "take (nat writes) ?D @ chunk = take (nat (writes + len)) ?D"
    using less.prems len by (simp add: chunk_def take_add [symmetric] nat_add_distrib [symmetric])
  obtain t s1 where n1: "now w s = (t, s1)" by fastforce
  obtain re s2 where c: "cl_Write w (fs_Name fs) writes (Some chunk) s1 = (re, s2)" by fastforce
  obtain t' s3 where n3: "now w s2 = (t', s3)" by fastforce
  define fs' where "fs' = fs\<lparr>fs_WriteCount := i64 (fs_WriteCount fs + 1)\<rparr>"
  define wt' where "wt' = i64 (wt + time_Sub t' t)"
  have sz: "i32 (fs_Size fs) = fs_Size fs" using less.prems by (intro i32.wrap_id) auto
  have unfold: "fastWriteFile_loop w fs sfile len0 writes wt s =
    (if call_failed re then Some (re, fs, s2)
     else if fs_Size fs \<le> writes + len then Some ((BFSS_SUCCESS, None), fs'\<lparr>fs_WriteTime := wt'\<rparr>, s3)
     else fastWriteFile_loop w fs' sfile len (writes + len) wt' s3)"
    by (subst fastWriteFile_loop.simps)
      (simp only: Let_def rem l hi ok if_False chunk_def [symmetric] n1 c n3 sz prod.case
        fs'_def [symmetric] wt'_def [symmetric])
  have c1: "content s1 (fs_Name fs) = Some (take (nat writes) ?D)" "content s1 = content s"
    using store_quiet(1) [OF assms(1) n1] less.prems by simp_all
  have at_end: "writes = int (length (take (nat writes) ?D))" using less.prems by simp
  show ?case
  proof (cases "call_failed re")
    case True
    moreover have "\<not> accepting w content"
      using acceptingD [of w content s1 "fs_Name fs"] c c1(1) at_end True by (metis fst_conv not_call_failed)
    ultimately show ?thesis by (simp add: unfold)
  next
    case False
    then have re: "re = (BFSS_SUCCESS, None)" by (simp add: not_call_failed)
    from store_calls(2) [OF assms(1) c [unfolded re] c1(1) at_end]
    have c3: "content s3 = (content s)(fs_Name fs \<mapsto> take (nat (writes + len)) ?D)"
      using store_quiet(1) [OF assms(1) n3] c1 chunk by simp
    show ?thesis
    proof (cases "fs_Size fs \<le> writes + len")
      case True
      then have "take (nat (writes + len)) ?D = ?D" using less.prems by simp
      then show ?thesis using False True c3 by (auto simp: unfold fs'_def)
    next
      case nlast: False
      have prems: "0 \<le> writes + len" "writes + len < fs_Size fs'" "fs_Size fs' = int (length ?D)"
          "fs_Size fs' < 2147483648"
          "content s3 (fs_Name fs') = Some (take (nat (writes + len)) ?D)"
        using nlast len less.prems c3 by (simp_all add: fs'_def)
      have step: "nat (fs_Size fs' - (writes + len)) < nat (fs_Size fs - writes)"
        using nlast len by (simp add: fs'_def)
      obtain re2 fs2 s4 where r: "fastWriteFile_loop w fs' sfile len (writes + len) wt' s3 = Some (re2, fs2, s4)"
          "\<not> call_failed re2 \<longrightarrow> content s4 = (content s3)(fs_Name fs' \<mapsto> ?D)
            \<and> (\<exists>n t. fs2 = fs'\<lparr>fs_WriteCount := n, fs_WriteTime := t\<rparr>)"
          "accepting w content \<longrightarrow> \<not> call_failed re2"
        using less.hyps [OF step len(1,3) prems, of wt'] by (elim exE conjE) (rule that)
      have "fastWriteFile_loop w fs sfile len0 writes wt s = Some (re2, fs2, s4)"
        using False nlast r(1) by (simp add: unfold)
      moreover have "\<exists>n t. fs2 = fs\<lparr>fs_WriteCount := n, fs_WriteTime := t\<rparr>" if "\<not> call_failed re2"
        using r(2) that by (auto simp: fs'_def)
      ultimately show ?thesis using r(2,3) c3 by (simp add: fs'_def)
    qed
  qed
qed

text \<open>With a slice of no bytes the loop makes no headway.\<close>

lemma fastWriteFile_loop_stuck:
  assumes "fastWriteFile_loop w fs sfile len0 writes wt s = Some y"
  shows "len0 = 0 \<longrightarrow> writes = 0 \<longrightarrow> 0 < fs_Size fs \<longrightarrow> fs_Size fs < 2147483648 \<longrightarrow>
    call_failed (fst y)"
proof (rule fastWriteFile_loop.raw_induct [of "\<lambda>w fs sfile len0 writes wt s y. len0 = 0 \<longrightarrow> writes = 0 \<longrightarrow>
    0 < fs_Size fs \<longrightarrow> fs_Size fs < 2147483648 \<longrightarrow> call_failed (fst y)", OF _ assms])
  fix f w fs sfile len0 writes wt s and y :: "(BFSS_RESULT \<times> error option) \<times> FileStats \<times> 's"
  assume IH: "\<And>(w :: ('s, 'm) world_scheme) fs sfile len0 writes wt s y. f w fs sfile len0 writes wt s = Some y \<Longrightarrow>
      len0 = 0 \<longrightarrow> writes = 0 \<longrightarrow> 0 < fs_Size fs \<longrightarrow> fs_Size fs < 2147483648 \<longrightarrow> call_failed (fst y)"
    and eq: "(let remain = i64 (fs_Size fs - writes);
          len = if remain < len0 \<and> 0 < remain then i32 remain else len0;
          hi = i32 (writes + len)
      in if writes < 0 \<or> hi < writes \<or> int (length (sf_Data sfile)) < hi then None
         else let (t, s1) = now w s;
                  (re, s2) = cl_Write w (fs_Name fs) writes
                    (Some (take (nat (hi - writes)) (drop (nat writes) (sf_Data sfile)))) s1
              in if call_failed re then Some (re, fs, s2)
                 else let (t', s3) = now w s2;
                          writeTime' = i64 (wt + time_Sub t' t);
                          fs' = fs\<lparr>fs_WriteCount := i64 (fs_WriteCount fs + 1)\<rparr>
                      in if i32 (fs_Size fs) \<le> hi
                         then Some ((BFSS_SUCCESS, None), fs'\<lparr>fs_WriteTime := writeTime'\<rparr>, s3)
                         else f w fs' sfile len hi writeTime' s3) = Some y"
  show "len0 = 0 \<longrightarrow> writes = 0 \<longrightarrow> 0 < fs_Size fs \<longrightarrow> fs_Size fs < 2147483648 \<longrightarrow> call_failed (fst y)"
  proof (intro impI)
    assume z: "len0 = 0" "writes = 0" and sz: "0 < fs_Size fs" "fs_Size fs < 2147483648"
    then have "i64 (fs_Size fs) = fs_Size fs" "i32 (fs_Size fs) = fs_Size fs"
      by (auto intro!: i64.wrap_id i32.wrap_id)
    then show "call_failed (fst y)"
      using eq z sz
      by (auto simp: Let_def i32.wrap_id split: prod.splits if_splits dest!: IH)
  qed
qed

text \<open>An error of the loop is an error of one of its writes.\<close>

lemma fastWriteFile_loop_no_fail:
  assumes "fastWriteFile_loop w fs sfile len0 writes wt s = Some y"
  shows "(\<forall>oid off d s. fst (cl_Write w oid off d s) = (BFSS_SUCCESS, None)) \<longrightarrow> \<not> call_failed (fst y)"
proof (rule fastWriteFile_loop.raw_induct [of "\<lambda>w fs sfile len0 writes wt s y.
    (\<forall>oid off d s. fst (cl_Write w oid off d s) = (BFSS_SUCCESS, None)) \<longrightarrow> \<not> call_failed (fst y)",
    OF _ assms], intro impI)
  fix f w fs sfile len0 writes wt s and y :: "(BFSS_RESULT \<times> error option) \<times> FileStats \<times> 's"
  assume IH: "\<And>(w :: ('s, 'm) world_scheme) fs sfile len0 writes wt s y. f w fs sfile len0 writes wt s = Some y \<Longrightarrow>
      (\<forall>oid off d s. fst (cl_Write w oid off d s) = (BFSS_SUCCESS, None)) \<longrightarrow> \<not> call_failed (fst y)"
    and eq: "(let remain = i64 (fs_Size fs - writes);
          len = if remain < len0 \<and> 0 < remain then i32 remain else len0;
          hi = i32 (writes + len)
      in if writes < 0 \<or> hi < writes \<or> int (length (sf_Data sfile)) < hi then None
         else let (t, s1) = now w s;
                  (re, s2) = cl_Write w (fs_Name fs) writes
                    (Some (take (nat (hi - writes)) (drop (nat writes) (sf_Data sfile)))) s1
              in if call_failed re then Some (re, fs, s2)
                 else let (t', s3) = now w s2;
                          writeTime' = i64 (wt + time_Sub t' t);
                          fs' = fs\<lparr>fs_WriteCount := i64 (fs_WriteCount fs + 1)\<rparr>
                      in if i32 (fs_Size fs) \<le> hi
                         then Some ((BFSS_SUCCESS, None), fs'\<lparr>fs_WriteTime := writeTime'\<rparr>, s3)
                         else f w fs' sfile len hi writeTime' s3) = Some y"
    and all: "\<forall>oid off d s. fst (cl_Write w oid off d s) = (BFSS_SUCCESS, None)"
  have no: "cl_Write w oid off d s = (re, s') \<Longrightarrow> \<not> call_failed re" for oid off d s re s'
    using all by (metis fst_conv not_call_failed)
  show "\<not> call_failed (fst y)"
    using eq IH all no by (auto simp: Let_def not_call_failed split: prod.splits if_splits)
qed

section \<open>Writing all files is correct\<close>

text \<open>The service stores a file as the statistics record it.\<close>

definition stored :: "('s, 'm) world_scheme \<Rightarrow> (string \<Rightarrow> byte list option) \<Rightarrow> FileStats \<Rightarrow> bool" where
  "stored w c f \<longleftrightarrow>
     (\<exists>d. c (fs_Name f) = Some d \<and> int (length d) = fs_Size f \<and> fs_Hash f = sha256_hex w d
        \<and> fs_Head f = Some (take 16 d))"

lemma genFileSize_spec:
  assumes "object_store w content" and "sm \<noteq> SMax" and "genFileSize w sm s = (sz, s')"
  shows "content s' = content s \<and> 1024 \<le> sz \<and> sz \<le> 2097152000 \<and> sz \<in> set (mapSample sm)"
proof -
  have ne: "mapSample sm \<noteq> []" using mapSample_nonempty [OF assms(2)] .
  have pos: "\<not> (\<exists>v \<in> set (mapSample sm). v \<le> 0)" using mapSample_bounds by fastforce
  obtain k s1 where k: "rand_Intn w (int (length (mapSample sm))) s = (k, s1)" by fastforce
  have "0 \<le> k \<and> k < int (length (mapSample sm))" "content s1 = content s"
    using store_quiet(8) [OF assms(1) k] ne by auto
  then have "mapSample sm ! nat k \<in> set (mapSample sm)" by (intro nth_mem) auto
  then show ?thesis
    using assms(3) ne pos k mapSample_bounds \<open>content s1 = content s\<close>
    by (auto simp: genFileSize_def Samples_def Let_def)
qed

lemma updateRoutine_quiet: "object_store w content \<Longrightarrow> content (updateRoutine w stats s) = content s"
  by (simp add: updateRoutine_def Let_def store_quiet)

lemma doneRoutine_quiet: "object_store w content \<Longrightarrow> content (doneRoutine w stats s) = content s"
  by (simp add: doneRoutine_def store_quiet)

lemma Write_file_spec:
  assumes "object_store w content" and "good_slice sl" and "Sample stats \<noteq> SMax"
  shows "\<exists>err stats' sl' s'. Write_file w is_ipc tag (Some sl) stats s = Some (err, stats', Some sl', s')
    \<and> good_slice sl' \<and> (err \<noteq> None \<longrightarrow> stats' = stats)
    \<and> (err = None \<longrightarrow> (\<exists>f d. stats' = Add f stats \<and> 1024 \<le> fs_Size f \<and> fs_Size f \<le> 2097152000
          \<and> content s (fs_Name f) = None \<and> content s' = (content s)(fs_Name f \<mapsto> d)
          \<and> stored w (content s') f))"
proof -
  define s0 where "s0 = (if is_ipc then updateRoutine w stats s else s)"
  obtain sz s1 where g: "genFileSize w (Sample stats) s0 = (sz, s1)" by fastforce
  obtain nm s2 where u: "uuid w s1 = (nm, s2)" by fastforce
  obtain t0 s3 where n0: "now w s2 = (t0, s3)" by fastforce
  obtain t1 s4 where n1: "now w s3 = (t1, s4)" by fastforce
  obtain re s5 where cr: "cl_CreateObject w nm sz 0 tag s4 = (re, s5)" by fastforce
  obtain t1' s6 where n2: "now w s5 = (t1', s6)" by fastforce
  define fs1 where "fs1 = (new_FileStats nm sz t0)\<lparr>fs_CreateObjectTime := time_Sub t1' t1\<rparr>"
  note genFileSize_spec [OF assms(1,3) g]
  moreover have "content s0 = content s"
    using assms(1) by (simp add: s0_def updateRoutine_quiet)
  ultimately have q: "content s4 = content s" and sz: "1024 \<le> sz" "sz \<le> 2097152000"
    using store_quiet(3) [OF assms(1) u] store_quiet(1) [OF assms(1) n0] store_quiet(1) [OF assms(1) n1]
    by simp_all
  have unfold: "Write_file w is_ipc tag (Some sl) stats s =
    (if call_failed re then Some (Some (call_error re nm), stats, Some sl, s5)
     else case writeFile w fs1 sl s6 of
       None \<Rightarrow> None
     | Some (re, fs2, sl', s7) \<Rightarrow>
         if call_failed re then Some (Some (call_error re nm), stats, Some sl', s7)
         else let (t3, s8) = now w s7; (re, s9) = cl_CompleteObject w nm s8
           in if call_failed re then Some (Some (call_error re nm), stats, Some sl', s9)
              else let (t3', s10) = now w s9
                in Some (None, Add (fs2\<lparr>fs_CompleteObjectTime := time_Sub t3' t3\<rparr>) stats, Some sl', s10))"
    by (simp add: Write_file_def Let_def s0_def [symmetric] g u n0 n1 cr n2 fs1_def [symmetric])
  show ?thesis
  proof (cases "call_failed re")
    case True
    then show ?thesis using assms(2) by (simp add: unfold)
  next
    case False
    then have re: "re = (BFSS_SUCCESS, None)" by (simp add: not_call_failed)
    have new: "content s nm = None" and s6: "content s6 = (content s)(nm \<mapsto> [])"
      using store_calls(1) [OF assms(1) cr [unfolded re]] q store_quiet(1) [OF assms(1) n2] by auto
    have fs1: "fs_Name fs1 = nm" "fs_Size fs1 = sz" by (simp_all add: fs1_def new_FileStats_def)
    have c6: "content s6 (fs_Name fs1) = Some []" using s6 fs1 by simp
    have sz1: "16 \<le> fs_Size fs1" "fs_Size fs1 < 2147483648" using sz fs1 by simp_all
    obtain re2 fs2 sl' s7 where wf: "writeFile w fs1 sl s6 = Some (re2, fs2, sl', s7)" "good_slice sl'"
        "\<not> call_failed re2 \<longrightarrow> (\<exists>d t. content s7 = (content s6)(fs_Name fs1 \<mapsto> d)
          \<and> int (length d) = fs_Size fs1
          \<and> fs2 = fs1\<lparr>fs_Head := Some (take 16 d),
              fs_WriteCount := i64 (fs_WriteCount fs1 + slices (fs_Size fs1) (sc_Size sl)),
              fs_Hash := sha256_hex w d, fs_WriteTime := t\<rparr>)"
      using writeFile_spec [OF assms(1,2) sz1 c6] by (elim exE conjE) (rule that)
    obtain t3 s8 where n3: "now w s7 = (t3, s8)" by fastforce
    obtain re3 s9 where co: "cl_CompleteObject w nm s8 = (re3, s9)" by fastforce
    obtain t3' s10 where n4: "now w s9 = (t3', s10)" by fastforce
    show ?thesis
    proof (cases "call_failed re2 \<or> call_failed re3")
      case True
      then show ?thesis using False wf(1,2) n3 co by (auto simp: unfold)
    next
      case ok: False
      then obtain d t where d: "content s7 = (content s6)(nm \<mapsto> d)" "int (length d) = sz"
          "fs2 = fs1\<lparr>fs_Head := Some (take 16 d),
              fs_WriteCount := i64 (fs_WriteCount fs1 + slices (fs_Size fs1) (sc_Size sl)),
              fs_Hash := sha256_hex w d, fs_WriteTime := t\<rparr>"
        using wf(3) fs1 by auto
      have re3: "re3 = (BFSS_SUCCESS, None)" using ok by (simp add: not_call_failed)
      have "content s10 = content s7"
        using store_quiet(1) [OF assms(1) n3] store_calls(3) [OF assms(1)] co re3
          store_quiet(1) [OF assms(1) n4] by auto
      then have c10: "content s10 = (content s)(nm \<mapsto> d)" using d(1) s6 by simp
      define f where "f = fs2\<lparr>fs_CompleteObjectTime := time_Sub t3' t3\<rparr>"
      have f: "fs_Name f = nm" "fs_Size f = sz" "fs_Hash f = sha256_hex w d" "fs_Head f = Some (take 16 d)"
        using fs1 by (simp_all add: f_def d(3))
      have "Write_file w is_ipc tag (Some sl) stats s = Some (None, Add f stats, Some sl', s10)"
        using False ok wf(1) n3 co n4 by (simp add: unfold f_def)
      moreover have "stored w (content s10) f" using f c10 d(2) by (simp add: stored_def)
      ultimately show ?thesis using wf(2) sz new c10 f by auto
    qed
  qed
qed

text \<open>The files a run has added: their names are new and distinct, all of them are stored, and their
  sizes are within the bounds of the samples.\<close>

definition delivered ::
  "('s, 'm) world_scheme \<Rightarrow> (string \<Rightarrow> byte list option) \<Rightarrow> (string \<Rightarrow> byte list option) \<Rightarrow> FileStats list \<Rightarrow> bool"
where
  "delivered w c c' fs \<longleftrightarrow>
     distinct (map fs_Name fs) \<and> (\<forall>f \<in> set fs. c (fs_Name f) = None \<and> stored w c' f)
     \<and> (\<forall>f \<in> set fs. 1024 \<le> fs_Size f \<and> fs_Size f \<le> 2097152000)
     \<and> (\<forall>n. c n \<noteq> None \<longrightarrow> c' n = c n)"

lemma delivered_Nil: "delivered w c c []"
  by (simp add: delivered_def)

lemma delivered_Cons:
  assumes "c (fs_Name f) = None" and "c1 = c(fs_Name f \<mapsto> d)" and "stored w c1 f"
    and "delivered w c1 c2 fs" and "1024 \<le> fs_Size f" and "fs_Size f \<le> 2097152000"
  shows "delivered w c c2 (f # fs)"
proof -
  have keep: "c2 (fs_Name f) = c1 (fs_Name f)"
    using assms(2,4) by (simp add: delivered_def)
  have "fs_Name f \<notin> fs_Name ` set fs" using assms(2,4) by (auto simp: delivered_def)
  moreover have "stored w c2 f" using assms(3) keep by (simp add: stored_def)
  moreover have "\<forall>g \<in> set fs. c (fs_Name g) = None"
    using assms(2,4) by (auto simp: delivered_def split: if_splits)
  moreover have "\<forall>n. c n \<noteq> None \<longrightarrow> c2 n = c n"
    using assms(1,2,4) by (auto simp: delivered_def)
  ultimately show ?thesis using assms(1,4-6) by (simp add: delivered_def)
qed

lemma Write_loop_spec:
  assumes "object_store w content" and "good_slice sl" and "Sample stats \<noteq> SMax"
    and "0 \<le> TotalWrites stats" and "ExpectedWrites stats + 2097152000 < 9223372036854775808"
    and "TotalWrites stats < ExpectedWrites stats + 2097152000"
  shows "\<exists>err fs s'. Write_loop w is_ipc tag (Some sl) stats s = Some (err, add_files stats fs, s')
    \<and> (err = None \<longrightarrow> ExpectedWrites stats \<le> TotalWrites (add_files stats fs)
        \<and> TotalWrites (add_files stats fs) < ExpectedWrites stats + 2097152000
        \<and> TotalWrites (add_files stats fs) = TotalWrites stats + sum_list (map fs_Size fs)
        \<and> delivered w (content s) (content s') fs)"
  using assms(2-)
proof (induction "nat (ExpectedWrites stats - TotalWrites stats)" arbitrary: sl stats s rule: less_induct)
  case less
  show ?case
  proof (cases "ExpectedWrites stats \<le> TotalWrites stats")
    case True
    then show ?thesis
      using less.prems(5)
      by (subst Write_loop.simps) (auto simp: delivered_Nil intro!: exI [of _ "[]"])
  next
    case False
    obtain err stats' sl' s' where W:
        "Write_file w is_ipc tag (Some sl) stats s = Some (err, stats', Some sl', s')"
        "good_slice sl'" "err \<noteq> None \<longrightarrow> stats' = stats"
        "err = None \<longrightarrow> (\<exists>f d. stats' = Add f stats \<and> 1024 \<le> fs_Size f \<and> fs_Size f \<le> 2097152000
          \<and> content s (fs_Name f) = None \<and> content s' = (content s)(fs_Name f \<mapsto> d)
          \<and> stored w (content s') f)"
      using Write_file_spec [OF assms(1) less.prems(1,2), of is_ipc tag s] by (elim exE conjE) (rule that)
    show ?thesis
    proof (cases err)
      case (Some e)
      then show ?thesis
        using False W(1,3) by (subst Write_loop.simps) (auto intro!: exI [of _ "[]"])
    next
      case None
      then obtain f d where f: "stats' = Add f stats" "1024 \<le> fs_Size f" "fs_Size f \<le> 2097152000"
          "content s (fs_Name f) = None" "content s' = (content s)(fs_Name f \<mapsto> d)"
          "stored w (content s') f"
        using W(4) by auto
      have T: "TotalWrites stats' = TotalWrites stats + fs_Size f"
        using f(1,2,3) less.prems False by (simp add: Add_def i64.wrap_id)
      have E: "ExpectedWrites stats' = ExpectedWrites stats" "Sample stats' = Sample stats"
        using f(1) by (simp_all add: Add_def)
      have step: "nat (ExpectedWrites stats' - TotalWrites stats') < nat (ExpectedWrites stats - TotalWrites stats)"
        using T E f(2) False by simp
      have prems: "Sample stats' \<noteq> SMax" "0 \<le> TotalWrites stats'"
          "ExpectedWrites stats' + 2097152000 < 9223372036854775808"
          "TotalWrites stats' < ExpectedWrites stats' + 2097152000"
        using T E f(2,3) less.prems False by simp_all
      obtain err2 fs s2 where r:
          "Write_loop w is_ipc tag (Some sl') stats' s' = Some (err2, add_files stats' fs, s2)"
          "err2 = None \<longrightarrow> ExpectedWrites stats' \<le> TotalWrites (add_files stats' fs)
            \<and> TotalWrites (add_files stats' fs) < ExpectedWrites stats' + 2097152000
            \<and> TotalWrites (add_files stats' fs) = TotalWrites stats' + sum_list (map fs_Size fs)
            \<and> delivered w (content s') (content s2) fs"
        using less.hyps [OF step W(2) prems, of s'] by (elim exE conjE) (rule that)
      have "add_files stats (f # fs) = add_files stats' fs" using f(1) by (simp add: add_files_def)
      moreover have "Write_loop w is_ipc tag (Some sl) stats s = Some (err2, add_files stats' fs, s2)"
        using False W(1) None r(1) by (subst Write_loop.simps) simp
      moreover have "err2 = None \<Longrightarrow> delivered w (content s) (content s2) (f # fs)"
        using r(2) delivered_Cons [OF f(4,5,6) _ f(2,3)] by simp
      ultimately show ?thesis
        using r(2) T E by (intro exI [of _ err2] exI [of _ "f # fs"] exI [of _ s2]) auto
    qed
  qed
qed

lemma Write_spec:
  assumes "object_store w content" and "Sample stats \<noteq> SMax" and "MaxSlice stats \<notin> {1..15}"
    and "TotalWrites stats = 0" and "ExpectedWrites stats + 2097152000 < 9223372036854775808"
  shows "\<exists>err fs s'. Write w is_ipc stats s = Some (err, add_files stats fs, s')
    \<and> (err = None \<longrightarrow> ExpectedWrites stats \<le> sum_list (map fs_Size fs)
        \<and> sum_list (map fs_Size fs) < ExpectedWrites stats + 2097152000
        \<and> TotalWrites (add_files stats fs) = sum_list (map fs_Size fs)
        \<and> delivered w (content s) (content s') fs)"
proof (cases "ExpectedWrites stats \<le> 0")
  case True
  then show ?thesis by (auto simp: Write_def Write_body_def intro!: exI [of _ "[]"])
next
  case pos: False
  obtain e s1 where c: "new_client w s = (e, s1)" by fastforce
  show ?thesis
  proof (cases e)
    case (Some err)
    then show ?thesis using pos c by (auto simp: Write_def Write_body_def intro!: exI [of _ "[]"])
  next
    case None
    obtain t s2 where n: "now w s1 = (t, s2)" by fastforce
    obtain sl where sl: "newSliceCache (MaxSlice stats) = Some sl"
      using assms(3) by (auto simp: newSliceCache_def Let_def)
    have q: "content s2 = content s"
      using store_quiet(4) [OF assms(1) c] store_quiet(1) [OF assms(1) n] by simp
    have bnd: "0 \<le> TotalWrites stats" "TotalWrites stats < ExpectedWrites stats + 2097152000"
      using assms(4) pos by auto
    define tag where "tag = ''[Write]['' @ time_text w t @ '']''"
    obtain err fs s3 where r: "Write_loop w is_ipc tag (Some sl) stats s2 = Some (err, add_files stats fs, s3)"
        "err = None \<longrightarrow> ExpectedWrites stats \<le> TotalWrites (add_files stats fs)
          \<and> TotalWrites (add_files stats fs) < ExpectedWrites stats + 2097152000
          \<and> TotalWrites (add_files stats fs) = TotalWrites stats + sum_list (map fs_Size fs)
          \<and> delivered w (content s2) (content s3) fs"
      using Write_loop_spec [OF assms(1) newSliceCache_good [OF sl] assms(2) bnd(1) assms(5) bnd(2),
          of is_ipc tag s2] by (elim exE conjE) (rule that)
    show ?thesis
    proof (cases err)
      case (Some e)
      then show ?thesis
        using pos c None n sl r(1) by (auto simp: Write_def Write_body_def tag_def)
    next
      case ok: None
      define s4 where "s4 = (if is_ipc then doneRoutine w (add_files stats fs) (close_client w s3)
        else close_client w s3)"
      have "content s4 = content s3"
        using assms(1) by (simp add: s4_def doneRoutine_quiet store_quiet(5))
      moreover have "Write w is_ipc stats s = Some (None, add_files stats fs, s4)"
        using pos c None n sl r(1) ok by (simp add: Write_def Write_body_def tag_def s4_def)
      ultimately show ?thesis using r(2) ok q assms(4) by auto
    qed
  qed
qed

section \<open>A small world\<close>

text \<open>
  A service that keeps the objects in a map and counts the names it has given out; a clock that
  stands still and a constant random source.
\<close>

type_synonym store = "(string \<Rightarrow> byte list option) \<times> nat"

definition demo_write :: "string \<Rightarrow> int \<Rightarrow> bytes \<Rightarrow> store \<Rightarrow> (BFSS_RESULT \<times> error option) \<times> store" where
  "demo_write oid off d s =
     (case fst s oid of
        None \<Rightarrow> ((BFSS_NOTFOUND, None), s)
      | Some c \<Rightarrow>
          if off = int (length c)
          then ((BFSS_SUCCESS, None),
            ((fst s)(oid \<mapsto> c @ (case d of None \<Rightarrow> [] | Some l \<Rightarrow> l)), snd s))
          else ((BFSS_PARAM_ERROR, None), s))"

definition demo_world :: "store world" where
  "demo_world =
     \<lparr>now = (\<lambda>s. (0, s)), time_text = (\<lambda>t. ''now''), rand_bytes = (\<lambda>n s. (replicate n 7, s)),
      rand_Intn = (\<lambda>n s. (0, s)), uuid = (\<lambda>s. (itoa (int (snd s)), (fst s, Suc (snd s)))),
      sha256_hex = (\<lambda>d. []), new_client = (\<lambda>s. (None, s)), close_client = (\<lambda>s. s),
      cl_CreateObject = (\<lambda>oid sz flag tag s.
        if fst s oid = None then ((BFSS_SUCCESS, None), ((fst s)(oid \<mapsto> []), snd s))
        else ((BFSS_DUPLICATED, None), s)),
      cl_Write = demo_write, cl_CompleteObject = (\<lambda>oid s. ((BFSS_SUCCESS, None), s)),
      ipc_UpdateProgress = (\<lambda>t v x s. s), ipc_UpdateStatus = (\<lambda>st s. s)\<rparr>"

lemma demo_store: "object_store demo_world fst"
proof -
  have "local_quiet demo_world fst" by (simp add: local_quiet_def quiet_def demo_world_def)
  moreover have "random_source demo_world" by (simp add: random_source_def demo_world_def)
  ultimately show ?thesis
    unfolding object_store_def
    by (intro conjI; (assumption | (auto simp: demo_world_def demo_write_def result_code_defs
      split: option.splits if_splits)))
qed

section \<open>Properties\<close>

text \<open>
  Claim C6: with a service that stores what it is sent, a writing routine always returns (no panic,
  no endless loop, whatever the calls answer). When it returns without an error, it has written
  at least the expected bytes and less than one file of the largest sample more; every file it
  has added to its statistics is a new object of its own, which the service stores with exactly
  the size, the hash and the head that the statistics record; and no object that was there before
  has changed.
\<close>

theorem Write_delivers:
  assumes "object_store w content" and "Sample stats \<noteq> SMax" and "MaxSlice stats \<notin> {1..15}"
    and "TotalWrites stats = 0" and "ExpectedWrites stats + 2097152000 < 9223372036854775808"
  shows "\<exists>err fs s'. Write w is_ipc stats s = Some (err, add_files stats fs, s')
    \<and> (err = None \<longrightarrow> ExpectedWrites stats \<le> sum_list (map fs_Size fs)
        \<and> sum_list (map fs_Size fs) < ExpectedWrites stats + 2097152000
        \<and> TotalWrites (add_files stats fs) = sum_list (map fs_Size fs)
        \<and> delivered w (content s) (content s') fs)"
  using assms by (rule Write_spec)

theorem Write_delivers_witness:
  "\<exists>err fs s'. Write demo_world True (zero_PerfStats\<lparr>ExpectedWrites := 5000\<rparr>) (Map.empty, 0)
     = Some (err, add_files (zero_PerfStats\<lparr>ExpectedWrites := 5000\<rparr>) fs, s')"
proof -
  let ?s = "zero_PerfStats\<lparr>ExpectedWrites := 5000\<rparr>"
  have "Sample ?s \<noteq> SMax" "MaxSlice ?s \<notin> {1..15}" "TotalWrites ?s = 0"
    "ExpectedWrites ?s + 2097152000 < 9223372036854775808"
    by (simp_all add: zero_PerfStats_def)
  from Write_delivers [OF demo_store this, of True "(Map.empty, 0)"] show ?thesis by blast
qed

text \<open>
  A slice size of 1 to 15 bytes makes the writer crash: as soon as the first object is
  created, the nil slice is used and \<^verbatim>\<open>Write\<close> does not return.
\<close>

theorem Write_small_slice:
  assumes "MaxSlice stats \<in> {1..15}" and "0 < ExpectedWrites stats"
    and "TotalWrites stats < ExpectedWrites stats" and "fst (new_client w s) = None"
    and "\<forall>oid sz flag tag s. fst (cl_CreateObject w oid sz flag tag s) = (BFSS_SUCCESS, None)"
  shows "Write w is_ipc stats s = None"
proof -
  have nil: "newSliceCache (MaxSlice stats) = None"
    using assms(1) by (auto simp: newSliceCache_def)
  have "Write_file w is_ipc tag None stats s = None" for tag s
    using assms(5) by (simp add: Write_file_def Let_def case_prod_beta call_failed_def)
  then have "Write_loop w is_ipc tag None stats s = None" for tag s
    using assms(3) by (subst Write_loop.simps) simp
  then show ?thesis
    using assms(2,4) nil by (auto simp: Write_def Write_body_def Let_def split: prod.splits option.splits)
qed

definition demo_create :: "nat world" where
  "demo_create =
     \<lparr>now = (\<lambda>s. (0, s)), time_text = (\<lambda>t. ''now''), rand_bytes = (\<lambda>n s. (replicate n 7, s)),
      rand_Intn = (\<lambda>n s. (0, s)), uuid = (\<lambda>s. (itoa (int s), Suc s)),
      sha256_hex = (\<lambda>d. []), new_client = (\<lambda>s. (None, s)), close_client = (\<lambda>s. s),
      cl_CreateObject = (\<lambda>oid sz flag tag s. ((BFSS_SUCCESS, None), s)),
      cl_Write = (\<lambda>oid off d s. ((BFSS_SUCCESS, None), s)),
      cl_CompleteObject = (\<lambda>oid s. ((BFSS_SUCCESS, None), s)),
      ipc_UpdateProgress = (\<lambda>t v x s. s), ipc_UpdateStatus = (\<lambda>st s. s)\<rparr>"

theorem Write_small_slice_witness:
  "Write demo_create False (zero_PerfStats\<lparr>ExpectedWrites := 1, MaxSlice := 8\<rparr>) 0 = None"
  by (rule Write_small_slice) (simp_all add: zero_PerfStats_def demo_create_def)

text \<open>
  Claim C36: writing a prepared file with a positive slice size returns, and when it succeeds the
  new object holds exactly the data of the file, and only the number of writes and the time are
  recorded; and it does succeed when the service accepts every write at the end of an object.
\<close>

theorem fastWriteFile_stores:
  assumes "object_store w content" and "0 < max_len" and "max_len < 2147483648"
    and "0 < fs_Size fs" and "fs_Size fs = int (length (sf_Data sfile))"
    and "fs_Size fs < 2147483648" and "content s (fs_Name fs) = Some []"
  shows "\<exists>re fs' s'. fastWriteFile w fs sfile max_len s = Some (re, fs', s')
    \<and> (\<not> call_failed re \<longrightarrow> content s' = (content s)(fs_Name fs \<mapsto> sf_Data sfile)
        \<and> (\<exists>n t. fs' = fs\<lparr>fs_WriteCount := n, fs_WriteTime := t\<rparr>))
    \<and> (accepting w content \<longrightarrow> \<not> call_failed re)"
  unfolding fastWriteFile_def
  using assms by (intro fastWriteFile_loop_spec) simp_all

definition demo_sfile :: sliceFile where
  "demo_sfile = \<lparr>sf_Name = ''a'', sf_Offset = 0, sf_Size = 3, sf_Hash = [], sf_Head = None,
     sf_Data = [1, 2, 3], sf_CreateObjectTime = 0\<rparr>"

theorem fastWriteFile_stores_witness:
  "\<exists>re fs' s'. fastWriteFile demo_world (new_FileStats ''a'' 3 0) demo_sfile 2
     (Map.empty(''a'' \<mapsto> []), 0) = Some (re, fs', s')"
  using fastWriteFile_stores [OF demo_store, of 2 "new_FileStats ''a'' 3 0" demo_sfile
      "(Map.empty(''a'' \<mapsto> []), 0)"]
  by (auto simp: new_FileStats_def demo_sfile_def)

text \<open>
  Claim C37: with a slice size of zero, which \<^verbatim>\<open>validateParams\<close> accepts, writing a prepared file
  never returns while the service accepts the empty writes.
\<close>

theorem fastWriteFile_zero_slice:
  assumes "0 < fs_Size fs" and "fs_Size fs < 2147483648"
    and "\<forall>oid off d s. fst (cl_Write w oid off d s) = (BFSS_SUCCESS, None)"
  shows "fastWriteFile w fs sfile 0 s = None"
proof (rule ccontr)
  assume "fastWriteFile w fs sfile 0 s \<noteq> None"
  then obtain re fs' s' where y: "fastWriteFile_loop w fs sfile 0 0 0 s = Some (re, fs', s')"
    by (auto simp: fastWriteFile_def)
  have "call_failed re" using fastWriteFile_loop_stuck [OF y] assms(1,2) by simp
  moreover have "\<not> call_failed re"
    using fastWriteFile_loop_no_fail [OF y] assms(3) by simp
  ultimately show False by blast
qed

theorem fastWriteFile_zero_slice_witness:
  "fastWriteFile demo_create (new_FileStats ''a'' 3 0) demo_sfile 0 0 = None"
  by (rule fastWriteFile_zero_slice) (simp_all add: new_FileStats_def demo_create_def)

end
