(* ===== verification/Thrift_Protocol.thy ===== *)
theory Thrift_Protocol
  imports Go_Prelude
begin

text \<open>
  The code that the Thrift compiler generates into \<^verbatim>\<open>bfss_web/BFSS_API/bfss_api.go\<close> has one shape
  for every struct: a \<^verbatim>\<open>Read\<close> that loops over the fields of a stream until the stop field,
  dispatching on the field id and skipping what it does not know, and a \<^verbatim>\<open>Write\<close> that writes the
  fields in order. This theory holds that shape; \<open>BFSS_API_Types\<close> applies it to the structs.

  The Thrift library itself is not part of the repository. It is a parameter, the record \<open>tlib\<close>
  of the functions the generated code calls, over a protocol state \<open>'p\<close> and an error type \<open>'e\<close>.
  What the code relies on is the hypothesis \<open>protocol_laws\<close>: a protocol carries the tokens that
  are written to it and gives them back in order.
\<close>

section \<open>The library\<close>

datatype ttype = STOP | BOOL | I32 | I64 | STRING | STRUCT | LIST | OTHER int

datatype mtype = CALL | REPLY | EXCEPTION | ONEWAY

record ('p, 'e) tlib =
  WriteStructBegin :: "string \<Rightarrow> 'p \<Rightarrow> 'e option \<times> 'p"
  WriteStructEnd :: "'p \<Rightarrow> 'e option \<times> 'p"
  WriteFieldBegin :: "string \<Rightarrow> ttype \<Rightarrow> int \<Rightarrow> 'p \<Rightarrow> 'e option \<times> 'p"
  WriteFieldEnd :: "'p \<Rightarrow> 'e option \<times> 'p"
  WriteFieldStop :: "'p \<Rightarrow> 'e option \<times> 'p"
  WriteListBegin :: "ttype \<Rightarrow> int \<Rightarrow> 'p \<Rightarrow> 'e option \<times> 'p"
  WriteListEnd :: "'p \<Rightarrow> 'e option \<times> 'p"
  WriteBool :: "bool \<Rightarrow> 'p \<Rightarrow> 'e option \<times> 'p"
  WriteI32 :: "int \<Rightarrow> 'p \<Rightarrow> 'e option \<times> 'p"
  WriteI64 :: "int \<Rightarrow> 'p \<Rightarrow> 'e option \<times> 'p"
  WriteString :: "string \<Rightarrow> 'p \<Rightarrow> 'e option \<times> 'p"
  WriteBinary :: "bytes \<Rightarrow> 'p \<Rightarrow> 'e option \<times> 'p"
  ReadStructBegin :: "'p \<Rightarrow> ('e + string) \<times> 'p"
  ReadStructEnd :: "'p \<Rightarrow> 'e option \<times> 'p"
  ReadFieldBegin :: "'p \<Rightarrow> ('e option \<times> ttype \<times> int) \<times> 'p"
  ReadFieldEnd :: "'p \<Rightarrow> 'e option \<times> 'p"
  ReadListBegin :: "'p \<Rightarrow> ('e + ttype \<times> int) \<times> 'p"
  ReadListEnd :: "'p \<Rightarrow> 'e option \<times> 'p"
  ReadBool :: "'p \<Rightarrow> ('e + bool) \<times> 'p"
  ReadI32 :: "'p \<Rightarrow> ('e + int) \<times> 'p"
  ReadI64 :: "'p \<Rightarrow> ('e + int) \<times> 'p"
  ReadString :: "'p \<Rightarrow> ('e + string) \<times> 'p"
  ReadBinary :: "'p \<Rightarrow> ('e + bytes) \<times> 'p"
  Skip :: "ttype \<Rightarrow> 'p \<Rightarrow> 'e option \<times> 'p"
  PrependError :: "string \<Rightarrow> 'e \<Rightarrow> 'e"
  InvalidData :: "string \<Rightarrow> 'e"

section \<open>Writing\<close>

text \<open>
  A sequence of \<^verbatim>\<open>if err := step; err != nil { return err }\<close>; a step whose error is returned with
  a prefix; the code of a \<^verbatim>\<open>writeField\<close> and of a \<^verbatim>\<open>Write\<close>. The struct to write is behind a pointer,
  which may be nil.
\<close>

fun run_steps :: "('p \<Rightarrow> 'e option \<times> 'p) list \<Rightarrow> 'p \<Rightarrow> 'e option \<times> 'p" where
  "run_steps [] p = (None, p)"
| "run_steps (f # fs) p = (case f p of (Some e, p') \<Rightarrow> (Some e, p') | (None, p') \<Rightarrow> run_steps fs p')"

definition prepend ::
  "('p, 'e) tlib \<Rightarrow> string \<Rightarrow> ('p \<Rightarrow> 'e option \<times> 'p) \<Rightarrow> 'p \<Rightarrow> 'e option \<times> 'p" where
  "prepend L msg f p =
     (case f p of (Some e, p') \<Rightarrow> (Some (PrependError L msg e), p') | (None, p') \<Rightarrow> (None, p'))"

definition write_field ::
  "('p, 'e) tlib \<Rightarrow> string \<Rightarrow> string \<Rightarrow> ttype \<Rightarrow> int \<Rightarrow> ('p \<Rightarrow> 'e option \<times> 'p) \<Rightarrow> 'p \<Rightarrow> 'e option \<times> 'p"
where
  "write_field L T name ty fid body =
     run_steps
       [prepend L (T @ '' write field begin error '' @ itoa fid @ '':'' @ name @ '': '')
          (WriteFieldBegin L name ty fid),
        body,
        prepend L (T @ '' write field end error '' @ itoa fid @ '':'' @ name @ '': '')
          (WriteFieldEnd L)]"

definition write_scalar ::
  "('p, 'e) tlib \<Rightarrow> string \<Rightarrow> string \<Rightarrow> ttype \<Rightarrow> int \<Rightarrow> ('p \<Rightarrow> 'e option \<times> 'p) \<Rightarrow> 'p \<Rightarrow> 'e option \<times> 'p"
where
  "write_scalar L T name ty fid write =
     write_field L T name ty fid
       (prepend L (T @ ''.'' @ name @ '' ('' @ itoa fid @ '') field write error: '') write)"

definition write_nested ::
  "('p, 'e) tlib \<Rightarrow> string \<Rightarrow> string \<Rightarrow> int \<Rightarrow> string \<Rightarrow> ('p \<Rightarrow> 'e option \<times> 'p) \<Rightarrow> 'p \<Rightarrow> 'e option \<times> 'p"
where
  "write_nested L T name fid Tsub write =
     write_field L T name STRUCT fid (prepend L (Tsub @ '' error writing struct: '') write)"

text \<open>The guard \<^verbatim>\<open>if p.IsSetX()\<close> of an optional field.\<close>

definition if_set :: "'v option \<Rightarrow> ('v \<Rightarrow> 'p \<Rightarrow> 'e option \<times> 'p) \<Rightarrow> 'p \<Rightarrow> 'e option \<times> 'p" where
  "if_set v f = (case v of None \<Rightarrow> (\<lambda>p. (None, p)) | Some x \<Rightarrow> f x)"

text \<open>A list of structs behind pointers; its length is an \<^verbatim>\<open>int\<close>.\<close>

definition write_list ::
  "('p, 'e) tlib \<Rightarrow> string \<Rightarrow> ('b option \<Rightarrow> 'p \<Rightarrow> 'e option \<times> 'p) \<Rightarrow> 'b option list \<Rightarrow> 'p
     \<Rightarrow> 'e option \<times> 'p" where
  "write_list L Tsub write xs =
     run_steps
       [prepend L ''error writing list begin: '' (WriteListBegin L STRUCT (int (length xs))),
        run_steps (map (\<lambda>v. prepend L (Tsub @ '' error writing struct: '') (write v)) xs),
        prepend L ''error writing list end: '' (WriteListEnd L)]"

definition write_struct ::
  "('p, 'e) tlib \<Rightarrow> string \<Rightarrow> string \<Rightarrow> ('a \<Rightarrow> ('p \<Rightarrow> 'e option \<times> 'p) list) \<Rightarrow> 'a option \<Rightarrow> 'p
     \<Rightarrow> 'e option \<times> 'p" where
  "write_struct L T name steps ptr =
     run_steps
       ([prepend L (T @ '' write struct begin error: '') (WriteStructBegin L name)]
        @ (case ptr of None \<Rightarrow> [] | Some a \<Rightarrow> steps a)
        @ [prepend L ''write field stop error: '' (WriteFieldStop L),
           prepend L ''write struct stop error: '' (WriteStructEnd L)])"

section \<open>Reading\<close>

text \<open>
  A reader of a field works on the struct read so far; \<open>None\<close> is a computation that does not
  return (an endless stream of fields, a run-time panic). A row of the \<^verbatim>\<open>switch\<close> over the field ids
  has the id, the type it insists on and the reader.
\<close>

type_synonym ('a, 'p, 'e) reader = "'a \<Rightarrow> 'p \<Rightarrow> ('e option \<times> 'a \<times> 'p) option"

record ('a, 'p, 'e) row =
  row_id :: int
  row_type :: ttype
  row_read :: "('a, 'p, 'e) reader"

definition read_scalar ::
  "('p, 'e) tlib \<Rightarrow> int \<Rightarrow> ('p \<Rightarrow> ('e + 'v) \<times> 'p) \<Rightarrow> ('v \<Rightarrow> 'a \<Rightarrow> 'a) \<Rightarrow> ('a, 'p, 'e) reader" where
  "read_scalar L fid rd set_v a p =
     (case rd p of
        (Inl e, p') \<Rightarrow> Some (Some (PrependError L (''error reading field '' @ itoa fid @ '': '') e), a, p')
      | (Inr v, p') \<Rightarrow> Some (None, set_v v a, p'))"

text \<open>The new struct is stored in the field before it is read, and stays there on an error.\<close>

definition read_nested ::
  "('p, 'e) tlib \<Rightarrow> string \<Rightarrow> ('p \<Rightarrow> ('e option \<times> 'b \<times> 'p) option) \<Rightarrow> ('b \<Rightarrow> 'a \<Rightarrow> 'a)
     \<Rightarrow> ('a, 'p, 'e) reader" where
  "read_nested L Tsub rd set_v a p =
     (case rd p of
        None \<Rightarrow> None
      | Some (Some e, b, p') \<Rightarrow>
          Some (Some (PrependError L (Tsub @ '' error reading struct: '') e), set_v b a, p')
      | Some (None, b, p') \<Rightarrow> Some (None, set_v b a, p'))"

text \<open>
  A list of structs: the slice is made with the announced capacity, which panics when that is
  negative, and filled element by element.
\<close>

fun read_elems ::
  "('p, 'e) tlib \<Rightarrow> string \<Rightarrow> ('p \<Rightarrow> ('e option \<times> 'b \<times> 'p) option) \<Rightarrow> nat \<Rightarrow> 'b option list \<Rightarrow> 'p
     \<Rightarrow> ('e option \<times> 'b option list \<times> 'p) option" where
  "read_elems L Tsub rd 0 acc p = Some (None, acc, p)"
| "read_elems L Tsub rd (Suc n) acc p =
     (case rd p of
        None \<Rightarrow> None
      | Some (Some e, b, p') \<Rightarrow>
          Some (Some (PrependError L (Tsub @ '' error reading struct: '') e), acc, p')
      | Some (None, b, p') \<Rightarrow> read_elems L Tsub rd n (acc @ [Some b]) p')"

definition read_list ::
  "('p, 'e) tlib \<Rightarrow> string \<Rightarrow> ('p \<Rightarrow> ('e option \<times> 'b \<times> 'p) option)
     \<Rightarrow> ('b option list \<Rightarrow> 'a \<Rightarrow> 'a) \<Rightarrow> ('a, 'p, 'e) reader" where
  "read_list L Tsub rd set_v a p =
     (case ReadListBegin L p of
        (Inl e, p1) \<Rightarrow> Some (Some (PrependError L ''error reading list begin: '' e), a, p1)
      | (Inr (ty, n), p1) \<Rightarrow>
          if n < 0 then None
          else (case read_elems L Tsub rd (nat n) [] p1 of
                  None \<Rightarrow> None
                | Some (Some e, xs, p2) \<Rightarrow> Some (Some e, set_v xs a, p2)
                | Some (None, xs, p2) \<Rightarrow>
                    (case ReadListEnd L p2 of
                       (Some e, p3) \<Rightarrow>
                         Some (Some (PrependError L ''error reading list end: '' e), set_v xs a, p3)
                     | (None, p3) \<Rightarrow> Some (None, set_v xs a, p3))))"

definition field_case ::
  "('p, 'e) tlib \<Rightarrow> ('a, 'p, 'e) row list \<Rightarrow> ttype \<Rightarrow> int \<Rightarrow> 'a \<Rightarrow> int list \<Rightarrow> 'p
     \<Rightarrow> ('e option \<times> 'a \<times> int list \<times> 'p) option" where
  "field_case L rows ty fid a isset p =
     (case find (\<lambda>r. row_id r = fid) rows of
        None \<Rightarrow> (case Skip L ty p of (err, p') \<Rightarrow> Some (err, a, isset, p'))
      | Some r \<Rightarrow>
          if ty = row_type r
          then (case row_read r a p of
                  None \<Rightarrow> None
                | Some (Some e, a', p') \<Rightarrow> Some (Some e, a', isset, p')
                | Some (None, a', p') \<Rightarrow> Some (None, a', isset @ [fid], p'))
          else (case Skip L ty p of (err, p') \<Rightarrow> Some (err, a, isset, p')))"

text \<open>The endless \<^verbatim>\<open>for\<close>; the flags \<^verbatim>\<open>isset\<close> are the ids of the fields read so far.\<close>

partial_function (option) fields_loop ::
  "('p, 'e) tlib \<Rightarrow> string \<Rightarrow> ('a, 'p, 'e) row list \<Rightarrow> 'a \<Rightarrow> int list \<Rightarrow> 'p
     \<Rightarrow> ('e option \<times> 'a \<times> int list \<times> 'p) option" where
  "fields_loop L T rows a isset p =
     (case ReadFieldBegin L p of
        ((err, ty, fid), p1) \<Rightarrow>
          (case err of
             Some e \<Rightarrow>
               Some (Some (PrependError L (T @ '' field '' @ itoa fid @ '' read error: '') e), a, isset, p1)
           | None \<Rightarrow>
               if ty = STOP then Some (None, a, isset, p1)
               else Option.bind (field_case L rows ty fid a isset p1) (\<lambda>(err, a', isset', p2).
                 case err of
                   Some e \<Rightarrow> Some (Some e, a', isset', p2)
                 | None \<Rightarrow>
                     (case ReadFieldEnd L p2 of
                        (err, p3) \<Rightarrow>
                          (case err of Some e \<Rightarrow> Some (Some e, a', isset', p3)
                           | None \<Rightarrow> fields_loop L T rows a' isset' p3)))))"

definition check_required ::
  "('p, 'e) tlib \<Rightarrow> (int \<times> string) list \<Rightarrow> int list \<Rightarrow> 'e option" where
  "check_required L req isset =
     map_option (\<lambda>(i, n). InvalidData L (''Required field '' @ n @ '' is not set''))
       (find (\<lambda>(i, n). i \<notin> set isset) req)"

definition read_struct ::
  "('p, 'e) tlib \<Rightarrow> string \<Rightarrow> ('a, 'p, 'e) row list \<Rightarrow> (int \<times> string) list \<Rightarrow> ('a, 'p, 'e) reader" where
  "read_struct L T rows req a p =
     (case ReadStructBegin L p of
        (Inl e, p1) \<Rightarrow> Some (Some (PrependError L (T @ '' read error: '') e), a, p1)
      | (Inr n, p1) \<Rightarrow>
          (case fields_loop L T rows a [] p1 of
             None \<Rightarrow> None
           | Some (Some e, a', isset, p2) \<Rightarrow> Some (Some e, a', p2)
           | Some (None, a', isset, p2) \<Rightarrow>
               (case ReadStructEnd L p2 of
                  (Some e, p3) \<Rightarrow>
                    Some (Some (PrependError L (T @ '' read struct end error: '') e), a', p3)
                | (None, p3) \<Rightarrow> Some (check_required L req isset, a', p3))))"

section \<open>What a protocol promises\<close>

text \<open>
  The tokens of a stream. A string and a binary value have the same field type. The names that a
  writer gives for structs and fields need not reach the reader.
\<close>

datatype tok =
    TBegin string | TEnd | TField string ttype int | TFieldEnd | TStop
  | TBool bool | TI32 int | TI64 int | TString string | TBinary "byte list"
  | TList ttype int | TListEnd | TMsg string mtype int | TMsgEnd

fun tok_type :: "tok \<Rightarrow> ttype option" where
  "tok_type (TBool b) = Some BOOL"
| "tok_type (TI32 v) = Some I32"
| "tok_type (TI64 v) = Some I64"
| "tok_type (TString s) = Some STRING"
| "tok_type (TBinary b) = Some STRING"
| "tok_type _ = None"

text \<open>
  A wire over the states of a protocol: the state after a token is written, the tokens written
  so far, the state after a token is consumed, the tokens still to be read.
\<close>

record 'p wire =
  put :: "tok \<Rightarrow> 'p \<Rightarrow> 'p"
  sent :: "'p \<Rightarrow> tok list"
  adv :: "'p \<Rightarrow> 'p"
  recv :: "'p \<Rightarrow> tok list"

definition bytes_of :: "bytes \<Rightarrow> byte list" where
  "bytes_of b = (case b of None \<Rightarrow> [] | Some l \<Rightarrow> l)"

definition wire_laws :: "'p wire \<Rightarrow> bool" where
  "wire_laws w \<longleftrightarrow>
     (\<forall>t p. sent w (put w t p) = sent w p @ [t]) \<and> (\<forall>p. recv w (adv w p) = tl (recv w p))"

definition write_laws :: "('p, 'e) tlib \<Rightarrow> 'p wire \<Rightarrow> bool" where
  "write_laws L w \<longleftrightarrow>
     (\<forall>n p. WriteStructBegin L n p = (None, put w (TBegin n) p))
     \<and> (\<forall>p. WriteStructEnd L p = (None, put w TEnd p))
     \<and> (\<forall>n ty i p. WriteFieldBegin L n ty i p = (None, put w (TField n ty i) p))
     \<and> (\<forall>p. WriteFieldEnd L p = (None, put w TFieldEnd p))
     \<and> (\<forall>p. WriteFieldStop L p = (None, put w TStop p))
     \<and> (\<forall>ty n p. WriteListBegin L ty n p = (None, put w (TList ty n) p))
     \<and> (\<forall>p. WriteListEnd L p = (None, put w TListEnd p))
     \<and> (\<forall>b p. WriteBool L b p = (None, put w (TBool b) p))
     \<and> (\<forall>v p. WriteI32 L v p = (None, put w (TI32 v) p))
     \<and> (\<forall>v p. WriteI64 L v p = (None, put w (TI64 v) p))
     \<and> (\<forall>s p. WriteString L s p = (None, put w (TString s) p))
     \<and> (\<forall>b p. WriteBinary L b p = (None, put w (TBinary (bytes_of b)) p))"

definition read_laws :: "('p, 'e) tlib \<Rightarrow> 'p wire \<Rightarrow> bool" where
  "read_laws L w \<longleftrightarrow>
     (\<forall>n ts p. recv w p = TBegin n # ts \<longrightarrow> (\<exists>m. ReadStructBegin L p = (Inr m, adv w p)))
     \<and> (\<forall>ts p. recv w p = TEnd # ts \<longrightarrow> ReadStructEnd L p = (None, adv w p))
     \<and> (\<forall>n ty i ts p. recv w p = TField n ty i # ts \<longrightarrow> ReadFieldBegin L p = ((None, ty, i), adv w p))
     \<and> (\<forall>ts p. recv w p = TStop # ts \<longrightarrow> (\<exists>i. ReadFieldBegin L p = ((None, STOP, i), adv w p)))
     \<and> (\<forall>ts p. recv w p = TFieldEnd # ts \<longrightarrow> ReadFieldEnd L p = (None, adv w p))
     \<and> (\<forall>ty n ts p. recv w p = TList ty n # ts \<longrightarrow> ReadListBegin L p = (Inr (ty, n), adv w p))
     \<and> (\<forall>ts p. recv w p = TListEnd # ts \<longrightarrow> ReadListEnd L p = (None, adv w p))
     \<and> (\<forall>b ts p. recv w p = TBool b # ts \<longrightarrow> ReadBool L p = (Inr b, adv w p))
     \<and> (\<forall>v ts p. recv w p = TI32 v # ts \<longrightarrow> ReadI32 L p = (Inr v, adv w p))
     \<and> (\<forall>v ts p. recv w p = TI64 v # ts \<longrightarrow> ReadI64 L p = (Inr v, adv w p))
     \<and> (\<forall>s ts p. recv w p = TString s # ts \<longrightarrow> ReadString L p = (Inr s, adv w p))
     \<and> (\<forall>b ts p. recv w p = TBinary b # ts \<longrightarrow> ReadBinary L p = (Inr (Some b), adv w p))
     \<and> (\<forall>t ty ts p. recv w p = t # ts \<longrightarrow> tok_type t = Some ty \<longrightarrow> Skip L ty p = (None, adv w p))"

definition protocol_laws :: "('p, 'e) tlib \<Rightarrow> 'p wire \<Rightarrow> bool" where
  "protocol_laws L w \<longleftrightarrow> wire_laws w \<and> write_laws L w \<and> read_laws L w"

section \<open>Encodings\<close>

definition enc_field :: "string \<Rightarrow> ttype \<Rightarrow> int \<Rightarrow> tok list \<Rightarrow> tok list" where
  "enc_field n ty i ts = TField n ty i # ts @ [TFieldEnd]"

text \<open>
  A field of an encoding: its tokens, unless it is absent, and what reading it does to the struct.
\<close>

record 'a fld =
  fld_name :: string
  fld_type :: ttype
  fld_id :: int
  fld_toks :: "tok list option"
  fld_set :: "'a \<Rightarrow> 'a"

definition enc_fld :: "'a fld \<Rightarrow> tok list" where
  "enc_fld f =
     (case fld_toks f of None \<Rightarrow> [] | Some ts \<Rightarrow> enc_field (fld_name f) (fld_type f) (fld_id f) ts)"

definition set_fld :: "'a \<Rightarrow> 'a fld \<Rightarrow> 'a" where
  "set_fld a f = (if fld_toks f = None then a else fld_set f a)"

definition present :: "'a fld list \<Rightarrow> int list" where
  "present fs = map fld_id (filter (\<lambda>f. fld_toks f \<noteq> None) fs)"

definition enc_list :: "('b \<Rightarrow> tok list) \<Rightarrow> 'b list \<Rightarrow> tok list" where
  "enc_list enc xs = TList STRUCT (int (length xs)) # concat (map enc xs) @ [TListEnd]"

definition enc_struct :: "string \<Rightarrow> tok list list \<Rightarrow> tok list" where
  "enc_struct n tss = TBegin n # concat tss @ [TStop, TEnd]"

text \<open>A writer that writes just the given tokens; a reader that consumes them and gives a result.\<close>

definition writes :: "'p wire \<Rightarrow> ('p \<Rightarrow> 'e option \<times> 'p) \<Rightarrow> tok list \<Rightarrow> bool" where
  "writes w f ts \<longleftrightarrow> (\<forall>p. f p = (None, fold (put w) ts p))"

definition reads :: "'p wire \<Rightarrow> ('p \<Rightarrow> ('e option \<times> 'a \<times> 'p) option) \<Rightarrow> tok list \<Rightarrow> 'a \<Rightarrow> bool" where
  "reads w rd ts a \<longleftrightarrow>
     (\<forall>p rest. recv w p = ts @ rest \<longrightarrow> (\<exists>p'. rd p = Some (None, a, p') \<and> recv w p' = rest))"

section \<open>Facts on writers\<close>

named_theorems writes_intros \<open>what a writer writes\<close>

lemma writes_ops [writes_intros]:
  assumes "protocol_laws L w"
  shows "writes w (WriteStructBegin L n) [TBegin n]" and "writes w (WriteStructEnd L) [TEnd]"
    and "writes w (WriteFieldBegin L n ty i) [TField n ty i]"
    and "writes w (WriteFieldEnd L) [TFieldEnd]" and "writes w (WriteFieldStop L) [TStop]"
    and "writes w (WriteListBegin L ty k) [TList ty k]" and "writes w (WriteListEnd L) [TListEnd]"
    and "writes w (WriteBool L b) [TBool b]" and "writes w (WriteI32 L v) [TI32 v]"
    and "writes w (WriteI64 L v) [TI64 v]" and "writes w (WriteString L s) [TString s]"
    and "writes w (WriteBinary L bs) [TBinary (bytes_of bs)]"
  using assms by (simp_all add: protocol_laws_def write_laws_def writes_def)

lemma writes_some [writes_intros]:
  "protocol_laws L w \<Longrightarrow> writes w (WriteBinary L (Some b)) [TBinary b]"
  using writes_ops(12) [of L w "Some b"] by (simp add: bytes_of_def)

lemma writes_prepend [writes_intros]: "writes w f ts \<Longrightarrow> writes w (prepend L m f) ts"
  by (simp add: writes_def prepend_def)

lemma writes_run_steps [writes_intros]:
  "list_all2 (writes w) fs tss \<Longrightarrow> writes w (run_steps fs) (concat tss)"
  by (induction rule: list_all2_induct) (simp_all add: writes_def fold_append)

lemma writes_field [writes_intros]:
  assumes "protocol_laws L w" and "writes w body ts"
  shows "writes w (write_field L T n ty i body) (enc_field n ty i ts)"
proof -
  have "writes w (write_field L T n ty i body) (concat [[TField n ty i], ts, [TFieldEnd]])"
    unfolding write_field_def
    by (intro writes_run_steps list_all2_Cons [THEN iffD2] conjI list_all2_Nil [THEN iffD2]
        writes_prepend writes_ops assms) simp
  then show ?thesis by (simp add: enc_field_def)
qed

lemma writes_scalar [writes_intros]:
  "protocol_laws L w \<Longrightarrow> writes w f ts \<Longrightarrow>
     writes w (write_scalar L T n ty i f) (enc_field n ty i ts)"
  unfolding write_scalar_def by (intro writes_intros)

lemma writes_fld [writes_intros]:
  "writes w f (enc_field n ty i ts) \<Longrightarrow>
     writes w f (enc_fld \<lparr>fld_name = n, fld_type = ty, fld_id = i, fld_toks = Some ts, fld_set = g\<rparr>)"
  by (simp add: enc_fld_def)

lemma writes_if_set [writes_intros]:
  assumes "\<And>x. v = Some x \<Longrightarrow> writes w (f x) (enc_field n ty i (h x))"
  shows "writes w (if_set v f) (enc_fld
    \<lparr>fld_name = n, fld_type = ty, fld_id = i, fld_toks = map_option h v, fld_set = g\<rparr>)"
  using assms by (cases v) (simp_all add: if_set_def enc_fld_def writes_def)

lemma writes_nested [writes_intros]:
  "protocol_laws L w \<Longrightarrow> writes w f ts \<Longrightarrow>
     writes w (write_nested L T n i Tsub f) (enc_field n STRUCT i ts)"
  unfolding write_nested_def by (intro writes_intros)

lemma writes_list [writes_intros]:
  assumes "protocol_laws L w" and "\<And>x. x \<in> set xs \<Longrightarrow> writes w (write x) (enc x)"
  shows "writes w (write_list L Tsub write xs) (enc_list enc xs)"
proof -
  have "list_all2 (writes w)
      (map (\<lambda>v. prepend L (Tsub @ '' error writing struct: '') (write v)) xs) (map enc xs)"
    using assms(2) by (auto simp: list_all2_conv_all_nth intro!: writes_prepend)
  then have "writes w (write_list L Tsub write xs)
      (concat [[TList STRUCT (int (length xs))], concat (map enc xs), [TListEnd]])"
    unfolding write_list_def
    by (intro writes_run_steps list_all2_Cons [THEN iffD2] conjI list_all2_Nil [THEN iffD2]
        writes_prepend writes_ops assms) simp_all
  then show ?thesis by (simp add: enc_list_def)
qed

lemma writes_struct:
  assumes "protocol_laws L w" and "list_all2 (writes w) (steps a) tss"
  shows "writes w (write_struct L T n steps (Some a)) (enc_struct n tss)"
proof -
  have "writes w (write_struct L T n steps (Some a)) (concat ([[TBegin n]] @ tss @ [[TStop], [TEnd]]))"
    unfolding write_struct_def option.case
    by (intro writes_run_steps list_all2_appendI assms(2) list_all2_Cons [THEN iffD2] conjI
        list_all2_Nil [THEN iffD2] writes_prepend writes_ops assms(1)) simp_all
  then show ?thesis by (simp add: enc_struct_def)
qed

text \<open>A nil pointer is written as a struct without fields.\<close>

lemma writes_struct_nil:
  "protocol_laws L w \<Longrightarrow> writes w (write_struct L T n steps None) (enc_struct n [])"
  using writes_struct [where steps = "\<lambda>_. []" and a = "()" and tss = "[]"]
  by (simp add: write_struct_def)

lemma sent_fold: "protocol_laws L w \<Longrightarrow> sent w (fold (put w) ts p) = sent w p @ ts"
  by (induction ts arbitrary: p) (simp_all add: protocol_laws_def wire_laws_def)

section \<open>Facts on readers\<close>

named_theorems reads_intros \<open>what a reader reads\<close>

lemma recv_adv: "protocol_laws L w \<Longrightarrow> recv w p = t # ts \<Longrightarrow> recv w (adv w p) = ts"
  by (simp add: protocol_laws_def wire_laws_def)

lemma read_ops:
  assumes "protocol_laws L w"
  shows "recv w p = TEnd # ts \<Longrightarrow> ReadStructEnd L p = (None, adv w p)"
    and "recv w p = TField n ty i # ts \<Longrightarrow> ReadFieldBegin L p = ((None, ty, i), adv w p)"
    and "recv w p = TFieldEnd # ts \<Longrightarrow> ReadFieldEnd L p = (None, adv w p)"
    and "recv w p = TList ty k # ts \<Longrightarrow> ReadListBegin L p = (Inr (ty, k), adv w p)"
    and "recv w p = TListEnd # ts \<Longrightarrow> ReadListEnd L p = (None, adv w p)"
    and "recv w p = TBool b # ts \<Longrightarrow> ReadBool L p = (Inr b, adv w p)"
    and "recv w p = TI32 v # ts \<Longrightarrow> ReadI32 L p = (Inr v, adv w p)"
    and "recv w p = TI64 v # ts \<Longrightarrow> ReadI64 L p = (Inr v, adv w p)"
    and "recv w p = TString s # ts \<Longrightarrow> ReadString L p = (Inr s, adv w p)"
    and "recv w p = TBinary bs # ts \<Longrightarrow> ReadBinary L p = (Inr (Some bs), adv w p)"
    and "recv w p = t # ts \<Longrightarrow> tok_type t = Some ty \<Longrightarrow> Skip L ty p = (None, adv w p)"
  using assms by (simp_all add: protocol_laws_def read_laws_def)

lemma read_begin:
  "protocol_laws L w \<Longrightarrow> recv w p = TBegin n # ts \<Longrightarrow> \<exists>m. ReadStructBegin L p = (Inr m, adv w p)"
  by (simp add: protocol_laws_def read_laws_def)

lemma read_stop:
  "protocol_laws L w \<Longrightarrow> recv w p = TStop # ts \<Longrightarrow>
     \<exists>i. ReadFieldBegin L p = ((None, STOP, i), adv w p)"
  by (simp add: protocol_laws_def read_laws_def)

lemma reads_scalar [reads_intros]:
  assumes "protocol_laws L w"
  shows "reads w (read_scalar L i (ReadBool L) (set_b) a) [TBool b] (set_b b a)"
    and "reads w (read_scalar L i (ReadI32 L) (set_i) a) [TI32 v] (set_i v a)"
    and "reads w (read_scalar L i (ReadI64 L) (set_i) a) [TI64 v] (set_i v a)"
    and "reads w (read_scalar L i (ReadString L) (set_s) a) [TString s] (set_s s a)"
    and "reads w (read_scalar L i (ReadBinary L) (set_bs) a) [TBinary bs] (set_bs (Some bs) a)"
  using assms by (auto simp: reads_def read_scalar_def read_ops [OF assms] intro: recv_adv)

lemma reads_nested [reads_intros]:
  "reads w rd ts b \<Longrightarrow> reads w (read_nested L Tsub rd set_v a) ts (set_v b a)"
  unfolding reads_def read_nested_def by fastforce

lemma reads_elems:
  assumes "\<And>x. x \<in> set xs \<Longrightarrow> reads w rd (enc x) (nf x)"
    and "recv w p = concat (map enc xs) @ rest"
  shows "\<exists>p'. read_elems L Tsub rd (length xs) acc p = Some (None, acc @ map (Some \<circ> nf) xs, p')
    \<and> recv w p' = rest"
  using assms
proof (induction xs arbitrary: acc p)
  case (Cons x xs)
  obtain p1 where p1: "rd p = Some (None, nf x, p1)" "recv w p1 = concat (map enc xs) @ rest"
    using Cons.prems(1) [of x] Cons.prems(2) by (fastforce simp: reads_def)
  then show ?case
    using Cons.IH [of p1 "acc @ [Some (nf x)]"] Cons.prems(1) by auto
qed simp

lemma reads_list:
  assumes "protocol_laws L w" and "\<And>x. x \<in> set xs \<Longrightarrow> reads w rd (enc x) (nf x)"
  shows "reads w (read_list L Tsub rd set_v a) (enc_list enc xs) (set_v (map (Some \<circ> nf) xs) a)"
  unfolding reads_def
proof (intro allI impI)
  fix p rest assume r: "recv w p = enc_list enc xs @ rest"
  then have r1: "recv w (adv w p) = concat (map enc xs) @ TListEnd # rest"
    using recv_adv [OF assms(1)] by (simp add: enc_list_def)
  obtain p2 where p2: "recv w p2 = TListEnd # rest"
      "read_elems L Tsub rd (length xs) [] (adv w p) = Some (None, map (Some \<circ> nf) xs, p2)"
    using reads_elems [OF assms(2) r1, of L Tsub "[]"] by auto
  have "ReadListBegin L p = (Inr (STRUCT, int (length xs)), adv w p)"
    using r by (intro read_ops(4) [OF assms(1)]) (simp add: enc_list_def)
  then show "\<exists>p'. read_list L Tsub rd set_v a p = Some (None, set_v (map (Some \<circ> nf) xs) a, p')
      \<and> recv w p' = rest"
    using p2 read_ops(5) [OF assms(1) p2(1)] recv_adv [OF assms(1) p2(1)]
    by (simp add: read_list_def)
qed

lemma reads_list_elems [reads_intros]:
  assumes "protocol_laws L w" and "\<And>x. x \<in> set xs \<Longrightarrow> reads w rd (enc (the x)) (nf (the x))"
    and "set_v (map (Some \<circ> (nf \<circ> the)) xs) a = a'"
  shows "reads w (read_list L Tsub rd set_v a) (enc_list (enc \<circ> the) xs) a'"
proof -
  have "reads w (read_list L Tsub rd set_v a) (enc_list (enc \<circ> the) xs)
      (set_v (map (Some \<circ> (nf \<circ> the)) xs) a)"
    using assms(2) by (intro reads_list [OF assms(1)]) simp
  then show ?thesis using assms(3) by simp
qed

text \<open>What the loop over the fields reads: the struct, and the ids it has seen.\<close>

definition loop_reads ::
  "('p, 'e) tlib \<Rightarrow> 'p wire \<Rightarrow> string \<Rightarrow> ('a, 'p, 'e) row list \<Rightarrow> 'a \<Rightarrow> int list \<Rightarrow> tok list
     \<Rightarrow> 'a \<Rightarrow> int list \<Rightarrow> bool" where
  "loop_reads L w T rows a isset ts a' isset' \<longleftrightarrow>
     (\<forall>p rest. recv w p = ts @ rest \<longrightarrow>
        (\<exists>p'. fields_loop L T rows a isset p = Some (None, a', isset', p') \<and> recv w p' = rest))"

lemma loop_reads_stop:
  assumes "protocol_laws L w"
  shows "loop_reads L w T rows a isset [TStop] a isset"
  unfolding loop_reads_def
proof (intro allI impI)
  fix p rest assume r: "recv w p = [TStop] @ rest"
  then obtain i where "ReadFieldBegin L p = ((None, STOP, i), adv w p)"
    using read_stop [OF assms] by auto
  then show "\<exists>p'. fields_loop L T rows a isset p = Some (None, a, isset, p') \<and> recv w p' = rest"
    using r recv_adv [OF assms] by (subst fields_loop.simps) simp
qed

text \<open>One turn of the loop, whatever the row for the field, if any, does with it.\<close>

lemma loop_reads_turn:
  assumes "protocol_laws L w" and "ty \<noteq> STOP"
    and "\<And>p rest. recv w p = ts @ rest \<Longrightarrow>
      \<exists>p'. field_case L rows ty i a isset p = Some (None, a1, isset1, p') \<and> recv w p' = rest"
    and "loop_reads L w T rows a1 isset1 us a' isset'"
  shows "loop_reads L w T rows a isset (enc_field n ty i ts @ us) a' isset'"
  unfolding loop_reads_def
proof (intro allI impI)
  fix p rest assume "recv w p = (enc_field n ty i ts @ us) @ rest"
  then have r: "recv w p = TField n ty i # ts @ TFieldEnd # us @ rest" by (simp add: enc_field_def)
  obtain p2 where p2: "field_case L rows ty i a isset (adv w p) = Some (None, a1, isset1, p2)"
      "recv w p2 = TFieldEnd # us @ rest"
    using assms(3) [OF recv_adv [OF assms(1) r]] by blast
  have "recv w (adv w p2) = us @ rest" using recv_adv [OF assms(1) p2(2)] .
  then obtain p' where
      "fields_loop L T rows a1 isset1 (adv w p2) = Some (None, a', isset', p')" "recv w p' = rest"
    using assms(4) by (auto simp: loop_reads_def)
  then show "\<exists>p'. fields_loop L T rows a isset p = Some (None, a', isset', p') \<and> recv w p' = rest"
    using assms(2) p2(1) read_ops(2) [OF assms(1) r] read_ops(3) [OF assms(1) p2(2)]
    by (subst fields_loop.simps) simp
qed

lemma loop_reads_field:
  assumes "protocol_laws L w" and "find (\<lambda>r. row_id r = i) rows = Some r" and "row_type r = ty"
    and "ty \<noteq> STOP" and "reads w (row_read r a) ts a1"
    and "loop_reads L w T rows a1 (isset @ [i]) us a' isset'"
  shows "loop_reads L w T rows a isset (enc_field n ty i ts @ us) a' isset'"
proof (rule loop_reads_turn [OF assms(1,4) _ assms(6)])
  fix p rest assume "recv w p = ts @ rest"
  then show "\<exists>p'. field_case L rows ty i a isset p = Some (None, a1, isset @ [i], p')
      \<and> recv w p' = rest"
    using assms(2,3,5) by (fastforce simp: reads_def field_case_def)
qed

text \<open>A field that the struct does not know, or knows with another type, is skipped.\<close>

lemma loop_reads_skip:
  assumes "protocol_laws L w" and "tok_type t = Some ty"
    and "\<And>r. find (\<lambda>r. row_id r = i) rows = Some r \<Longrightarrow> row_type r \<noteq> ty"
    and "loop_reads L w T rows a isset us a' isset'"
  shows "loop_reads L w T rows a isset (enc_field n ty i [t] @ us) a' isset'"
proof (rule loop_reads_turn [OF assms(1) _ _ assms(4)])
  show "ty \<noteq> STOP" using assms(2) by (cases t) auto
next
  fix p rest assume r: "recv w p = [t] @ rest"
  then have r': "recv w p = t # rest" by simp
  have "Skip L ty p = (None, adv w p)" "recv w (adv w p) = rest"
    using read_ops(11) [OF assms(1) r' assms(2)] recv_adv [OF assms(1) r'] by auto
  then show "\<exists>p'. field_case L rows ty i a isset p = Some (None, a, isset, p') \<and> recv w p' = rest"
    using assms(3) by (auto simp: field_case_def split: option.split)
qed

lemma read_struct_loop:
  assumes "protocol_laws L w" and "loop_reads L w T rows a [] (concat tss @ [TStop]) a' isset"
    and "recv w p = enc_struct n tss @ rest"
  shows "\<exists>p'. read_struct L T rows req a p = Some (check_required L req isset, a', p')
    \<and> recv w p' = rest"
proof -
  have r: "recv w p = TBegin n # (concat tss @ [TStop]) @ TEnd # rest"
    using assms(3) by (simp add: enc_struct_def)
  obtain m where m: "ReadStructBegin L p = (Inr m, adv w p)" using read_begin [OF assms(1) r] by blast
  obtain p2 where p2: "fields_loop L T rows a [] (adv w p) = Some (None, a', isset, p2)"
      "recv w p2 = TEnd # rest"
    using assms(2) recv_adv [OF assms(1) r] unfolding loop_reads_def by blast
  show ?thesis
    using m p2 read_ops(1) [OF assms(1) p2(2)] recv_adv [OF assms(1) p2(2)]
    by (simp add: read_struct_def)
qed

lemma reads_struct:
  assumes "protocol_laws L w" and "loop_reads L w T rows a [] (concat tss @ [TStop]) a' isset"
    and "check_required L req isset = None"
  shows "reads w (read_struct L T rows req a) (enc_struct n tss) a'"
  unfolding reads_def using read_struct_loop [OF assms(1,2), of _ n _ req] assms(3) by auto

text \<open>
  A field is read as specified: by its row, or, when the struct has no row for it, not at all.
\<close>

definition fld_ok :: "'p wire \<Rightarrow> ('a, 'p, 'e) row list \<Rightarrow> 'a fld \<Rightarrow> bool" where
  "fld_ok w rows f \<longleftrightarrow>
     (case fld_toks f of
        None \<Rightarrow> True
      | Some ts \<Rightarrow>
          (case find (\<lambda>r. row_id r = fld_id f) rows of
             None \<Rightarrow> (\<exists>t. ts = [t] \<and> tok_type t = Some (fld_type f)) \<and> (\<forall>a. fld_set f a = a)
           | Some r \<Rightarrow> row_type r = fld_type f \<and> fld_type f \<noteq> STOP
               \<and> (\<forall>a. reads w (row_read r a) ts (fld_set f a))))"

lemma loop_reads_fields:
  assumes "protocol_laws L w" and "\<forall>f \<in> set fs. fld_ok w rows f"
  shows "\<exists>isset'. loop_reads L w T rows a isset (concat (map enc_fld fs) @ [TStop])
           (foldl set_fld a fs) isset'
         \<and> set isset \<subseteq> set isset'
         \<and> (\<forall>i. i \<in> set (present fs) \<longrightarrow> find (\<lambda>r. row_id r = i) rows \<noteq> None \<longrightarrow> i \<in> set isset')
         \<and> set isset' \<subseteq> set isset \<union> set (present fs)"
  using assms(2)
proof (induction fs arbitrary: a isset)
  case Nil
  then show ?case
    using loop_reads_stop [OF assms(1)] by (intro exI [of _ isset]) (simp add: present_def)
next
  case (Cons f fs)
  show ?case
  proof (cases "fld_toks f")
    case None
    then show ?thesis
      using Cons.IH [of a isset] Cons.prems by (simp add: enc_fld_def set_fld_def present_def)
  next
    case (Some ts)
    have ok: "fld_ok w rows f" using Cons.prems by simp
    define a1 where "a1 = fld_set f a"
    have e: "enc_fld f = enc_field (fld_name f) (fld_type f) (fld_id f) ts" "set_fld a f = a1"
      using Some by (simp_all add: enc_fld_def set_fld_def a1_def)
    show ?thesis
    proof (cases "find (\<lambda>r. row_id r = fld_id f) rows")
      case None
      then obtain t where t: "ts = [t]" "tok_type t = Some (fld_type f)" and a: "fld_set f a = a"
        using ok Some by (auto simp: fld_ok_def)
      obtain isset' where "loop_reads L w T rows a isset (concat (map enc_fld fs) @ [TStop])
            (foldl set_fld a fs) isset'" "set isset \<subseteq> set isset'"
          "\<forall>i. i \<in> set (present fs) \<longrightarrow> find (\<lambda>r. row_id r = i) rows \<noteq> None \<longrightarrow> i \<in> set isset'"
          "set isset' \<subseteq> set isset \<union> set (present fs)"
        using Cons.IH [of a isset] Cons.prems by auto
      then show ?thesis
        using loop_reads_skip [OF assms(1) t(2), where i = "fld_id f" and rows = rows] None Some t a
        by (intro exI [of _ isset']) (auto simp: e a1_def present_def)
    next
      case (Some r)
      obtain isset' where isset': "loop_reads L w T rows a1 (isset @ [fld_id f])
            (concat (map enc_fld fs) @ [TStop]) (foldl set_fld a1 fs) isset'"
          "set (isset @ [fld_id f]) \<subseteq> set isset'"
          "\<forall>i. i \<in> set (present fs) \<longrightarrow> find (\<lambda>r. row_id r = i) rows \<noteq> None \<longrightarrow> i \<in> set isset'"
          "set isset' \<subseteq> set (isset @ [fld_id f]) \<union> set (present fs)"
        using Cons.IH [of a1 "isset @ [fld_id f]"] Cons.prems by auto
      moreover have "row_type r = fld_type f" "fld_type f \<noteq> STOP" "reads w (row_read r a) ts a1"
        using ok Some \<open>fld_toks f = Some ts\<close> by (auto simp: fld_ok_def a1_def)
      ultimately have "loop_reads L w T rows a isset (concat (map enc_fld (f # fs)) @ [TStop])
          (foldl set_fld a (f # fs)) isset'"
        using loop_reads_field [OF assms(1) Some] by (simp add: e)
      then show ?thesis
        using isset' \<open>fld_toks f = Some ts\<close> by (intro exI [of _ isset']) (auto simp: present_def)
    qed
  qed
qed

lemma reads_fields:
  assumes "protocol_laws L w" and "\<forall>f \<in> set fs. fld_ok w rows f"
    and "\<forall>(i, n) \<in> set req. i \<in> set (present fs) \<and> find (\<lambda>r. row_id r = i) rows \<noteq> None"
    and "foldl set_fld a fs = a'"
  shows "reads w (read_struct L T rows req a) (enc_struct n (map enc_fld fs)) a'"
proof -
  obtain isset where l: "loop_reads L w T rows a [] (concat (map enc_fld fs) @ [TStop]) a' isset"
      "\<forall>i. i \<in> set (present fs) \<longrightarrow> find (\<lambda>r. row_id r = i) rows \<noteq> None \<longrightarrow> i \<in> set isset"
    using loop_reads_fields [OF assms(1,2), of T a "[]"] assms(4) by auto
  have "check_required L req isset = None"
    using l(2) assms(3) by (auto simp: check_required_def find_None_iff)
  then show ?thesis by (rule reads_struct [OF assms(1) l(1)])
qed

text \<open>A struct that lacks a required field is refused.\<close>

lemma read_missing:
  assumes "protocol_laws L w" and "\<forall>f \<in> set fs. fld_ok w rows f"
    and "i \<notin> set (present fs)" and "(i, f) \<in> set req"
    and "recv w p = enc_struct n (map enc_fld fs) @ rest"
  shows "\<exists>(j, g) \<in> set req. \<exists>p'. recv w p' = rest \<and> read_struct L T rows req a p =
    Some (Some (InvalidData L (''Required field '' @ g @ '' is not set'')), foldl set_fld a fs, p')"
proof -
  obtain isset where l: "loop_reads L w T rows a [] (concat (map enc_fld fs) @ [TStop])
      (foldl set_fld a fs) isset" "set isset \<subseteq> set (present fs)"
    using loop_reads_fields [OF assms(1,2), of T a "[]"] by auto
  have "find (\<lambda>(i, n). i \<notin> set isset) req \<noteq> None"
    using l(2) assms(3,4) by (auto simp: find_None_iff)
  then obtain j g where jg: "find (\<lambda>(i, n). i \<notin> set isset) req = Some (j, g)" by force
  then have "(j, g) \<in> set req" by (fastforce simp: find_Some_iff in_set_conv_nth)
  moreover obtain p' where "read_struct L T rows req a p =
      Some (check_required L req isset, foldl set_fld a fs, p')" "recv w p' = rest"
    using read_struct_loop [OF assms(1) l(1) assms(5)] by blast
  ultimately show ?thesis using jg by (force simp: check_required_def)
qed

text \<open>Fields the struct does not know, mixed into its own, leave what is read unchanged.\<close>

definition unknown :: "string \<times> int \<times> tok \<Rightarrow> 'a fld" where
  "unknown u = (case u of (n, i, t) \<Rightarrow>
     \<lparr>fld_name = n, fld_type = the (tok_type t), fld_id = i, fld_toks = Some [t], fld_set = (\<lambda>a. a)\<rparr>)"

lemma set_fld_unknown [simp]: "set_fld a (unknown u) = a"
  by (cases u) (simp add: set_fld_def unknown_def)

lemma foldl_shuffles:
  "fs \<in> shuffles gs ys \<Longrightarrow> (\<And>y a. y \<in> set ys \<Longrightarrow> set_fld a y = a) \<Longrightarrow>
     foldl set_fld a fs = foldl set_fld a gs"
proof (induction gs ys arbitrary: fs a rule: shuffles.induct)
  case (1 ys)
  then have "fs = ys" by simp
  moreover have "foldl set_fld a ys = a" using "1.prems"(2) by (induction ys) auto
  ultimately show ?case by simp
next
  case (3 g gs y ys)
  from "3.prems"(1) consider fs' where "fs = g # fs'" "fs' \<in> shuffles gs (y # ys)"
    | fs' where "fs = y # fs'" "fs' \<in> shuffles (g # gs) ys"
    by auto
  then show ?case
  proof cases
    case 1
    then show ?thesis using "3.IH"(1) "3.prems"(2) by simp
  next
    case 2
    then show ?thesis using "3.IH"(2) [of fs' a] "3.prems"(2) by simp
  qed
qed simp

end
