(* ===== verification/Thrift_Codec.thy ===== *)
theory Thrift_Codec
  imports Thrift_Protocol
begin

text \<open>
  The contract of a generated struct, the locale \<open>struct_codec\<close>: its \<^verbatim>\<open>Write\<close> sends an encoding and
  its \<^verbatim>\<open>Read\<close> consumes just that encoding and gives the struct back, up to what the encoding cannot
  express (\<open>nf\<close>, the normal form). Every struct of \<^verbatim>\<open>bfss_api.go\<close> interprets it. Below it a protocol that keeps the
  tokens in lists shows that the hypothesis \<open>protocol_laws\<close> can hold.
\<close>

section \<open>The contract\<close>

locale struct_codec =
  fixes enc :: "'a \<Rightarrow> tok list" and wf :: "'a \<Rightarrow> bool" and nf :: "'a \<Rightarrow> 'a" and new :: 'a
    and wr :: "('p, 'e) tlib \<Rightarrow> 'a option \<Rightarrow> 'p \<Rightarrow> 'e option \<times> 'p"
    and rd :: "('p, 'e) tlib \<Rightarrow> ('a, 'p, 'e) reader"
  assumes write_enc: "protocol_laws L w \<Longrightarrow> wf a \<Longrightarrow> writes w (wr L (Some a)) (enc a)"
    and read_enc: "protocol_laws L w \<Longrightarrow> wf a \<Longrightarrow> reads w (rd L new) (enc a) (nf a)"
begin

text \<open>What is written to one end of a connection is read at the other end.\<close>

lemma round_trip:
  assumes "protocol_laws L w" and "wf a" and "wr L (Some a) p = (err, p1)"
    and "sent w p1 = sent w p @ ts" and "recv w q = ts @ rest"
  shows "err = None \<and> (\<exists>q'. rd L new q = Some (None, nf a, q') \<and> recv w q' = rest)"
proof -
  have "(err, p1) = (None, fold (put w) (enc a) p)"
    using write_enc [OF assms(1,2)] assms(3) unfolding writes_def by metis
  then have "err = None" and "ts = enc a"
    using assms(4) sent_fold [OF assms(1), of "enc a" p] by auto
  then show ?thesis
    using read_enc [OF assms(1,2)] assms(5) unfolding reads_def by blast
qed

text \<open>An encoding determines what is read from it, whatever follows it.\<close>

lemma read_unique:
  assumes "protocol_laws (L :: ('p, 'e) tlib) w" and "wf a" and "wf b"
    and "recv w p = enc a @ r" and "enc a @ r = enc b @ s"
  shows "nf a = nf b \<and> r = s"
proof -
  obtain p1 where "rd L new p = Some (None, nf a, p1)" "recv w p1 = r"
    using read_enc [OF assms(1,2)] assms(4) unfolding reads_def by blast
  moreover obtain p2 where "rd L new p = Some (None, nf b, p2)" "recv w p2 = s"
    using read_enc [OF assms(1,3)] assms(4,5) unfolding reads_def by metis
  ultimately show ?thesis by simp
qed

end

section \<open>A protocol of token lists\<close>

text \<open>The state: the tokens written, oldest first, and the tokens to be read.\<close>

type_synonym tokens = "tok list \<times> tok list"

definition emit :: "tok \<Rightarrow> tokens \<Rightarrow> string option \<times> tokens" where
  "emit t p = (None, (fst p @ [t], snd p))"

definition next_tok :: "(tok \<Rightarrow> 'v option) \<Rightarrow> tokens \<Rightarrow> (string + 'v) \<times> tokens" where
  "next_tok f p =
     (case snd p of
        [] \<Rightarrow> (Inl ''EOF'', p)
      | t # ts \<Rightarrow> (case f t of None \<Rightarrow> (Inl ''Unexpected token'', p) | Some v \<Rightarrow> (Inr v, (fst p, ts))))"

definition next_unit :: "(tok \<Rightarrow> bool) \<Rightarrow> tokens \<Rightarrow> string option \<times> tokens" where
  "next_unit f p =
     (case next_tok (\<lambda>t. if f t then Some () else None) p of
        (Inl e, p') \<Rightarrow> (Some e, p') | (Inr _, p') \<Rightarrow> (None, p'))"

definition next_field :: "tokens \<Rightarrow> (string option \<times> ttype \<times> int) \<times> tokens" where
  "next_field p =
     (case next_tok (\<lambda>t. case t of TField n ty i \<Rightarrow> Some (ty, i) | TStop \<Rightarrow> Some (STOP, 0) | _ \<Rightarrow> None) p of
        (Inl e, p') \<Rightarrow> ((Some e, STOP, 0), p') | (Inr (ty, i), p') \<Rightarrow> ((None, ty, i), p'))"

definition token_lib :: "(tokens, string) tlib" where
  "token_lib =
     \<lparr>WriteStructBegin = (\<lambda>n. emit (TBegin n)), WriteStructEnd = emit TEnd,
      WriteFieldBegin = (\<lambda>n ty i. emit (TField n ty i)), WriteFieldEnd = emit TFieldEnd,
      WriteFieldStop = emit TStop, WriteListBegin = (\<lambda>ty n. emit (TList ty n)),
      WriteListEnd = emit TListEnd, WriteBool = (\<lambda>b. emit (TBool b)), WriteI32 = (\<lambda>v. emit (TI32 v)),
      WriteI64 = (\<lambda>v. emit (TI64 v)), WriteString = (\<lambda>s. emit (TString s)),
      WriteBinary = (\<lambda>b. emit (TBinary (bytes_of b))),
      ReadStructBegin = next_tok (\<lambda>t. case t of TBegin n \<Rightarrow> Some [] | _ \<Rightarrow> None),
      ReadStructEnd = next_unit (\<lambda>t. t = TEnd), ReadFieldBegin = next_field,
      ReadFieldEnd = next_unit (\<lambda>t. t = TFieldEnd),
      ReadListBegin = next_tok (\<lambda>t. case t of TList ty n \<Rightarrow> Some (ty, n) | _ \<Rightarrow> None),
      ReadListEnd = next_unit (\<lambda>t. t = TListEnd),
      ReadBool = next_tok (\<lambda>t. case t of TBool b \<Rightarrow> Some b | _ \<Rightarrow> None),
      ReadI32 = next_tok (\<lambda>t. case t of TI32 v \<Rightarrow> Some v | _ \<Rightarrow> None),
      ReadI64 = next_tok (\<lambda>t. case t of TI64 v \<Rightarrow> Some v | _ \<Rightarrow> None),
      ReadString = next_tok (\<lambda>t. case t of TString s \<Rightarrow> Some s | _ \<Rightarrow> None),
      ReadBinary = next_tok (\<lambda>t. case t of TBinary b \<Rightarrow> Some (Some b) | _ \<Rightarrow> None),
      Skip = (\<lambda>ty. next_unit (\<lambda>t. tok_type t = Some ty)),
      PrependError = (\<lambda>m e. m @ e), InvalidData = (\<lambda>m. m)\<rparr>"

definition token_wire :: "tokens wire" where
  "token_wire =
     \<lparr>put = (\<lambda>t p. (fst p @ [t], snd p)), sent = fst, adv = (\<lambda>p. (fst p, tl (snd p))), recv = snd\<rparr>"

lemma token_protocol: "protocol_laws token_lib token_wire"
proof -
  have "wire_laws token_wire" by (simp add: wire_laws_def token_wire_def)
  moreover have "write_laws token_lib token_wire"
    by (simp add: write_laws_def token_lib_def token_wire_def emit_def)
  moreover have "read_laws token_lib token_wire"
    by (simp add: read_laws_def token_lib_def token_wire_def next_tok_def next_unit_def next_field_def)
  ultimately show ?thesis by (simp add: protocol_laws_def)
qed

end
