(* ===== verification/BFSS_API_Types.thy ===== *)
theory BFSS_API_Types
  imports Thrift_Codec BFSS_Result
begin

text \<open>
  The structs of \<^verbatim>\<open>bfss_web/BFSS_API/bfss_api.go\<close> that the storage service exchanges. For a struct
  \<open>X\<close> of the source: the record \<open>X\<close> (a pointer or a slice that may be nil is an option), \<open>new_X\<close>
  its zero value, \<open>X_rows\<close> its \<^verbatim>\<open>ReadField\<close> functions under the ids of the \<^verbatim>\<open>switch\<close>, \<open>X_Read\<close> with
  the required fields, \<open>X_steps\<close> its \<^verbatim>\<open>writeField\<close> functions and \<open>X_Write\<close>. \<open>X_fields\<close> specifies the
  encoding, \<open>X_wf\<close> the values that it carries (integers within their type, required pointers not
  nil) and \<open>X_norm\<close> what arrives: a nil slice in a required field arrives empty, and a result
  code, an \<^verbatim>\<open>int64\<close>, arrives as its low 32 bits. Each struct interprets \<open>struct_codec\<close>.
\<close>

text \<open>The elements of a slice that may be nil.\<close>

definition elems :: "'b option list option \<Rightarrow> 'b option list" where
  "elems v = (case v of None \<Rightarrow> [] | Some xs \<Rightarrow> xs)"

section \<open>\<^verbatim>\<open>OBJECT_INFO\<close>\<close>

record OBJECT_INFO =
  oi_ObjectSize :: int
  oi_CreateTime :: int
  oi_ObjectFlag :: int
  oi_ObjectTag :: string
  oi_Complete :: bool
  oi_Hash :: string

definition new_OBJECT_INFO :: OBJECT_INFO where
  "new_OBJECT_INFO = \<lparr>oi_ObjectSize = 0, oi_CreateTime = 0, oi_ObjectFlag = 0,
      oi_ObjectTag = [], oi_Complete = False, oi_Hash = []\<rparr>"

definition OBJECT_INFO_GetObjectSize :: "OBJECT_INFO \<Rightarrow> int" where
  "OBJECT_INFO_GetObjectSize p = oi_ObjectSize p"

definition OBJECT_INFO_GetCreateTime :: "OBJECT_INFO \<Rightarrow> int" where
  "OBJECT_INFO_GetCreateTime p = oi_CreateTime p"

definition OBJECT_INFO_GetObjectFlag :: "OBJECT_INFO \<Rightarrow> int" where
  "OBJECT_INFO_GetObjectFlag p = oi_ObjectFlag p"

definition OBJECT_INFO_GetObjectTag :: "OBJECT_INFO \<Rightarrow> string" where
  "OBJECT_INFO_GetObjectTag p = oi_ObjectTag p"

definition OBJECT_INFO_GetComplete :: "OBJECT_INFO \<Rightarrow> bool" where
  "OBJECT_INFO_GetComplete p = oi_Complete p"

definition OBJECT_INFO_GetHash :: "OBJECT_INFO \<Rightarrow> string" where
  "OBJECT_INFO_GetHash p = oi_Hash p"

definition OBJECT_INFO_rows :: "('p, 'e) tlib \<Rightarrow> (OBJECT_INFO, 'p, 'e) row list" where
  "OBJECT_INFO_rows L =
     [\<lparr>row_id = 1, row_type = I32,
       row_read = read_scalar L 1 (ReadI32 L)
           (\<lambda>v p. p\<lparr>oi_ObjectSize := v\<rparr>)\<rparr>,
      \<lparr>row_id = 2, row_type = I64,
       row_read = read_scalar L 2 (ReadI64 L)
           (\<lambda>v p. p\<lparr>oi_CreateTime := v\<rparr>)\<rparr>,
      \<lparr>row_id = 3, row_type = I32,
       row_read = read_scalar L 3 (ReadI32 L)
           (\<lambda>v p. p\<lparr>oi_ObjectFlag := v\<rparr>)\<rparr>,
      \<lparr>row_id = 4, row_type = STRING,
       row_read = read_scalar L 4 (ReadString L)
           (\<lambda>v p. p\<lparr>oi_ObjectTag := v\<rparr>)\<rparr>,
      \<lparr>row_id = 5, row_type = BOOL,
       row_read = read_scalar L 5 (ReadBool L)
           (\<lambda>v p. p\<lparr>oi_Complete := v\<rparr>)\<rparr>,
      \<lparr>row_id = 6, row_type = STRING,
       row_read = read_scalar L 6 (ReadString L)
           (\<lambda>v p. p\<lparr>oi_Hash := v\<rparr>)\<rparr>]"

definition OBJECT_INFO_Read :: "('p, 'e) tlib \<Rightarrow> (OBJECT_INFO, 'p, 'e) reader" where
  "OBJECT_INFO_Read L =
     read_struct L ''*BFSS_API.OBJECT_INFO'' (OBJECT_INFO_rows L)
       [(1, ''ObjectSize''), (2, ''CreateTime''), (3, ''ObjectFlag''), (4, ''ObjectTag''), (5,
           ''Complete''), (6, ''Hash'')]"

definition OBJECT_INFO_steps :: "('p, 'e) tlib \<Rightarrow> OBJECT_INFO \<Rightarrow> ('p
    \<Rightarrow> 'e option \<times> 'p) list" where
  "OBJECT_INFO_steps L p =
     (let T = ''*BFSS_API.OBJECT_INFO'' in
      [write_scalar L T ''ObjectSize'' I32 1 (WriteI32 L (oi_ObjectSize p)),
       write_scalar L T ''CreateTime'' I64 2 (WriteI64 L (oi_CreateTime p)),
       write_scalar L T ''ObjectFlag'' I32 3 (WriteI32 L (oi_ObjectFlag p)),
       write_scalar L T ''ObjectTag'' STRING 4 (WriteString L (oi_ObjectTag p)),
       write_scalar L T ''Complete'' BOOL 5 (WriteBool L (oi_Complete p)),
       write_scalar L T ''Hash'' STRING 6 (WriteString L (oi_Hash p))])"

definition OBJECT_INFO_Write :: "('p, 'e) tlib \<Rightarrow> OBJECT_INFO option \<Rightarrow> 'p
    \<Rightarrow> 'e option \<times> 'p" where
  "OBJECT_INFO_Write L = write_struct L ''*BFSS_API.OBJECT_INFO'' ''OBJECT_INFO''
      (OBJECT_INFO_steps L)"

definition OBJECT_INFO_fields :: "OBJECT_INFO \<Rightarrow> OBJECT_INFO fld list" where
  "OBJECT_INFO_fields p =
     [\<lparr>fld_name = ''ObjectSize'', fld_type = I32, fld_id = 1,
       fld_toks = Some [TI32 (oi_ObjectSize p)],
       fld_set = \<lambda>q. q\<lparr>oi_ObjectSize := (oi_ObjectSize p)\<rparr>\<rparr>,
      \<lparr>fld_name = ''CreateTime'', fld_type = I64, fld_id = 2,
       fld_toks = Some [TI64 (oi_CreateTime p)],
       fld_set = \<lambda>q. q\<lparr>oi_CreateTime := (oi_CreateTime p)\<rparr>\<rparr>,
      \<lparr>fld_name = ''ObjectFlag'', fld_type = I32, fld_id = 3,
       fld_toks = Some [TI32 (oi_ObjectFlag p)],
       fld_set = \<lambda>q. q\<lparr>oi_ObjectFlag := (oi_ObjectFlag p)\<rparr>\<rparr>,
      \<lparr>fld_name = ''ObjectTag'', fld_type = STRING, fld_id = 4,
       fld_toks = Some [TString (oi_ObjectTag p)],
       fld_set = \<lambda>q. q\<lparr>oi_ObjectTag := (oi_ObjectTag p)\<rparr>\<rparr>,
      \<lparr>fld_name = ''Complete'', fld_type = BOOL, fld_id = 5,
       fld_toks = Some [TBool (oi_Complete p)],
       fld_set = \<lambda>q. q\<lparr>oi_Complete := (oi_Complete p)\<rparr>\<rparr>,
      \<lparr>fld_name = ''Hash'', fld_type = STRING, fld_id = 6,
       fld_toks = Some [TString (oi_Hash p)],
       fld_set = \<lambda>q. q\<lparr>oi_Hash := (oi_Hash p)\<rparr>\<rparr>]"

definition OBJECT_INFO_enc :: "OBJECT_INFO \<Rightarrow> tok list" where
  "OBJECT_INFO_enc p = enc_struct ''OBJECT_INFO'' (map enc_fld (OBJECT_INFO_fields p))"

definition OBJECT_INFO_wf :: "OBJECT_INFO \<Rightarrow> bool" where
  "OBJECT_INFO_wf p \<longleftrightarrow> i32 (oi_ObjectSize p) = oi_ObjectSize p
      \<and> i64 (oi_CreateTime p) = oi_CreateTime p \<and> i32 (oi_ObjectFlag p) = oi_ObjectFlag p"

definition OBJECT_INFO_norm :: "OBJECT_INFO \<Rightarrow> OBJECT_INFO" where
  "OBJECT_INFO_norm p = p"

lemma OBJECT_INFO_writes:
  assumes "protocol_laws L w" and "OBJECT_INFO_wf a"
  shows "writes w (OBJECT_INFO_Write L (Some a)) (OBJECT_INFO_enc a)"
  unfolding OBJECT_INFO_Write_def OBJECT_INFO_enc_def
  by (rule writes_struct [OF assms(1)], use assms in \<open>auto simp: OBJECT_INFO_steps_def
      OBJECT_INFO_fields_def
    OBJECT_INFO_wf_def Let_def intro!: writes_intros\<close>)

lemma OBJECT_INFO_fields_ok:
  assumes "protocol_laws L w" and "OBJECT_INFO_wf a"
  shows "\<forall>f \<in> set (OBJECT_INFO_fields a). fld_ok w (OBJECT_INFO_rows L) f"
  using assms by (auto simp: OBJECT_INFO_fields_def OBJECT_INFO_rows_def OBJECT_INFO_wf_def
      fld_ok_def
      intro!: reads_intros split: option.splits)

lemma OBJECT_INFO_fields_set: "foldl set_fld new_OBJECT_INFO (OBJECT_INFO_fields a) =
    OBJECT_INFO_norm a"
  by (cases a) (auto simp: OBJECT_INFO_fields_def set_fld_def new_OBJECT_INFO_def
      OBJECT_INFO_norm_def)

lemma OBJECT_INFO_reads:
  assumes "protocol_laws L w" and "OBJECT_INFO_wf a"
  shows "reads w (OBJECT_INFO_Read L new_OBJECT_INFO) (OBJECT_INFO_enc a) (OBJECT_INFO_norm a)"
  unfolding OBJECT_INFO_Read_def OBJECT_INFO_enc_def
  by (intro reads_fields [OF assms(1)] OBJECT_INFO_fields_ok [OF assms] OBJECT_INFO_fields_set)
    (simp add: OBJECT_INFO_fields_def OBJECT_INFO_rows_def present_def)

interpretation oi: struct_codec OBJECT_INFO_enc OBJECT_INFO_wf OBJECT_INFO_norm
    new_OBJECT_INFO OBJECT_INFO_Write OBJECT_INFO_Read
  by unfold_locales (fact OBJECT_INFO_writes, fact OBJECT_INFO_reads)

section \<open>\<^verbatim>\<open>OBJECT_INFO_RESULT\<close>\<close>

record OBJECT_INFO_RESULT =
  oir_Result :: BFSS_RESULT
  oir_ObjectInfo :: "OBJECT_INFO option"

definition new_OBJECT_INFO_RESULT :: OBJECT_INFO_RESULT where
  "new_OBJECT_INFO_RESULT = \<lparr>oir_Result = 0, oir_ObjectInfo = None\<rparr>"

definition OBJECT_INFO_RESULT_GetResult :: "OBJECT_INFO_RESULT \<Rightarrow> BFSS_RESULT" where
  "OBJECT_INFO_RESULT_GetResult p = oir_Result p"

definition OBJECT_INFO_RESULT_IsSetObjectInfo :: "OBJECT_INFO_RESULT \<Rightarrow> bool" where
  "OBJECT_INFO_RESULT_IsSetObjectInfo p \<longleftrightarrow> oir_ObjectInfo p \<noteq> None"

definition OBJECT_INFO_RESULT_GetObjectInfo :: "OBJECT_INFO_RESULT
    \<Rightarrow> OBJECT_INFO option" where
  "OBJECT_INFO_RESULT_GetObjectInfo p = (if \<not> OBJECT_INFO_RESULT_IsSetObjectInfo p then None
      else oir_ObjectInfo p)"

definition OBJECT_INFO_RESULT_rows :: "('p, 'e) tlib \<Rightarrow> (OBJECT_INFO_RESULT, 'p,
    'e) row list" where
  "OBJECT_INFO_RESULT_rows L =
     [\<lparr>row_id = 1, row_type = I32,
       row_read = read_scalar L 1 (ReadI32 L)
           (\<lambda>v p. p\<lparr>oir_Result := v\<rparr>)\<rparr>,
      \<lparr>row_id = 2, row_type = STRUCT,
       row_read = read_nested L ''*BFSS_API.OBJECT_INFO'' (OBJECT_INFO_Read L new_OBJECT_INFO)
           (\<lambda>v p. p\<lparr>oir_ObjectInfo := Some v\<rparr>)\<rparr>]"

definition OBJECT_INFO_RESULT_Read :: "('p, 'e) tlib \<Rightarrow> (OBJECT_INFO_RESULT, 'p,
    'e) reader" where
  "OBJECT_INFO_RESULT_Read L =
     read_struct L ''*BFSS_API.OBJECT_INFO_RESULT'' (OBJECT_INFO_RESULT_rows L)
       [(1, ''Result_'')]"

definition OBJECT_INFO_RESULT_steps :: "('p, 'e) tlib \<Rightarrow> OBJECT_INFO_RESULT
    \<Rightarrow> ('p \<Rightarrow> 'e option \<times> 'p) list" where
  "OBJECT_INFO_RESULT_steps L p =
     (let T = ''*BFSS_API.OBJECT_INFO_RESULT'' in
      [write_scalar L T ''Result'' I32 1 (WriteI32 L (i32 (oir_Result p))),
       if_set (oir_ObjectInfo p) (\<lambda>x. write_nested L T ''ObjectInfo'' 2
           ''*BFSS_API.OBJECT_INFO'' (OBJECT_INFO_Write L (Some x)))])"

definition OBJECT_INFO_RESULT_Write :: "('p, 'e) tlib \<Rightarrow> OBJECT_INFO_RESULT option
    \<Rightarrow> 'p \<Rightarrow> 'e option \<times> 'p" where
  "OBJECT_INFO_RESULT_Write L = write_struct L ''*BFSS_API.OBJECT_INFO_RESULT''
      ''OBJECT_INFO_RESULT'' (OBJECT_INFO_RESULT_steps L)"

definition OBJECT_INFO_RESULT_fields :: "OBJECT_INFO_RESULT
    \<Rightarrow> OBJECT_INFO_RESULT fld list" where
  "OBJECT_INFO_RESULT_fields p =
     [\<lparr>fld_name = ''Result'', fld_type = I32, fld_id = 1,
       fld_toks = Some [TI32 (i32 (oir_Result p))],
       fld_set = \<lambda>q. q\<lparr>oir_Result := (i32 (oir_Result p))\<rparr>\<rparr>,
      \<lparr>fld_name = ''ObjectInfo'', fld_type = STRUCT, fld_id = 2,
       fld_toks = map_option OBJECT_INFO_enc (oir_ObjectInfo p),
       fld_set = \<lambda>q. q\<lparr>oir_ObjectInfo := map_option OBJECT_INFO_norm
           (oir_ObjectInfo p)\<rparr>\<rparr>]"

definition OBJECT_INFO_RESULT_enc :: "OBJECT_INFO_RESULT \<Rightarrow> tok list" where
  "OBJECT_INFO_RESULT_enc p = enc_struct ''OBJECT_INFO_RESULT'' (map enc_fld
      (OBJECT_INFO_RESULT_fields p))"

definition OBJECT_INFO_RESULT_wf :: "OBJECT_INFO_RESULT \<Rightarrow> bool" where
  "OBJECT_INFO_RESULT_wf p \<longleftrightarrow> pred_option OBJECT_INFO_wf (oir_ObjectInfo p)"

definition OBJECT_INFO_RESULT_norm :: "OBJECT_INFO_RESULT \<Rightarrow> OBJECT_INFO_RESULT" where
  "OBJECT_INFO_RESULT_norm p = p\<lparr>oir_Result := i32 (oir_Result p),
      oir_ObjectInfo := map_option OBJECT_INFO_norm (oir_ObjectInfo p)\<rparr>"

lemma OBJECT_INFO_RESULT_writes:
  assumes "protocol_laws L w" and "OBJECT_INFO_RESULT_wf a"
  shows "writes w (OBJECT_INFO_RESULT_Write L (Some a)) (OBJECT_INFO_RESULT_enc a)"
  unfolding OBJECT_INFO_RESULT_Write_def OBJECT_INFO_RESULT_enc_def
  by (rule writes_struct [OF assms(1)], use assms in \<open>auto simp:
      OBJECT_INFO_RESULT_steps_def OBJECT_INFO_RESULT_fields_def
    OBJECT_INFO_RESULT_wf_def Let_def intro!: writes_intros OBJECT_INFO_writes\<close>)

lemma OBJECT_INFO_RESULT_fields_ok:
  assumes "protocol_laws L w" and "OBJECT_INFO_RESULT_wf a"
  shows "\<forall>f \<in> set (OBJECT_INFO_RESULT_fields a). fld_ok w (OBJECT_INFO_RESULT_rows L) f"
  using assms by (auto simp: OBJECT_INFO_RESULT_fields_def OBJECT_INFO_RESULT_rows_def
      OBJECT_INFO_RESULT_wf_def fld_ok_def
      intro!: reads_intros OBJECT_INFO_reads split: option.splits)

lemma OBJECT_INFO_RESULT_fields_set: "foldl set_fld new_OBJECT_INFO_RESULT
    (OBJECT_INFO_RESULT_fields a) = OBJECT_INFO_RESULT_norm a"
  by (cases a) (auto simp: OBJECT_INFO_RESULT_fields_def set_fld_def new_OBJECT_INFO_RESULT_def
      OBJECT_INFO_RESULT_norm_def)

lemma OBJECT_INFO_RESULT_reads:
  assumes "protocol_laws L w" and "OBJECT_INFO_RESULT_wf a"
  shows "reads w (OBJECT_INFO_RESULT_Read L new_OBJECT_INFO_RESULT) (OBJECT_INFO_RESULT_enc a)
      (OBJECT_INFO_RESULT_norm a)"
  unfolding OBJECT_INFO_RESULT_Read_def OBJECT_INFO_RESULT_enc_def
  by (intro reads_fields [OF assms(1)] OBJECT_INFO_RESULT_fields_ok [OF assms]
      OBJECT_INFO_RESULT_fields_set)
    (simp add: OBJECT_INFO_RESULT_fields_def OBJECT_INFO_RESULT_rows_def present_def)

interpretation oir: struct_codec OBJECT_INFO_RESULT_enc OBJECT_INFO_RESULT_wf
    OBJECT_INFO_RESULT_norm
    new_OBJECT_INFO_RESULT OBJECT_INFO_RESULT_Write OBJECT_INFO_RESULT_Read
  by unfold_locales (fact OBJECT_INFO_RESULT_writes, fact OBJECT_INFO_RESULT_reads)

section \<open>\<^verbatim>\<open>READ_RESULT\<close>\<close>

record READ_RESULT =
  rr_Result :: BFSS_RESULT
  rr_Data :: bytes

definition new_READ_RESULT :: READ_RESULT where
  "new_READ_RESULT = \<lparr>rr_Result = 0, rr_Data = None\<rparr>"

definition READ_RESULT_GetResult :: "READ_RESULT \<Rightarrow> BFSS_RESULT" where
  "READ_RESULT_GetResult p = rr_Result p"

definition READ_RESULT_IsSetData :: "READ_RESULT \<Rightarrow> bool" where
  "READ_RESULT_IsSetData p \<longleftrightarrow> rr_Data p \<noteq> None"

definition READ_RESULT_GetData :: "READ_RESULT \<Rightarrow> bytes" where
  "READ_RESULT_GetData p = rr_Data p"

definition READ_RESULT_rows :: "('p, 'e) tlib \<Rightarrow> (READ_RESULT, 'p, 'e) row list" where
  "READ_RESULT_rows L =
     [\<lparr>row_id = 1, row_type = I32,
       row_read = read_scalar L 1 (ReadI32 L)
           (\<lambda>v p. p\<lparr>rr_Result := v\<rparr>)\<rparr>,
      \<lparr>row_id = 2, row_type = STRING,
       row_read = read_scalar L 2 (ReadBinary L)
           (\<lambda>v p. p\<lparr>rr_Data := v\<rparr>)\<rparr>]"

definition READ_RESULT_Read :: "('p, 'e) tlib \<Rightarrow> (READ_RESULT, 'p, 'e) reader" where
  "READ_RESULT_Read L =
     read_struct L ''*BFSS_API.READ_RESULT'' (READ_RESULT_rows L)
       [(1, ''Result_'')]"

definition READ_RESULT_steps :: "('p, 'e) tlib \<Rightarrow> READ_RESULT \<Rightarrow> ('p
    \<Rightarrow> 'e option \<times> 'p) list" where
  "READ_RESULT_steps L p =
     (let T = ''*BFSS_API.READ_RESULT'' in
      [write_scalar L T ''Result'' I32 1 (WriteI32 L (i32 (rr_Result p))),
       if_set (rr_Data p) (\<lambda>b. write_scalar L T ''Data'' STRING 2 (WriteBinary L (Some
           b)))])"

definition READ_RESULT_Write :: "('p, 'e) tlib \<Rightarrow> READ_RESULT option \<Rightarrow> 'p
    \<Rightarrow> 'e option \<times> 'p" where
  "READ_RESULT_Write L = write_struct L ''*BFSS_API.READ_RESULT'' ''READ_RESULT''
      (READ_RESULT_steps L)"

definition READ_RESULT_fields :: "READ_RESULT \<Rightarrow> READ_RESULT fld list" where
  "READ_RESULT_fields p =
     [\<lparr>fld_name = ''Result'', fld_type = I32, fld_id = 1,
       fld_toks = Some [TI32 (i32 (rr_Result p))],
       fld_set = \<lambda>q. q\<lparr>rr_Result := (i32 (rr_Result p))\<rparr>\<rparr>,
      \<lparr>fld_name = ''Data'', fld_type = STRING, fld_id = 2,
       fld_toks = map_option (\<lambda>b. [TBinary b]) (rr_Data p),
       fld_set = \<lambda>q. q\<lparr>rr_Data := rr_Data p\<rparr>\<rparr>]"

definition READ_RESULT_enc :: "READ_RESULT \<Rightarrow> tok list" where
  "READ_RESULT_enc p = enc_struct ''READ_RESULT'' (map enc_fld (READ_RESULT_fields p))"

definition READ_RESULT_wf :: "READ_RESULT \<Rightarrow> bool" where
  "READ_RESULT_wf p \<longleftrightarrow> True"

definition READ_RESULT_norm :: "READ_RESULT \<Rightarrow> READ_RESULT" where
  "READ_RESULT_norm p = p\<lparr>rr_Result := i32 (rr_Result p)\<rparr>"

lemma READ_RESULT_writes:
  assumes "protocol_laws L w" and "READ_RESULT_wf a"
  shows "writes w (READ_RESULT_Write L (Some a)) (READ_RESULT_enc a)"
  unfolding READ_RESULT_Write_def READ_RESULT_enc_def
  by (rule writes_struct [OF assms(1)], use assms in \<open>auto simp: READ_RESULT_steps_def
      READ_RESULT_fields_def
    READ_RESULT_wf_def Let_def intro!: writes_intros\<close>)

lemma READ_RESULT_fields_ok:
  assumes "protocol_laws L w" and "READ_RESULT_wf a"
  shows "\<forall>f \<in> set (READ_RESULT_fields a). fld_ok w (READ_RESULT_rows L) f"
  using assms by (auto simp: READ_RESULT_fields_def READ_RESULT_rows_def READ_RESULT_wf_def
      fld_ok_def
      intro!: reads_intros split: option.splits)

lemma READ_RESULT_fields_set: "foldl set_fld new_READ_RESULT (READ_RESULT_fields a) =
    READ_RESULT_norm a"
  by (cases a) (auto simp: READ_RESULT_fields_def set_fld_def new_READ_RESULT_def
      READ_RESULT_norm_def)

lemma READ_RESULT_reads:
  assumes "protocol_laws L w" and "READ_RESULT_wf a"
  shows "reads w (READ_RESULT_Read L new_READ_RESULT) (READ_RESULT_enc a) (READ_RESULT_norm a)"
  unfolding READ_RESULT_Read_def READ_RESULT_enc_def
  by (intro reads_fields [OF assms(1)] READ_RESULT_fields_ok [OF assms] READ_RESULT_fields_set)
    (simp add: READ_RESULT_fields_def READ_RESULT_rows_def present_def)

interpretation rr: struct_codec READ_RESULT_enc READ_RESULT_wf READ_RESULT_norm
    new_READ_RESULT READ_RESULT_Write READ_RESULT_Read
  by unfold_locales (fact READ_RESULT_writes, fact READ_RESULT_reads)

section \<open>\<^verbatim>\<open>BLK_KEY_RESULT\<close>\<close>

record BLK_KEY_RESULT =
  bkr_Result :: BFSS_RESULT
  bkr_BlkKey :: bytes

definition new_BLK_KEY_RESULT :: BLK_KEY_RESULT where
  "new_BLK_KEY_RESULT = \<lparr>bkr_Result = 0, bkr_BlkKey = None\<rparr>"

definition BLK_KEY_RESULT_GetResult :: "BLK_KEY_RESULT \<Rightarrow> BFSS_RESULT" where
  "BLK_KEY_RESULT_GetResult p = bkr_Result p"

definition BLK_KEY_RESULT_GetBlkKey :: "BLK_KEY_RESULT \<Rightarrow> bytes" where
  "BLK_KEY_RESULT_GetBlkKey p = bkr_BlkKey p"

definition BLK_KEY_RESULT_rows :: "('p, 'e) tlib \<Rightarrow> (BLK_KEY_RESULT, 'p,
    'e) row list" where
  "BLK_KEY_RESULT_rows L =
     [\<lparr>row_id = 1, row_type = I32,
       row_read = read_scalar L 1 (ReadI32 L)
           (\<lambda>v p. p\<lparr>bkr_Result := v\<rparr>)\<rparr>,
      \<lparr>row_id = 2, row_type = STRING,
       row_read = read_scalar L 2 (ReadBinary L)
           (\<lambda>v p. p\<lparr>bkr_BlkKey := v\<rparr>)\<rparr>]"

definition BLK_KEY_RESULT_Read :: "('p, 'e) tlib \<Rightarrow> (BLK_KEY_RESULT, 'p,
    'e) reader" where
  "BLK_KEY_RESULT_Read L =
     read_struct L ''*BFSS_API.BLK_KEY_RESULT'' (BLK_KEY_RESULT_rows L)
       [(1, ''Result_''), (2, ''BlkKey'')]"

definition BLK_KEY_RESULT_steps :: "('p, 'e) tlib \<Rightarrow> BLK_KEY_RESULT \<Rightarrow> ('p
    \<Rightarrow> 'e option \<times> 'p) list" where
  "BLK_KEY_RESULT_steps L p =
     (let T = ''*BFSS_API.BLK_KEY_RESULT'' in
      [write_scalar L T ''Result'' I32 1 (WriteI32 L (i32 (bkr_Result p))),
       write_scalar L T ''BlkKey'' STRING 2 (WriteBinary L (bkr_BlkKey p))])"

definition BLK_KEY_RESULT_Write :: "('p, 'e) tlib \<Rightarrow> BLK_KEY_RESULT option
    \<Rightarrow> 'p \<Rightarrow> 'e option \<times> 'p" where
  "BLK_KEY_RESULT_Write L = write_struct L ''*BFSS_API.BLK_KEY_RESULT'' ''BLK_KEY_RESULT''
      (BLK_KEY_RESULT_steps L)"

definition BLK_KEY_RESULT_fields :: "BLK_KEY_RESULT \<Rightarrow> BLK_KEY_RESULT fld list" where
  "BLK_KEY_RESULT_fields p =
     [\<lparr>fld_name = ''Result'', fld_type = I32, fld_id = 1,
       fld_toks = Some [TI32 (i32 (bkr_Result p))],
       fld_set = \<lambda>q. q\<lparr>bkr_Result := (i32 (bkr_Result p))\<rparr>\<rparr>,
      \<lparr>fld_name = ''BlkKey'', fld_type = STRING, fld_id = 2,
       fld_toks = Some [TBinary (bytes_of (bkr_BlkKey p))],
       fld_set = \<lambda>q. q\<lparr>bkr_BlkKey := Some (bytes_of (bkr_BlkKey p))\<rparr>\<rparr>]"

definition BLK_KEY_RESULT_enc :: "BLK_KEY_RESULT \<Rightarrow> tok list" where
  "BLK_KEY_RESULT_enc p = enc_struct ''BLK_KEY_RESULT'' (map enc_fld (BLK_KEY_RESULT_fields p))"

definition BLK_KEY_RESULT_wf :: "BLK_KEY_RESULT \<Rightarrow> bool" where
  "BLK_KEY_RESULT_wf p \<longleftrightarrow> True"

definition BLK_KEY_RESULT_norm :: "BLK_KEY_RESULT \<Rightarrow> BLK_KEY_RESULT" where
  "BLK_KEY_RESULT_norm p = p\<lparr>bkr_Result := i32 (bkr_Result p),
      bkr_BlkKey := Some (bytes_of (bkr_BlkKey p))\<rparr>"

lemma BLK_KEY_RESULT_writes:
  assumes "protocol_laws L w" and "BLK_KEY_RESULT_wf a"
  shows "writes w (BLK_KEY_RESULT_Write L (Some a)) (BLK_KEY_RESULT_enc a)"
  unfolding BLK_KEY_RESULT_Write_def BLK_KEY_RESULT_enc_def
  by (rule writes_struct [OF assms(1)], use assms in \<open>auto simp: BLK_KEY_RESULT_steps_def
      BLK_KEY_RESULT_fields_def
    BLK_KEY_RESULT_wf_def Let_def intro!: writes_intros\<close>)

lemma BLK_KEY_RESULT_fields_ok:
  assumes "protocol_laws L w" and "BLK_KEY_RESULT_wf a"
  shows "\<forall>f \<in> set (BLK_KEY_RESULT_fields a). fld_ok w (BLK_KEY_RESULT_rows L) f"
  using assms by (auto simp: BLK_KEY_RESULT_fields_def BLK_KEY_RESULT_rows_def
      BLK_KEY_RESULT_wf_def fld_ok_def
      intro!: reads_intros split: option.splits)

lemma BLK_KEY_RESULT_fields_set: "foldl set_fld new_BLK_KEY_RESULT (BLK_KEY_RESULT_fields a) =
    BLK_KEY_RESULT_norm a"
  by (cases a) (auto simp: BLK_KEY_RESULT_fields_def set_fld_def new_BLK_KEY_RESULT_def
      BLK_KEY_RESULT_norm_def)

lemma BLK_KEY_RESULT_reads:
  assumes "protocol_laws L w" and "BLK_KEY_RESULT_wf a"
  shows "reads w (BLK_KEY_RESULT_Read L new_BLK_KEY_RESULT) (BLK_KEY_RESULT_enc a)
      (BLK_KEY_RESULT_norm a)"
  unfolding BLK_KEY_RESULT_Read_def BLK_KEY_RESULT_enc_def
  by (intro reads_fields [OF assms(1)] BLK_KEY_RESULT_fields_ok [OF assms]
      BLK_KEY_RESULT_fields_set)
    (simp add: BLK_KEY_RESULT_fields_def BLK_KEY_RESULT_rows_def present_def)

interpretation bkr: struct_codec BLK_KEY_RESULT_enc BLK_KEY_RESULT_wf BLK_KEY_RESULT_norm
    new_BLK_KEY_RESULT BLK_KEY_RESULT_Write BLK_KEY_RESULT_Read
  by unfold_locales (fact BLK_KEY_RESULT_writes, fact BLK_KEY_RESULT_reads)

section \<open>\<^verbatim>\<open>OBJECT_BLK_INFO\<close>\<close>

record OBJECT_BLK_INFO =
  obi_BlkSize :: int
  obi_DataOff :: int
  obi_VolumeId :: int
  obi_BlkIndex :: int
  obi_BlkKey :: bytes

definition new_OBJECT_BLK_INFO :: OBJECT_BLK_INFO where
  "new_OBJECT_BLK_INFO = \<lparr>obi_BlkSize = 0, obi_DataOff = 0, obi_VolumeId = 0,
      obi_BlkIndex = 0, obi_BlkKey = None\<rparr>"

definition OBJECT_BLK_INFO_GetBlkSize :: "OBJECT_BLK_INFO \<Rightarrow> int" where
  "OBJECT_BLK_INFO_GetBlkSize p = obi_BlkSize p"

definition OBJECT_BLK_INFO_GetDataOff :: "OBJECT_BLK_INFO \<Rightarrow> int" where
  "OBJECT_BLK_INFO_GetDataOff p = obi_DataOff p"

definition OBJECT_BLK_INFO_GetVolumeId :: "OBJECT_BLK_INFO \<Rightarrow> int" where
  "OBJECT_BLK_INFO_GetVolumeId p = obi_VolumeId p"

definition OBJECT_BLK_INFO_GetBlkIndex :: "OBJECT_BLK_INFO \<Rightarrow> int" where
  "OBJECT_BLK_INFO_GetBlkIndex p = obi_BlkIndex p"

definition OBJECT_BLK_INFO_GetBlkKey :: "OBJECT_BLK_INFO \<Rightarrow> bytes" where
  "OBJECT_BLK_INFO_GetBlkKey p = obi_BlkKey p"

definition OBJECT_BLK_INFO_rows :: "('p, 'e) tlib \<Rightarrow> (OBJECT_BLK_INFO, 'p,
    'e) row list" where
  "OBJECT_BLK_INFO_rows L =
     [\<lparr>row_id = 1, row_type = I32,
       row_read = read_scalar L 1 (ReadI32 L)
           (\<lambda>v p. p\<lparr>obi_BlkSize := v\<rparr>)\<rparr>,
      \<lparr>row_id = 2, row_type = I32,
       row_read = read_scalar L 2 (ReadI32 L)
           (\<lambda>v p. p\<lparr>obi_DataOff := v\<rparr>)\<rparr>,
      \<lparr>row_id = 3, row_type = I32,
       row_read = read_scalar L 3 (ReadI32 L)
           (\<lambda>v p. p\<lparr>obi_VolumeId := v\<rparr>)\<rparr>,
      \<lparr>row_id = 4, row_type = I32,
       row_read = read_scalar L 4 (ReadI32 L)
           (\<lambda>v p. p\<lparr>obi_BlkIndex := v\<rparr>)\<rparr>,
      \<lparr>row_id = 5, row_type = STRING,
       row_read = read_scalar L 5 (ReadBinary L)
           (\<lambda>v p. p\<lparr>obi_BlkKey := v\<rparr>)\<rparr>]"

definition OBJECT_BLK_INFO_Read :: "('p, 'e) tlib \<Rightarrow> (OBJECT_BLK_INFO, 'p,
    'e) reader" where
  "OBJECT_BLK_INFO_Read L =
     read_struct L ''*BFSS_API.OBJECT_BLK_INFO'' (OBJECT_BLK_INFO_rows L)
       [(1, ''BlkSize''), (2, ''DataOff''), (3, ''VolumeId''), (4, ''BlkIndex''), (5, ''BlkKey'')]"

definition OBJECT_BLK_INFO_steps :: "('p, 'e) tlib \<Rightarrow> OBJECT_BLK_INFO
    \<Rightarrow> ('p \<Rightarrow> 'e option \<times> 'p) list" where
  "OBJECT_BLK_INFO_steps L p =
     (let T = ''*BFSS_API.OBJECT_BLK_INFO'' in
      [write_scalar L T ''BlkSize'' I32 1 (WriteI32 L (obi_BlkSize p)),
       write_scalar L T ''DataOff'' I32 2 (WriteI32 L (obi_DataOff p)),
       write_scalar L T ''VolumeId'' I32 3 (WriteI32 L (obi_VolumeId p)),
       write_scalar L T ''BlkIndex'' I32 4 (WriteI32 L (obi_BlkIndex p)),
       write_scalar L T ''BlkKey'' STRING 5 (WriteBinary L (obi_BlkKey p))])"

definition OBJECT_BLK_INFO_Write :: "('p, 'e) tlib \<Rightarrow> OBJECT_BLK_INFO option
    \<Rightarrow> 'p \<Rightarrow> 'e option \<times> 'p" where
  "OBJECT_BLK_INFO_Write L = write_struct L ''*BFSS_API.OBJECT_BLK_INFO'' ''OBJECT_BLK_INFO''
      (OBJECT_BLK_INFO_steps L)"

definition OBJECT_BLK_INFO_fields :: "OBJECT_BLK_INFO \<Rightarrow> OBJECT_BLK_INFO fld list" where
  "OBJECT_BLK_INFO_fields p =
     [\<lparr>fld_name = ''BlkSize'', fld_type = I32, fld_id = 1,
       fld_toks = Some [TI32 (obi_BlkSize p)],
       fld_set = \<lambda>q. q\<lparr>obi_BlkSize := (obi_BlkSize p)\<rparr>\<rparr>,
      \<lparr>fld_name = ''DataOff'', fld_type = I32, fld_id = 2,
       fld_toks = Some [TI32 (obi_DataOff p)],
       fld_set = \<lambda>q. q\<lparr>obi_DataOff := (obi_DataOff p)\<rparr>\<rparr>,
      \<lparr>fld_name = ''VolumeId'', fld_type = I32, fld_id = 3,
       fld_toks = Some [TI32 (obi_VolumeId p)],
       fld_set = \<lambda>q. q\<lparr>obi_VolumeId := (obi_VolumeId p)\<rparr>\<rparr>,
      \<lparr>fld_name = ''BlkIndex'', fld_type = I32, fld_id = 4,
       fld_toks = Some [TI32 (obi_BlkIndex p)],
       fld_set = \<lambda>q. q\<lparr>obi_BlkIndex := (obi_BlkIndex p)\<rparr>\<rparr>,
      \<lparr>fld_name = ''BlkKey'', fld_type = STRING, fld_id = 5,
       fld_toks = Some [TBinary (bytes_of (obi_BlkKey p))],
       fld_set = \<lambda>q. q\<lparr>obi_BlkKey := Some (bytes_of (obi_BlkKey p))\<rparr>\<rparr>]"

definition OBJECT_BLK_INFO_enc :: "OBJECT_BLK_INFO \<Rightarrow> tok list" where
  "OBJECT_BLK_INFO_enc p = enc_struct ''OBJECT_BLK_INFO'' (map enc_fld (OBJECT_BLK_INFO_fields p))"

definition OBJECT_BLK_INFO_wf :: "OBJECT_BLK_INFO \<Rightarrow> bool" where
  "OBJECT_BLK_INFO_wf p \<longleftrightarrow> i32 (obi_BlkSize p) = obi_BlkSize p
      \<and> i32 (obi_DataOff p) = obi_DataOff p \<and> i32 (obi_VolumeId p) = obi_VolumeId p
      \<and> i32 (obi_BlkIndex p) = obi_BlkIndex p"

definition OBJECT_BLK_INFO_norm :: "OBJECT_BLK_INFO \<Rightarrow> OBJECT_BLK_INFO" where
  "OBJECT_BLK_INFO_norm p = p\<lparr>obi_BlkKey := Some (bytes_of (obi_BlkKey p))\<rparr>"

lemma OBJECT_BLK_INFO_writes:
  assumes "protocol_laws L w" and "OBJECT_BLK_INFO_wf a"
  shows "writes w (OBJECT_BLK_INFO_Write L (Some a)) (OBJECT_BLK_INFO_enc a)"
  unfolding OBJECT_BLK_INFO_Write_def OBJECT_BLK_INFO_enc_def
  by (rule writes_struct [OF assms(1)], use assms in \<open>auto simp: OBJECT_BLK_INFO_steps_def
      OBJECT_BLK_INFO_fields_def
    OBJECT_BLK_INFO_wf_def Let_def intro!: writes_intros\<close>)

lemma OBJECT_BLK_INFO_fields_ok:
  assumes "protocol_laws L w" and "OBJECT_BLK_INFO_wf a"
  shows "\<forall>f \<in> set (OBJECT_BLK_INFO_fields a). fld_ok w (OBJECT_BLK_INFO_rows L) f"
  using assms by (auto simp: OBJECT_BLK_INFO_fields_def OBJECT_BLK_INFO_rows_def
      OBJECT_BLK_INFO_wf_def fld_ok_def
      intro!: reads_intros split: option.splits)

lemma OBJECT_BLK_INFO_fields_set: "foldl set_fld new_OBJECT_BLK_INFO (OBJECT_BLK_INFO_fields a) =
    OBJECT_BLK_INFO_norm a"
  by (cases a) (auto simp: OBJECT_BLK_INFO_fields_def set_fld_def new_OBJECT_BLK_INFO_def
      OBJECT_BLK_INFO_norm_def)

lemma OBJECT_BLK_INFO_reads:
  assumes "protocol_laws L w" and "OBJECT_BLK_INFO_wf a"
  shows "reads w (OBJECT_BLK_INFO_Read L new_OBJECT_BLK_INFO) (OBJECT_BLK_INFO_enc a)
      (OBJECT_BLK_INFO_norm a)"
  unfolding OBJECT_BLK_INFO_Read_def OBJECT_BLK_INFO_enc_def
  by (intro reads_fields [OF assms(1)] OBJECT_BLK_INFO_fields_ok [OF assms]
      OBJECT_BLK_INFO_fields_set)
    (simp add: OBJECT_BLK_INFO_fields_def OBJECT_BLK_INFO_rows_def present_def)

interpretation obi: struct_codec OBJECT_BLK_INFO_enc OBJECT_BLK_INFO_wf OBJECT_BLK_INFO_norm
    new_OBJECT_BLK_INFO OBJECT_BLK_INFO_Write OBJECT_BLK_INFO_Read
  by unfold_locales (fact OBJECT_BLK_INFO_writes, fact OBJECT_BLK_INFO_reads)

section \<open>\<^verbatim>\<open>OBJECT_BLKS_INFO\<close>\<close>

record OBJECT_BLKS_INFO =
  obsi_ObjectInfo :: "OBJECT_INFO option"
  obsi_Blks :: "OBJECT_BLK_INFO option list option"

definition new_OBJECT_BLKS_INFO :: OBJECT_BLKS_INFO where
  "new_OBJECT_BLKS_INFO = \<lparr>obsi_ObjectInfo = None, obsi_Blks = None\<rparr>"

definition OBJECT_BLKS_INFO_IsSetObjectInfo :: "OBJECT_BLKS_INFO \<Rightarrow> bool" where
  "OBJECT_BLKS_INFO_IsSetObjectInfo p \<longleftrightarrow> obsi_ObjectInfo p \<noteq> None"

definition OBJECT_BLKS_INFO_GetObjectInfo :: "OBJECT_BLKS_INFO
    \<Rightarrow> OBJECT_INFO option" where
  "OBJECT_BLKS_INFO_GetObjectInfo p = (if \<not> OBJECT_BLKS_INFO_IsSetObjectInfo p then None
      else obsi_ObjectInfo p)"

definition OBJECT_BLKS_INFO_GetBlks :: "OBJECT_BLKS_INFO
    \<Rightarrow> OBJECT_BLK_INFO option list option" where
  "OBJECT_BLKS_INFO_GetBlks p = obsi_Blks p"

definition OBJECT_BLKS_INFO_rows :: "('p, 'e) tlib \<Rightarrow> (OBJECT_BLKS_INFO, 'p,
    'e) row list" where
  "OBJECT_BLKS_INFO_rows L =
     [\<lparr>row_id = 1, row_type = STRUCT,
       row_read = read_nested L ''*BFSS_API.OBJECT_INFO'' (OBJECT_INFO_Read L new_OBJECT_INFO)
           (\<lambda>v p. p\<lparr>obsi_ObjectInfo := Some v\<rparr>)\<rparr>,
      \<lparr>row_id = 2, row_type = LIST,
       row_read = read_list L ''*BFSS_API.OBJECT_BLK_INFO'' (OBJECT_BLK_INFO_Read L
           new_OBJECT_BLK_INFO) (\<lambda>v p. p\<lparr>obsi_Blks := Some v\<rparr>)\<rparr>]"

definition OBJECT_BLKS_INFO_Read :: "('p, 'e) tlib \<Rightarrow> (OBJECT_BLKS_INFO, 'p,
    'e) reader" where
  "OBJECT_BLKS_INFO_Read L =
     read_struct L ''*BFSS_API.OBJECT_BLKS_INFO'' (OBJECT_BLKS_INFO_rows L)
       [(1, ''ObjectInfo''), (2, ''Blks'')]"

definition OBJECT_BLKS_INFO_steps :: "('p, 'e) tlib \<Rightarrow> OBJECT_BLKS_INFO
    \<Rightarrow> ('p \<Rightarrow> 'e option \<times> 'p) list" where
  "OBJECT_BLKS_INFO_steps L p =
     (let T = ''*BFSS_API.OBJECT_BLKS_INFO'' in
      [write_nested L T ''ObjectInfo'' 1 ''*BFSS_API.OBJECT_INFO'' (OBJECT_INFO_Write L
          (obsi_ObjectInfo p)),
       write_field L T ''Blks'' LIST 2 (write_list L ''*BFSS_API.OBJECT_BLK_INFO''
           (OBJECT_BLK_INFO_Write L) (elems (obsi_Blks p)))])"

definition OBJECT_BLKS_INFO_Write :: "('p, 'e) tlib \<Rightarrow> OBJECT_BLKS_INFO option
    \<Rightarrow> 'p \<Rightarrow> 'e option \<times> 'p" where
  "OBJECT_BLKS_INFO_Write L = write_struct L ''*BFSS_API.OBJECT_BLKS_INFO'' ''OBJECT_BLKS_INFO''
      (OBJECT_BLKS_INFO_steps L)"

definition OBJECT_BLKS_INFO_fields :: "OBJECT_BLKS_INFO
    \<Rightarrow> OBJECT_BLKS_INFO fld list" where
  "OBJECT_BLKS_INFO_fields p =
     [\<lparr>fld_name = ''ObjectInfo'', fld_type = STRUCT, fld_id = 1,
       fld_toks = Some (OBJECT_INFO_enc (the (obsi_ObjectInfo p))),
       fld_set = \<lambda>q. q\<lparr>obsi_ObjectInfo := Some (OBJECT_INFO_norm (the
           (obsi_ObjectInfo p)))\<rparr>\<rparr>,
      \<lparr>fld_name = ''Blks'', fld_type = LIST, fld_id = 2,
       fld_toks = Some (enc_list (OBJECT_BLK_INFO_enc \<circ> the) (elems (obsi_Blks p))),
       fld_set = \<lambda>q. q\<lparr>obsi_Blks := Some (map (Some \<circ> (OBJECT_BLK_INFO_norm
           \<circ> the)) (elems (obsi_Blks p)))\<rparr>\<rparr>]"

definition OBJECT_BLKS_INFO_enc :: "OBJECT_BLKS_INFO \<Rightarrow> tok list" where
  "OBJECT_BLKS_INFO_enc p = enc_struct ''OBJECT_BLKS_INFO'' (map enc_fld (OBJECT_BLKS_INFO_fields
      p))"

definition OBJECT_BLKS_INFO_wf :: "OBJECT_BLKS_INFO \<Rightarrow> bool" where
  "OBJECT_BLKS_INFO_wf p \<longleftrightarrow> obsi_ObjectInfo p \<noteq> None
      \<and> OBJECT_INFO_wf (the (obsi_ObjectInfo p))
      \<and> (\<forall>x \<in> set (elems (obsi_Blks p)). x \<noteq> None
      \<and> OBJECT_BLK_INFO_wf (the x))"

definition OBJECT_BLKS_INFO_norm :: "OBJECT_BLKS_INFO \<Rightarrow> OBJECT_BLKS_INFO" where
  "OBJECT_BLKS_INFO_norm p = p\<lparr>obsi_ObjectInfo := Some (OBJECT_INFO_norm (the
      (obsi_ObjectInfo p))), obsi_Blks := Some (map (Some \<circ> (OBJECT_BLK_INFO_norm \<circ>
      the)) (elems (obsi_Blks p)))\<rparr>"

lemma OBJECT_BLKS_INFO_writes:
  assumes "protocol_laws L w" and "OBJECT_BLKS_INFO_wf a"
  shows "writes w (OBJECT_BLKS_INFO_Write L (Some a)) (OBJECT_BLKS_INFO_enc a)"
  unfolding OBJECT_BLKS_INFO_Write_def OBJECT_BLKS_INFO_enc_def
  by (rule writes_struct [OF assms(1)], use assms in \<open>auto simp: OBJECT_BLKS_INFO_steps_def
      OBJECT_BLKS_INFO_fields_def
    OBJECT_BLKS_INFO_wf_def Let_def intro!: writes_intros OBJECT_INFO_writes
        OBJECT_BLK_INFO_writes\<close>)

lemma OBJECT_BLKS_INFO_fields_ok:
  assumes "protocol_laws L w" and "OBJECT_BLKS_INFO_wf a"
  shows "\<forall>f \<in> set (OBJECT_BLKS_INFO_fields a). fld_ok w (OBJECT_BLKS_INFO_rows L) f"
  using assms by (auto simp: OBJECT_BLKS_INFO_fields_def OBJECT_BLKS_INFO_rows_def
      OBJECT_BLKS_INFO_wf_def fld_ok_def
      intro!: reads_intros OBJECT_INFO_reads OBJECT_BLK_INFO_reads split: option.splits)

lemma OBJECT_BLKS_INFO_fields_set: "foldl set_fld new_OBJECT_BLKS_INFO (OBJECT_BLKS_INFO_fields
    a) = OBJECT_BLKS_INFO_norm a"
  by (cases a) (auto simp: OBJECT_BLKS_INFO_fields_def set_fld_def new_OBJECT_BLKS_INFO_def
      OBJECT_BLKS_INFO_norm_def)

lemma OBJECT_BLKS_INFO_reads:
  assumes "protocol_laws L w" and "OBJECT_BLKS_INFO_wf a"
  shows "reads w (OBJECT_BLKS_INFO_Read L new_OBJECT_BLKS_INFO) (OBJECT_BLKS_INFO_enc a)
      (OBJECT_BLKS_INFO_norm a)"
  unfolding OBJECT_BLKS_INFO_Read_def OBJECT_BLKS_INFO_enc_def
  by (intro reads_fields [OF assms(1)] OBJECT_BLKS_INFO_fields_ok [OF assms]
      OBJECT_BLKS_INFO_fields_set)
    (simp add: OBJECT_BLKS_INFO_fields_def OBJECT_BLKS_INFO_rows_def present_def)

interpretation obsi: struct_codec OBJECT_BLKS_INFO_enc OBJECT_BLKS_INFO_wf OBJECT_BLKS_INFO_norm
    new_OBJECT_BLKS_INFO OBJECT_BLKS_INFO_Write OBJECT_BLKS_INFO_Read
  by unfold_locales (fact OBJECT_BLKS_INFO_writes, fact OBJECT_BLKS_INFO_reads)

section \<open>\<^verbatim>\<open>OBJECT_BLKS_RESULT\<close>\<close>

record OBJECT_BLKS_RESULT =
  obsr_Result :: BFSS_RESULT
  obsr_ObjectBlksInfo :: "OBJECT_BLKS_INFO option"

definition new_OBJECT_BLKS_RESULT :: OBJECT_BLKS_RESULT where
  "new_OBJECT_BLKS_RESULT = \<lparr>obsr_Result = 0, obsr_ObjectBlksInfo = None\<rparr>"

definition OBJECT_BLKS_RESULT_GetResult :: "OBJECT_BLKS_RESULT \<Rightarrow> BFSS_RESULT" where
  "OBJECT_BLKS_RESULT_GetResult p = obsr_Result p"

definition OBJECT_BLKS_RESULT_IsSetObjectBlksInfo :: "OBJECT_BLKS_RESULT \<Rightarrow> bool" where
  "OBJECT_BLKS_RESULT_IsSetObjectBlksInfo p \<longleftrightarrow> obsr_ObjectBlksInfo p \<noteq>
      None"

definition OBJECT_BLKS_RESULT_GetObjectBlksInfo :: "OBJECT_BLKS_RESULT
    \<Rightarrow> OBJECT_BLKS_INFO option" where
  "OBJECT_BLKS_RESULT_GetObjectBlksInfo p = (if \<not> OBJECT_BLKS_RESULT_IsSetObjectBlksInfo p
      then None else obsr_ObjectBlksInfo p)"

definition OBJECT_BLKS_RESULT_rows :: "('p, 'e) tlib \<Rightarrow> (OBJECT_BLKS_RESULT, 'p,
    'e) row list" where
  "OBJECT_BLKS_RESULT_rows L =
     [\<lparr>row_id = 1, row_type = I32,
       row_read = read_scalar L 1 (ReadI32 L)
           (\<lambda>v p. p\<lparr>obsr_Result := v\<rparr>)\<rparr>,
      \<lparr>row_id = 2, row_type = STRUCT,
       row_read = read_nested L ''*BFSS_API.OBJECT_BLKS_INFO'' (OBJECT_BLKS_INFO_Read L
           new_OBJECT_BLKS_INFO) (\<lambda>v p. p\<lparr>obsr_ObjectBlksInfo := Some
           v\<rparr>)\<rparr>]"

definition OBJECT_BLKS_RESULT_Read :: "('p, 'e) tlib \<Rightarrow> (OBJECT_BLKS_RESULT, 'p,
    'e) reader" where
  "OBJECT_BLKS_RESULT_Read L =
     read_struct L ''*BFSS_API.OBJECT_BLKS_RESULT'' (OBJECT_BLKS_RESULT_rows L)
       [(1, ''Result_'')]"

definition OBJECT_BLKS_RESULT_steps :: "('p, 'e) tlib \<Rightarrow> OBJECT_BLKS_RESULT
    \<Rightarrow> ('p \<Rightarrow> 'e option \<times> 'p) list" where
  "OBJECT_BLKS_RESULT_steps L p =
     (let T = ''*BFSS_API.OBJECT_BLKS_RESULT'' in
      [write_scalar L T ''Result'' I32 1 (WriteI32 L (i32 (obsr_Result p))),
       if_set (obsr_ObjectBlksInfo p) (\<lambda>x. write_nested L T ''ObjectBlksInfo'' 2
           ''*BFSS_API.OBJECT_BLKS_INFO'' (OBJECT_BLKS_INFO_Write L (Some x)))])"

definition OBJECT_BLKS_RESULT_Write :: "('p, 'e) tlib \<Rightarrow> OBJECT_BLKS_RESULT option
    \<Rightarrow> 'p \<Rightarrow> 'e option \<times> 'p" where
  "OBJECT_BLKS_RESULT_Write L = write_struct L ''*BFSS_API.OBJECT_BLKS_RESULT''
      ''OBJECT_BLKS_RESULT'' (OBJECT_BLKS_RESULT_steps L)"

definition OBJECT_BLKS_RESULT_fields :: "OBJECT_BLKS_RESULT
    \<Rightarrow> OBJECT_BLKS_RESULT fld list" where
  "OBJECT_BLKS_RESULT_fields p =
     [\<lparr>fld_name = ''Result'', fld_type = I32, fld_id = 1,
       fld_toks = Some [TI32 (i32 (obsr_Result p))],
       fld_set = \<lambda>q. q\<lparr>obsr_Result := (i32 (obsr_Result p))\<rparr>\<rparr>,
      \<lparr>fld_name = ''ObjectBlksInfo'', fld_type = STRUCT, fld_id = 2,
       fld_toks = map_option OBJECT_BLKS_INFO_enc (obsr_ObjectBlksInfo p),
       fld_set = \<lambda>q. q\<lparr>obsr_ObjectBlksInfo := map_option OBJECT_BLKS_INFO_norm
           (obsr_ObjectBlksInfo p)\<rparr>\<rparr>]"

definition OBJECT_BLKS_RESULT_enc :: "OBJECT_BLKS_RESULT \<Rightarrow> tok list" where
  "OBJECT_BLKS_RESULT_enc p = enc_struct ''OBJECT_BLKS_RESULT'' (map enc_fld
      (OBJECT_BLKS_RESULT_fields p))"

definition OBJECT_BLKS_RESULT_wf :: "OBJECT_BLKS_RESULT \<Rightarrow> bool" where
  "OBJECT_BLKS_RESULT_wf p \<longleftrightarrow> pred_option OBJECT_BLKS_INFO_wf
      (obsr_ObjectBlksInfo p)"

definition OBJECT_BLKS_RESULT_norm :: "OBJECT_BLKS_RESULT \<Rightarrow> OBJECT_BLKS_RESULT" where
  "OBJECT_BLKS_RESULT_norm p = p\<lparr>obsr_Result := i32 (obsr_Result p),
      obsr_ObjectBlksInfo := map_option OBJECT_BLKS_INFO_norm (obsr_ObjectBlksInfo p)\<rparr>"

lemma OBJECT_BLKS_RESULT_writes:
  assumes "protocol_laws L w" and "OBJECT_BLKS_RESULT_wf a"
  shows "writes w (OBJECT_BLKS_RESULT_Write L (Some a)) (OBJECT_BLKS_RESULT_enc a)"
  unfolding OBJECT_BLKS_RESULT_Write_def OBJECT_BLKS_RESULT_enc_def
  by (rule writes_struct [OF assms(1)], use assms in \<open>auto simp:
      OBJECT_BLKS_RESULT_steps_def OBJECT_BLKS_RESULT_fields_def
    OBJECT_BLKS_RESULT_wf_def Let_def intro!: writes_intros OBJECT_BLKS_INFO_writes\<close>)

lemma OBJECT_BLKS_RESULT_fields_ok:
  assumes "protocol_laws L w" and "OBJECT_BLKS_RESULT_wf a"
  shows "\<forall>f \<in> set (OBJECT_BLKS_RESULT_fields a). fld_ok w (OBJECT_BLKS_RESULT_rows L) f"
  using assms by (auto simp: OBJECT_BLKS_RESULT_fields_def OBJECT_BLKS_RESULT_rows_def
      OBJECT_BLKS_RESULT_wf_def fld_ok_def
      intro!: reads_intros OBJECT_BLKS_INFO_reads split: option.splits)

lemma OBJECT_BLKS_RESULT_fields_set: "foldl set_fld new_OBJECT_BLKS_RESULT
    (OBJECT_BLKS_RESULT_fields a) = OBJECT_BLKS_RESULT_norm a"
  by (cases a) (auto simp: OBJECT_BLKS_RESULT_fields_def set_fld_def new_OBJECT_BLKS_RESULT_def
      OBJECT_BLKS_RESULT_norm_def)

lemma OBJECT_BLKS_RESULT_reads:
  assumes "protocol_laws L w" and "OBJECT_BLKS_RESULT_wf a"
  shows "reads w (OBJECT_BLKS_RESULT_Read L new_OBJECT_BLKS_RESULT) (OBJECT_BLKS_RESULT_enc a)
      (OBJECT_BLKS_RESULT_norm a)"
  unfolding OBJECT_BLKS_RESULT_Read_def OBJECT_BLKS_RESULT_enc_def
  by (intro reads_fields [OF assms(1)] OBJECT_BLKS_RESULT_fields_ok [OF assms]
      OBJECT_BLKS_RESULT_fields_set)
    (simp add: OBJECT_BLKS_RESULT_fields_def OBJECT_BLKS_RESULT_rows_def present_def)

interpretation obsr: struct_codec OBJECT_BLKS_RESULT_enc OBJECT_BLKS_RESULT_wf
    OBJECT_BLKS_RESULT_norm
    new_OBJECT_BLKS_RESULT OBJECT_BLKS_RESULT_Write OBJECT_BLKS_RESULT_Read
  by unfold_locales (fact OBJECT_BLKS_RESULT_writes, fact OBJECT_BLKS_RESULT_reads)

section \<open>\<^verbatim>\<open>BFSS_MESSAGE\<close>\<close>

record BFSS_MESSAGE =
  bm_Param :: "int option"
  bm_ParamEx :: "int option"
  bm_DataEx :: bytes

definition new_BFSS_MESSAGE :: BFSS_MESSAGE where
  "new_BFSS_MESSAGE = \<lparr>bm_Param = None, bm_ParamEx = None, bm_DataEx = None\<rparr>"

definition BFSS_MESSAGE_IsSetParam :: "BFSS_MESSAGE \<Rightarrow> bool" where
  "BFSS_MESSAGE_IsSetParam p \<longleftrightarrow> bm_Param p \<noteq> None"

definition BFSS_MESSAGE_GetParam :: "BFSS_MESSAGE \<Rightarrow> int" where
  "BFSS_MESSAGE_GetParam p = (case bm_Param p of None \<Rightarrow> 0 | Some v \<Rightarrow> v)"

definition BFSS_MESSAGE_IsSetParamEx :: "BFSS_MESSAGE \<Rightarrow> bool" where
  "BFSS_MESSAGE_IsSetParamEx p \<longleftrightarrow> bm_ParamEx p \<noteq> None"

definition BFSS_MESSAGE_GetParamEx :: "BFSS_MESSAGE \<Rightarrow> int" where
  "BFSS_MESSAGE_GetParamEx p = (case bm_ParamEx p of None \<Rightarrow> 0 | Some v \<Rightarrow> v)"

definition BFSS_MESSAGE_IsSetDataEx :: "BFSS_MESSAGE \<Rightarrow> bool" where
  "BFSS_MESSAGE_IsSetDataEx p \<longleftrightarrow> bm_DataEx p \<noteq> None"

definition BFSS_MESSAGE_GetDataEx :: "BFSS_MESSAGE \<Rightarrow> bytes" where
  "BFSS_MESSAGE_GetDataEx p = bm_DataEx p"

definition BFSS_MESSAGE_rows :: "('p, 'e) tlib \<Rightarrow> (BFSS_MESSAGE, 'p, 'e) row list" where
  "BFSS_MESSAGE_rows L =
     [\<lparr>row_id = 1, row_type = I32,
       row_read = read_scalar L 1 (ReadI32 L)
           (\<lambda>v p. p\<lparr>bm_Param := Some v\<rparr>)\<rparr>,
      \<lparr>row_id = 2, row_type = I32,
       row_read = read_scalar L 2 (ReadI32 L)
           (\<lambda>v p. p\<lparr>bm_ParamEx := Some v\<rparr>)\<rparr>,
      \<lparr>row_id = 3, row_type = STRING,
       row_read = read_scalar L 3 (ReadBinary L)
           (\<lambda>v p. p\<lparr>bm_DataEx := v\<rparr>)\<rparr>]"

definition BFSS_MESSAGE_Read :: "('p, 'e) tlib \<Rightarrow> (BFSS_MESSAGE, 'p, 'e) reader" where
  "BFSS_MESSAGE_Read L =
     read_struct L ''*BFSS_API.BFSS_MESSAGE'' (BFSS_MESSAGE_rows L)
       []"

definition BFSS_MESSAGE_steps :: "('p, 'e) tlib \<Rightarrow> BFSS_MESSAGE \<Rightarrow> ('p
    \<Rightarrow> 'e option \<times> 'p) list" where
  "BFSS_MESSAGE_steps L p =
     (let T = ''*BFSS_API.BFSS_MESSAGE'' in
      [if_set (bm_Param p) (\<lambda>v. write_scalar L T ''Param'' I32 1 (WriteI32 L v)),
       if_set (bm_ParamEx p) (\<lambda>v. write_scalar L T ''ParamEx'' I32 2 (WriteI32 L v)),
       if_set (bm_DataEx p) (\<lambda>b. write_scalar L T ''DataEx'' STRING 3 (WriteBinary L
           (Some b)))])"

definition BFSS_MESSAGE_Write :: "('p, 'e) tlib \<Rightarrow> BFSS_MESSAGE option
    \<Rightarrow> 'p \<Rightarrow> 'e option \<times> 'p" where
  "BFSS_MESSAGE_Write L = write_struct L ''*BFSS_API.BFSS_MESSAGE'' ''BFSS_MESSAGE''
      (BFSS_MESSAGE_steps L)"

definition BFSS_MESSAGE_fields :: "BFSS_MESSAGE \<Rightarrow> BFSS_MESSAGE fld list" where
  "BFSS_MESSAGE_fields p =
     [\<lparr>fld_name = ''Param'', fld_type = I32, fld_id = 1,
       fld_toks = map_option (\<lambda>v. [TI32 v]) (bm_Param p),
       fld_set = \<lambda>q. q\<lparr>bm_Param := bm_Param p\<rparr>\<rparr>,
      \<lparr>fld_name = ''ParamEx'', fld_type = I32, fld_id = 2,
       fld_toks = map_option (\<lambda>v. [TI32 v]) (bm_ParamEx p),
       fld_set = \<lambda>q. q\<lparr>bm_ParamEx := bm_ParamEx p\<rparr>\<rparr>,
      \<lparr>fld_name = ''DataEx'', fld_type = STRING, fld_id = 3,
       fld_toks = map_option (\<lambda>b. [TBinary b]) (bm_DataEx p),
       fld_set = \<lambda>q. q\<lparr>bm_DataEx := bm_DataEx p\<rparr>\<rparr>]"

definition BFSS_MESSAGE_enc :: "BFSS_MESSAGE \<Rightarrow> tok list" where
  "BFSS_MESSAGE_enc p = enc_struct ''BFSS_MESSAGE'' (map enc_fld (BFSS_MESSAGE_fields p))"

definition BFSS_MESSAGE_wf :: "BFSS_MESSAGE \<Rightarrow> bool" where
  "BFSS_MESSAGE_wf p \<longleftrightarrow> map_option i32 (bm_Param p) = bm_Param p
      \<and> map_option i32 (bm_ParamEx p) = bm_ParamEx p"

definition BFSS_MESSAGE_norm :: "BFSS_MESSAGE \<Rightarrow> BFSS_MESSAGE" where
  "BFSS_MESSAGE_norm p = p"

lemma BFSS_MESSAGE_writes:
  assumes "protocol_laws L w" and "BFSS_MESSAGE_wf a"
  shows "writes w (BFSS_MESSAGE_Write L (Some a)) (BFSS_MESSAGE_enc a)"
  unfolding BFSS_MESSAGE_Write_def BFSS_MESSAGE_enc_def
  by (rule writes_struct [OF assms(1)], use assms in \<open>auto simp: BFSS_MESSAGE_steps_def
      BFSS_MESSAGE_fields_def
    BFSS_MESSAGE_wf_def Let_def intro!: writes_intros\<close>)

lemma BFSS_MESSAGE_fields_ok:
  assumes "protocol_laws L w" and "BFSS_MESSAGE_wf a"
  shows "\<forall>f \<in> set (BFSS_MESSAGE_fields a). fld_ok w (BFSS_MESSAGE_rows L) f"
  using assms by (auto simp: BFSS_MESSAGE_fields_def BFSS_MESSAGE_rows_def BFSS_MESSAGE_wf_def
      fld_ok_def
      intro!: reads_intros split: option.splits)

lemma BFSS_MESSAGE_fields_set: "foldl set_fld new_BFSS_MESSAGE
    (BFSS_MESSAGE_fields a) = BFSS_MESSAGE_norm a"
  by (cases a) (auto simp: BFSS_MESSAGE_fields_def set_fld_def new_BFSS_MESSAGE_def
      BFSS_MESSAGE_norm_def)

lemma BFSS_MESSAGE_reads:
  assumes "protocol_laws L w" and "BFSS_MESSAGE_wf a"
  shows "reads w (BFSS_MESSAGE_Read L new_BFSS_MESSAGE) (BFSS_MESSAGE_enc a) (BFSS_MESSAGE_norm a)"
  unfolding BFSS_MESSAGE_Read_def BFSS_MESSAGE_enc_def
  by (intro reads_fields [OF assms(1)] BFSS_MESSAGE_fields_ok [OF assms] BFSS_MESSAGE_fields_set)
    (simp add: BFSS_MESSAGE_fields_def BFSS_MESSAGE_rows_def present_def)

interpretation bm: struct_codec BFSS_MESSAGE_enc BFSS_MESSAGE_wf BFSS_MESSAGE_norm
    new_BFSS_MESSAGE BFSS_MESSAGE_Write BFSS_MESSAGE_Read
  by unfold_locales (fact BFSS_MESSAGE_writes, fact BFSS_MESSAGE_reads)

section \<open>\<^verbatim>\<open>MESSAGE_RESULT\<close>\<close>

record MESSAGE_RESULT =
  mr_Result :: BFSS_RESULT
  mr_BFSSMsg :: "BFSS_MESSAGE option"

definition new_MESSAGE_RESULT :: MESSAGE_RESULT where
  "new_MESSAGE_RESULT = \<lparr>mr_Result = 0, mr_BFSSMsg = None\<rparr>"

definition MESSAGE_RESULT_GetResult :: "MESSAGE_RESULT \<Rightarrow> BFSS_RESULT" where
  "MESSAGE_RESULT_GetResult p = mr_Result p"

definition MESSAGE_RESULT_IsSetBFSSMsg :: "MESSAGE_RESULT \<Rightarrow> bool" where
  "MESSAGE_RESULT_IsSetBFSSMsg p \<longleftrightarrow> mr_BFSSMsg p \<noteq> None"

definition MESSAGE_RESULT_GetBFSSMsg :: "MESSAGE_RESULT \<Rightarrow> BFSS_MESSAGE option" where
  "MESSAGE_RESULT_GetBFSSMsg p = (if \<not> MESSAGE_RESULT_IsSetBFSSMsg p then None else
      mr_BFSSMsg p)"

definition MESSAGE_RESULT_rows :: "('p, 'e) tlib \<Rightarrow> (MESSAGE_RESULT, 'p,
    'e) row list" where
  "MESSAGE_RESULT_rows L =
     [\<lparr>row_id = 1, row_type = I32,
       row_read = read_scalar L 1 (ReadI32 L)
           (\<lambda>v p. p\<lparr>mr_Result := v\<rparr>)\<rparr>,
      \<lparr>row_id = 2, row_type = STRUCT,
       row_read = read_nested L ''*BFSS_API.BFSS_MESSAGE'' (BFSS_MESSAGE_Read L new_BFSS_MESSAGE)
           (\<lambda>v p. p\<lparr>mr_BFSSMsg := Some v\<rparr>)\<rparr>]"

definition MESSAGE_RESULT_Read :: "('p, 'e) tlib \<Rightarrow> (MESSAGE_RESULT, 'p,
    'e) reader" where
  "MESSAGE_RESULT_Read L =
     read_struct L ''*BFSS_API.MESSAGE_RESULT'' (MESSAGE_RESULT_rows L)
       [(1, ''Result_'')]"

definition MESSAGE_RESULT_steps :: "('p, 'e) tlib \<Rightarrow> MESSAGE_RESULT \<Rightarrow> ('p
    \<Rightarrow> 'e option \<times> 'p) list" where
  "MESSAGE_RESULT_steps L p =
     (let T = ''*BFSS_API.MESSAGE_RESULT'' in
      [write_scalar L T ''Result'' I32 1 (WriteI32 L (i32 (mr_Result p))),
       if_set (mr_BFSSMsg p) (\<lambda>x. write_nested L T ''BFSSMsg'' 2
           ''*BFSS_API.BFSS_MESSAGE'' (BFSS_MESSAGE_Write L (Some x)))])"

definition MESSAGE_RESULT_Write :: "('p, 'e) tlib \<Rightarrow> MESSAGE_RESULT option
    \<Rightarrow> 'p \<Rightarrow> 'e option \<times> 'p" where
  "MESSAGE_RESULT_Write L = write_struct L ''*BFSS_API.MESSAGE_RESULT'' ''MESSAGE_RESULT''
      (MESSAGE_RESULT_steps L)"

definition MESSAGE_RESULT_fields :: "MESSAGE_RESULT \<Rightarrow> MESSAGE_RESULT fld list" where
  "MESSAGE_RESULT_fields p =
     [\<lparr>fld_name = ''Result'', fld_type = I32, fld_id = 1,
       fld_toks = Some [TI32 (i32 (mr_Result p))],
       fld_set = \<lambda>q. q\<lparr>mr_Result := (i32 (mr_Result p))\<rparr>\<rparr>,
      \<lparr>fld_name = ''BFSSMsg'', fld_type = STRUCT, fld_id = 2,
       fld_toks = map_option BFSS_MESSAGE_enc (mr_BFSSMsg p),
       fld_set = \<lambda>q. q\<lparr>mr_BFSSMsg := map_option BFSS_MESSAGE_norm (mr_BFSSMsg
           p)\<rparr>\<rparr>]"

definition MESSAGE_RESULT_enc :: "MESSAGE_RESULT \<Rightarrow> tok list" where
  "MESSAGE_RESULT_enc p = enc_struct ''MESSAGE_RESULT'' (map enc_fld (MESSAGE_RESULT_fields p))"

definition MESSAGE_RESULT_wf :: "MESSAGE_RESULT \<Rightarrow> bool" where
  "MESSAGE_RESULT_wf p \<longleftrightarrow> pred_option BFSS_MESSAGE_wf (mr_BFSSMsg p)"

definition MESSAGE_RESULT_norm :: "MESSAGE_RESULT \<Rightarrow> MESSAGE_RESULT" where
  "MESSAGE_RESULT_norm p = p\<lparr>mr_Result := i32 (mr_Result p),
      mr_BFSSMsg := map_option BFSS_MESSAGE_norm (mr_BFSSMsg p)\<rparr>"

lemma MESSAGE_RESULT_writes:
  assumes "protocol_laws L w" and "MESSAGE_RESULT_wf a"
  shows "writes w (MESSAGE_RESULT_Write L (Some a)) (MESSAGE_RESULT_enc a)"
  unfolding MESSAGE_RESULT_Write_def MESSAGE_RESULT_enc_def
  by (rule writes_struct [OF assms(1)], use assms in \<open>auto simp: MESSAGE_RESULT_steps_def
      MESSAGE_RESULT_fields_def
    MESSAGE_RESULT_wf_def Let_def intro!: writes_intros BFSS_MESSAGE_writes\<close>)

lemma MESSAGE_RESULT_fields_ok:
  assumes "protocol_laws L w" and "MESSAGE_RESULT_wf a"
  shows "\<forall>f \<in> set (MESSAGE_RESULT_fields a). fld_ok w (MESSAGE_RESULT_rows L) f"
  using assms by (auto simp: MESSAGE_RESULT_fields_def MESSAGE_RESULT_rows_def
      MESSAGE_RESULT_wf_def fld_ok_def
      intro!: reads_intros BFSS_MESSAGE_reads split: option.splits)

lemma MESSAGE_RESULT_fields_set: "foldl set_fld new_MESSAGE_RESULT (MESSAGE_RESULT_fields a) =
    MESSAGE_RESULT_norm a"
  by (cases a) (auto simp: MESSAGE_RESULT_fields_def set_fld_def new_MESSAGE_RESULT_def
      MESSAGE_RESULT_norm_def)

lemma MESSAGE_RESULT_reads:
  assumes "protocol_laws L w" and "MESSAGE_RESULT_wf a"
  shows "reads w (MESSAGE_RESULT_Read L new_MESSAGE_RESULT) (MESSAGE_RESULT_enc a)
      (MESSAGE_RESULT_norm a)"
  unfolding MESSAGE_RESULT_Read_def MESSAGE_RESULT_enc_def
  by (intro reads_fields [OF assms(1)] MESSAGE_RESULT_fields_ok [OF assms]
      MESSAGE_RESULT_fields_set)
    (simp add: MESSAGE_RESULT_fields_def MESSAGE_RESULT_rows_def present_def)

interpretation mr: struct_codec MESSAGE_RESULT_enc MESSAGE_RESULT_wf MESSAGE_RESULT_norm
    new_MESSAGE_RESULT MESSAGE_RESULT_Write MESSAGE_RESULT_Read
  by unfold_locales (fact MESSAGE_RESULT_writes, fact MESSAGE_RESULT_reads)

section \<open>Properties\<close>

text \<open>
  Claim C15: a result of \<^verbatim>\<open>GetObjectBlksInfo\<close>, with everything in it (the info of the object and the
  list of its blocks), that is written to one end of a connection is read at the other end, and
  the reader stops exactly where the writer did.
\<close>

theorem OBJECT_BLKS_RESULT_round_trip:
  assumes "protocol_laws L w" and "OBJECT_BLKS_RESULT_wf a"
    and "OBJECT_BLKS_RESULT_Write L (Some a) p = (err, p1)"
    and "sent w p1 = sent w p @ ts" and "recv w q = ts @ rest"
  shows "err = None \<and> (\<exists>q'. OBJECT_BLKS_RESULT_Read L new_OBJECT_BLKS_RESULT q =
    Some (None, OBJECT_BLKS_RESULT_norm a, q') \<and> recv w q' = rest)"
  by (rule obsr.round_trip [OF assms])

definition demo_blks :: OBJECT_BLKS_RESULT where
  "demo_blks = \<lparr>obsr_Result = 0, obsr_ObjectBlksInfo = Some
     \<lparr>obsi_ObjectInfo = Some (new_OBJECT_INFO\<lparr>oi_ObjectSize := 3\<rparr>),
      obsi_Blks = Some [Some (new_OBJECT_BLK_INFO\<lparr>obi_BlkSize := 3, obi_BlkKey := Some [1, 2]\<rparr>)]\<rparr>\<rparr>"

lemma demo_blks_wf: "OBJECT_BLKS_RESULT_wf demo_blks"
  by (simp add: OBJECT_BLKS_RESULT_wf_def OBJECT_BLKS_INFO_wf_def OBJECT_INFO_wf_def
      OBJECT_BLK_INFO_wf_def demo_blks_def new_OBJECT_INFO_def new_OBJECT_BLK_INFO_def elems_def
      i32_def i64_def)

theorem OBJECT_BLKS_RESULT_round_trip_witness:
  "\<exists>q'. OBJECT_BLKS_RESULT_Read token_lib new_OBJECT_BLKS_RESULT
     ([], fst (snd (OBJECT_BLKS_RESULT_Write token_lib (Some demo_blks) ([], [])))) =
     Some (None, OBJECT_BLKS_RESULT_norm demo_blks, q')"
proof -
  obtain err p1 where w: "OBJECT_BLKS_RESULT_Write token_lib (Some demo_blks) ([], []) = (err, p1)"
    by (cases "OBJECT_BLKS_RESULT_Write token_lib (Some demo_blks) ([], [])")
  have "sent token_wire p1 = sent token_wire ([], []) @ fst p1"
    "recv token_wire ([], fst p1) = fst p1 @ []"
    by (simp_all add: token_wire_def)
  from OBJECT_BLKS_RESULT_round_trip [OF token_protocol demo_blks_wf w this] show ?thesis
    by (auto simp: w)
qed

text \<open>
  Claim C24: a reader of an \<^verbatim>\<open>OBJECT_INFO\<close> accepts what a newer version of the service may write:
  whatever unknown fields of a plain type are mixed into the fields of the struct, at whatever
  place, it reads the same value.
\<close>

theorem OBJECT_INFO_unknown_fields:
  assumes "protocol_laws L w" and "OBJECT_INFO_wf a"
    and "\<forall>(n, i, t) \<in> set us. i \<notin> {1..6} \<and> tok_type t \<noteq> None"
    and "fs \<in> shuffles (OBJECT_INFO_fields a) (map unknown us)"
    and "recv w q = enc_struct n (map enc_fld fs) @ rest"
  shows "\<exists>q'. OBJECT_INFO_Read L new_OBJECT_INFO q = Some (None, OBJECT_INFO_norm a, q')
    \<and> recv w q' = rest"
proof -
  have sets: "set fs = set (OBJECT_INFO_fields a) \<union> unknown ` set us"
    using set_shuffles [OF assms(4)] by simp
  have "fld_ok w (OBJECT_INFO_rows L) (unknown u)" if "u \<in> set us" for u
    using assms(3) that
    by (cases u) (force simp: fld_ok_def unknown_def OBJECT_INFO_rows_def)
  then have "\<forall>f \<in> set fs. fld_ok w (OBJECT_INFO_rows L) f"
    using OBJECT_INFO_fields_ok [OF assms(1,2)] sets by auto
  moreover have "foldl set_fld new_OBJECT_INFO fs = OBJECT_INFO_norm a"
    unfolding OBJECT_INFO_fields_set [symmetric] by (rule foldl_shuffles [OF assms(4)]) auto
  moreover have "set (present (OBJECT_INFO_fields a)) \<subseteq> set (present fs)"
    using sets by (auto simp: present_def)
  ultimately have "reads w (OBJECT_INFO_Read L new_OBJECT_INFO) (enc_struct n (map enc_fld fs))
      (OBJECT_INFO_norm a)"
    unfolding OBJECT_INFO_Read_def
    by (intro reads_fields [OF assms(1)])
      (auto simp: OBJECT_INFO_fields_def OBJECT_INFO_rows_def present_def)
  then show ?thesis using assms(5) by (simp add: reads_def)
qed

theorem OBJECT_INFO_unknown_fields_witness:
  "\<exists>q'. OBJECT_INFO_Read token_lib new_OBJECT_INFO
     ([], enc_struct ''OBJECT_INFO''
            (map enc_fld (unknown (''Owner'', 9, TString ''me'') # OBJECT_INFO_fields new_OBJECT_INFO)))
     = Some (None, OBJECT_INFO_norm new_OBJECT_INFO, q')"
proof -
  let ?us = "[(''Owner'', 9 :: int, TString ''me'')]"
  let ?fs = "unknown (''Owner'', 9, TString ''me'') # OBJECT_INFO_fields new_OBJECT_INFO"
  have "OBJECT_INFO_wf new_OBJECT_INFO"
    by (simp add: OBJECT_INFO_wf_def new_OBJECT_INFO_def i32_def i64_def)
  moreover have "\<forall>(n, i, t) \<in> set ?us. i \<notin> {1..6} \<and> tok_type t \<noteq> None" by simp
  moreover have "?fs \<in> shuffles (OBJECT_INFO_fields new_OBJECT_INFO) (map unknown ?us)"
    by (simp add: Cons_in_shuffles_iff)
  moreover have "recv token_wire ([], enc_struct ''OBJECT_INFO'' (map enc_fld ?fs)) =
      enc_struct ''OBJECT_INFO'' (map enc_fld ?fs) @ []" by (simp add: token_wire_def)
  ultimately show ?thesis
    using OBJECT_INFO_unknown_fields [OF token_protocol] by blast
qed

text \<open>
  Claim C30: a required struct that is nil is written without an error, as a struct without
  fields, which no reader accepts: reading it fails with the error that the first required field
  of the nested struct is not set.
\<close>

theorem OBJECT_BLKS_INFO_nil:
  assumes "protocol_laws L w" and "obsi_ObjectInfo a = None"
    and "OBJECT_BLKS_INFO_Write L (Some a) p = (err, p1)"
    and "sent w p1 = sent w p @ ts" and "recv w q = ts @ rest"
    and "\<forall>x \<in> set (elems (obsi_Blks a)). x \<noteq> None \<and> OBJECT_BLK_INFO_wf (the x)"
  shows "err = None \<and> (\<exists>b q'. OBJECT_BLKS_INFO_Read L new_OBJECT_BLKS_INFO q =
    Some (Some (PrependError L ''*BFSS_API.OBJECT_INFO error reading struct: ''
      (InvalidData L ''Required field ObjectSize is not set'')), b, q'))"
proof -
  let ?more = "enc_field ''Blks'' LIST 2 (enc_list (OBJECT_BLK_INFO_enc \<circ> the) (elems (obsi_Blks a)))"
  have "list_all2 (writes w) (OBJECT_BLKS_INFO_steps L a)
      [enc_field ''ObjectInfo'' STRUCT 1 (enc_struct ''OBJECT_INFO'' []), ?more]"
    using assms(1,6) unfolding OBJECT_BLKS_INFO_steps_def assms(2) OBJECT_INFO_Write_def
    by (auto simp: Let_def intro!: writes_intros writes_struct_nil OBJECT_BLK_INFO_writes)
  from writes_struct [where steps = "OBJECT_BLKS_INFO_steps L" and a = a, OF assms(1) this]
  have "(err, p1) = (None, fold (put w) (enc_struct
      ''OBJECT_BLKS_INFO'' [enc_field ''ObjectInfo'' STRUCT 1 (enc_struct ''OBJECT_INFO'' []), ?more]) p)"
    using assms(3) unfolding OBJECT_BLKS_INFO_Write_def writes_def by metis
  then have err: "err = None" and ts: "ts = enc_struct ''OBJECT_BLKS_INFO''
      [enc_field ''ObjectInfo'' STRUCT 1 (enc_struct ''OBJECT_INFO'' []), ?more]"
    using assms(4) sent_fold [OF assms(1)] by auto
  have r: "recv w q = TBegin ''OBJECT_BLKS_INFO'' # TField ''ObjectInfo'' STRUCT 1
      # enc_struct ''OBJECT_INFO'' [] @ TFieldEnd # ?more @ [TStop, TEnd] @ rest"
    using assms(5) by (simp add: ts enc_struct_def enc_field_def)
  have r1: "recv w (adv w q) = TField ''ObjectInfo'' STRUCT 1
      # enc_struct ''OBJECT_INFO'' [] @ TFieldEnd # ?more @ [TStop, TEnd] @ rest"
    using recv_adv [OF assms(1) r] .
  have r2: "recv w (adv w (adv w q)) = enc_struct ''OBJECT_INFO'' [] @ TFieldEnd # ?more
      @ [TStop, TEnd] @ rest"
    using recv_adv [OF assms(1) r1] .
  have "loop_reads L w ''*BFSS_API.OBJECT_INFO'' (OBJECT_INFO_rows L) new_OBJECT_INFO []
      (concat [] @ [TStop]) new_OBJECT_INFO []"
    using loop_reads_stop [OF assms(1)] by simp
  from read_struct_loop [where req = "[(1, ''ObjectSize''), (2, ''CreateTime''), (3, ''ObjectFlag''),
      (4, ''ObjectTag''), (5, ''Complete''), (6, ''Hash'')]", OF assms(1) this r2] obtain q2 where
      "OBJECT_INFO_Read L new_OBJECT_INFO (adv w (adv w q)) = Some
        (Some (InvalidData L ''Required field ObjectSize is not set''), new_OBJECT_INFO, q2)"
    by (auto simp: OBJECT_INFO_Read_def check_required_def)
  moreover obtain m where "ReadStructBegin L q = (Inr m, adv w q)" using read_begin [OF assms(1) r] by blast
  moreover have "ReadFieldBegin L (adv w q) = ((None, STRUCT, 1), adv w (adv w q))"
    using read_ops(2) [OF assms(1) r1] .
  ultimately show ?thesis
    using err
    by (auto simp: OBJECT_BLKS_INFO_Read_def read_struct_def fields_loop.simps field_case_def
        OBJECT_BLKS_INFO_rows_def read_nested_def)
qed

theorem OBJECT_BLKS_INFO_nil_witness:
  "fst (the (OBJECT_BLKS_INFO_Read token_lib new_OBJECT_BLKS_INFO
     ([], fst (snd (OBJECT_BLKS_INFO_Write token_lib (Some new_OBJECT_BLKS_INFO) ([], []))))))
   = Some ''*BFSS_API.OBJECT_INFO error reading struct: Required field ObjectSize is not set''"
proof -
  obtain err p1 where
      w: "OBJECT_BLKS_INFO_Write token_lib (Some new_OBJECT_BLKS_INFO) ([], []) = (err, p1)"
    by (cases "OBJECT_BLKS_INFO_Write token_lib (Some new_OBJECT_BLKS_INFO) ([], [])")
  have n: "obsi_ObjectInfo new_OBJECT_BLKS_INFO = None" by (simp add: new_OBJECT_BLKS_INFO_def)
  have e: "\<forall>x \<in> set (elems (obsi_Blks new_OBJECT_BLKS_INFO)). x \<noteq> None \<and> OBJECT_BLK_INFO_wf (the x)"
    by (simp add: new_OBJECT_BLKS_INFO_def elems_def)
  have s: "sent token_wire p1 = sent token_wire ([], []) @ fst p1"
    "recv token_wire ([], fst p1) = fst p1 @ []"
    by (simp_all add: token_wire_def)
  have "PrependError token_lib ''*BFSS_API.OBJECT_INFO error reading struct: ''
        (InvalidData token_lib ''Required field ObjectSize is not set'') =
      ''*BFSS_API.OBJECT_INFO error reading struct: Required field ObjectSize is not set''"
    by (simp add: token_lib_def)
  with OBJECT_BLKS_INFO_nil [OF token_protocol n w s e]
  show ?thesis by (elim conjE exE) (simp only: w snd_conv fst_conv option.sel)
qed

end
