(* ===== verification/Load_Objects.thy ===== *)
theory Load_Objects
  imports Load_Writer BFSS_API_Types
begin

text \<open>
  The tests of single calls, \<^verbatim>\<open>test/create_object.go\<close>, \<^verbatim>\<open>test/link.go\<close>, \<^verbatim>\<open>test/delete_object.go\<close>,
  \<^verbatim>\<open>test/complete_object.go\<close>, \<^verbatim>\<open>test/get_object.go\<close>, and \<^verbatim>\<open>VerifyHash\<close> of \<^verbatim>\<open>test/write.go\<close>. The world
  of \<^verbatim>\<open>Write\<close> is extended by the calls they make. A result \<open>None\<close> is a run-time panic. None of
  these functions closes the connection it opens.
\<close>

record 's object_world = "'s world" +
  md5_hex :: "byte list \<Rightarrow> string"
  cl_DeleteObject :: "string \<Rightarrow> 's \<Rightarrow> (BFSS_RESULT \<times> error option) \<times> 's"
  cl_GetObjectInfo :: "string \<Rightarrow> 's \<Rightarrow> (OBJECT_INFO_RESULT option \<times> error option) \<times> 's"
  cl_CreateObjectLink ::
    "string \<Rightarrow> string \<Rightarrow> int \<Rightarrow> bytes \<Rightarrow> int \<Rightarrow> string \<Rightarrow> 's \<Rightarrow> (BFSS_RESULT \<times> error option) \<times> 's"
  cl_ObjectLockHasHash :: "string \<Rightarrow> int \<Rightarrow> bytes \<Rightarrow> 's \<Rightarrow> (BFSS_RESULT \<times> error option) \<times> 's"

definition hashValue :: "('s, 'm) object_world_scheme \<Rightarrow> byte list \<Rightarrow> string" where
  "hashValue w data = md5_hex w data"

text \<open>\<^verbatim>\<open>app.RandomStrategy\<close> on the random source of the world.\<close>

definition random_strategy :: "('s, 'm) world_scheme \<Rightarrow> 's \<Rightarrow> strategy \<times> 's" where
  "random_strategy w s =
     (case rand_Intn w (int (strategy_index SMax)) s of (k, s') \<Rightarrow> (RandomStrategy (\<lambda>n. nat k), s'))"

section \<open>Creating objects and links\<close>

text \<open>
  The loop of \<^verbatim>\<open>CreateObject\<close> and of \<^verbatim>\<open>CreateObjectLink\<close>, around the rest of its body: it counts the
  file as prepared first.
\<close>

partial_function (option) prepared_loop ::
  "(PerfStats \<Rightarrow> 's \<Rightarrow> (error option \<times> PerfStats \<times> 's) option) \<Rightarrow> PerfStats \<Rightarrow> 's
     \<Rightarrow> (error option \<times> PerfStats \<times> 's) option" where
  "prepared_loop body stats s =
     (if ExpectedFiles stats \<le> TotalPreparedFiles stats then Some (None, stats, s)
      else Option.bind (body (AddPreparedFiles 1 stats) s) (\<lambda>(err, stats', s').
             case err of
               Some e \<Rightarrow> Some (Some e, stats', s')
             | None \<Rightarrow> prepared_loop body stats' s'))"

definition CreateObject_one ::
  "('s, 'm) world_scheme \<Rightarrow> string \<Rightarrow> PerfStats \<Rightarrow> 's \<Rightarrow> (error option \<times> PerfStats \<times> 's) option" where
  "CreateObject_one w tag stats s =
     (let (sm, s1) = random_strategy w s;
          (nm, s2) = uuid w s1;
          (sz, s3) = genFileSize w sm s2;
          (t, s4) = now w s3;
          (re, s5) = cl_CreateObject w nm sz 0 tag s4
      in if call_failed re then Some (Some (call_error re nm), stats, s5)
         else let (t', s6) = now w s5
              in Some (None,
                   Add ((new_FileStats nm sz 0)\<lparr>fs_CreateObjectTime := time_Sub t' t\<rparr>) stats, s6))"

text \<open>\<^verbatim>\<open>[]byte(name)[:16]\<close> panics when the name is shorter.\<close>

definition CreateObjectLink_one ::
  "('s, 'm) object_world_scheme \<Rightarrow> string \<Rightarrow> PerfStats \<Rightarrow> 's \<Rightarrow> (error option \<times> PerfStats \<times> 's) option"
where
  "CreateObjectLink_one w tag stats s =
     (let (sm, s1) = random_strategy w s;
          (nm, s2) = uuid w s1;
          (sz, s3) = genFileSize w sm s2;
          (t, s4) = now w s3
      in if length nm < 16 then None
         else let (re, s5) = cl_CreateObjectLink w nm (hashValue w (string_bytes nm)) sz
                    (Some (take 16 (string_bytes nm))) 0 tag s4
         in if call_failed re then Some (Some (call_error re nm), stats, s5)
         else let (t', s6) = now w s5
              in Some (None,
                   Add ((new_FileStats nm sz 0)\<lparr>fs_CreateObjectLinkTime := time_Sub t' t\<rparr>) stats, s6))"

text \<open>Opening a connection first, as all the tests do.\<close>

definition with_client ::
  "('s, 'm) world_scheme \<Rightarrow> (PerfStats \<Rightarrow> 's \<Rightarrow> (error option \<times> PerfStats \<times> 's) option) \<Rightarrow> PerfStats \<Rightarrow> 's
     \<Rightarrow> (error option \<times> PerfStats \<times> 's) option" where
  "with_client w body stats s =
     (case new_client w s of
        (Some e, s1) \<Rightarrow> Some (Some e, stats, s1)
      | (None, s1) \<Rightarrow> body stats s1)"

definition CreateObject ::
  "('s, 'm) world_scheme \<Rightarrow> PerfStats \<Rightarrow> 's \<Rightarrow> (error option \<times> PerfStats \<times> 's) option" where
  "CreateObject w = with_client w (\<lambda>stats s.
     let (t, s1) = now w s; tag = ''[Perf_CreateObject]['' @ time_text w t @ '']''
     in prepared_loop (CreateObject_one w tag) stats s1)"

definition CreateObjectLink ::
  "('s, 'm) object_world_scheme \<Rightarrow> PerfStats \<Rightarrow> 's \<Rightarrow> (error option \<times> PerfStats \<times> 's) option" where
  "CreateObjectLink w = with_client w (\<lambda>stats s.
     let (t, s1) = now w s; tag = ''[Perf_CreateObjectLink]['' @ time_text w t @ '']''
     in prepared_loop (CreateObjectLink_one w tag) stats s1)"

section \<open>Calls on every file\<close>

text \<open>
  A loop over \<^verbatim>\<open>stats.Files\<close> whose body may write to the file and to the totals, and stops at the
  first error.
\<close>

fun each_file ::
  "(FileStats \<Rightarrow> PerfStats \<Rightarrow> 's \<Rightarrow> (error option \<times> FileStats \<times> PerfStats \<times> 's) option)
     \<Rightarrow> FileStats list \<Rightarrow> PerfStats \<Rightarrow> 's \<Rightarrow> (error option \<times> FileStats list \<times> PerfStats \<times> 's) option"
where
  "each_file body [] stats s = Some (None, [], stats, s)"
| "each_file body (f # fs) stats s =
     (case body f stats s of
        None \<Rightarrow> None
      | Some (Some e, f', stats', s') \<Rightarrow> Some (Some e, f' # fs, stats', s')
      | Some (None, f', stats', s') \<Rightarrow>
          map_option (\<lambda>(err, fs', r). (err, f' # fs', r)) (each_file body fs stats' s'))"

definition over_files ::
  "(FileStats \<Rightarrow> PerfStats \<Rightarrow> 's \<Rightarrow> (error option \<times> FileStats \<times> PerfStats \<times> 's) option)
     \<Rightarrow> PerfStats \<Rightarrow> 's \<Rightarrow> (error option \<times> PerfStats \<times> 's) option" where
  "over_files body stats s =
     map_option (\<lambda>(err, fs, stats', s'). (err, stats'\<lparr>Files := fs\<rparr>, s'))
       (each_file body (Files stats) stats s)"

definition CompleteObject_one ::
  "('s, 'm) world_scheme \<Rightarrow> FileStats \<Rightarrow> PerfStats \<Rightarrow> 's
     \<Rightarrow> (error option \<times> FileStats \<times> PerfStats \<times> 's) option" where
  "CompleteObject_one w f stats s =
     (let (t, s1) = now w s;
          (re, s2) = cl_CompleteObject w (fs_Name f) s1
      in if call_failed re then Some (Some (call_error re (fs_Name f)), f, stats, s2)
         else let (t', s3) = now w s2;
                  f' = f\<lparr>fs_CompleteObjectTime := time_Sub t' t\<rparr>
              in Some (None, f',
                   stats\<lparr>TotalCompleteObjectTime :=
                     i64 (TotalCompleteObjectTime stats + fs_CompleteObjectTime f')\<rparr>, s3))"

definition CompleteObject ::
  "('s, 'm) world_scheme \<Rightarrow> PerfStats \<Rightarrow> 's \<Rightarrow> (error option \<times> PerfStats \<times> 's) option" where
  "CompleteObject w = with_client w (over_files (CompleteObject_one w))"

definition DeleteObject_one ::
  "('s, 'm) object_world_scheme \<Rightarrow> FileStats \<Rightarrow> PerfStats \<Rightarrow> 's
     \<Rightarrow> (error option \<times> FileStats \<times> PerfStats \<times> 's) option" where
  "DeleteObject_one w f stats s =
     (let (t, s1) = now w s;
          (re, s2) = cl_DeleteObject w (fs_Name f) s1
      in if call_failed re then Some (Some (call_error re (fs_Name f)), f, stats, s2)
         else let (t', s3) = now w s2
              in Some (None, f,
                   stats\<lparr>TotalDeleteObjectTime :=
                     i64 (TotalDeleteObjectTime stats + time_Sub t' t)\<rparr>, s3))"

definition DeleteObject ::
  "('s, 'm) object_world_scheme \<Rightarrow> PerfStats \<Rightarrow> 's \<Rightarrow> (error option \<times> PerfStats \<times> 's) option" where
  "DeleteObject w = with_client w (over_files (DeleteObject_one w))"

text \<open>
  \<^verbatim>\<open>GetObjectInfo\<close> reads the result code of the reply, also to report an error, and the info in it,
  to log it: a nil pointer there is a panic.
\<close>

definition GetObjectInfo_one ::
  "('s, 'm) object_world_scheme \<Rightarrow> FileStats \<Rightarrow> PerfStats \<Rightarrow> 's
     \<Rightarrow> (error option \<times> FileStats \<times> PerfStats \<times> 's) option" where
  "GetObjectInfo_one w f stats s =
     (let (t, s1) = now w s;
          ((reply, err), s2) = cl_GetObjectInfo w (fs_Name f) s1
      in case reply of
           None \<Rightarrow> None
         | Some r \<Rightarrow>
             if err \<noteq> None \<or> OBJECT_INFO_RESULT_GetResult r \<noteq> BFSS_SUCCESS
             then Some (Some (call_error (OBJECT_INFO_RESULT_GetResult r, err) (fs_Name f)), f, stats, s2)
             else let (t', s3) = now w s2
                  in case oir_ObjectInfo r of
                       None \<Rightarrow> None
                     | Some info \<Rightarrow>
                         Some (None, f,
                           stats\<lparr>TotalGetObjectInfoTime :=
                             i64 (TotalGetObjectInfoTime stats + time_Sub t' t)\<rparr>, s3))"

definition GetObjectInfo ::
  "('s, 'm) object_world_scheme \<Rightarrow> PerfStats \<Rightarrow> 's \<Rightarrow> (error option \<times> PerfStats \<times> 's) option" where
  "GetObjectInfo w = with_client w (over_files (GetObjectInfo_one w))"

section \<open>Verifying the hashes\<close>

text \<open>The verbs \<^verbatim>\<open>%v\<close> of an error and \<^verbatim>\<open>%x\<close> of a slice of bytes.\<close>

definition fmt_v_error :: "error option \<Rightarrow> string" where
  "fmt_v_error e = (case e of None \<Rightarrow> ''<nil>'' | Some t \<Rightarrow> t)"

definition hex_digit :: "nat \<Rightarrow> char" where
  "hex_digit n = ''0123456789abcdef'' ! n"

definition fmt_x :: "bytes \<Rightarrow> string" where
  "fmt_x b = concat (map (\<lambda>x. [hex_digit (unat x div 16), hex_digit (unat x mod 16)])
     (case b of None \<Rightarrow> [] | Some l \<Rightarrow> l))"

definition mismatch_text :: "BFSS_RESULT \<times> error option \<Rightarrow> FileStats \<Rightarrow> string" where
  "mismatch_text re f =
     BFSS_RESULT_String (fst re) @ '' '' @ fmt_v_error (snd re) @ '' => OId:'' @ fs_Name f
     @ '', Hash:'' @ fs_Hash f @ '', Size:'' @ itoa (fs_Size f) @ '', Head:'' @ fmt_x (fs_Head f)"

fun verify_files ::
  "('s, 'm) object_world_scheme \<Rightarrow> FileStats list \<Rightarrow> 's \<Rightarrow> FileStats list \<times> 's" where
  "verify_files w [] s = ([], s)"
| "verify_files w (f # fs) s =
     (case cl_ObjectLockHasHash w (fs_Hash f) (i32 (fs_Size f)) (fs_Head f) s of
        (re, s') \<Rightarrow>
          let f' = f\<lparr>fs_HashVerified := (if call_failed re then mismatch_text re f else ''true'')\<rparr>
          in case verify_files w fs s' of (fs', s'') \<Rightarrow> (f' # fs', s''))"

definition VerifyHash :: "('s, 'm) object_world_scheme \<Rightarrow> PerfStats \<Rightarrow> 's \<Rightarrow> PerfStats \<times> 's" where
  "VerifyHash w stats s =
     (case new_client w s of
        (Some e, s1) \<Rightarrow> (stats, s1)
      | (None, s1) \<Rightarrow>
          (case verify_files w (Files stats) s1 of (fs, s2) \<Rightarrow> (stats\<lparr>Files := fs\<rparr>, s2)))"

section \<open>Loops over the files\<close>

text \<open>
  The interface of the body of such a loop: it always returns; without an error it has updated the
  file by an amount and added the amount to one total of the statistics, with one it has changed
  neither.
\<close>

locale file_body =
  fixes body :: "FileStats \<Rightarrow> PerfStats \<Rightarrow> 's \<Rightarrow> (error option \<times> FileStats \<times> PerfStats \<times> 's) option"
    and upd :: "FileStats \<Rightarrow> int \<Rightarrow> FileStats" and keep :: "'s \<Rightarrow> 's \<Rightarrow> bool"
    and total :: "PerfStats \<Rightarrow> int" and set_total :: "int \<Rightarrow> PerfStats \<Rightarrow> PerfStats"
  assumes body_ok: "(\<exists>e s'. body f st s = Some (Some e, f, st, s') \<and> keep s s')
      \<or> (\<exists>d s'. body f st s = Some (None, upd f d, set_total (i64 (total st + d)) st, s') \<and> keep s s')"
    and keep_refl: "keep s s"
    and keep_trans: "keep s t \<Longrightarrow> keep t u \<Longrightarrow> keep s u"
    and total_set: "total (set_total n st) = n"
    and set_total_id: "set_total (total st) st = st"
    and set_total_set: "set_total m (set_total n st) = set_total m st"
begin

lemma each_file_ok:
  assumes "i64 (total st) = total st"
  shows "\<exists>e ds s'. each_file body fs st s =
      Some (e, map2 upd fs ds @ drop (length ds) fs, set_total (i64 (total st + sum_list ds)) st, s')
    \<and> keep s s' \<and> length ds \<le> length fs \<and> (e = None \<longleftrightarrow> length ds = length fs)"
  using assms
proof (induction fs arbitrary: st s)
  case Nil
  then show ?case by (auto simp: set_total_id keep_refl)
next
  case (Cons f fs)
  from body_ok [of f st s] show ?case
  proof (elim disjE exE conjE)
    fix e s1 assume "body f st s = Some (Some e, f, st, s1)" "keep s s1"
    then show ?thesis
      using Cons.prems by (intro exI [of _ "Some e"] exI [of _ "[]"] exI [of _ s1])
        (simp add: set_total_id)
  next
    fix d s1
    let ?st = "set_total (i64 (total st + d)) st"
    assume b: "body f st s = Some (None, upd f d, ?st, s1)" "keep s s1"
    obtain e ds s2 where r: "each_file body fs ?st s1 = Some (e, map2 upd fs ds @ drop (length ds) fs,
          set_total (i64 (total ?st + sum_list ds)) ?st, s2)"
        "keep s1 s2" "length ds \<le> length fs" "e = None \<longleftrightarrow> length ds = length fs"
      using Cons.IH [of ?st s1] by (auto simp: total_set wrap_simps)
    have "i64 (total ?st + sum_list ds) = i64 (total st + sum_list (d # ds))"
      by (simp add: total_set wrap_simps add.assoc)
    then show ?thesis
      using b(1) r keep_trans [OF b(2) r(2)]
      by (intro exI [of _ e] exI [of _ "d # ds"] exI [of _ s2]) (simp add: set_total_set)
  qed
qed

lemma over_files_ok:
  assumes "i64 (total st) = total st"
  shows "\<exists>e ds s'. over_files body st s = Some (e,
      (set_total (i64 (total st + sum_list ds)) st)
        \<lparr>Files := map2 upd (Files st) ds @ drop (length ds) (Files st)\<rparr>, s')
    \<and> keep s s' \<and> length ds \<le> length (Files st)
    \<and> (e = None \<longleftrightarrow> length ds = length (Files st))"
proof -
  obtain e ds s' where "each_file body (Files st) st s = Some (e,
      map2 upd (Files st) ds @ drop (length ds) (Files st), set_total (i64 (total st + sum_list ds)) st, s')"
      "keep s s'" "length ds \<le> length (Files st)" "e = None \<longleftrightarrow> length ds = length (Files st)"
    using each_file_ok [OF assms, of "Files st" s] by (elim exE conjE) (rule that)
  then show ?thesis
    by (intro exI [of _ e] exI [of _ ds] exI [of _ s']) (simp add: over_files_def)
qed

end

text \<open>A service for which \<^verbatim>\<open>CompleteObject\<close>, whatever it answers, keeps what is stored.\<close>

definition complete_quiet :: "('s, 'm) world_scheme \<Rightarrow> ('s \<Rightarrow> 'c) \<Rightarrow> bool" where
  "complete_quiet w content \<longleftrightarrow>
     (\<forall>s. content (snd (now w s)) = content s)
     \<and> (\<forall>oid s. content (snd (cl_CompleteObject w oid s)) = content s)"

lemma CompleteObject_one_cases:
  "(\<exists>e s'. CompleteObject_one w f st s = Some (Some e, f, st, s')
      \<and> (complete_quiet w content \<longrightarrow> content s' = content s))
    \<or> (\<exists>d s'. CompleteObject_one w f st s = Some (None, f\<lparr>fs_CompleteObjectTime := d\<rparr>,
         st\<lparr>TotalCompleteObjectTime := i64 (TotalCompleteObjectTime st + d)\<rparr>, s')
      \<and> (complete_quiet w content \<longrightarrow> content s' = content s))"
proof -
  obtain t s1 where 1: "now w s = (t, s1)" by fastforce
  obtain re s2 where 2: "cl_CompleteObject w (fs_Name f) s1 = (re, s2)" by fastforce
  obtain t' s3 where 3: "now w s2 = (t', s3)" by fastforce
  have "content s2 = content s \<and> content s3 = content s" if "complete_quiet w content"
    using that 1 2 3 unfolding complete_quiet_def by (metis snd_conv)
  then show ?thesis
    by (cases "call_failed re")
      (simp_all add: CompleteObject_one_def 1 2 3, blast intro: exI [of _ "time_Sub t' t"])
qed

interpretation complete_file: file_body "CompleteObject_one w" "\<lambda>f d. f\<lparr>fs_CompleteObjectTime := d\<rparr>"
    "\<lambda>s s'. complete_quiet w content \<longrightarrow> content s' = content s"
    TotalCompleteObjectTime "\<lambda>n. TotalCompleteObjectTime_update (\<lambda>_. n)"
  for w :: "('s, 'm) world_scheme" and content :: "'s \<Rightarrow> 'c"
  by unfold_locales (use CompleteObject_one_cases in \<open>simp_all\<close>)

interpretation delete_file: file_body "DeleteObject_one w" "\<lambda>f d. f" "\<lambda>s s'. True"
    TotalDeleteObjectTime "\<lambda>n. TotalDeleteObjectTime_update (\<lambda>_. n)"
  for w :: "('s, 'm) object_world_scheme"
  by unfold_locales (auto simp: DeleteObject_one_def Let_def split: prod.splits)

lemma CompleteObject_ok:
  assumes "i64 (TotalCompleteObjectTime stats) = TotalCompleteObjectTime stats"
  shows "\<exists>e ds s1 s'. CompleteObject w stats s = Some (e,
      stats\<lparr>TotalCompleteObjectTime := i64 (TotalCompleteObjectTime stats + sum_list ds),
        Files := map2 (\<lambda>f d. f\<lparr>fs_CompleteObjectTime := d\<rparr>) (Files stats) ds
          @ drop (length ds) (Files stats)\<rparr>, s')
    \<and> s1 = snd (new_client w s) \<and> (complete_quiet w content \<longrightarrow> content s' = content s1)
    \<and> length ds \<le> length (Files stats)
    \<and> (fst (new_client w s) = None \<longrightarrow> (e = None \<longleftrightarrow> length ds = length (Files stats)))
    \<and> (fst (new_client w s) \<noteq> None \<longrightarrow> e \<noteq> None \<and> ds = [])"
proof -
  obtain c s1 where c: "new_client w s = (c, s1)" by fastforce
  show ?thesis
  proof (cases c)
    case (Some err)
    then show ?thesis
      using assms c by (intro exI [of _ c] exI [of _ "[]"]) (simp add: CompleteObject_def with_client_def)
  next
    case None
    from complete_file.over_files_ok [OF assms, where w = w and s = s1 and content = content]
    obtain e ds s' where "over_files (CompleteObject_one w) stats s1 = Some (e,
        stats\<lparr>TotalCompleteObjectTime := i64 (TotalCompleteObjectTime stats + sum_list ds),
          Files := map2 (\<lambda>f d. f\<lparr>fs_CompleteObjectTime := d\<rparr>) (Files stats) ds
            @ drop (length ds) (Files stats)\<rparr>, s')"
        "complete_quiet w content \<longrightarrow> content s' = content s1" "length ds \<le> length (Files stats)"
        "e = None \<longleftrightarrow> length ds = length (Files stats)"
      by (elim exE conjE) (rule that)
    then show ?thesis
      using c None by (intro exI [of _ e] exI [of _ ds] exI) (simp add: CompleteObject_def with_client_def)
  qed
qed

section \<open>What the service knows of hashes\<close>

text \<open>
  A service that accepts a hash exactly when it stores an object with that content hash, size and
  head (a nil head is an empty one), and whose check changes nothing.
\<close>

definition hash_check ::
  "('s, 'm) object_world_scheme \<Rightarrow> ('s \<Rightarrow> string \<Rightarrow> byte list option) \<Rightarrow> (byte list \<Rightarrow> string) \<Rightarrow> bool" where
  "hash_check w content hash \<longleftrightarrow>
     (\<forall>h n hd s. content (snd (cl_ObjectLockHasHash w h n hd s)) = content s
       \<and> (i32 n = n \<longrightarrow> call_failed (fst (cl_ObjectLockHasHash w h n hd s)) \<longleftrightarrow>
            \<not> (\<exists>oid d. content s oid = Some d \<and> h = hash d \<and> n = int (length d)
                 \<and> bytes_of hd = take 16 d)))"

text \<open>A file that the statistics record as it is stored, its hash made by \<open>hash\<close>.\<close>

definition stored_as :: "(byte list \<Rightarrow> string) \<Rightarrow> (string \<Rightarrow> byte list option) \<Rightarrow> FileStats \<Rightarrow> bool" where
  "stored_as hash c f \<longleftrightarrow>
     (\<exists>d. c (fs_Name f) = Some d \<and> int (length d) = fs_Size f \<and> fs_Hash f = hash d
        \<and> fs_Head f = Some (take 16 d))"

lemma verify_files_true:
  assumes "hash_check w content hash" and "\<forall>f \<in> set fs. stored_as hash (content s) f"
    and "\<forall>f \<in> set fs. i32 (fs_Size f) = fs_Size f"
  shows "\<exists>s'. verify_files w fs s = (map (\<lambda>f. f\<lparr>fs_HashVerified := ''true''\<rparr>) fs, s')
    \<and> content s' = content s"
  using assms(2,3)
proof (induction fs arbitrary: s)
  case (Cons f fs)
  obtain re s1 where c: "cl_ObjectLockHasHash w (fs_Hash f) (i32 (fs_Size f)) (fs_Head f) s = (re, s1)"
    by fastforce
  have "content s1 = content s"
    using assms(1) c unfolding hash_check_def by (metis snd_conv)
  moreover have "\<not> call_failed re"
  proof -
    have n: "i32 (fs_Size f) = fs_Size f" using Cons.prems(2) by simp
    obtain d where "content s (fs_Name f) = Some d" "fs_Hash f = hash d" "fs_Size f = int (length d)"
        "bytes_of (fs_Head f) = take 16 d"
      using Cons.prems(1) by (auto simp: stored_as_def bytes_of_def)
    then have "\<not> call_failed (fst (cl_ObjectLockHasHash w (fs_Hash f) (fs_Size f) (fs_Head f) s))"
      using assms(1) n unfolding hash_check_def by metis
    then show ?thesis using c n by simp
  qed
  moreover obtain s' where "verify_files w fs s1 = (map (\<lambda>f. f\<lparr>fs_HashVerified := ''true''\<rparr>) fs, s')"
      "content s' = content s1"
    using Cons.IH [of s1] Cons.prems \<open>content s1 = content s\<close> by auto
  ultimately show ?case by (simp add: c)
qed simp

lemma VerifyHash_frame:
  "\<exists>fs s'. VerifyHash w stats s = (stats\<lparr>Files := fs\<rparr>, s')"
  by (cases "new_client w s"; cases "fst (new_client w s)")
    (auto simp: VerifyHash_def split: prod.splits intro: exI [of _ "Files stats"])

section \<open>Preparing files\<close>

text \<open>A path through the states of the world on which each file is made by one step.\<close>

fun made :: "('s \<Rightarrow> FileStats \<Rightarrow> 's \<Rightarrow> bool) \<Rightarrow> 's \<Rightarrow> FileStats list \<Rightarrow> 's \<Rightarrow> bool" where
  "made step s [] s' \<longleftrightarrow> s' = s"
| "made step s (f # fs) s' \<longleftrightarrow> (\<exists>t. step s f t \<and> made step t fs s')"

lemma Add_prepared:
  "add_files (Add f (AddPreparedFiles 1 st)) fs\<lparr>TotalPreparedFiles := n\<rparr>
     = add_files st (f # fs)\<lparr>TotalPreparedFiles := n\<rparr>"
proof -
  have "add_files (st\<lparr>TotalPreparedFiles := m\<rparr>) gs = (add_files st gs)\<lparr>TotalPreparedFiles := m\<rparr>"
    for st m gs
    by (induction gs rule: rev_induct) (simp_all add: add_files_def Add_def)
  moreover have "Add f (AddPreparedFiles 1 st) = (Add f st)\<lparr>TotalPreparedFiles := i32 (TotalPreparedFiles st + 1)\<rparr>"
    by (simp add: Add_def AddPreparedFiles_def)
  ultimately have "add_files (Add f (AddPreparedFiles 1 st)) fs
      = (add_files (Add f st) fs)\<lparr>TotalPreparedFiles := i32 (TotalPreparedFiles st + 1)\<rparr>"
    by simp
  then show ?thesis by (simp add: add_files_def)
qed

lemma prepared_loop_ok:
  assumes body: "\<And>st s. (\<exists>e s'. body st s = Some (Some e, st, s'))
      \<or> (\<exists>f s'. body st s = Some (None, Add f st, s') \<and> step s f s')"
    and "-2147483648 \<le> TotalPreparedFiles st" and "ExpectedFiles st < 2147483648"
  shows "\<exists>err fs n s'. prepared_loop body st s = Some (err, (add_files st fs)\<lparr>TotalPreparedFiles := n\<rparr>, s')
    \<and> (err = None \<longrightarrow> made step s fs s' \<and> length fs = nat (ExpectedFiles st - TotalPreparedFiles st))"
  using assms(2,3)
proof (induction "nat (ExpectedFiles st - TotalPreparedFiles st)" arbitrary: st s rule: less_induct)
  case less
  show ?case
  proof (cases "ExpectedFiles st \<le> TotalPreparedFiles st")
    case True
    then show ?thesis
      by (subst prepared_loop.simps)
        (auto intro!: exI [of _ "[]"] exI [of _ "TotalPreparedFiles st"])
  next
    case False
    let ?st = "AddPreparedFiles 1 st"
    have tpf: "TotalPreparedFiles ?st = TotalPreparedFiles st + 1"
      using False less.prems by (simp add: AddPreparedFiles_def i32.wrap_id)
    from body [of ?st s] show ?thesis
    proof (elim disjE exE conjE)
      fix e s' assume "body ?st s = Some (Some e, ?st, s')"
      then show ?thesis
        using False by (subst prepared_loop.simps)
          (auto simp: AddPreparedFiles_def intro!: exI [of _ "[]"])
    next
      fix f s1 assume b: "body ?st s = Some (None, Add f ?st, s1)" "step s f s1"
      let ?st1 = "Add f ?st"
      have frame: "ExpectedFiles ?st1 = ExpectedFiles st"
          "TotalPreparedFiles ?st1 = TotalPreparedFiles st + 1"
        using tpf by (simp_all add: Add_def AddPreparedFiles_def)
      obtain err fs n s' where r: "prepared_loop body ?st1 s1 =
            Some (err, (add_files ?st1 fs)\<lparr>TotalPreparedFiles := n\<rparr>, s')"
          "err = None \<longrightarrow> made step s1 fs s' \<and> length fs = nat (ExpectedFiles st - (TotalPreparedFiles st + 1))"
        using less.hyps [of ?st1 s1] less.prems False unfolding frame by fastforce
      have "prepared_loop body st s = Some (err, (add_files st (f # fs))\<lparr>TotalPreparedFiles := n\<rparr>, s')"
        using False b(1) r(1) by (subst prepared_loop.simps) (simp add: Add_prepared)
      then show ?thesis
        using r(2) b(2) False by (intro exI [of _ err] exI [of _ "f # fs"] exI [of _ n] exI [of _ s']) auto
    qed
  qed
qed

text \<open>Objects that are new and empty.\<close>

definition created :: "(string \<Rightarrow> byte list option) \<Rightarrow> (string \<Rightarrow> byte list option) \<Rightarrow> FileStats list \<Rightarrow> bool" where
  "created c c' fs \<longleftrightarrow>
     distinct (map fs_Name fs) \<and> (\<forall>f \<in> set fs. c (fs_Name f) = None)
     \<and> c' = (\<lambda>n. if n \<in> fs_Name ` set fs then Some [] else c n)"

lemma made_created:
  assumes "\<And>s f s'. step s f s' \<Longrightarrow>
      content s (fs_Name f) = None \<and> content s' = (content s)(fs_Name f \<mapsto> [])"
    and "made step s fs s'"
  shows "created (content s) (content s') fs"
  using assms(2)
proof (induction fs arbitrary: s)
  case (Cons f fs)
  then obtain t where t: "step s f t" "made step t fs s'" by auto
  have c: "content s (fs_Name f) = None" "content t = (content s)(fs_Name f \<mapsto> [])"
    using assms(1) [OF t(1)] by simp_all
  have r: "distinct (map fs_Name fs)" "\<And>g. g \<in> set fs \<Longrightarrow> content t (fs_Name g) = None"
      "content s' = (\<lambda>n. if n \<in> fs_Name ` set fs then Some [] else content t n)"
    using Cons.IH [OF t(2)] by (simp_all add: created_def)
  have n: "fs_Name g \<noteq> fs_Name f" "content s (fs_Name g) = None" if "g \<in> set fs" for g
    using r(2) [OF that] by (simp_all add: c(2) split: if_splits)
  then have "fs_Name f \<notin> fs_Name ` set fs" by force
  then show ?case
    using r(1) n c by (simp add: created_def r(3) fun_eq_iff)
qed (simp add: created_def)

lemma CreateObject_one_cases:
  assumes "object_store w content"
  shows "(\<exists>e s'. CreateObject_one w tag st s = Some (Some e, st, s'))
    \<or> (\<exists>f s'. CreateObject_one w tag st s = Some (None, Add f st, s')
        \<and> content s (fs_Name f) = None \<and> content s' = (content s)(fs_Name f \<mapsto> []))"
proof -
  obtain k s0 where 0: "rand_Intn w (int (strategy_index SMax)) s = (k, s0)" by fastforce
  define sm where "sm = RandomStrategy (\<lambda>n. nat k)"
  obtain nm s2 where 2: "uuid w s0 = (nm, s2)" by fastforce
  obtain sz s3 where 3: "genFileSize w sm s2 = (sz, s3)" by fastforce
  obtain t s4 where 4: "now w s3 = (t, s4)" by fastforce
  obtain re s5 where 5: "cl_CreateObject w nm sz 0 tag s4 = (re, s5)" by fastforce
  obtain t' s6 where 6: "now w s5 = (t', s6)" by fastforce
  have c3: "content s3 = content s2"
    using 3 store_quiet(8) [OF assms] by (auto simp: genFileSize_def Let_def split: if_splits prod.splits)
  have q: "content s4 = content s"
    using store_quiet(8) [OF assms 0] store_quiet(3) [OF assms 2] c3 store_quiet(1) [OF assms 4] by simp
  have rs: "random_strategy w s = (sm, s0)"
    unfolding random_strategy_def 0 prod.case sm_def by (rule refl)
  have run: "CreateObject_one w tag st s =
    (if call_failed re then Some (Some (call_error re nm), st, s5)
     else Some (None, Add ((new_FileStats nm sz 0)\<lparr>fs_CreateObjectTime := time_Sub t' t\<rparr>) st, s6))"
    unfolding CreateObject_one_def Let_def rs prod.case 2 3 4 5 6 by (rule refl)
  show ?thesis
  proof (cases "call_failed re")
    case False
    then have "re = (BFSS_SUCCESS, None)" by (simp add: not_call_failed)
    then have "content s4 nm = None" "content s5 = (content s4)(nm \<mapsto> [])"
      using store_calls(1) [OF assms 5 [unfolded \<open>re = _\<close>]] by auto
    then show ?thesis
      using False run q store_quiet(1) [OF assms 6] by (auto simp: new_FileStats_def)
  qed (simp add: run)
qed

section \<open>Properties\<close>

text \<open>
  The test of \<^verbatim>\<open>CreateObject\<close> always returns, and without an error it has created exactly
  the files that were missing: each one a new, empty object of its own, no other object being
  touched, and each recorded in the statistics.
\<close>

theorem CreateObject_prepares:
  assumes "object_store w content"
    and "-2147483648 \<le> TotalPreparedFiles stats" and "ExpectedFiles stats < 2147483648"
  shows "\<exists>err fs n s'. CreateObject w stats s = Some (err, (add_files stats fs)\<lparr>TotalPreparedFiles := n\<rparr>, s')
    \<and> (err = None \<longrightarrow> created (content s) (content s') fs
         \<and> length fs = nat (ExpectedFiles stats - TotalPreparedFiles stats))"
proof -
  obtain c s1 where c: "new_client w s = (c, s1)" by fastforce
  obtain t s2 where t: "now w s1 = (t, s2)" by fastforce
  show ?thesis
  proof (cases c)
    case (Some e)
    then show ?thesis
      using c by (auto simp: CreateObject_def with_client_def
        intro!: exI [of _ "[]"] exI [of _ "TotalPreparedFiles stats"])
  next
    case None
    define tag where "tag = ''[Perf_CreateObject]['' @ time_text w t @ '']''"
    let ?step = "\<lambda>s f s'. content s (fs_Name f) = None \<and> content s' = (content s)(fs_Name f \<mapsto> [])"
    obtain err fs n s' where r: "prepared_loop (CreateObject_one w tag) stats s2 =
          Some (err, (add_files stats fs)\<lparr>TotalPreparedFiles := n\<rparr>, s')"
        "err = None \<longrightarrow> made ?step s2 fs s'
          \<and> length fs = nat (ExpectedFiles stats - TotalPreparedFiles stats)"
      using prepared_loop_ok [where step = ?step and body = "CreateObject_one w tag" and s = s2,
          OF CreateObject_one_cases [OF assms(1)] assms(2,3)]
      by (elim exE conjE) (rule that)
    have "content s2 = content s"
      using store_quiet(4) [OF assms(1) c] store_quiet(1) [OF assms(1) t] by simp
    then show ?thesis
      using r made_created [of ?step content s2 fs s'] c None t
      by (intro exI [of _ err] exI [of _ fs] exI [of _ n] exI [of _ s'])
        (auto simp: CreateObject_def with_client_def tag_def)
  qed
qed

theorem CreateObject_prepares_witness:
  "\<exists>err fs n s'. CreateObject demo_world (zero_PerfStats\<lparr>ExpectedFiles := 2\<rparr>) (Map.empty, 0)
     = Some (err, (add_files (zero_PerfStats\<lparr>ExpectedFiles := 2\<rparr>) fs)\<lparr>TotalPreparedFiles := n\<rparr>, s')"
proof -
  let ?s = "zero_PerfStats\<lparr>ExpectedFiles := 2\<rparr>"
  have "-2147483648 \<le> TotalPreparedFiles ?s" "ExpectedFiles ?s < 2147483648"
    by (simp_all add: zero_PerfStats_def)
  from CreateObject_prepares [OF demo_store this, of "(Map.empty, 0)"] show ?thesis by blast
qed



end
