(* ===== verification/Load_Fast.thy ===== *)
theory Load_Fast
  imports Load_Objects "HOL-Library.Multiset"
begin

text \<open>
  \<^verbatim>\<open>FastWrite\<close>, \<^verbatim>\<open>genFile\<close> and \<^verbatim>\<open>genCacheFiles\<close> of \<^verbatim>\<open>test/write.go\<close>, and \<^verbatim>\<open>test/async_file.go\<close>. A cache
  of files is made first; the main routine writes them to the service and gives each back to four
  generators, which refill it and hand it over to be written again.

  The files are objects that the routines share by pointers, so they live in a heap, a function
  from pointers to \<open>sliceFile\<close>; the statistics of a written file keep the pointer to its buffer
  \<^verbatim>\<open>Head\<close>, in \<open>fw_heads\<close>. Go's channels are lists with a capacity. The routines interleave in
  \<open>fast_step\<close>: each send, receive, \<^verbatim>\<open>genFile\<close> and \<^verbatim>\<open>fastWriteFile\<close> is one step; a computation that
  panics or does not return has no step.
\<close>

section \<open>Generating files\<close>

text \<open>
  \<open>errorf msg\<close> is the text of \<^verbatim>\<open>fmt.Errorf(msg)\<close>: a message that is used as a format, so that percent
  signs in it change its text.
\<close>

record 's fast_world = "'s object_world" +
  rand_Seed :: "int \<Rightarrow> 's \<Rightarrow> 's"
  errorf :: "string \<Rightarrow> error"

text \<open>\<^verbatim>\<open>genFile\<close>: the error and the file as it is left; \<open>None\<close> is a panic.\<close>

definition genFile ::
  "('s, 'm) fast_world_scheme \<Rightarrow> bool \<Rightarrow> sliceFile \<Rightarrow> 's \<Rightarrow> ((error option \<times> sliceFile) \<times> 's) option" where
  "genFile w verify f s =
     (let (nm, s1) = uuid w s;
          (t, s2) = now w s1;
          (d, s3) = rand_bytes w (length (sf_Data f)) (rand_Seed w t s2);
          f1 = f\<lparr>sf_Data := d, sf_Name := nm\<rparr>
      in if verify \<and> length d < 16 then None
         else let f2 = (if verify
                        then f1\<lparr>sf_Hash := hashValue w d,
                                sf_Head := map_option (\<lambda>h. copy_into h (take 16 d)) (sf_Head f1)\<rparr>
                        else f1);
                  (t0, s4) = now w s3;
                  tag = ''[FastWrite]['' @ time_text w t0 @ '']'';
                  (t1, s5) = now w s4;
                  (re, s6) = cl_CreateObject w nm (i32 (sf_Size f2)) 0 tag s5
              in if call_failed re
                 then Some ((Some (errorf w (call_error re nm @ '',Size:'' @ itoa (sf_Size f2))), f2), s6)
                 else let (t2, s7) = now w s6
                      in Some ((None, f2\<lparr>sf_CreateObjectTime := time_Sub t2 t1\<rparr>), s7))"

definition new_sliceFile :: "int \<Rightarrow> sliceFile" where
  "new_sliceFile sz =
     \<lparr>sf_Name = [], sf_Offset = 0, sf_Size = sz, sf_Hash = [], sf_Head = Some (replicate 16 0),
      sf_Data = replicate (nat sz) 0, sf_CreateObjectTime = 0\<rparr>"

text \<open>The loop of \<^verbatim>\<open>genCacheFiles\<close>; with sizes of 0 it does not end.\<close>

partial_function (option) genCacheFiles_loop ::
  "('s, 'm) fast_world_scheme \<Rightarrow> bool \<Rightarrow> PerfStats \<Rightarrow> int \<Rightarrow> sliceFile list \<Rightarrow> 's
     \<Rightarrow> ((error + sliceFile list) \<times> 's) option" where
  "genCacheFiles_loop w verify stats genSize files s =
     (let (sz, s1) = genFileSize w (Sample stats) s;
          genSize' = i64 (genSize + sz)
      in if CacheSize stats < genSize' then Some (Inr files, s1)
         else Option.bind (genFile w verify (new_sliceFile sz) s1) (\<lambda>((err, f), s2).
                case err of
                  Some e \<Rightarrow> Some (Inl e, s2)
                | None \<Rightarrow> genCacheFiles_loop w verify stats genSize' (files @ [f]) s2))"

definition genCacheFiles ::
  "('s, 'm) fast_world_scheme \<Rightarrow> bool \<Rightarrow> PerfStats \<Rightarrow> 's \<Rightarrow> ((error + sliceFile list) \<times> 's) option" where
  "genCacheFiles w verify stats s = genCacheFiles_loop w verify stats 0 [] s"

section \<open>The routines\<close>

text \<open>
  Where the main routine is: in \<^verbatim>\<open>read\<close> with the files received so far, at the head of the loop
  over the files, before \<^verbatim>\<open>fastWriteFile\<close>, before the send, before \<^verbatim>\<open>stats.Add\<close>, or leaving with
  its error. Where a generator is: before it opens its connection, at its \<^verbatim>\<open>select\<close>, before
  \<^verbatim>\<open>genFile\<close>, before the send, or gone.
\<close>

datatype main_pc =
    Reading "nat list" | Serving "nat list" | Storing nat "nat list" FileStats
  | Creating nat "nat list" FileStats | Adding nat "nat list" FileStats | Leaving "error option"

datatype gen_pc = Opening | Selecting | Holding nat | Giving nat | Exited

record 's fast =
  fw_heap :: "nat \<Rightarrow> sliceFile"
  fw_read :: "nat list"
  fw_create :: "nat list"
  fw_cap :: nat
  fw_main :: main_pc
  fw_gens :: "gen_pc list"
  fw_stats :: PerfStats
  fw_heads :: "nat option list"
  fw_world :: 's

definition async_loops :: nat where
  "async_loops = 4"

definition newAsyncFile :: "sliceFile list \<Rightarrow> PerfStats \<Rightarrow> 's \<Rightarrow> 's fast" where
  "newAsyncFile files stats s =
     \<lparr>fw_heap = (\<lambda>i. files ! i), fw_read = [0..<length files], fw_create = [],
      fw_cap = (if 0 < length files then length files else 1), fw_main = Reading [],
      fw_gens = replicate async_loops Opening, fw_stats = stats,
      fw_heads = map (\<lambda>_. None) (Files stats), fw_world = s\<rparr>"

text \<open>\<^verbatim>\<open>FastWrite\<close> up to the start of the generators: its early returns, or the system.\<close>

definition FastWrite_start ::
  "('s, 'm) fast_world_scheme \<Rightarrow> bool \<Rightarrow> PerfStats \<Rightarrow> 's \<Rightarrow> (error \<times> 's + 's fast) option" where
  "FastWrite_start w verify stats s =
     (if ExpectedWrites stats \<le> 0 then Some (Inl (''ExpectedWrites must be positive'', s))
      else if CacheSize stats < 1024 * 1024 * 10 then Some (Inl (''CacheSize is too small'', s))
      else case new_client w s of
        (Some e, s1) \<Rightarrow> Some (Inl (e, s1))
      | (None, s1) \<Rightarrow>
          (case genCacheFiles w verify stats s1 of
             None \<Rightarrow> None
           | Some (Inl e, s2) \<Rightarrow> Some (Inl (e, s2))
           | Some (Inr files, s2) \<Rightarrow> Some (Inr (newAsyncFile files stats s2))))"

text \<open>The statistics that the loop makes for a file; its head is the buffer of the file.\<close>

definition fast_FileStats :: "sliceFile \<Rightarrow> int \<Rightarrow> FileStats" where
  "fast_FileStats f t =
     (new_FileStats (sf_Name f) (sf_Size f) t)
       \<lparr>fs_Hash := sf_Hash f, fs_Head := sf_Head f, fs_CreateObjectTime := sf_CreateObjectTime f\<rparr>"

definition fast_error ::
  "('s, 'm) fast_world_scheme \<Rightarrow> BFSS_RESULT \<times> error option \<Rightarrow> sliceFile \<Rightarrow> error" where
  "fast_error w re f =
     errorf w (call_error re (sf_Name f) @ '',Size:'' @ itoa (sf_Size f)
       @ '',Offset:'' @ itoa (sf_Offset f))"

inductive main_step :: "('s, 'm) fast_world_scheme \<Rightarrow> bool \<Rightarrow> 's fast \<Rightarrow> 's fast \<Rightarrow> bool"
  for w :: "('s, 'm) fast_world_scheme" and is_ipc :: bool where
  receive: "fw_main S = Reading acc \<Longrightarrow> fw_read S = p # ps \<Longrightarrow>
    main_step w is_ipc S (S\<lparr>fw_main := Reading (acc @ [p]), fw_read := ps\<rparr>)"
| read_all: "fw_main S = Reading acc \<Longrightarrow> fw_read S = [] \<Longrightarrow>
    main_step w is_ipc S (S\<lparr>fw_main := Serving acc\<rparr>)"
| again: "fw_main S = Serving [] \<Longrightarrow> main_step w is_ipc S (S\<lparr>fw_main := Reading []\<rparr>)"
| finish: "fw_main S = Serving (p # ps) \<Longrightarrow> ExpectedWrites (fw_stats S) \<le> TotalWrites (fw_stats S) \<Longrightarrow>
    main_step w is_ipc S
      (S\<lparr>fw_main := Leaving None, fw_world := close_client w (fw_world S)\<rparr>)"
| serve: "fw_main S = Serving (p # ps) \<Longrightarrow> TotalWrites (fw_stats S) < ExpectedWrites (fw_stats S) \<Longrightarrow>
    now w (if is_ipc then updateRoutine w (fw_stats S) (fw_world S) else fw_world S) = (t, s') \<Longrightarrow>
    main_step w is_ipc S
      (S\<lparr>fw_main := Storing p ps (fast_FileStats (fw_heap S p) t), fw_world := s'\<rparr>)"
| store: "fw_main S = Storing p ps fs \<Longrightarrow>
    fastWriteFile w fs (fw_heap S p) (MaxSlice (fw_stats S)) (fw_world S) = Some (re, fs', s') \<Longrightarrow>
    main_step w is_ipc S
      (S\<lparr>fw_main := (if call_failed re then Leaving (Some (fast_error w re (fw_heap S p)))
                     else Creating p ps fs'), fw_world := s'\<rparr>)"
| create: "fw_main S = Creating p ps fs \<Longrightarrow> length (fw_create S) < fw_cap S \<Longrightarrow>
    main_step w is_ipc S (S\<lparr>fw_main := Adding p ps fs, fw_create := fw_create S @ [p]\<rparr>)"
| add: "fw_main S = Adding p ps fs \<Longrightarrow>
    main_step w is_ipc S
      (S\<lparr>fw_main := Serving ps, fw_stats := Add fs (fw_stats S),
         fw_heads := fw_heads S @ [Some p]\<rparr>)"

text \<open>The step of one generator.\<close>

inductive gen_step ::
  "('s, 'm) fast_world_scheme \<Rightarrow> bool \<Rightarrow> 's fast \<Rightarrow> gen_pc \<Rightarrow> 's fast \<Rightarrow> gen_pc \<Rightarrow> bool"
  for w :: "('s, 'm) fast_world_scheme" and verify :: bool where
  connect: "new_client w (fw_world S) = (err, s') \<Longrightarrow>
    gen_step w verify S Opening (S\<lparr>fw_world := s'\<rparr>) (if err = None then Selecting else Exited)"
| take: "fw_create S = p # ps \<Longrightarrow>
    gen_step w verify S Selecting (S\<lparr>fw_create := ps\<rparr>) (Holding p)"
| fill: "genFile w verify (fw_heap S p) (fw_world S) = Some ((err, f), s') \<Longrightarrow>
    gen_step w verify S (Holding p) (S\<lparr>fw_heap := (fw_heap S)(p := f), fw_world := s'\<rparr>)
      (if err = None then Giving p else Selecting)"
| give: "length (fw_read S) < fw_cap S \<Longrightarrow>
    gen_step w verify S (Giving p) (S\<lparr>fw_read := fw_read S @ [p]\<rparr>) Selecting"
| stop: "fw_main S = Leaving e \<Longrightarrow> gen_step w verify S Selecting S Exited"

inductive fast_step :: "('s, 'm) fast_world_scheme \<Rightarrow> bool \<Rightarrow> bool \<Rightarrow> 's fast \<Rightarrow> 's fast \<Rightarrow> bool"
  for w :: "('s, 'm) fast_world_scheme" and verify :: bool and is_ipc :: bool where
  main: "main_step w is_ipc S S' \<Longrightarrow> fast_step w verify is_ipc S S'"
| generator: "fw_gens S = gs @ g # hs \<Longrightarrow> gen_step w verify S g S' g' \<Longrightarrow>
    fast_step w verify is_ipc S (S'\<lparr>fw_gens := gs @ g' # hs\<rparr>)"

inductive_cases main_stepE: "main_step w is_ipc S S'"
inductive_cases gen_stepE: "gen_step w verify S g S' g'"
inductive_cases fast_stepE: "fast_step w verify is_ipc S S'"

text \<open>
  \<^verbatim>\<open>FastWrite\<close> returns once the main routine is leaving and the generators are gone; the heads of
  its statistics are then what is in the buffers.
\<close>

definition fast_returned :: "'s fast \<Rightarrow> bool" where
  "fast_returned S \<longleftrightarrow> (\<exists>e. fw_main S = Leaving e) \<and> list_all (\<lambda>g. g = Exited) (fw_gens S)"

definition read_head :: "'s fast \<Rightarrow> FileStats \<Rightarrow> nat option \<Rightarrow> FileStats" where
  "read_head S f h = (case h of None \<Rightarrow> f | Some p \<Rightarrow> f\<lparr>fs_Head := sf_Head (fw_heap S p)\<rparr>)"

definition fast_Files :: "'s fast \<Rightarrow> FileStats list" where
  "fast_Files S = map2 (read_head S) (Files (fw_stats S)) (fw_heads S)"

section \<open>Who owns a file\<close>

text \<open>
  The pointers to files that are ready to be written, and to those that are to be refilled, each
  counted where it is held.
\<close>

fun main_fresh :: "main_pc \<Rightarrow> nat list" where
  "main_fresh (Reading acc) = acc"
| "main_fresh (Serving ps) = ps"
| "main_fresh (Storing p ps fs) = p # ps"
| "main_fresh (Creating p ps fs) = ps"
| "main_fresh (Adding p ps fs) = ps"
| "main_fresh (Leaving e) = []"

fun main_busy :: "main_pc \<Rightarrow> nat list" where
  "main_busy (Creating p ps fs) = [p]"
| "main_busy _ = []"

fun gen_fresh :: "gen_pc \<Rightarrow> nat list" where
  "gen_fresh (Giving p) = [p]"
| "gen_fresh _ = []"

fun gen_busy :: "gen_pc \<Rightarrow> nat list" where
  "gen_busy (Holding p) = [p]"
| "gen_busy _ = []"

definition fresh_ptrs :: "'s fast \<Rightarrow> nat multiset" where
  "fresh_ptrs S = mset (main_fresh (fw_main S)) + mset (fw_read S) + mset (concat (map gen_fresh (fw_gens S)))"

definition busy_ptrs :: "'s fast \<Rightarrow> nat multiset" where
  "busy_ptrs S = mset (main_busy (fw_main S)) + mset (fw_create S) + mset (concat (map gen_busy (fw_gens S)))"

definition owned :: "'s fast \<Rightarrow> nat multiset" where
  "owned S = fresh_ptrs S + busy_ptrs S"

lemmas ptrs_defs = owned_def fresh_ptrs_def busy_ptrs_def

lemma owned_step: "fast_step w verify is_ipc S S' \<Longrightarrow> owned S' \<subseteq># owned S \<and> fw_cap S' = fw_cap S"
proof (induction rule: fast_step.induct)
  case (main S S')
  then show ?case by cases (simp_all add: ptrs_defs subset_mset.add_left_mono)
next
  case (generator S gs g hs S' g')
  from generator(2) show ?case
    by cases (use generator(1) in \<open>simp_all add: ptrs_defs\<close>)
qed

interpretation ownership: forward_system "\<lambda>S S'. owned S' \<subseteq># owned S \<and> fw_cap S' = fw_cap S"
    "fast_step w verify is_ipc"
  for w :: "('s, 'm) fast_world_scheme" and verify and is_ipc
  by unfold_locales (auto dest: owned_step intro: subset_mset.order_trans)

lemma owned_init: "owned (newAsyncFile files stats s) = mset [0..<length files]"
  by (simp add: ptrs_defs newAsyncFile_def async_loops_def numeral_eq_Suc)

lemma owned_reachable:
  assumes "(fast_step w verify is_ipc)\<^sup>*\<^sup>* (newAsyncFile files stats s) S"
  shows "owned S \<subseteq># mset [0..<length files]" "fw_cap S = max 1 (length files)"
    and "count (owned S) p \<le> 1" "size (owned S) \<le> length files"
proof -
  show o: "owned S \<subseteq># mset [0..<length files]" "fw_cap S = max 1 (length files)"
    using ownership.forward_steps [OF assms] unfolding owned_init
    by (auto simp: newAsyncFile_def max_def Suc_le_eq)
  have "count (mset [0..<length files]) p \<le> 1"
    by (metis distinct_count_atmost_1 distinct_upt le_refl zero_le)
  then show "count (owned S) p \<le> 1"
    using mset_subset_eq_count [OF o(1), of p] by linarith
  show "size (owned S) \<le> length files" using size_mset_mono [OF o(1)] by simp
qed

section \<open>What the files hold\<close>

text \<open>
  The service also leaves the objects alone when a creation fails, and a write to one object leaves
  the others alone.
\<close>

definition strict_store ::
  "('s, 'm) fast_world_scheme \<Rightarrow> ('s \<Rightarrow> string \<Rightarrow> byte list option) \<Rightarrow> bool" where
  "strict_store w content \<longleftrightarrow>
     object_store w content
     \<and> (\<forall>oid sz flag tag s. call_failed (fst (cl_CreateObject w oid sz flag tag s)) \<longrightarrow>
          content (snd (cl_CreateObject w oid sz flag tag s)) = content s)
     \<and> (\<forall>oid off d s n. n \<noteq> oid \<longrightarrow> content (snd (cl_Write w oid off d s)) n = content s n)
     \<and> (\<forall>t s. content (rand_Seed w t s) = content s)"

text \<open>
  A file in its buffers; a file that is ready to be written, its object being created and empty;
  a file whose statistics are those of the stored object.
\<close>

definition sized :: "sliceFile \<Rightarrow> bool" where
  "sized f \<longleftrightarrow>
     sf_Size f = int (length (sf_Data f)) \<and> 16 \<le> sf_Size f \<and> sf_Size f < 2147483648
     \<and> (\<exists>h. sf_Head f = Some h \<and> length h = 16)"

definition ready_file ::
  "('s, 'm) object_world_scheme \<Rightarrow> bool \<Rightarrow> (string \<Rightarrow> byte list option) \<Rightarrow> sliceFile \<Rightarrow> bool" where
  "ready_file w verify c f \<longleftrightarrow>
     sized f \<and> c (sf_Name f) = Some []
     \<and> (verify \<longrightarrow> sf_Hash f = md5_hex w (sf_Data f) \<and> sf_Head f = Some (take 16 (sf_Data f)))"

definition written_file ::
  "('s, 'm) object_world_scheme \<Rightarrow> bool \<Rightarrow> (string \<Rightarrow> byte list option) \<Rightarrow> FileStats \<Rightarrow> bool" where
  "written_file w verify c fs \<longleftrightarrow>
     (\<exists>d. c (fs_Name fs) = Some d \<and> fs_Size fs = int (length d)
        \<and> (verify \<longrightarrow> fs_Hash fs = md5_hex w d))"

lemma genFile_spec:
  assumes "strict_store w content" and "sized f" and "genFile w verify f s = Some ((err, g), s')"
  shows "sized g"
    and "err = None \<Longrightarrow> ready_file w verify (content s') g \<and> content s (sf_Name g) = None
      \<and> content s' = (content s)(sf_Name g \<mapsto> [])"
    and "err \<noteq> None \<Longrightarrow> content s' = content s"
proof -
  have O: "object_store w content" and seed: "\<And>t s. content (rand_Seed w t s) = content s"
    using assms(1) by (simp_all add: strict_store_def)
  obtain nm s1 where 1: "uuid w s = (nm, s1)" by fastforce
  obtain t s2 where 2: "now w s1 = (t, s2)" by fastforce
  obtain d s3 where 3: "rand_bytes w (length (sf_Data f)) (rand_Seed w t s2) = (d, s3)" by fastforce
  obtain t0 s4 where 4: "now w s3 = (t0, s4)" by fastforce
  obtain t1 s5 where 5: "now w s4 = (t1, s5)" by fastforce
  define tag where "tag = ''[FastWrite]['' @ time_text w t0 @ '']''"
  obtain re s6 where 6: "cl_CreateObject w nm (i32 (sf_Size f)) 0 tag s5 = (re, s6)" by fastforce
  obtain t2 s7 where 7: "now w s6 = (t2, s7)" by fastforce
  define f2 where "f2 = f\<lparr>sf_Data := d, sf_Name := nm, sf_Hash := (if verify then hashValue w d else sf_Hash f),
    sf_Head := (if verify then map_option (\<lambda>h. copy_into h (take 16 d)) (sf_Head f) else sf_Head f)\<rparr>"
  have len: "length d = length (sf_Data f)" using store_quiet(2) [OF O 3] by simp
  have c5: "content s5 = content s"
    using store_quiet(3) [OF O 1] store_quiet(1) [OF O 2] store_quiet(2) [OF O 3]
      store_quiet(1) [OF O 4] store_quiet(1) [OF O 5] seed by simp
  have c7: "content s7 = content s6" using store_quiet(1) [OF O 7] .
  have e: "(if verify then f\<lparr>sf_Data := d, sf_Name := nm, sf_Hash := hashValue w d,
        sf_Head := map_option (\<lambda>h. copy_into h (take 16 d)) (sf_Head f)\<rparr>
      else f\<lparr>sf_Data := d, sf_Name := nm\<rparr>) = f2"
    by (simp add: f2_def)
  have l16: "16 \<le> length d" using assms(2) len by (simp add: sized_def)
  have "genFile w verify f s = (if call_failed re
      then Some ((Some (errorf w (call_error re nm @ '',Size:'' @ itoa (sf_Size f))), f2), s6)
      else Some ((None, f2\<lparr>sf_CreateObjectTime := time_Sub t2 t1\<rparr>), s7))"
    using l16 unfolding genFile_def Let_def 1 2 3 4 5 7 prod.case tag_def [symmetric]
    by (simp add: e 6 7 f2_def)
  then have run: "(err \<noteq> None \<and> call_failed re \<and> g = f2 \<and> s' = s6)
      \<or> (err = None \<and> \<not> call_failed re \<and> g = f2\<lparr>sf_CreateObjectTime := time_Sub t2 t1\<rparr> \<and> s' = s7)"
    using assms(3) by (auto split: if_splits)
  obtain h where h: "sf_Head f = Some h" "length h = 16" using assms(2) by (auto simp: sized_def)
  have head: "copy_into h (take 16 d) = take 16 d" using h l16 by (simp add: copy_into_def)
  have "sized f2"
    using assms(2) len h l16 by (auto simp: sized_def f2_def)
  then show sg: "sized g" using run by (auto simp: sized_def)
  show "content s' = content s" if "err \<noteq> None"
    using that run assms(1) 6 c5 unfolding strict_store_def by (metis fst_conv snd_conv)
  show "ready_file w verify (content s') g \<and> content s (sf_Name g) = None
      \<and> content s' = (content s)(sf_Name g \<mapsto> [])" if "err = None"
  proof -
    have ok: "re = (BFSS_SUCCESS, None)" using that run by (simp add: not_call_failed)
    have g: "g = f2\<lparr>sf_CreateObjectTime := time_Sub t2 t1\<rparr>" "s' = s7" using that run by auto
    have "content s5 nm = None" "content s6 = (content s5)(nm \<mapsto> [])"
      using store_calls(1) [OF O 6 [unfolded ok]] by auto
    then show ?thesis
      using sg h head by (simp add: g ready_file_def c7 c5 f2_def hashValue_def)
  qed
qed

text \<open>A relation that the clock and the writes to the file keep is kept by the loop.\<close>

lemma fastWriteFile_loop_keeps:
  fixes w :: "('s, 'm) world_scheme" and R :: "'s \<Rightarrow> 's \<Rightarrow> bool"
  assumes "fastWriteFile_loop w fs sfile len0 off0 wt s = Some y"
  shows "(\<forall>s. R s (snd (now w s))) \<longrightarrow> (\<forall>off d s. R s (snd (cl_Write w (fs_Name fs) off d s))) \<longrightarrow> transp R \<longrightarrow>
    R s (snd (snd y))"
proof (rule fastWriteFile_loop.raw_induct [of "\<lambda>w fs sfile len0 off0 wt s y. (\<forall>s. R s (snd (now w s))) \<longrightarrow>
    (\<forall>off d s. R s (snd (cl_Write w (fs_Name fs) off d s))) \<longrightarrow> transp R \<longrightarrow> R s (snd (snd y))", OF _ assms],
    intro impI)
  fix f w fs sfile len0 off0 wt s and y :: "(BFSS_RESULT \<times> error option) \<times> FileStats \<times> 's"
  assume IH: "\<And>(w :: ('s, 'm) world_scheme) fs sfile len0 off0 wt s y. f w fs sfile len0 off0 wt s = Some y \<Longrightarrow>
      (\<forall>s. R s (snd (now w s))) \<longrightarrow> (\<forall>off d s. R s (snd (cl_Write w (fs_Name fs) off d s))) \<longrightarrow> transp R \<longrightarrow>
      R s (snd (snd y))"
    and eq: "(let remain = i64 (fs_Size fs - off0);
          len = if remain < len0 \<and> 0 < remain then i32 remain else len0;
          hi = i32 (off0 + len)
      in if off0 < 0 \<or> hi < off0 \<or> int (length (sf_Data sfile)) < hi then None
         else let (t, s1) = now w s;
                  (re, s2) = cl_Write w (fs_Name fs) off0
                    (Some (take (nat (hi - off0)) (drop (nat off0) (sf_Data sfile)))) s1
              in if call_failed re then Some (re, fs, s2)
                 else let (t', s3) = now w s2;
                          writeTime' = i64 (wt + time_Sub t' t);
                          fs' = fs\<lparr>fs_WriteCount := i64 (fs_WriteCount fs + 1)\<rparr>
                      in if i32 (fs_Size fs) \<le> hi
                         then Some ((BFSS_SUCCESS, None), fs'\<lparr>fs_WriteTime := writeTime'\<rparr>, s3)
                         else f w fs' sfile len hi writeTime' s3) = Some y"
    and T: "\<forall>s. R s (snd (now w s))" and W: "\<forall>off d s. R s (snd (cl_Write w (fs_Name fs) off d s))"
    and tr: "transp R"
  have T': "now w s1 = (t, s2) \<Longrightarrow> R s1 s2" for t s1 s2 using T by (metis snd_conv)
  have W': "cl_Write w (fs_Name fs) off d s1 = (re, s2) \<Longrightarrow> R s1 s2" for off d s1 re s2
    using W by (metis snd_conv)
  have I: "f w (fs\<lparr>fs_WriteCount := k\<rparr>) sfile len0 off0 wt s1 = Some y \<Longrightarrow> R s1 (snd (snd y))"
    for k len0 off0 wt s1
    using IH [of w "fs\<lparr>fs_WriteCount := k\<rparr>" sfile len0 off0 wt s1 y] T W tr by simp
  show "R s (snd (snd y))"
    using eq tr by (auto simp: Let_def split: prod.splits if_splits dest!: T' W' I) (meson transpE)+
qed

lemma fastWriteFile_outcome:
  assumes "strict_store w content" and "fastWriteFile w fs f m s = Some (re, fs', s')"
    and "ready_file w verify (content s) f" and "0 < m" and "m < 2147483648"
    and "fs_Name fs = sf_Name f" and "fs_Size fs = sf_Size f"
  shows "n \<noteq> sf_Name f \<Longrightarrow> content s' n = content s n"
    and "\<not> call_failed re \<Longrightarrow> content s' = (content s)(sf_Name f \<mapsto> sf_Data f)
      \<and> (\<exists>k t. fs' = fs\<lparr>fs_WriteCount := k, fs_WriteTime := t\<rparr>)"
proof -
  have O: "object_store w content" using assms(1) by (simp add: strict_store_def)
  show "content s' n = content s n" if "n \<noteq> sf_Name f"
  proof -
    have "\<forall>s. content (snd (now w s)) n = content s n" using store_quiet(1) [OF O] by (metis prod.collapse)
    moreover have "\<forall>off d s. content (snd (cl_Write w (fs_Name fs) off d s)) n = content s n"
      using assms(1,6) that by (simp add: strict_store_def)
    moreover have "transp (\<lambda>s s'. content s' n = content s n)" by (simp add: transp_def)
    ultimately show ?thesis
      using fastWriteFile_loop_keeps [OF assms(2) [unfolded fastWriteFile_def], of "\<lambda>s s'. content s' n = content s n"]
      by simp
  qed
  have "0 < fs_Size fs" "fs_Size fs = int (length (sf_Data f))" "fs_Size fs < 2147483648"
      "content s (fs_Name fs) = Some (take (nat 0) (sf_Data f))"
    using assms(3,6,7) by (auto simp: ready_file_def sized_def)
  from fastWriteFile_loop_spec [OF O assms(4,5) _ this, of 0]
  show "content s' = (content s)(sf_Name f \<mapsto> sf_Data f)
      \<and> (\<exists>k t. fs' = fs\<lparr>fs_WriteCount := k, fs_WriteTime := t\<rparr>)" if "\<not> call_failed re"
    using assms(2,6) that by (auto simp: fastWriteFile_def)
qed

section \<open>What is recorded is stored\<close>

text \<open>
  With the stored objects \<open>c\<close>, the heap \<open>h\<close>, the pointers \<open>F\<close> to the files that are ready and the
  statistics \<open>recs\<close> of the files that are written: all of them have objects of their own.
\<close>

definition files_ok ::
  "('s, 'm) object_world_scheme \<Rightarrow> bool \<Rightarrow> (string \<Rightarrow> byte list option) \<Rightarrow> (nat \<Rightarrow> sliceFile) \<Rightarrow> nat set
     \<Rightarrow> FileStats list \<Rightarrow> bool" where
  "files_ok w verify c h F recs \<longleftrightarrow>
     (\<forall>p \<in> F. ready_file w verify c (h p)) \<and> inj_on (\<lambda>p. sf_Name (h p)) F
     \<and> distinct (map fs_Name recs) \<and> (\<forall>r \<in> set recs. written_file w verify c r)
     \<and> (\<forall>r \<in> set recs. \<forall>p \<in> F. fs_Name r \<noteq> sf_Name (h p))"

lemma files_ok_subset: "files_ok w verify c h F recs \<Longrightarrow> F' \<subseteq> F \<Longrightarrow> files_ok w verify c h F' recs"
  by (auto simp: files_ok_def intro: inj_on_subset)

lemma ready_file_other: "c' (sf_Name f) = c (sf_Name f) \<Longrightarrow> ready_file w verify c' f = ready_file w verify c f"
  by (simp add: ready_file_def)

lemma written_file_other: "c' (fs_Name f) = c (fs_Name f) \<Longrightarrow> written_file w verify c' f = written_file w verify c f"
  by (simp add: written_file_def)

lemma files_ok_drop:
  assumes "files_ok w verify c h F recs" and "p \<in> F" and "\<And>n. n \<noteq> sf_Name (h p) \<Longrightarrow> c' n = c n"
  shows "files_ok w verify c' h (F - {p}) recs"
proof -
  have "sf_Name (h q) \<noteq> sf_Name (h p)" if "q \<in> F - {p}" for q
    using assms(1,2) that unfolding files_ok_def inj_on_def by blast
  moreover have "fs_Name r \<noteq> sf_Name (h p)" if "r \<in> set recs" for r
    using assms(1,2) that unfolding files_ok_def by blast
  ultimately show ?thesis
    using assms(1,3) unfolding files_ok_def
    by (auto simp: ready_file_other [of c' _ c] written_file_other [of c' _ c] intro: inj_on_subset)
qed

lemma files_ok_store:
  assumes "files_ok w verify c h F recs" and "p \<in> F" and "c' = c(sf_Name (h p) \<mapsto> sf_Data (h p))"
    and "fs_Name fs = sf_Name (h p)" and "fs_Size fs = sf_Size (h p)" and "fs_Hash fs = sf_Hash (h p)"
  shows "files_ok w verify c' h (F - {p}) (recs @ [fs])"
proof -
  have ok: "files_ok w verify c' h (F - {p}) recs"
    using assms(1,2) by (rule files_ok_drop) (simp add: assms(3))
  have r: "ready_file w verify c (h p)" using assms(1,2) by (simp add: files_ok_def)
  then have "written_file w verify c' fs"
    using assms(3-6) by (auto simp: written_file_def ready_file_def sized_def)
  moreover have rn: "fs_Name r \<noteq> fs_Name fs" if "r \<in> set recs" for r
    using assms(1,2,4) that unfolding files_ok_def by metis
  moreover have "fs_Name fs \<noteq> sf_Name (h q)" if "q \<in> F - {p}" for q
    using assms(1,2,4) that unfolding files_ok_def inj_on_def by (metis DiffD1 DiffD2 insertI1)
  moreover have "distinct (map fs_Name (recs @ [fs]))"
    using ok rn by (fastforce simp: files_ok_def)
  ultimately show ?thesis using ok unfolding files_ok_def by simp
qed

lemma files_ok_fill:
  assumes "files_ok w verify c h F recs" and "p \<notin> F" and "ready_file w verify c' g"
    and "c (sf_Name g) = None" and "c' = c(sf_Name g \<mapsto> [])"
  shows "files_ok w verify c' (h(p := g)) (insert p F) recs"
proof -
  have f: "sf_Name (h q) \<noteq> sf_Name g" if "q \<in> F" for q
    using assms(1,4) that by (auto simp: files_ok_def ready_file_def)
  have r: "fs_Name r \<noteq> sf_Name g" if "r \<in> set recs" for r
    using assms(1,4) that by (auto simp: files_ok_def written_file_def)
  have "h q = (h(p := g)) q" if "q \<in> F" for q using assms(2) that by auto
  then have "files_ok w verify c (h(p := g)) F recs"
    using assms(1) by (auto simp: files_ok_def inj_on_def)
  note old = this [unfolded files_ok_def]
  let ?h = "h(p := g)"
  have keep: "c' (sf_Name (?h q)) = c (sf_Name (?h q))" if "q \<in> F" for q
    using f [OF that] assms(2,5) that by auto
  have "ready_file w verify c' (?h q)" if "q \<in> insert p F" for q
  proof (cases "q = p")
    case False
    then have "q \<in> F" using that by simp
    then show ?thesis using old ready_file_other [of c' "?h q" c w verify] keep [of q] by blast
  qed (simp add: assms(3))
  moreover have "inj_on (\<lambda>q. sf_Name (?h q)) (insert p F)"
    using old f assms(2) unfolding inj_on_def by (metis fun_upd_apply insertE)
  moreover have "written_file w verify c' q" if "q \<in> set recs" for q
    using that old r [OF that] assms(5) written_file_other [of c' q c w verify] by simp
  moreover have "fs_Name q \<noteq> sf_Name (?h k)" if "q \<in> set recs" "k \<in> insert p F" for q k
  proof (cases "k = p")
    case False
    then have "k \<in> F" using that(2) by simp
    then show ?thesis using old that(1) by blast
  qed (simp add: r [OF that(1)])
  ultimately show ?thesis using old unfolding files_ok_def by blast
qed

lemma files_ok_heap:
  "files_ok w verify c h F recs \<Longrightarrow> p \<notin> F \<Longrightarrow> files_ok w verify c (h(p := g)) F recs"
  by (auto simp: files_ok_def inj_on_def)

fun main_recs :: "main_pc \<Rightarrow> FileStats list" where
  "main_recs (Creating p ps fs) = [fs]"
| "main_recs (Adding p ps fs) = [fs]"
| "main_recs _ = []"

fun storing_ok :: "(nat \<Rightarrow> sliceFile) \<Rightarrow> main_pc \<Rightarrow> bool" where
  "storing_ok h (Storing p ps fs) \<longleftrightarrow>
     fs_Name fs = sf_Name (h p) \<and> fs_Size fs = sf_Size (h p) \<and> fs_Hash fs = sf_Hash (h p)"
| "storing_ok h _ \<longleftrightarrow> True"

definition fast_good ::
  "('s, 'm) fast_world_scheme \<Rightarrow> bool \<Rightarrow> ('s \<Rightarrow> string \<Rightarrow> byte list option) \<Rightarrow> FileStats list \<Rightarrow> 's fast \<Rightarrow> bool"
where
  "fast_good w verify content old S \<longleftrightarrow>
     (\<forall>p. count (owned S) p \<le> 1) \<and> 0 < MaxSlice (fw_stats S) \<and> MaxSlice (fw_stats S) < 2147483648
     \<and> (\<forall>p. p \<in># owned S \<longrightarrow> sized (fw_heap S p)) \<and> storing_ok (fw_heap S) (fw_main S)
     \<and> (\<exists>new. Files (fw_stats S) = old @ new
          \<and> files_ok w verify (content (fw_world S)) (fw_heap S) (set_mset (fresh_ptrs S))
              (new @ main_recs (fw_main S)))"

lemma fast_goodI:
  assumes "\<And>p. count (owned S) p \<le> 1" and "0 < MaxSlice (fw_stats S)" "MaxSlice (fw_stats S) < 2147483648"
    and "\<And>p. p \<in># owned S \<Longrightarrow> sized (fw_heap S p)" and "storing_ok (fw_heap S) (fw_main S)"
    and "Files (fw_stats S) = old @ new"
    and "files_ok w verify (content (fw_world S)) (fw_heap S) F (new @ main_recs (fw_main S))"
    and "set_mset (fresh_ptrs S) \<subseteq> F"
  shows "fast_good w verify content old S"
  using assms(1-6) files_ok_subset [OF assms(7,8)] unfolding fast_good_def by blast

lemma fast_goodD:
  assumes "fast_good w verify content old S"
  shows "count (owned S) p \<le> 1" and "0 < MaxSlice (fw_stats S)" "MaxSlice (fw_stats S) < 2147483648"
    and "p \<in># owned S \<Longrightarrow> sized (fw_heap S p)" and "storing_ok (fw_heap S) (fw_main S)"
    and "\<exists>new. Files (fw_stats S) = old @ new \<and> files_ok w verify (content (fw_world S)) (fw_heap S)
      (set_mset (fresh_ptrs S)) (new @ main_recs (fw_main S))"
  using assms unfolding fast_good_def by blast+

lemma main_step_good:
  assumes "main_step w is_ipc S S'" and "strict_store w content" and "fast_good w verify content old S"
  shows "fast_good w verify content old S'"
proof -
  have O: "object_store w content" using assms(2) by (simp add: strict_store_def)
  note G = fast_goodD [OF assms(3)]
  let ?F = "set_mset (fresh_ptrs S)"
  obtain new where new: "Files (fw_stats S) = old @ new"
      "files_ok w verify (content (fw_world S)) (fw_heap S) ?F (new @ main_recs (fw_main S))"
    using G(6) by blast
  have own: "owned S' \<subseteq># owned S" using owned_step [OF fast_step.main [OF assms(1), of undefined]] by simp
  have cnt: "count (owned S') p \<le> 1" for p
    using G(1) [of p] mset_subset_eq_count [OF own, of p] by linarith
  have sz: "p \<in># owned S' \<Longrightarrow> sized (fw_heap S p)" for p
    using G(4) mset_subset_eqD [OF own] by blast
  from assms(1) show ?thesis
  proof cases
    case (receive acc p ps)
    show ?thesis
      by (rule fast_goodI [where new = new and F = ?F, OF cnt])
        (use receive new G(2,3) sz in \<open>simp_all add: fresh_ptrs_def\<close>)
  next
    case (read_all acc)
    show ?thesis
      by (rule fast_goodI [where new = new and F = ?F, OF cnt])
        (use read_all new G(2,3) sz in \<open>simp_all add: fresh_ptrs_def\<close>)
  next
    case again
    show ?thesis
      by (rule fast_goodI [where new = new and F = ?F, OF cnt])
        (use again new G(2,3) sz in \<open>simp_all add: fresh_ptrs_def\<close>)
  next
    case (finish p ps)
    have "set_mset (fresh_ptrs S') \<subseteq> ?F" using finish by (auto simp: fresh_ptrs_def)
    then show ?thesis
      by (intro fast_goodI [where new = new and F = ?F, OF cnt])
        (use finish new G(2,3) sz in \<open>simp_all add: store_quiet(5) [OF O]\<close>)
  next
    case (serve p ps t s')
    have "content s' = content (fw_world S)"
      using store_quiet(1) [OF O serve(4)] updateRoutine_quiet [OF O] by simp
    then show ?thesis
      by (intro fast_goodI [where new = new and F = ?F, OF cnt])
        (use serve new G(2,3) sz in \<open>simp_all add: fresh_ptrs_def fast_FileStats_def new_FileStats_def\<close>)
  next
    case (store p ps fs re fs' s')
    have p: "p \<in> ?F" using store by (simp add: fresh_ptrs_def)
    define G where "G = mset ps + mset (fw_read S) + mset (concat (map gen_fresh (fw_gens S)))"
    have fr: "fresh_ptrs S = add_mset p G" "fresh_ptrs S' \<subseteq># G"
      using store by (simp_all add: fresh_ptrs_def G_def)
    have "count (fresh_ptrs S) p \<le> 1" using G(1) [of p] by (simp add: owned_def)
    then have "p \<notin># G" by (simp add: fr(1) not_in_iff)
    then have F': "set_mset (fresh_ptrs S') \<subseteq> ?F - {p}"
      using set_mset_mono [OF fr(2)] by (auto simp: fr(1))
    have m: "fs_Name fs = sf_Name (fw_heap S p)" "fs_Size fs = sf_Size (fw_heap S p)"
        "fs_Hash fs = sf_Hash (fw_heap S p)" using G(5) store by simp_all
    have r: "ready_file w verify (content (fw_world S)) (fw_heap S p)"
      using new(2) p by (simp add: files_ok_def)
    note out = fastWriteFile_outcome [OF assms(2) store(3) r G(2,3) m(1,2)]
    show ?thesis
    proof (cases "call_failed re")
      case True
      have "files_ok w verify (content s') (fw_heap S) (?F - {p}) (new @ main_recs (fw_main S))"
        by (rule files_ok_drop [OF new(2) p]) (rule out(1))
      then show ?thesis
        by (intro fast_goodI [where new = new and F = "?F - {p}", OF cnt])
          (use store True new G(2,3) sz F' in simp_all)
    next
      case False
      obtain k t where "content s' = (content (fw_world S))(sf_Name (fw_heap S p) \<mapsto> sf_Data (fw_heap S p))"
          "fs' = fs\<lparr>fs_WriteCount := k, fs_WriteTime := t\<rparr>"
        using out(2) [OF False] by blast
      then have "files_ok w verify (content s') (fw_heap S) (?F - {p}) (new @ [fs'])"
        using files_ok_store [OF new(2) p, of "content s'" fs'] m store by simp
      then show ?thesis
        by (intro fast_goodI [where new = new and F = "?F - {p}", OF cnt])
          (use store False new G(2,3) sz F' in simp_all)
    qed
  next
    case (create p ps fs)
    show ?thesis
      by (rule fast_goodI [where new = new and F = ?F, OF cnt])
        (use create new G(2,3) sz in \<open>simp_all add: fresh_ptrs_def\<close>)
  next
    case (add p ps fs)
    show ?thesis
      by (rule fast_goodI [where new = "new @ [fs]" and F = ?F, OF cnt])
        (use add new G(2,3) sz in \<open>simp_all add: fresh_ptrs_def Add_def\<close>)
  qed
qed

text \<open>A step of a generator moves one pointer between the channels and the buffers.\<close>

lemma gen_step_good:
  assumes "gen_step w verify S g S1 g'" and "fw_gens S = gs @ g # hs" and "strict_store w content"
    and "fast_good w verify content old S"
  shows "fast_good w verify content old (S1\<lparr>fw_gens := gs @ g' # hs\<rparr>)"
proof -
  have O: "object_store w content" using assms(3) by (simp add: strict_store_def)
  note G = fast_goodD [OF assms(4)]
  let ?F = "set_mset (fresh_ptrs S)" and ?S' = "S1\<lparr>fw_gens := gs @ g' # hs\<rparr>"
  obtain new where new: "Files (fw_stats S) = old @ new"
      "files_ok w verify (content (fw_world S)) (fw_heap S) ?F (new @ main_recs (fw_main S))"
    using G(6) by blast
  have own: "owned ?S' \<subseteq># owned S"
    using owned_step [OF fast_step.generator [OF assms(2,1), of undefined]] by simp
  have cnt: "count (owned ?S') p \<le> 1" for p
    using G(1) [of p] mset_subset_eq_count [OF own, of p] by linarith
  have sz: "p \<in># owned ?S' \<Longrightarrow> sized (fw_heap S p)" for p
    using G(4) mset_subset_eqD [OF own] by blast
  from assms(1) show ?thesis
  proof cases
    case (connect err s')
    have "content s' = content (fw_world S)" using store_quiet(4) [OF O connect(4)] .
    moreover have fr: "set_mset (fresh_ptrs ?S') \<subseteq> ?F" using connect assms(2) by (auto simp: fresh_ptrs_def)
    ultimately show ?thesis
      by (intro fast_goodI [where new = new and F = ?F, OF cnt])
        (use connect new G(2,3,5) sz fr in simp_all)
  next
    case (take p ps)
    have fr: "set_mset (fresh_ptrs ?S') \<subseteq> ?F" using take assms(2) by (auto simp: fresh_ptrs_def)
    show ?thesis
      by (rule fast_goodI [where new = new and F = ?F, OF cnt])
        (use take new G(2,3,5) sz fr in simp_all)
  next
    case (give p)
    have fr: "set_mset (fresh_ptrs ?S') \<subseteq> ?F" using give assms(2) by (auto simp: fresh_ptrs_def)
    show ?thesis
      by (rule fast_goodI [where new = new and F = ?F, OF cnt])
        (use give new G(2,3,5) sz fr in simp_all)
  next
    case (stop e)
    have fr: "set_mset (fresh_ptrs ?S') \<subseteq> ?F" using stop assms(2) by (auto simp: fresh_ptrs_def)
    show ?thesis
      by (rule fast_goodI [where new = new and F = ?F, OF cnt])
        (use stop new G(2,3,5) sz fr in simp_all)
  next
    case (fill p err f s')
    have "p \<in># busy_ptrs S" using fill(1) assms(2) by (simp add: busy_ptrs_def)
    then have "0 < count (busy_ptrs S) p" by simp
    moreover have "count (fresh_ptrs S) p + count (busy_ptrs S) p \<le> 1"
      using G(1) [of p] by (simp add: owned_def)
    ultimately have "count (fresh_ptrs S) p = 0" by linarith
    then have p: "p \<notin> ?F" by (simp add: count_eq_zero_iff)
    have "p \<in># owned S" using \<open>p \<in># busy_ptrs S\<close> by (simp add: owned_def)
    then have "sized (fw_heap S p)" by (rule G(4))
    note spec = genFile_spec [OF assms(3) this fill(4)]
    have sz': "q \<in># owned ?S' \<Longrightarrow> sized (((fw_heap S)(p := f)) q)" for q
      using sz spec(1) by simp
    have st: "storing_ok ((fw_heap S)(p := f)) (fw_main S)"
    proof (cases "fw_main S")
      case (Storing q ps fs)
      then have "q \<in> ?F" by (simp add: fresh_ptrs_def)
      then show ?thesis using Storing G(5) p by auto
    qed simp_all
    show ?thesis
    proof (cases "err = None")
      case True
      have "files_ok w verify (content s') ((fw_heap S)(p := f)) (insert p ?F) (new @ main_recs (fw_main S))"
        using spec(2) [OF True] files_ok_fill [OF new(2) p, of "content s'" f] by blast
      moreover have "set_mset (fresh_ptrs ?S') \<subseteq> insert p ?F"
        using fill True assms(2) by (auto simp: fresh_ptrs_def)
      ultimately show ?thesis
        by (intro fast_goodI [where new = new and F = "insert p ?F", OF cnt])
          (use fill True new(1) G(2,3) sz' st in simp_all)
    next
      case False
      have "files_ok w verify (content s') ((fw_heap S)(p := f)) ?F (new @ main_recs (fw_main S))"
        using files_ok_heap [OF new(2) p] spec(3) [OF False] by simp
      moreover have "set_mset (fresh_ptrs ?S') \<subseteq> ?F"
        using fill False assms(2) by (auto simp: fresh_ptrs_def)
      ultimately show ?thesis
        by (intro fast_goodI [where new = new and F = ?F, OF cnt])
          (use fill False new(1) G(2,3) sz' st in simp_all)
    qed
  qed
qed

lemma fast_step_good:
  assumes "fast_step w verify is_ipc S S'" and "strict_store w content" and "fast_good w verify content old S"
  shows "fast_good w verify content old S'"
  using assms(1)
proof cases
  case main
  then show ?thesis using main_step_good assms(2,3) by blast
next
  case (generator gs g hs S1 g')
  then show ?thesis using gen_step_good assms(2,3) by blast
qed

text \<open>What \<^verbatim>\<open>genCacheFiles\<close> returns is ready, and each file has an object of its own.\<close>

definition cache_ok ::
  "('s, 'm) object_world_scheme \<Rightarrow> bool \<Rightarrow> (string \<Rightarrow> byte list option) \<Rightarrow> sliceFile list \<Rightarrow> bool" where
  "cache_ok w verify c files \<longleftrightarrow>
     (\<forall>f \<in> set files. ready_file w verify c f) \<and> distinct (map sf_Name files)"

lemma cache_ok_snoc:
  assumes "cache_ok w verify c files" and "ready_file w verify c' g" and "c (sf_Name g) = None"
    and "c' = c(sf_Name g \<mapsto> [])"
  shows "cache_ok w verify c' (files @ [g])"
proof -
  have ne: "sf_Name f \<noteq> sf_Name g" if "f \<in> set files" for f
    using assms(1,3) that by (auto simp: cache_ok_def ready_file_def)
  then have "ready_file w verify c' f" if "f \<in> set files" for f
    using assms(1,4) that ready_file_other [of c' f c w verify] by (simp add: cache_ok_def)
  then show ?thesis using assms(1,2) ne by (fastforce simp: cache_ok_def)
qed

lemma new_sliceFile_sized: "16 \<le> sz \<Longrightarrow> sz < 2147483648 \<Longrightarrow> sized (new_sliceFile sz)"
  by (simp add: sized_def new_sliceFile_def)

lemma genCacheFiles_loop_ready:
  fixes w :: "('s, 'm) fast_world_scheme" and content :: "'s \<Rightarrow> string \<Rightarrow> byte list option"
  assumes "genCacheFiles_loop w verify stats gs files s = Some y"
  shows "strict_store w content \<longrightarrow> Sample stats \<noteq> SMax \<longrightarrow> cache_ok w verify (content s) files \<longrightarrow>
    (\<forall>files'. fst y = Inr files' \<longrightarrow> cache_ok w verify (content (snd y)) files')"
proof (rule genCacheFiles_loop.raw_induct [of "\<lambda>w verify stats gs files s y. strict_store w content \<longrightarrow>
    Sample stats \<noteq> SMax \<longrightarrow> cache_ok w verify (content s) files \<longrightarrow>
    (\<forall>files'. fst y = Inr files' \<longrightarrow> cache_ok w verify (content (snd y)) files')", OF _ assms], intro impI allI)
  fix f w verify stats gs files s files' and y :: "(error + sliceFile list) \<times> 's"
  assume IH: "\<And>(w :: ('s, 'm) fast_world_scheme) verify stats gs files s y.
      f w verify stats gs files s = Some y \<Longrightarrow> strict_store w content \<longrightarrow> Sample stats \<noteq> SMax \<longrightarrow>
      cache_ok w verify (content s) files \<longrightarrow>
      (\<forall>files'. fst y = Inr files' \<longrightarrow> cache_ok w verify (content (snd y)) files')"
    and eq: "(let (sz, s1) = genFileSize w (Sample stats) s;
          genSize' = i64 (gs + sz)
      in if CacheSize stats < genSize' then Some (Inr files, s1)
         else Option.bind (genFile w verify (new_sliceFile sz) s1) (\<lambda>((err, g), s2).
                case err of
                  Some e \<Rightarrow> Some (Inl e, s2)
                | None \<Rightarrow> f w verify stats genSize' (files @ [g]) s2)) = Some y"
    and st: "strict_store w content" and sm: "Sample stats \<noteq> SMax"
    and ok: "cache_ok w verify (content s) files" and y: "fst y = Inr files'"
  have O: "object_store w content" using st by (simp add: strict_store_def)
  obtain sz s1 where g: "genFileSize w (Sample stats) s = (sz, s1)" by fastforce
  note sz = genFileSize_spec [OF O sm g]
  show "cache_ok w verify (content (snd y)) files'"
  proof (cases "CacheSize stats < i64 (gs + sz)")
    case True
    then show ?thesis using eq g ok y sz by auto
  next
    case False
    obtain err h s2 where h: "genFile w verify (new_sliceFile sz) s1 = Some ((err, h), s2)"
      using eq g False by (cases "genFile w verify (new_sliceFile sz) s1") auto
    have en: "err = None" using eq g False h y by (cases err) auto
    have "sized (new_sliceFile sz)" using sz by (intro new_sliceFile_sized) simp_all
    note spec = genFile_spec [OF st this h]
    have "cache_ok w verify (content s2) (files @ [h])"
      using spec(2) [OF en] sz ok cache_ok_snoc [of w verify "content s" files "content s2" h] by auto
    then show ?thesis
      using IH [of w verify stats "i64 (gs + sz)" "files @ [h]" s2 y] eq g False h en st sm y by simp
  qed
qed

lemma genCacheFiles_ready:
  assumes "strict_store w content" and "Sample stats \<noteq> SMax"
    and "genCacheFiles w verify stats s = Some (Inr files, s')"
  shows "cache_ok w verify (content s') files"
  using genCacheFiles_loop_ready [OF assms(3) [unfolded genCacheFiles_def], of content] assms(1,2)
  by (simp add: cache_ok_def)

lemma newAsyncFile_good:
  assumes "cache_ok w verify (content s) files" and "0 < MaxSlice stats" and "MaxSlice stats < 2147483648"
  shows "fast_good w verify content (Files stats) (newAsyncFile files stats s)"
proof (rule fast_goodI [where new = "[]" and F = "{0..<length files}"])
  let ?S = "newAsyncFile files stats s"
  show "count (owned ?S) p \<le> 1" for p
    by (metis owned_init distinct_count_atmost_1 distinct_upt le_refl zero_le)
  show "sized (fw_heap ?S p)" if "p \<in># owned ?S" for p
    using that assms(1) unfolding owned_init by (auto simp: newAsyncFile_def cache_ok_def ready_file_def)
  show "files_ok w verify (content (fw_world ?S)) (fw_heap ?S) {0..<length files} ([] @ main_recs (fw_main ?S))"
    using assms(1) inj_on_nth [of "map sf_Name files" "{0..<length files}"]
    by (auto simp: newAsyncFile_def files_ok_def cache_ok_def inj_on_def)
  show "set_mset (fresh_ptrs ?S) \<subseteq> {0..<length files}"
  proof
    fix p assume "p \<in> set_mset (fresh_ptrs ?S)"
    then have "p \<in># owned ?S" by (simp add: owned_def)
    then show "p \<in> {0..<length files}" unfolding owned_init by simp
  qed
qed (simp_all add: newAsyncFile_def assms(2,3))

end
