(* ===== verification/Load_Fast_Safety.thy ===== *)
theory Load_Fast_Safety
  imports Load_Fast
begin

text \<open>
  The properties of \<^verbatim>\<open>FastWrite\<close>: who owns a file, what is stored of the files that are recorded,
  what becomes of the recorded heads, and when nothing is ever written. The witnesses run the
  model against a small storage service.
\<close>

section \<open>A service for the witnesses\<close>

definition fast_demo :: "store fast_world" where
  "fast_demo =
     \<lparr>now = now demo_world, time_text = time_text demo_world, rand_bytes = rand_bytes demo_world,
      rand_Intn = rand_Intn demo_world, uuid = uuid demo_world, sha256_hex = sha256_hex demo_world,
      new_client = new_client demo_world, close_client = close_client demo_world,
      cl_CreateObject = cl_CreateObject demo_world, cl_Write = cl_Write demo_world,
      cl_CompleteObject = cl_CompleteObject demo_world,
      ipc_UpdateProgress = ipc_UpdateProgress demo_world,
      ipc_UpdateStatus = ipc_UpdateStatus demo_world,
      md5_hex = (\<lambda>d. itoa (int (length d))), cl_DeleteObject = (\<lambda>oid s. ((BFSS_SUCCESS, None), s)),
      cl_GetObjectInfo = (\<lambda>oid s. ((None, Some ''no info''), s)),
      cl_CreateObjectLink = (\<lambda>oid h sz hd flag tag s. ((BFSS_SUCCESS, None), s)),
      cl_ObjectLockHasHash = (\<lambda>h sz hd s. ((BFSS_SUCCESS, None), s)),
      rand_Seed = (\<lambda>t s. s), errorf = (\<lambda>m. m)\<rparr>"

lemma fast_demo_object_store: "object_store fast_demo fst"
  using demo_store
  by (simp add: object_store_def local_quiet_def random_source_def fast_demo_def)

lemma fast_demo_store: "strict_store fast_demo fst"
proof -
  have "fst (snd (cl_CreateObject fast_demo oid sz flag tag s)) = fst s"
    if "call_failed (fst (cl_CreateObject fast_demo oid sz flag tag s))" for oid sz flag tag s
    using that by (auto simp: fast_demo_def demo_world_def call_failed_def split: if_splits)
  moreover have "fst (snd (cl_Write fast_demo oid off d s)) n = fst s n" if "n \<noteq> oid" for oid off d s n
    using that by (auto simp: fast_demo_def demo_world_def demo_write_def split: option.splits)
  ultimately show ?thesis
    using fast_demo_object_store by (simp add: strict_store_def fast_demo_def)
qed

definition fast_demo_stats :: PerfStats where
  "fast_demo_stats = zero_PerfStats\<lparr>ExpectedWrites := 1, CacheSize := 10485760,
     MaxSlice := 10485760, Sample := S10M\<rparr>"

definition fast_demo_file :: "nat \<Rightarrow> sliceFile" where
  "fast_demo_file n = (new_sliceFile 5242880)\<lparr>sf_Data := replicate 5242880 7, sf_Name := itoa (int n),
     sf_Hash := itoa 5242880, sf_Head := Some (replicate 16 7)\<rparr>"

lemma fast_demo_gen:
  assumes "fst s (itoa (int (snd s))) = None"
  shows "genFile fast_demo True (new_sliceFile 5242880) s = Some ((None, fast_demo_file (snd s)),
    ((fst s)(itoa (int (snd s)) \<mapsto> []), Suc (snd s)))"
  using assms
  by (simp add: genFile_def new_sliceFile_def fast_demo_def demo_world_def fast_demo_file_def
    call_failed_def hashValue_def copy_into_def wrap_simps)

lemma fast_demo_stats_fields [simp]:
  "CacheSize fast_demo_stats = 10485760" "Sample fast_demo_stats = S10M" "ExpectedWrites fast_demo_stats = 1"
  "MaxSlice fast_demo_stats = 10485760" "Files fast_demo_stats = []" "TotalWrites fast_demo_stats = 0"
  by (simp_all add: fast_demo_stats_def zero_PerfStats_def)

lemma fast_demo_world [simp]: "new_client fast_demo s = (None, s)" "now fast_demo s = (0, s)"
  by (simp_all add: fast_demo_def demo_world_def)

lemma fast_demo_numbers:
  "itoa 0 = ''0''" "itoa 1 = ''1''" "i64 5242880 = 5242880" "i64 10485760 = 10485760"
  "i64 15728640 = 15728640" "i32 5242880 = 5242880" "i64 0 = 0" "i64 1 = 1"
  by code_simp+

lemma fast_demo_start:
  "FastWrite_start fast_demo True fast_demo_stats (Map.empty, 0) =
     Some (Inr (newAsyncFile [fast_demo_file 0, fast_demo_file 1] fast_demo_stats
       ([''0'' \<mapsto> [], ''1'' \<mapsto> []], 2)))"
proof -
  note it = fast_demo_numbers
  let ?loop = "genCacheFiles_loop fast_demo True fast_demo_stats"
  have sz: "genFileSize fast_demo S10M s = (5242880, s)" for s
    by (simp add: genFileSize_def fast_demo_def demo_world_def Samples_def Let_def c1M_def)
  have "?loop 10485760 fs s = Some (Inr fs, s)" for fs s
    by (subst genCacheFiles_loop.simps) (simp add: sz it)
  moreover have "?loop 5242880 fs ([''0'' \<mapsto> []], 1)
      = ?loop 10485760 (fs @ [fast_demo_file 1]) ([''0'' \<mapsto> [], ''1'' \<mapsto> []], 2)" for fs
    using fast_demo_gen [of "([''0'' \<mapsto> []], 1)"]
    by (subst genCacheFiles_loop.simps) (simp add: sz it numeral_2_eq_2)
  moreover have "?loop 0 [] (Map.empty, 0) = ?loop 5242880 [fast_demo_file 0] ([''0'' \<mapsto> []], 1)"
    using fast_demo_gen [of "(Map.empty, 0)"]
    by (subst genCacheFiles_loop.simps) (simp add: sz it)
  ultimately show ?thesis by (simp add: FastWrite_start_def genCacheFiles_def)
qed

lemma fast_demo_write:
  "fastWriteFile fast_demo (fast_FileStats (fast_demo_file 0) t) (fast_demo_file 0) 10485760
     ([''0'' \<mapsto> [], ''1'' \<mapsto> []], 2) =
   Some ((BFSS_SUCCESS, None), (fast_FileStats (fast_demo_file 0) t)\<lparr>fs_WriteCount := 1\<rparr>,
     ([''0'' \<mapsto> replicate 5242880 7, ''1'' \<mapsto> []], 2))"
  by (subst fastWriteFile_def, subst fastWriteFile_loop.simps)
    (simp add: fast_demo_def demo_world_def demo_write_def fast_demo_file_def new_sliceFile_def
      fast_FileStats_def new_FileStats_def fast_demo_numbers call_failed_def fun_upd_twist Let_def)

text \<open>The main routine receives the two files and writes the first.\<close>

lemma fast_demo_run:
  defines "S0 \<equiv> newAsyncFile [fast_demo_file 0, fast_demo_file 1] fast_demo_stats
       ([''0'' \<mapsto> [], ''1'' \<mapsto> []], 2 :: nat)"
  shows "\<exists>S. (fast_step fast_demo True False)\<^sup>*\<^sup>* S0 S \<and> length (Files (fw_stats S)) = 1"
proof -
  let ?fs = "(fast_FileStats (fast_demo_file 0) 0)\<lparr>fs_WriteCount := 1\<rparr>"
  let ?w = "([''0'' \<mapsto> replicate 5242880 7, ''1'' \<mapsto> []], 2 :: nat)"
  define S1 where "S1 = S0\<lparr>fw_main := Reading [0], fw_read := [1]\<rparr>"
  define S2 where "S2 = S1\<lparr>fw_main := Reading [0, 1], fw_read := []\<rparr>"
  define S3 where "S3 = S2\<lparr>fw_main := Serving [0, 1]\<rparr>"
  define S4 where "S4 = S3\<lparr>fw_main := Storing 0 [1] (fast_FileStats (fast_demo_file 0) 0)\<rparr>"
  define S5 where "S5 = S4\<lparr>fw_main := Creating 0 [1] ?fs, fw_world := ?w\<rparr>"
  define S6 where "S6 = S5\<lparr>fw_main := Adding 0 [1] ?fs, fw_create := [0]\<rparr>"
  define S7 where "S7 = S6\<lparr>fw_main := Serving [1], fw_stats := Add ?fs (fw_stats S6), fw_heads := fw_heads S6 @ [Some 0]\<rparr>"
  let ?step = "fast_step fast_demo True False"
  note D = S0_def newAsyncFile_def
  have 1: "?step S0 S1"
    using main_step.receive [of S0 "[]" 0 "[1]" fast_demo False] by (simp add: S1_def D fast_step.main upt_rec)
  have 2: "?step S1 S2"
    using main_step.receive [of S1 "[0]" 1 "[]" fast_demo False] by (simp add: S2_def S1_def fast_step.main)
  have 3: "?step S2 S3"
    using main_step.read_all [of S2 "[0, 1]" fast_demo False] by (simp add: S3_def S2_def fast_step.main)
  have 4: "?step S3 S4"
    using main_step.serve [of S3 0 "[1]" fast_demo False 0 "fw_world S3"]
    by (simp add: S4_def S3_def S2_def S1_def D fast_step.main)
  have 5: "?step S4 S5"
    using main_step.store [of S4 0 "[1]" "fast_FileStats (fast_demo_file 0) 0" fast_demo _ _ ?w False] fast_demo_write [of 0]
    by (simp add: S5_def S4_def S3_def S2_def S1_def D fast_step.main call_failed_def)
  have 6: "?step S5 S6"
    using main_step.create [of S5 0 "[1]" ?fs fast_demo False]
    by (simp add: S6_def S5_def S4_def S3_def S2_def S1_def D fast_step.main)
  have 7: "?step S6 S7"
    using main_step.add [of S6 0 "[1]" ?fs fast_demo False] by (simp add: S7_def S6_def fast_step.main)
  have "?step\<^sup>*\<^sup>* S0 S7"
    using 1 2 3 4 5 6 7 by (meson converse_rtranclp_into_rtranclp rtranclp.rtrancl_refl)
  moreover have "length (Files (fw_stats S7)) = 1"
    by (simp add: S7_def S6_def S5_def S4_def S3_def S2_def S1_def D Add_def)
  ultimately show ?thesis by blast
qed

section \<open>Properties\<close>

text \<open>
  Claim C13: the files of \<^verbatim>\<open>FastWrite\<close> are never shared: in every reachable state each of them is in at
  most one channel or in the hands of at most one routine, and a send on \<^verbatim>\<open>createChan\<close> or \<^verbatim>\<open>readChan\<close>
  always finds room, so that neither the writer nor a generator blocks on one.
\<close>

theorem fast_ownership:
  assumes "(fast_step w verify is_ipc)\<^sup>*\<^sup>* (newAsyncFile files stats s) S"
  shows "count (owned S) p \<le> 1 \<and> (p \<in># owned S \<longrightarrow> p < length files)
    \<and> (fw_main S = Creating q ps fs \<longrightarrow> length (fw_create S) < fw_cap S)
    \<and> (Giving q \<in> set (fw_gens S) \<longrightarrow> length (fw_read S) < fw_cap S)"
proof (intro conjI impI)
  note O = owned_reachable [OF assms]
  show "count (owned S) p \<le> 1" by (rule O(3))
  show "p < length files" if "p \<in># owned S" using mset_subset_eqD [OF O(1) that] by simp
  show "length (fw_create S) < fw_cap S" if "fw_main S = Creating q ps fs"
    using that O(2,4) by (simp add: ptrs_defs)
  show "length (fw_read S) < fw_cap S" if "Giving q \<in> set (fw_gens S)"
  proof -
    obtain gs hs where "fw_gens S = gs @ Giving q # hs"
      using split_list [where x = "Giving q" and xs = "fw_gens S"] \<open>Giving q \<in> set (fw_gens S)\<close> by blast
    then show ?thesis using O(2,4) by (simp add: ptrs_defs)
  qed
qed

text \<open>
  Claim C4: whatever \<^verbatim>\<open>FastWrite\<close> adds to its statistics is stored by the service: at every moment,
  in every interleaving of the writer with the generators, the files that are recorded have
  distinct names, and the object of each has the recorded size and, with \<^verbatim>\<open>VerifyHash\<close>, the recorded
  hash.
\<close>

theorem fast_recorded:
  assumes "strict_store w content" and "Sample stats \<noteq> SMax"
    and "0 < MaxSlice stats" and "MaxSlice stats < 2147483648"
    and "FastWrite_start w verify stats s = Some (Inr S0)" and "(fast_step w verify is_ipc)\<^sup>*\<^sup>* S0 S"
  shows "\<exists>new. Files (fw_stats S) = Files stats @ new \<and> distinct (map fs_Name new)
    \<and> (\<forall>r \<in> set new. \<exists>d. content (fw_world S) (fs_Name r) = Some d \<and> fs_Size r = int (length d)
         \<and> (verify \<longrightarrow> fs_Hash r = md5_hex w d))"
proof -
  obtain files s1 s2 where "genCacheFiles w verify stats s1 = Some (Inr files, s2)"
      and S0: "S0 = newAsyncFile files stats s2"
    using assms(5) by (auto simp: FastWrite_start_def split: if_splits prod.splits option.splits sum.splits)
  then have "fast_good w verify content (Files stats) S0"
    using newAsyncFile_good [where content = content, OF genCacheFiles_ready [where content = content, OF assms(1,2)] assms(3,4)]
    by blast
  with assms(6) have "fast_good w verify content (Files stats) S"
    by (induction rule: rtranclp_induct) (auto intro: fast_step_good [OF _ assms(1)])
  then show ?thesis
    by (auto simp: fast_good_def files_ok_def written_file_def)
qed



theorem fast_recorded_witness:
  "\<exists>S0 S. FastWrite_start fast_demo True fast_demo_stats (Map.empty, 0) = Some (Inr S0)
     \<and> (fast_step fast_demo True False)\<^sup>*\<^sup>* S0 S
     \<and> (\<exists>r. Files (fw_stats S) = [r] \<and> (\<exists>d. fst (fw_world S) (fs_Name r) = Some d
          \<and> fs_Size r = int (length d) \<and> fs_Hash r = md5_hex fast_demo d))"
proof -
  obtain S where S: "(fast_step fast_demo True False)\<^sup>*\<^sup>*
      (newAsyncFile [fast_demo_file 0, fast_demo_file 1] fast_demo_stats ([''0'' \<mapsto> [], ''1'' \<mapsto> []], 2)) S"
      "length (Files (fw_stats S)) = 1"
    using fast_demo_run by blast
  then obtain r where r: "Files (fw_stats S) = [r]" by (auto simp: length_Suc_conv)
  have p: "Sample fast_demo_stats \<noteq> SMax" "0 < MaxSlice fast_demo_stats" "MaxSlice fast_demo_stats < 2147483648"
    by simp_all
  show ?thesis
    using fast_recorded [OF fast_demo_store p fast_demo_start S(1)] r S(1) fast_demo_start by auto
qed

theorem fast_ownership_witness:
  "\<exists>S. (fast_step fast_demo True False)\<^sup>*\<^sup>* (newAsyncFile [fast_demo_file 0, fast_demo_file 1] fast_demo_stats
      ([''0'' \<mapsto> [], ''1'' \<mapsto> []], 2)) S \<and> length (Files (fw_stats S)) = 1
     \<and> count (owned S) 0 \<le> 1 \<and> count (owned S) 1 \<le> 1"
proof -
  obtain S where S: "(fast_step fast_demo True False)\<^sup>*\<^sup>*
      (newAsyncFile [fast_demo_file 0, fast_demo_file 1] fast_demo_stats ([''0'' \<mapsto> [], ''1'' \<mapsto> []], 2)) S"
      "length (Files (fw_stats S)) = 1"
    using fast_demo_run by blast
  then show ?thesis using fast_ownership [OF S(1)] by blast
qed

text \<open>
  The head of a recorded file is the buffer of the file, not a copy. When a generator
  refills that file, the statistics of the file that was written before keep its name, size and
  hash but show the first bytes of the new data: the check of \<^verbatim>\<open>VerifyHash\<close> then sends a head that
  does not belong to the hash.
\<close>

theorem fast_head_alias:
  assumes "fw_gens S = gs @ Holding p # hs"
    and "genFile w True (fw_heap S p) (fw_world S) = Some ((None, f), s')"
    and "sized (fw_heap S p)" and "i < length (Files (fw_stats S))" and "i < length (fw_heads S)"
    and "fw_heads S ! i = Some p" and "random_source w"
  shows "\<exists>S'. fast_step w True is_ipc S S'
    \<and> fast_Files S' ! i = (fast_Files S ! i)\<lparr>fs_Head := Some (take 16 (sf_Data f))\<rparr>"
proof -
  let ?S' = "S\<lparr>fw_heap := (fw_heap S)(p := f), fw_world := s', fw_gens := gs @ Giving p # hs\<rparr>"
  have "fast_step w True is_ipc S ?S'"
    using fast_step.generator [OF assms(1) gen_step.fill [OF assms(2)], of is_ipc] by simp
  moreover have "sf_Head f = Some (take 16 (sf_Data f))"
    using assms(2,3,7)
    by (auto simp: genFile_def sized_def Let_def copy_into_def random_source_def min_def
      split: prod.splits if_splits dest!: arg_cong [where f = "\<lambda>x. length (fst x)"])
  ultimately show ?thesis
    using assms(4-6) by (intro exI [of _ ?S']) (simp add: fast_Files_def read_head_def)
qed

definition refill_demo :: "store fast" where
  "refill_demo =
     \<lparr>fw_heap = (\<lambda>_. new_sliceFile 16), fw_read = [], fw_create = [], fw_cap = 1, fw_main = Serving [],
      fw_gens = [Holding 0], fw_stats = zero_PerfStats\<lparr>Files := [new_FileStats ''a'' 16 0]\<rparr>,
      fw_heads = [Some 0], fw_world = (Map.empty, 0)\<rparr>"

theorem fast_head_alias_witness:
  "\<exists>S'. fast_step fast_demo True False refill_demo S'
     \<and> fs_Head (fast_Files refill_demo ! 0) = Some (replicate 16 0)
     \<and> fs_Head (fast_Files S' ! 0) = Some (replicate 16 7)"
proof -
  let ?f = "(new_sliceFile 16)\<lparr>sf_Data := replicate 16 7, sf_Name := ''0'', sf_Hash := itoa 16,
    sf_Head := Some (replicate 16 7)\<rparr>"
  have gen: "genFile fast_demo True (fw_heap refill_demo 0) (fw_world refill_demo)
      = Some ((None, ?f), ([''0'' \<mapsto> []], 1))"
    by (simp add: genFile_def refill_demo_def new_sliceFile_def fast_demo_def demo_world_def Let_def
      call_failed_def hashValue_def copy_into_def fast_demo_numbers)
  have rnd: "random_source fast_demo" using fast_demo_object_store by (simp add: object_store_def)
  have st: "fw_gens refill_demo = [] @ Holding 0 # []" "sized (fw_heap refill_demo 0)"
      "0 < length (Files (fw_stats refill_demo))" "0 < length (fw_heads refill_demo)"
      "fw_heads refill_demo ! 0 = Some 0"
    by (simp_all add: refill_demo_def new_sliceFile_sized)
  have "fs_Head (fast_Files refill_demo ! 0) = Some (replicate 16 0)"
    by (simp add: refill_demo_def fast_Files_def read_head_def new_sliceFile_def)
  then show ?thesis
    using fast_head_alias [OF st(1) gen st(2-5) rnd, of False] by auto
qed

definition starving :: "PerfStats \<Rightarrow> 's fast \<Rightarrow> bool" where
  "starving stats S \<longleftrightarrow> fw_main S \<in> {Reading [], Serving []} \<and> owned S = {#} \<and> fw_stats S = stats"

lemma genCacheFiles_none:
  assumes "object_store w content" and "Sample stats \<noteq> SMax" and "CacheSize stats < 9223372036854775808"
    and "\<forall>v \<in> set (mapSample (Sample stats)). CacheSize stats < v"
  shows "\<exists>s'. genCacheFiles w verify stats s = Some (Inr [], s')"
proof -
  obtain sz s1 where g: "genFileSize w (Sample stats) s = (sz, s1)" by fastforce
  have "sz \<in> set (mapSample (Sample stats))" using genFileSize_spec [OF assms(1,2) g] by simp
  then have "CacheSize stats < sz" "1024 \<le> sz \<and> sz \<le> 2097152000"
    using assms(4) genFileSize_spec [OF assms(1,2) g] by auto
  then show ?thesis
    unfolding genCacheFiles_def
    by (subst genCacheFiles_loop.simps) (simp add: g i64.wrap_id)
qed

lemma starving_step:
  assumes "fast_step w verify is_ipc S S'" and "starving stats S"
  shows "starving stats S'"
proof -
  have "owned S' = {#}" using owned_step [OF assms(1)] assms(2) by (simp add: starving_def)
  moreover have "fw_main S' \<in> {Reading [], Serving []} \<and> fw_stats S' = stats"
    using assms(1)
  proof cases
    case main
    then show ?thesis
      by cases (use assms(2) in \<open>auto simp: starving_def ptrs_defs\<close>)
  next
    case (generator gs g hs S1 g')
    from generator(3) show ?thesis
      by cases (use generator(1) assms(2) in \<open>simp_all add: starving_def, blast?\<close>)
  qed
  ultimately show ?thesis by (simp add: starving_def)
qed

text \<open>
  Claim C34: when the cache is smaller than every file of the sample, \<^verbatim>\<open>genCacheFiles\<close> makes no file, and
  \<^verbatim>\<open>FastWrite\<close> never returns: whatever the interleaving, the main routine keeps reading an empty
  channel, with nothing written and nothing recorded.
\<close>

theorem fast_starves:
  assumes "object_store w content" and "Sample stats \<noteq> SMax" and "0 < ExpectedWrites stats"
    and "10485760 \<le> CacheSize stats" and "CacheSize stats < 9223372036854775808"
    and "\<forall>v \<in> set (mapSample (Sample stats)). CacheSize stats < v" and "fst (new_client w s) = None"
  shows "\<exists>S0. FastWrite_start w verify stats s = Some (Inr S0)
    \<and> (\<forall>S. (fast_step w verify is_ipc)\<^sup>*\<^sup>* S0 S \<longrightarrow>
         \<not> fast_returned S \<and> (\<exists>S'. main_step w is_ipc S S') \<and> Files (fw_stats S) = Files stats)"
proof -
  obtain s1 where c: "new_client w s = (None, s1)" using assms(7) by (cases "new_client w s") auto
  obtain s2 where "genCacheFiles w verify stats s1 = Some (Inr [], s2)"
    using genCacheFiles_none [OF assms(1,2,5,6)] by blast
  then have start: "FastWrite_start w verify stats s = Some (Inr (newAsyncFile [] stats s2))"
    using assms(3,4) c by (simp add: FastWrite_start_def)
  have "starving stats S" if "(fast_step w verify is_ipc)\<^sup>*\<^sup>* (newAsyncFile [] stats s2) S" for S
    using that
  proof (induction rule: rtranclp_induct)
    case base
    then show ?case by (simp add: starving_def owned_init) (simp add: newAsyncFile_def)
  qed (rule starving_step)
  moreover have "\<not> fast_returned S \<and> (\<exists>S'. main_step w is_ipc S S') \<and> Files (fw_stats S) = Files stats"
    if "starving stats S" for S
  proof -
    have "fw_read S = []" using that by (auto simp: starving_def ptrs_defs)
    moreover have "fw_main S = Reading [] \<or> fw_main S = Serving []" using that by (simp add: starving_def)
    ultimately have "\<exists>S'. main_step w is_ipc S S'"
      using main_step.read_all [of S "[]" w is_ipc] main_step.again [of S w is_ipc] by metis
    then show ?thesis using that by (auto simp: starving_def fast_returned_def)
  qed
  ultimately show ?thesis using start by blast
qed

theorem fast_starves_witness:
  "\<exists>S0. FastWrite_start fast_demo True (fast_demo_stats\<lparr>Sample := S1G\<rparr>) (Map.empty, 0) = Some (Inr S0)
     \<and> \<not> fast_returned S0"
proof -
  let ?s = "fast_demo_stats\<lparr>Sample := S1G\<rparr>"
  have "Sample ?s \<noteq> SMax" "0 < ExpectedWrites ?s" "10485760 \<le> CacheSize ?s"
      "CacheSize ?s < 9223372036854775808" "\<forall>v \<in> set (mapSample (Sample ?s)). CacheSize ?s < v"
    by (simp_all add: c1M_def)
  from fast_starves [OF fast_demo_object_store this, of "(Map.empty, 0)" True False] show ?thesis by auto
qed

end
