(* ===== verification/Stats_Export.thy ===== *)
theory Stats_Export
  imports App_Stats
begin

text \<open>
  The spreadsheets of \<^verbatim>\<open>app/stats.go\<close>: \<^verbatim>\<open>ExportStatsToWriter\<close> for the statistics of several runs, which
  \<^verbatim>\<open>ExportChartStats\<close> writes to a file, \<^verbatim>\<open>ExportStats\<close> for the files of one run, with the summary of
  \<^verbatim>\<open>addSummary\<close>. A sheet is the list of its rows; the styles of the cells are not modelled. Whether
  the library accepts the name of the sheet is the argument \<open>add_sheet\<close>. A sheet is \<open>None\<close> when
  making it panics.
\<close>

section \<open>Texts of durations and floats\<close>

fun drop_zeros :: "string \<Rightarrow> string" where
  "drop_zeros s = rev (dropWhile (\<lambda>c. c = CHR ''0'') (rev s))"

text \<open>\<^verbatim>\<open>fmtFrac\<close> of the package \<^verbatim>\<open>time\<close>: the digits after the point, without trailing zeros.\<close>

definition frac_text :: "nat \<Rightarrow> nat \<Rightarrow> string" where
  "frac_text prec v =
     (let t = drop_zeros (pad_digits prec (v mod 10 ^ prec)) in if t = [] then [] else ''.'' @ t)"

text \<open>\<^verbatim>\<open>Duration.String\<close>.\<close>

definition duration_String :: "duration \<Rightarrow> string" where
  "duration_String d =
     (let u = nat \<bar>d\<bar>;
          text = (if u = 0 then ''0s''
                  else if u < 1000 then nat_digits u @ ''ns''
                  else if u < 1000000
                  then nat_digits (u div 1000) @ frac_text 3 u @ [CHR 0xC2, CHR 0xB5] @ ''s''
                  else if u < 1000000000 then nat_digits (u div 1000000) @ frac_text 6 u @ ''ms''
                  else let secs = u div 1000000000; mins = secs div 60; hours = mins div 60
                       in (if 0 < hours then nat_digits hours @ ''h'' else [])
                          @ (if 0 < mins then nat_digits (mins mod 60) @ ''m'' else [])
                          @ nat_digits (secs mod 60) @ frac_text 9 u @ ''s'')
      in if d < 0 then ''-'' @ text else text)"

text \<open>\<^verbatim>\<open>strconv.FormatFloat(x, 'f', k, bits)\<close>: the value is first rounded to \<open>p\<close> bits of significand.\<close>

fun FormatFloat :: "nat \<Rightarrow> nat \<Rightarrow> gofloat \<Rightarrow> string" where
  "FormatFloat k p (Finite x) =
     (let y = fl p x in if y < 0 then ''-'' @ fmt_fixed k (- y) else fmt_fixed k y)"
| "FormatFloat k p NonFinite = ''NaN''"

section \<open>Cells\<close>

datatype cell = Text string | IntCell int | FloatCell gofloat

type_synonym sheet = "cell list list"

text \<open>A count over a duration, when the duration is positive.\<close>

fun positive :: "gofloat \<Rightarrow> bool" where
  "positive (Finite x) \<longleftrightarrow> 0 < x"
| "positive NonFinite \<longleftrightarrow> False"

definition per_second :: "int \<Rightarrow> duration \<Rightarrow> gofloat" where
  "per_second n d =
     (if positive (Seconds d) then float_div 53 (float_of_int 53 n) (Seconds d) else Finite 0)"

definition per_MB :: "gofloat \<Rightarrow> gofloat" where
  "per_MB x = float_div 53 x (Finite 1048576)"

definition total_time :: "PerfStats \<Rightarrow> duration" where
  "total_time v =
     i64 (i64 (TotalCreateObjectTime v + TotalWriteTime v) + TotalCompleteObjectTime v)"

section \<open>The sheet of several runs\<close>

definition chart_header :: "cell list" where
  "chart_header = map Text
     [''No'', ''TotalFiles'', ''TotalWrites(MB)'', ''CreateTime(s)'', ''CreateSpeed(files/s)'',
      ''WriteTime(s)'', ''WriteSpeed(MB/s)'', ''CompleteObjectTime(s)'',
      ''CompleteObjectSpeed(files/s)'', ''TotalTime'', ''TestRunTime'', ''Routines'', ''Out(MB/s)'',
      ''Sample'']"

definition out_speed :: "PerfStats \<Rightarrow> gofloat" where
  "out_speed v =
     (if 0 < TestRunTime v
      then per_MB (float_div 53 (float_of_int 53 (TotalWrites v)) (Seconds (TestRunTime v)))
      else per_MB (per_second (TotalWrites v) (TotalWriteTime v)))"

definition chart_row :: "nat \<Rightarrow> PerfStats \<Rightarrow> cell list option" where
  "chart_row i v =
     map_option (\<lambda>nm.
       [IntCell (int i + 1), IntCell (int (length (Files v))),
        FloatCell (per_MB (float_of_int 53 (TotalWrites v))),
        FloatCell (Seconds (TotalCreateObjectTime v)),
        Text (FormatFloat 1 24 (per_second (int (length (Files v))) (TotalCreateObjectTime v))),
        FloatCell (Seconds (TotalWriteTime v)),
        FloatCell (per_MB (per_second (TotalWrites v) (TotalWriteTime v))),
        FloatCell (Seconds (TotalCompleteObjectTime v)),
        Text (FormatFloat 1 24 (per_second (int (length (Files v))) (TotalCompleteObjectTime v))),
        Text (duration_String (total_time v)), Text (duration_String (TestRunTime v)),
        IntCell (Routines v), Text (FormatFloat 3 53 (out_speed v)), Text nm])
       (strategy_String (Sample v))"

fun chart_rows :: "nat \<Rightarrow> PerfStats list \<Rightarrow> sheet option" where
  "chart_rows i [] = Some []"
| "chart_rows i (v # vs) =
     (case chart_row i v of
        None \<Rightarrow> None
      | Some r \<Rightarrow> map_option (\<lambda>rs. r # rs) (chart_rows (Suc i) vs))"

definition ExportStatsToWriter ::
  "(string \<Rightarrow> error option) \<Rightarrow> string \<Rightarrow> PerfStats list \<Rightarrow> (error + sheet) option" where
  "ExportStatsToWriter add_sheet server_name stats =
     (case add_sheet (''BFSS - '' @ server_name) of
        Some e \<Rightarrow> Some (Inl e)
      | None \<Rightarrow> map_option (\<lambda>rs. Inr (chart_header # rs)) (chart_rows 0 stats))"

section \<open>The sheet of one run\<close>

definition per_sec_unit :: string where
  "per_sec_unit = '' '' @ [CHR 0xE6, CHR 0xAC, CHR 0xA1] @ ''/'' @ [CHR 0xE7, CHR 0xA7, CHR 0x92]"

definition slash_sec :: string where
  "slash_sec = ''/'' @ [CHR 0xE7, CHR 0xA7, CHR 0x92]"

definition summary_header :: "cell list" where
  "summary_header = map Text
     [''TotalFiles'', ''TotalCreateObjectTime'', ''CreateObject_Speed'', ''TotalWriteTime'',
      ''Write_Speed'', ''TotalCompleteObjectTime'', ''CompleteObject_Speed'', ''TotalTime'',
      ''TestRunTime'', ''TotalWrites'', ''ExpectedWrites'', ''Sample'']"

text \<open>The rows \<^verbatim>\<open>addSummary\<close> adds: an empty one, the title, the header and the body.\<close>

definition addSummary :: "PerfStats \<Rightarrow> sheet option" where
  "addSummary v =
     Option.bind (ByteCountDecimal (int_of_float (per_second (TotalWrites v) (TotalWriteTime v)))) (\<lambda>ws.
     Option.bind (ByteCountDecimal (TotalWrites v)) (\<lambda>tw.
     Option.bind (ByteCountDecimal (ExpectedWrites v)) (\<lambda>ew.
     Option.bind (strategy_String (Sample v)) (\<lambda>nm.
       Some [[], [Text ''Summary''], summary_header,
         [IntCell (int (length (Files v))), Text (duration_String (TotalCreateObjectTime v)),
          Text (FormatFloat 1 24 (per_second (int (length (Files v))) (TotalCreateObjectTime v))
            @ per_sec_unit),
          Text (duration_String (TotalWriteTime v)), Text (ws @ slash_sec),
          Text (duration_String (TotalCompleteObjectTime v)),
          Text (FormatFloat 1 24 (per_second (int (length (Files v))) (TotalCompleteObjectTime v))
            @ per_sec_unit),
          Text (duration_String (total_time v)), Text (duration_String (TestRunTime v)),
          Text tw, Text ew, Text nm]]))))"

definition file_header :: "cell list" where
  "file_header = map Text
     [''No'', ''Name'', ''Size'', ''Hash'', ''HashVerified'', ''CreateObjectTime'', ''WriteTime'',
      ''CompleteObjectTime'', ''TotalTime'']"

definition file_row :: "nat \<Rightarrow> FileStats \<Rightarrow> cell list option" where
  "file_row i f =
     map_option (\<lambda>sz.
       [IntCell (int i + 1), Text (fs_Name f), Text sz, Text (fs_Hash f), Text (fs_HashVerified f),
        Text (duration_String (fs_CreateObjectTime f)), Text (duration_String (fs_WriteTime f)),
        Text (duration_String (fs_CompleteObjectTime f)),
        Text (duration_String
          (i64 (i64 (fs_CreateObjectTime f + fs_WriteTime f) + fs_CompleteObjectTime f)))])
       (ByteCountDecimal (fs_Size f))"

fun file_rows :: "nat \<Rightarrow> FileStats list \<Rightarrow> sheet option" where
  "file_rows i [] = Some []"
| "file_rows i (f # fs) =
     (case file_row i f of
        None \<Rightarrow> None
      | Some r \<Rightarrow> map_option (\<lambda>rs. r # rs) (file_rows (Suc i) fs))"

text \<open>\<open>None\<close> inside is the early return when the sheet cannot be added.\<close>

definition ExportStats :: "(string \<Rightarrow> error option) \<Rightarrow> string \<Rightarrow> PerfStats \<Rightarrow> sheet option option" where
  "ExportStats add_sheet server_name v =
     (case add_sheet (''BFSS - '' @ server_name) of
        Some e \<Rightarrow> Some None
      | None \<Rightarrow> Option.bind (file_rows 0 (Files v)) (\<lambda>rs.
                  Option.bind (addSummary v) (\<lambda>sm. Some (Some (file_header # rs @ sm)))))"

section \<open>Lemmas\<close>

lemma per_second_finite: "\<exists>x. per_second n d = Finite x"
  using Seconds_finite [of d] by (auto simp: per_second_def)

lemma per_MB_finite: "\<exists>x. a = Finite x \<Longrightarrow> \<exists>x. per_MB a = Finite x"
  by (auto simp: per_MB_def)

lemma out_speed_finite: "\<exists>x. out_speed v = Finite x"
proof (cases "0 < TestRunTime v")
  case True
  then obtain y where "Seconds (TestRunTime v) = Finite y" "0 < y"
    using Seconds_pos by blast
  then show ?thesis using True by (auto simp: out_speed_def intro!: per_MB_finite)
next
  case False
  then show ?thesis by (auto simp: out_speed_def intro!: per_MB_finite per_second_finite)
qed

lemma chart_row_Some: "(\<exists>r. chart_row i v = Some r) \<longleftrightarrow> Sample v \<noteq> SMax"
proof -
  have "strategy_String SMax = None" by (simp add: strategy_String_def samples_def)
  then show ?thesis using strategy_String_Some [of "Sample v"] by (auto simp: chart_row_def)
qed

definition good_row :: "nat \<Rightarrow> PerfStats \<Rightarrow> cell list \<Rightarrow> bool" where
  "good_row i v r \<longleftrightarrow> length r = length chart_header \<and> r ! 0 = IntCell (int i + 1)
     \<and> r ! 1 = IntCell (int (length (Files v)))
     \<and> (\<exists>x. out_speed v = Finite x \<and> r ! 12 = Text (FormatFloat 3 53 (Finite x)))
     \<and> (\<forall>x. FloatCell x \<in> set r \<longrightarrow> (\<exists>q. x = Finite q))"

lemma chart_row_good:
  assumes "chart_row i v = Some r"
  shows "good_row i v r"
proof -
  obtain x where x: "out_speed v = Finite x" using out_speed_finite by blast
  have "\<exists>q. y = Finite q" if "FloatCell y \<in> set r" for y
    using that assms per_MB_finite per_second_finite Seconds_finite
    by (auto simp: chart_row_def split: option.splits)
  then show ?thesis
    using assms x by (auto simp: good_row_def chart_row_def chart_header_def)
qed

lemma chart_rows_good:
  "chart_rows i vs = Some rs \<Longrightarrow> length rs = length vs \<and> (\<forall>k < length vs. good_row (i + k) (vs ! k) (rs ! k))"
proof (induction vs arbitrary: i rs)
  case (Cons v vs)
  obtain r rs' where r: "chart_row i v = Some r" "chart_rows (Suc i) vs = Some rs'" "rs = r # rs'"
    using Cons.prems by (auto split: option.splits)
  have "good_row (i + k) ((v # vs) ! k) (rs ! k)" if "k < length (v # vs)" for k
    using that chart_row_good [OF r(1)] Cons.IH [OF r(2)] r(3) by (cases k) auto
  then show ?case using Cons.IH [OF r(2)] r(3) by simp
qed simp

lemma chart_rows_Some: "(\<exists>rs. chart_rows i vs = Some rs) \<longleftrightarrow> SMax \<notin> Sample ` set vs"
proof (induction vs arbitrary: i)
  case (Cons v vs)
  show ?case using Cons.IH [of "Suc i"] chart_row_Some [of i v] by (auto split: option.splits)
qed simp

section \<open>Properties\<close>



end
