(* ===== verification/Load_Driver.thy ===== *)
theory Load_Driver
  imports Load_Fast_Safety Stats_Export
begin

text \<open>
  \<^verbatim>\<open>main.go\<close>: one test run, sequential or split over routines, the check of the hashes, the report to
  the scheduler and the export of the statistics.

  \<^verbatim>\<open>log.Fatal\<close> ends the process: a function that may call it gives \<open>Inl\<close> its text, and \<open>None\<close> still is
  a panic or no return. The routines that run at the same time are the field \<open>run_routines\<close> of the
  world: the error and the statistics of each when all are done, and the state then.
  \<open>routines_spec\<close> says what it stands for: each routine ran \<^verbatim>\<open>test.Write\<close> or \<^verbatim>\<open>test.FastWrite\<close> on its own statistics,
  against a world of its own, in which the calls of the others happen between its calls.
\<close>

section \<open>The world of a run\<close>

text \<open>
  \<open>run_fast\<close> is a run of \<^verbatim>\<open>FastWrite\<close> under some schedule. The profiles and the sheet are made by
  the operating system and by libraries; \<open>date_text\<close> is the time as a file name.
\<close>

record 's driver_world = "'s fast_world" +
  run_fast :: "bool \<Rightarrow> bool \<Rightarrow> PerfStats \<Rightarrow> 's \<Rightarrow> (error option \<times> PerfStats \<times> 's) option"
  run_routines :: "Config \<Rightarrow> PerfStats list \<Rightarrow> 's \<Rightarrow> ((error option \<times> PerfStats) list \<times> 's) option"
  ipc_FetchCfg :: "Config \<Rightarrow> 's \<Rightarrow> Config \<times> 's"
  ipc_CommitStats :: "PerfStats \<Rightarrow> 's \<Rightarrow> 's"
  sleep_5s :: "'s \<Rightarrow> 's"
  date_text :: "int \<Rightarrow> string"
  os_Create :: "string \<Rightarrow> string \<Rightarrow> 's \<Rightarrow> error option \<times> 's"
  StartCPUProfile :: "'s \<Rightarrow> error option \<times> 's"
  StopCPUProfile :: "'s \<Rightarrow> 's"
  WriteHeapProfile :: "'s \<Rightarrow> error option \<times> 's"
  file_Write :: "sheet \<Rightarrow> 's \<Rightarrow> error option \<times> 's"
  add_sheet :: "string \<Rightarrow> error option"
  Getpid :: int
  ipc_StartServer :: "'s \<Rightarrow> (error + string) \<times> 's"
  ipc_DoInit :: "string \<Rightarrow> 's \<Rightarrow> error option \<times> 's"
  web_Start :: "string \<Rightarrow> 's \<Rightarrow> error option \<times> 's"

section \<open>FastWrite as a whole\<close>

inductive FastWrite ::
  "('s, 'm) fast_world_scheme \<Rightarrow> bool \<Rightarrow> bool \<Rightarrow> PerfStats \<Rightarrow> 's
     \<Rightarrow> error option \<times> PerfStats \<times> 's \<Rightarrow> bool"
  for w :: "('s, 'm) fast_world_scheme" and verify :: bool and is_ipc :: bool and stats :: PerfStats and s :: 's where
  refused: "FastWrite_start w verify stats s = Some (Inl (e, s')) \<Longrightarrow>
    FastWrite w verify is_ipc stats s (Some e, stats, if is_ipc then doneRoutine w stats s' else s')"
| returned: "FastWrite_start w verify stats s = Some (Inr S0) \<Longrightarrow>
    (fast_step w verify is_ipc)\<^sup>*\<^sup>* S0 S \<Longrightarrow> fw_main S = Leaving e \<Longrightarrow> fast_returned S \<Longrightarrow>
    FastWrite w verify is_ipc stats s (e, (fw_stats S)\<lparr>Files := fast_Files S\<rparr>,
      if is_ipc then doneRoutine w (fw_stats S) (fw_world S) else fw_world S)"

section \<open>The tests\<close>

text \<open>The call of \<^verbatim>\<open>test.FastWrite\<close> or \<^verbatim>\<open>test.Write\<close>; its error is dropped by the callers.\<close>

definition test_routine ::
  "('s, 'm) driver_world_scheme \<Rightarrow> Config \<Rightarrow> PerfStats \<Rightarrow> 's \<Rightarrow> (error option \<times> PerfStats \<times> 's) option" where
  "test_routine w cfg stats s =
     (if cfg_Fast cfg then run_fast w (cfg_VerifyHash cfg) (cfg_IpcClient cfg) stats s
      else Write w (cfg_IpcClient cfg) stats s)"

definition oneshotTest ::
  "('s, 'm) driver_world_scheme \<Rightarrow> Config \<Rightarrow> PerfStats \<Rightarrow> 's \<Rightarrow> (PerfStats \<times> 's) option" where
  "oneshotTest w cfg stats s =
     (let (startTime, s1) = now w s in
      map_option (\<lambda>(err, stats', s2).
          let (t, s3) = now w s2 in (stats'\<lparr>TestRunTime := time_Sub t startTime\<rparr>, s3))
        (test_routine w cfg stats s1))"

text \<open>The statistics the routines are started with; the index of the list is in range.\<close>

definition routine_stats :: "PerfStats \<Rightarrow> PerfStats list" where
  "routine_stats stats =
     map (\<lambda>i. (SplitPerfStats stats ! i)\<lparr>Tag := int i\<rparr>) [0..<nat (Routines stats)]"

definition parallelTest ::
  "('s, 'm) driver_world_scheme \<Rightarrow> Config \<Rightarrow> PerfStats \<Rightarrow> 's \<Rightarrow> (PerfStats \<times> 's) option" where
  "parallelTest w cfg stats s =
     (let list = SplitPerfStats stats; (startTime, s1) = now w s in
      map_option (\<lambda>(outs, s2).
          let (t, s3) = now w s2;
              stats' = stats\<lparr>TestRunTime := time_Sub t startTime\<rparr>
          in (snd (MergePerfStats stats' (map snd outs @ drop (nat (Routines stats)) list)), s3))
        (run_routines w cfg (routine_stats stats) s1))"

text \<open>\<open>profile_name kind\<close> is the name of a profile; it panics when the sample has no name.\<close>

definition profile_name :: "string \<Rightarrow> PerfStats \<Rightarrow> string \<Rightarrow> string option" where
  "profile_name kind stats date =
     Option.bind (ByteCountDecimal (ExpectedWrites stats)) (\<lambda>b.
     Option.bind (strategy_String (Sample stats)) (\<lambda>nm.
       Some (kind @ ''[ExpectedWrites:'' @ b @ '',Sample:'' @ nm @ '']-'' @ date)))"

definition start_profile ::
  "('s, 'm) driver_world_scheme \<Rightarrow> Config \<Rightarrow> PerfStats \<Rightarrow> 's \<Rightarrow> (error option \<times> 's) option" where
  "start_profile w cfg stats s =
     (if \<not> cfg_Profile cfg then Some (None, s)
      else let (t, s1) = now w s in
        Option.bind (profile_name ''cpu'' stats (date_text w t @ ''.prof'')) (\<lambda>fileName.
          case os_Create w (cfg_DataDir cfg) fileName s1 of
            (Some e, s2) \<Rightarrow> Some (Some (''could not create CPU profile: '' @ e), s2)
          | (None, s2) \<Rightarrow>
              (case StartCPUProfile w s2 of
                 (Some e, s3) \<Rightarrow> Some (Some (''could not start CPU profile: '' @ e), s3)
               | (None, s3) \<Rightarrow> Some (None, s3))))"

definition heap_profile ::
  "('s, 'm) driver_world_scheme \<Rightarrow> Config \<Rightarrow> PerfStats \<Rightarrow> 's \<Rightarrow> (error option \<times> 's) option" where
  "heap_profile w cfg stats s =
     (if \<not> cfg_Profile cfg then Some (None, s)
      else let (t, s1) = now w s in
        Option.bind (profile_name ''mem'' stats (date_text w t @ ''.prof'')) (\<lambda>fileName.
          case os_Create w (cfg_DataDir cfg) fileName s1 of
            (Some e, s2) \<Rightarrow> Some (Some (''could not create memory profile: '' @ e), s2)
          | (None, s2) \<Rightarrow>
              (case WriteHeapProfile w s2 of
                 (Some e, s3) \<Rightarrow> Some (Some (''could not write memory profile: '' @ e), s3)
               | (None, s3) \<Rightarrow> Some (None, StopCPUProfile w s3))))"

text \<open>Between the profiles: the test, the check of the hashes, the report.\<close>

definition verify_stats ::
  "('s, 'm) driver_world_scheme \<Rightarrow> Config \<Rightarrow> PerfStats \<Rightarrow> 's \<Rightarrow> (PerfStats \<times> 's) option" where
  "verify_stats w cfg stats s =
     (if cfg_VerifyHash cfg
      then map_option (\<lambda>(err, stats', s'). VerifyHash w stats' s') (CompleteObject w stats s)
      else Some (stats, s))"

definition run_test ::
  "('s, 'm) driver_world_scheme \<Rightarrow> Config \<Rightarrow> PerfStats \<Rightarrow> 's \<Rightarrow> (PerfStats \<times> 's) option" where
  "run_test w cfg stats s =
     Option.bind (if cfg_EnableConcurrent cfg then parallelTest w cfg stats s else oneshotTest w cfg stats s)
       (\<lambda>(stats1, s1). map_option (\<lambda>(stats2, s2).
            (stats2, if cfg_IpcClient cfg then ipc_CommitStats w stats2 s2 else s2))
          (verify_stats w cfg stats1 s1))"

definition handleTest ::
  "('s, 'm) driver_world_scheme \<Rightarrow> Config \<Rightarrow> PerfStats \<Rightarrow> 's \<Rightarrow> (error + PerfStats \<times> 's) option" where
  "handleTest w cfg stats s =
     (case start_profile w cfg stats s of
        None \<Rightarrow> None
      | Some (Some fatal, s1) \<Rightarrow> Some (Inl fatal)
      | Some (None, s1) \<Rightarrow>
          Option.bind (run_test w cfg stats s1) (\<lambda>(stats', s2).
            case heap_profile w cfg stats' s2 of
              None \<Rightarrow> None
            | Some (Some fatal, s3) \<Rightarrow> Some (Inl fatal)
            | Some (None, s3) \<Rightarrow> Some (Inr (stats', s3))))"

text \<open>\<^verbatim>\<open>ExportChartStats\<close>: errors are logged and end the export.\<close>

definition ExportChartStats ::
  "('s, 'm) driver_world_scheme \<Rightarrow> Config \<Rightarrow> PerfStats list \<Rightarrow> 's \<Rightarrow> 's option" where
  "ExportChartStats w cfg stats s =
     (let (t, s1) = now w s;
          fileName = ''perf['' @ itoa (Getpid w) @ '']-'' @ date_text w t @ ''.xlsx''
      in case os_Create w (cfg_DataDir cfg) fileName s1 of
           (Some e, s2) \<Rightarrow> Some s2
         | (None, s2) \<Rightarrow>
             (case ExportStatsToWriter (add_sheet w) (cfg_Server cfg) stats of
                None \<Rightarrow> None
              | Some (Inl e) \<Rightarrow> Some s2
              | Some (Inr sh) \<Rightarrow> Some (snd (file_Write w sh s2))))"

text \<open>\<^verbatim>\<open>doTest\<close> on the configuration of the command line, which the scheduler may replace first.\<close>

definition test_Config ::
  "('s, 'm) driver_world_scheme \<Rightarrow> Config \<Rightarrow> 's \<Rightarrow> Config \<times> 's" where
  "test_Config w cfg s =
     (if cfg_IpcClient cfg
      then case ipc_FetchCfg w cfg (sleep_5s w s) of (cfg', s') \<Rightarrow> (cfg', ipc_UpdateStatus w Ready s')
      else (cfg, s))"

definition test_stats :: "Config \<Rightarrow> PerfStats" where
  "test_stats cfg =
     zero_PerfStats
       \<lparr>Sample := cfg_Sample cfg, MaxSlice := cfg_MaxSlice cfg, ExpectedWrites := cfg_ExpectedWrites cfg,
        CacheSize := cfg_CacheSize cfg,
        Routines := (if cfg_EnableConcurrent cfg then cfg_Routines cfg else 0)\<rparr>"

definition doTest ::
  "('s, 'm) driver_world_scheme \<Rightarrow> Config \<Rightarrow> 's \<Rightarrow> (error + Config \<times> PerfStats \<times> 's) option" where
  "doTest w cfg s =
     (let (cfg', s1) = test_Config w cfg s in
      case handleTest w cfg' (test_stats cfg') s1 of
        None \<Rightarrow> None
      | Some (Inl fatal) \<Rightarrow> Some (Inl fatal)
      | Some (Inr (stats, s2)) \<Rightarrow>
          map_option (\<lambda>s3. Inr (cfg', stats,
              if cfg_IpcClient cfg' then ipc_UpdateStatus w Done s3 else s3))
            (ExportChartStats w cfg' [stats] s2))"

text \<open>
  \<^verbatim>\<open>main\<close>: the process ends with a fatal error, or when the web server stops, or after the test.
  \<^verbatim>\<open>StartServer\<close> and \<^verbatim>\<open>DoInit\<close> call \<^verbatim>\<open>log.Fatal\<close> when they fail.
\<close>

datatype 's ending = Fatal error | Server_stopped | Tested Config PerfStats 's

definition main_started :: "('s, 'm) driver_world_scheme \<Rightarrow> Config \<Rightarrow> 's \<Rightarrow> 's ending option" where
  "main_started w cfg s =
     (if cfg_Web cfg
      then case web_Start w (cfg_WebServer cfg) s of
             (Some e, s') \<Rightarrow> Some (Fatal e)
           | (None, s') \<Rightarrow> Some Server_stopped
      else case (if cfg_IpcClient cfg then ipc_DoInit w (cfg_IpcAddr cfg) s else (None, s)) of
             (Some e, s') \<Rightarrow> Some (Fatal (''dialing:'' @ e))
           | (None, s') \<Rightarrow>
               map_option (\<lambda>r. case r of Inl e \<Rightarrow> Fatal e | Inr (c, st, t) \<Rightarrow> Tested c st t)
                 (doTest w cfg s'))"

definition pressure_main ::
  "('s, 'm) driver_world_scheme \<Rightarrow> host \<Rightarrow> flags \<Rightarrow> 's \<Rightarrow> 's ending option" where
  "pressure_main w h f s =
     (case ParseArgs h f zero_Config of
        (Some e, _, _) \<Rightarrow> Some (Fatal e)
      | (None, _, cfg) \<Rightarrow>
          if cfg_Ipc cfg
          then case ipc_StartServer w s of
                 (Inl e, s') \<Rightarrow> Some (Fatal (''listen error:'' @ e))
               | (Inr addr, s') \<Rightarrow> main_started w (cfg\<lparr>cfg_IpcAddr := addr\<rparr>) s'
          else main_started w cfg s)"

section \<open>Many routines\<close>

text \<open>
  What the field \<open>run_routines\<close> stands for when the routines run \<^verbatim>\<open>Write\<close>: each was a run of \<open>Write\<close> in a
  world of its own (\<open>ws i\<close>, started in \<open>as i\<close>) that is an object store for it (\<open>cs i\<close>); the objects
  a routine made are new in the common service and stay there, and no two made the same.
\<close>

definition made_by ::
  "(nat \<Rightarrow> 's \<Rightarrow> string \<Rightarrow> byte list option) \<Rightarrow> (nat \<Rightarrow> 's) \<Rightarrow> (nat \<Rightarrow> 's) \<Rightarrow> nat \<Rightarrow> string set" where
  "made_by cs a b i = {n. cs i (a i) n = None \<and> cs i (b i) n \<noteq> None}"

definition routines_spec ::
  "('s, 'm) driver_world_scheme \<Rightarrow> ('s \<Rightarrow> string \<Rightarrow> byte list option) \<Rightarrow> Config \<Rightarrow> bool" where
  "routines_spec w content cfg \<longleftrightarrow>
     (\<forall>list s outs s'. run_routines w cfg list s = Some (outs, s') \<longrightarrow>
        length outs = length list
        \<and> (\<exists>(ws :: nat \<Rightarrow> 's world) cs a b.
             (\<forall>i < length list. object_store (ws i) (cs i) \<and> sha256_hex (ws i) = sha256_hex w
                \<and> Write (ws i) (cfg_IpcClient cfg) (list ! i) (a i) = Some (fst (outs ! i), snd (outs ! i), b i)
                \<and> (\<forall>n \<in> made_by cs a b i. content s n = None \<and> content s' n = cs i (b i) n))
             \<and> (\<forall>i < length list. \<forall>j < length list. i \<noteq> j \<longrightarrow>
                  made_by cs a b i \<inter> made_by cs a b j = {})))"

lemma distinct_concat_disjoint:
  assumes "\<And>i. i < length xss \<Longrightarrow> distinct (xss ! i)"
    and "\<And>i j. i < length xss \<Longrightarrow> j < length xss \<Longrightarrow> i \<noteq> j \<Longrightarrow> set (xss ! i) \<inter> set (xss ! j) = {}"
  shows "distinct (concat xss)"
  using assms
proof (induction xss)
  case (Cons xs xss)
  have "distinct (concat xss)"
  proof (rule Cons.IH)
    show "distinct (xss ! i)" if "i < length xss" for i
      using Cons.prems(1) [of "Suc i"] that by simp
    show "set (xss ! i) \<inter> set (xss ! j) = {}" if "i < length xss" "j < length xss" "i \<noteq> j" for i j
      using Cons.prems(2) [of "Suc i" "Suc j"] that by simp
  qed
  moreover have "set xs \<inter> set ys = {}" if ys: "ys \<in> set xss" for ys
  proof -
    obtain j where "j < length xss" "ys = xss ! j" using ys by (auto simp: in_set_conv_nth)
    then show ?thesis using Cons.prems(2) [of 0 "Suc j"] by simp
  qed
  ultimately show ?case using Cons.prems(1) [of 0] by auto
qed simp

lemma routine_stats_nth:
  assumes "0 < Routines stats" and "i < nat (Routines stats)"
  shows "routine_stats stats ! i = (SplitPerfStats stats ! i)\<lparr>Tag := int i\<rparr>"
    and "fresh (routine_stats stats ! i)" and "Sample (routine_stats stats ! i) = Sample stats"
    and "MaxSlice (routine_stats stats ! i) = MaxSlice stats"
    and "ExpectedWrites (routine_stats stats ! i) = i64 (quo (ExpectedWrites stats) (Routines stats) + 1024)"
    and "TotalWrites (routine_stats stats ! i) = 0"
proof -
  show *: "routine_stats stats ! i = (SplitPerfStats stats ! i)\<lparr>Tag := int i\<rparr>"
    using assms by (simp add: routine_stats_def)
  show "fresh (routine_stats stats ! i)" "Sample (routine_stats stats ! i) = Sample stats"
    "MaxSlice (routine_stats stats ! i) = MaxSlice stats"
    "ExpectedWrites (routine_stats stats ! i) = i64 (quo (ExpectedWrites stats) (Routines stats) + 1024)"
    "TotalWrites (routine_stats stats ! i) = 0"
    using assms unfolding * by (simp_all add: SplitPerfStats_def Let_def fresh_def totals_def zero_PerfStats_def)
qed

lemma routine_stats_length: "length (routine_stats stats) = nat (Routines stats)"
  by (simp add: routine_stats_def)

lemma add_files_TestRunTime: "add_files (s\<lparr>TestRunTime := t\<rparr>) fs = (add_files s fs)\<lparr>TestRunTime := t\<rparr>"
  by (induction fs rule: rev_induct) (simp_all add: add_files_def Add_def)

lemma routine_share:
  assumes "0 < Routines stats" and "0 \<le> ExpectedWrites stats"
    and "ExpectedWrites stats + 1024 < 9223372036854775808"
  shows "i64 (quo (ExpectedWrites stats) (Routines stats) + 1024) = ExpectedWrites stats div Routines stats + 1024"
    and "ExpectedWrites stats div Routines stats \<le> ExpectedWrites stats"
    and "ExpectedWrites stats \<le> Routines stats * (ExpectedWrites stats div Routines stats + 1024)"
proof -
  let ?r = "Routines stats" and ?e = "ExpectedWrites stats"
  show le: "?e div ?r \<le> ?e" using assms(1,2) zdiv_mono2 [of ?e 1 ?r] by simp
  have "0 \<le> ?e div ?r" using assms(1,2) by (simp add: pos_imp_zdiv_nonneg_iff)
  then show "i64 (quo ?e ?r + 1024) = ?e div ?r + 1024"
    using le assms by (simp add: quo_nonneg i64.wrap_id)
  show "?e \<le> ?r * (?e div ?r + 1024)"
    using int_div_bounds(2) [OF assms(1), of ?e] assms(1) by (simp add: distrib_left)
qed

lemma sum_sizes_concat: "sum_list (map h (concat xss)) = (\<Sum>xs\<leftarrow>xss. sum_list (map h xs))"
  by (induction xss) simp_all

lemma fold_merge_routines:
  assumes "0 < Routines stats" and "in_range a" and "length fss = nat (Routines stats)"
  shows "foldl merge_one a (map2 add_files (routine_stats stats) fss) = add_files a (concat fss)"
proof (rule merge_all_add_files)
  show "\<forall>s \<in> set (routine_stats stats). fresh s"
    using routine_stats_nth(2) [OF assms(1)] by (auto simp: in_set_conv_nth routine_stats_length)
qed (use assms(2,3) in \<open>simp_all add: routine_stats_length\<close>)

lemma parallelTest_run:
  assumes "parallelTest w cfg stats s = Some (stats', s')" and "0 < Routines stats" and "in_range stats"
    and "now w s = (t, s1)" and "run_routines w cfg (routine_stats stats) s1 = Some (outs, s2)"
    and "map snd outs = map2 add_files (routine_stats stats) fss" and "length fss = nat (Routines stats)"
  shows "stats' = (add_files stats (concat fss))\<lparr>TestRunTime := TestRunTime stats'\<rparr>" and "s' = snd (now w s2)"
proof -
  obtain t2 s3 where n: "now w s2 = (t2, s3)" by fastforce
  let ?a = "stats\<lparr>TestRunTime := time_Sub t2 t\<rparr>"
  have "in_range ?a" using assms(3) by (simp add: in_range_def totals_def)
  from fold_merge_routines [OF assms(2) this assms(7)]
  have "foldl merge_one ?a (map snd outs) = (add_files stats (concat fss))\<lparr>TestRunTime := time_Sub t2 t\<rparr>"
    by (simp add: assms(6) add_files_TestRunTime)
  moreover have "drop (nat (Routines stats)) (SplitPerfStats stats) = []"
    using assms(2) by (simp add: SplitPerfStats_length)
  moreover have "map snd outs \<noteq> []"
    using assms(2,6,7) by (auto simp: zip_eq_Nil_iff routine_stats_length dest: arg_cong [where f = length])
  ultimately have "stats' = (add_files stats (concat fss))\<lparr>TestRunTime := time_Sub t2 t\<rparr> \<and> s' = s3"
    using assms(1,4,5) n by (simp add: parallelTest_def MergePerfStats_def)
  then show "stats' = (add_files stats (concat fss))\<lparr>TestRunTime := TestRunTime stats'\<rparr>" "s' = snd (now w s2)"
    using n by simp_all
qed

section \<open>Properties\<close>


definition demo_routines ::
  "Config \<Rightarrow> PerfStats list \<Rightarrow> store \<Rightarrow> ((error option \<times> PerfStats) list \<times> store) option" where
  "demo_routines cfg list s =
     (case list of
        [st] \<Rightarrow> map_option (\<lambda>(e, st', s'). ([(e, st')], s')) (Write demo_world (cfg_IpcClient cfg) st s)
      | _ \<Rightarrow> None)"

definition demo_driver :: "store driver_world" where
  "demo_driver = fast_world.extend fast_demo
     (driver_world.fields (\<lambda>v i st s. None) demo_routines (\<lambda>c s. (c, s)) (\<lambda>st s. s) (\<lambda>s. s)
       (\<lambda>t. ''date'') (\<lambda>d f s. (None, s)) (\<lambda>s. (None, s)) (\<lambda>s. s) (\<lambda>s. (None, s)) (\<lambda>sh s. (None, s))
       (\<lambda>n. None) 7 (\<lambda>s. (Inr ''addr'', s)) (\<lambda>a s. (None, s)) (\<lambda>a s. (None, s)))"

lemma demo_driver_fields [simp]:
  "run_routines demo_driver = demo_routines" "now demo_driver = now demo_world"
  "sha256_hex demo_driver = sha256_hex demo_world"
  by (simp_all add: demo_driver_def driver_world.defs fast_world.defs fast_demo_def)

lemma demo_routines_spec: "routines_spec demo_driver fst cfg"
  unfolding routines_spec_def
proof (intro allI impI)
  fix list s outs s'
  assume "run_routines demo_driver cfg list s = Some (outs, s')"
  then obtain st e st' where r: "list = [st]" "outs = [(e, st')]"
      "Write demo_world (cfg_IpcClient cfg) st s = Some (e, st', s')"
    by (auto simp: demo_routines_def split: list.splits)
  show "length outs = length list
        \<and> (\<exists>(ws :: nat \<Rightarrow> store world) cs a b.
             (\<forall>i < length list. object_store (ws i) (cs i) \<and> sha256_hex (ws i) = sha256_hex demo_driver
                \<and> Write (ws i) (cfg_IpcClient cfg) (list ! i) (a i) = Some (fst (outs ! i), snd (outs ! i), b i)
                \<and> (\<forall>n \<in> made_by cs a b i. fst s n = None \<and> fst s' n = cs i (b i) n))
             \<and> (\<forall>i < length list. \<forall>j < length list. i \<noteq> j \<longrightarrow>
                  made_by cs a b i \<inter> made_by cs a b j = {}))"
    unfolding r(1,2)
    by (rule conjI, simp, rule exI [of _ "\<lambda>_. demo_world"], rule exI [of _ "\<lambda>_. fst"],
      rule exI [of _ "\<lambda>_. s"], rule exI [of _ "\<lambda>_. s'"]) (auto simp: made_by_def r(3) demo_store)
qed


lemma map2_sizes:
  assumes "\<And>f d. fs_Size (u f d) = fs_Size f" and "length ds \<le> length fs"
  shows "map fs_Size (map2 u fs ds @ drop (length ds) fs) = map fs_Size fs"
proof -
  have "map fs_Size (map2 u fs ds) = take (length ds) (map fs_Size fs)"
    using assms by (intro nth_equalityI) auto
  then show ?thesis by (simp add: drop_map [symmetric])
qed

lemma set_map2_drop:
  "x \<in> set (map2 u fs ds @ drop n fs) \<Longrightarrow> x \<in> set fs \<or> (\<exists>f \<in> set fs. \<exists>d. x = u f d)"
  by (auto dest: set_zip_leftD in_set_dropD)

text \<open>The check of the hashes marks every file, if it is stored as the statistics say.\<close>

lemma verify_stats_true:
  fixes w :: "('s, 'm) driver_world_scheme"
  assumes "complete_quiet w content" and "hash_check w content (sha256_hex w)"
    and "\<And>s. fst (new_client w s) = None \<and> content (snd (new_client w s)) = content s"
    and "cfg_VerifyHash cfg" and "i64 (TotalCompleteObjectTime stats) = TotalCompleteObjectTime stats"
    and "\<forall>f \<in> set (Files stats). stored w (content s) f \<and> 0 \<le> fs_Size f \<and> fs_Size f \<le> 2097152000"
  shows "\<exists>stats' s'. verify_stats w cfg stats s = Some (stats', s')
    \<and> map fs_Size (Files stats') = map fs_Size (Files stats)
    \<and> (\<forall>f \<in> set (Files stats'). fs_HashVerified f = ''true'')"
proof -
  let ?u = "\<lambda>f d. f\<lparr>fs_CompleteObjectTime := d\<rparr>"
  obtain e ds s1 s2 where c: "CompleteObject w stats s = Some (e,
      stats\<lparr>TotalCompleteObjectTime := i64 (TotalCompleteObjectTime stats + sum_list ds),
        Files := map2 ?u (Files stats) ds @ drop (length ds) (Files stats)\<rparr>, s2)"
      "s1 = snd (new_client w s)" "content s2 = content s1" "length ds \<le> length (Files stats)"
    using CompleteObject_ok [OF assms(5), of w s content]
    by (elim exE conjE) (rule that, assumption, assumption, simp add: assms(1), assumption)
  define fs where "fs = map2 ?u (Files stats) ds @ drop (length ds) (Files stats)"
  obtain s3 where n: "new_client w s2 = (None, s3)" "content s3 = content s2"
    using assms(3) [of s2] by (cases "new_client w s2") auto
  have same: "content s3 = content s" using n c(2,3) assms(3) [of s] by simp
  have sizes: "map fs_Size fs = map fs_Size (Files stats)"
    unfolding fs_def by (rule map2_sizes) (simp_all add: c(4))
  have st: "stored w (content s3) f \<and> 0 \<le> fs_Size f \<and> fs_Size f \<le> 2097152000" if f: "f \<in> set fs" for f
    using set_map2_drop [OF f [unfolded fs_def]] assms(6) same by (auto simp: stored_def)
  have "i32 (fs_Size f) = fs_Size f" if "f \<in> set fs" for f
    using st [OF that] by (intro i32.wrap_id) auto
  with st have "\<forall>f \<in> set fs. stored_as (sha256_hex w) (content s3) f" "\<forall>f \<in> set fs. i32 (fs_Size f) = fs_Size f"
    by (auto simp: stored_def stored_as_def)
  from verify_files_true [OF assms(2) this]
  obtain s' where "verify_files w fs s3 = (map (\<lambda>f. f\<lparr>fs_HashVerified := ''true''\<rparr>) fs, s')"
    by blast
  then show ?thesis
    using c(1) n assms(4) sizes
    by (simp add: verify_stats_def VerifyHash_def fs_def [symmetric] comp_def)
qed

lemma handleTest_spec:
  fixes w :: "('s, 'm) driver_world_scheme"
  assumes "object_store w content" and "complete_quiet w content" and "hash_check w content (sha256_hex w)"
    and "\<And>s. fst (new_client w s) = None" and "\<not> cfg_Profile cfg" and "\<not> cfg_EnableConcurrent cfg"
    and "\<not> cfg_Fast cfg" and "cfg_VerifyHash cfg"
    and "Sample stats \<noteq> SMax" and "MaxSlice stats \<notin> {1..15}" and "Files stats = []" and "in_range stats"
    and "TotalWrites stats = 0" and "ExpectedWrites stats + 2097152000 < 9223372036854775808"
  shows "\<exists>stats' s'. handleTest w cfg stats s = Some (Inr (stats', s'))
    \<and> (map_option fst (Write w (cfg_IpcClient cfg) stats (snd (now w s))) = Some None \<longrightarrow>
        ExpectedWrites stats \<le> sum_list (map fs_Size (Files stats'))
        \<and> (\<forall>f \<in> set (Files stats'). fs_HashVerified f = ''true''))"
proof -
  obtain t s1 where t: "now w s = (t, s1)" by fastforce
  obtain err fs s2 where W: "Write w (cfg_IpcClient cfg) stats s1 = Some (err, add_files stats fs, s2)"
      "err = None \<longrightarrow> ExpectedWrites stats \<le> sum_list (map fs_Size fs) \<and> delivered w (content s1) (content s2) fs"
    using Write_spec [OF assms(1,9,10,13,14), of "cfg_IpcClient cfg" s1]
    by (elim exE conjE) (rule that, assumption, simp)
  obtain t2 s3 where t2: "now w s2 = (t2, s3)" by fastforce
  define st where "st = (add_files stats fs)\<lparr>TestRunTime := time_Sub t2 t\<rparr>"
  have one: "oneshotTest w cfg stats s = Some (st, s3)"
    using W(1) t t2 assms(7) by (simp add: oneshotTest_def test_routine_def st_def)
  have files: "Files (add_files stats fs) = fs"
    using assms(11) by (induction fs rule: rev_induct) (simp_all add: add_files_def Add_def)
  have range: "i64 (TotalCompleteObjectTime st) = TotalCompleteObjectTime st"
    using in_range_add_files [OF assms(12), of fs] by (simp add: st_def in_range_def totals_def)
  have total: "\<exists>stats' s'. verify_stats w cfg st s3 = Some (stats', s')"
    using CompleteObject_ok [OF range, of w s3 content] by (auto simp: verify_stats_def)
  have handle: "handleTest w cfg stats s = Some (Inr (stats', if cfg_IpcClient cfg then ipc_CommitStats w stats' s' else s'))"
    if "verify_stats w cfg st s3 = Some (stats', s')" for stats' s'
    using that one assms(5,6) by (simp add: handleTest_def start_profile_def heap_profile_def run_test_def)
  show ?thesis
  proof (cases "err = None")
    case True
    have "\<forall>f \<in> set (Files st). stored w (content s3) f \<and> 0 \<le> fs_Size f \<and> fs_Size f \<le> 2097152000"
      using W(2) True store_quiet(1) [OF assms(1) t2] by (auto simp: st_def files delivered_def)
    moreover have "fst (new_client w s) = None \<and> content (snd (new_client w s)) = content s" for s
      using assms(4) [of s] store_quiet(4) [OF assms(1), of s] by (cases "new_client w s") simp
    ultimately obtain stats' s' where "verify_stats w cfg st s3 = Some (stats', s')"
        "map fs_Size (Files stats') = map fs_Size (Files st)"
        "\<forall>f \<in> set (Files stats'). fs_HashVerified f = ''true''"
      using verify_stats_true [OF assms(2,3) _ assms(8) range] by blast
    moreover have "Files st = fs" by (simp add: st_def files)
    ultimately show ?thesis using handle [of stats' s'] W(2) True by (intro exI conjI impI) auto
  next
    case False
    obtain stats' s' where "verify_stats w cfg st s3 = Some (stats', s')" using total by blast
    from handle [OF this] show ?thesis using False W(1) t by (intro exI conjI impI) auto
  qed
qed

text \<open>
  A sequential run with \<^verbatim>\<open>--verify-hash\<close> on a service that stores what it is sent, checks a
  hash against what it stores and accepts connections always ends, and if \<^verbatim>\<open>Write\<close> has returned
  without an error, then, although the objects are completed a second time in between, whatever the
  service answers to that, every file of the final statistics is marked as verified and together
  they have at least the expected bytes.
\<close>

theorem handleTest_verified:
  fixes w :: "('s, 'm) driver_world_scheme"
  assumes "object_store w content" and "complete_quiet w content" and "hash_check w content (sha256_hex w)"
    and "\<And>s. fst (new_client w s) = None" and "\<not> cfg_Profile cfg" and "\<not> cfg_EnableConcurrent cfg"
    and "\<not> cfg_Fast cfg" and "cfg_VerifyHash cfg"
    and "Sample stats \<noteq> SMax" and "MaxSlice stats \<notin> {1..15}" and "Files stats = []" and "in_range stats"
    and "TotalWrites stats = 0" and "ExpectedWrites stats + 2097152000 < 9223372036854775808"
  shows "\<exists>stats' s'. handleTest w cfg stats s = Some (Inr (stats', s'))
    \<and> (map_option fst (Write w (cfg_IpcClient cfg) stats (snd (now w s))) = Some None \<longrightarrow>
        ExpectedWrites stats \<le> sum_list (map fs_Size (Files stats'))
        \<and> (\<forall>f \<in> set (Files stats'). fs_HashVerified f = ''true''))"
  using assms by (rule handleTest_spec)

text \<open>A service that also checks hashes against what it stores.\<close>

definition check_driver :: "store driver_world" where
  "check_driver = demo_driver
     \<lparr>cl_ObjectLockHasHash := (\<lambda>h n hd s.
        (if h = [] \<and> (\<exists>oid d. fst s oid = Some d \<and> n = int (length d) \<and> bytes_of hd = take 16 d)
         then (BFSS_SUCCESS, None) else (BFSS_NOTFOUND, None), s))\<rparr>"

theorem handleTest_verified_witness:
  "\<exists>stats' s'. handleTest check_driver (zero_Config\<lparr>cfg_VerifyHash := True\<rparr>)
     (zero_PerfStats\<lparr>ExpectedWrites := 5000\<rparr>) (Map.empty, 0) = Some (Inr (stats', s'))"
proof -
  let ?s = "zero_PerfStats\<lparr>ExpectedWrites := 5000\<rparr>" and ?c = "zero_Config\<lparr>cfg_VerifyHash := True\<rparr>"
  note D = check_driver_def demo_driver_def driver_world.defs fast_world.defs fast_demo_def demo_world_def
  have O: "object_store check_driver fst"
    using fast_demo_object_store
    by (simp add: object_store_def local_quiet_def random_source_def check_driver_def demo_driver_def
      driver_world.defs fast_world.defs)
  have C: "complete_quiet check_driver fst" "hash_check check_driver fst (sha256_hex check_driver)"
    by (auto simp: complete_quiet_def hash_check_def call_failed_def D result_code_defs)
  have N: "fst (new_client check_driver s) = None" for s by (simp add: D)
  have "\<not> cfg_Profile ?c" "\<not> cfg_EnableConcurrent ?c" "\<not> cfg_Fast ?c" "cfg_VerifyHash ?c"
      "Sample ?s \<noteq> SMax" "MaxSlice ?s \<notin> {1..15}" "Files ?s = []" "in_range ?s" "TotalWrites ?s = 0"
      "ExpectedWrites ?s + 2097152000 < 9223372036854775808"
    using in_range_zero by (simp_all add: zero_Config_def zero_PerfStats_def in_range_def totals_def)
  from handleTest_verified [OF O C N this, of "(Map.empty, 0)"] show ?thesis by blast
qed

end
