(* ===== verification/BFSS_API_Args.thy ===== *)
theory BFSS_API_Args
  imports BFSS_API_Types
begin

text \<open>
  The arguments and the results of the calls of the storage service, as \<^verbatim>\<open>bfss_api.go\<close> sends them:
  for each method an \<^verbatim>\<open>Args\<close> struct with its parameters and a \<^verbatim>\<open>Result\<close> struct with the optional
  field \<^verbatim>\<open>success\<close>, in the layout of \<open>BFSS_API_Types\<close>. None of their fields is required.
\<close>

section \<open>\<^verbatim>\<open>BFSS_APIDGetVersionArgs\<close>\<close>

type_synonym BFSS_APIDGetVersionArgs = unit

definition new_BFSS_APIDGetVersionArgs :: BFSS_APIDGetVersionArgs where
  "new_BFSS_APIDGetVersionArgs = ()"

definition BFSS_APIDGetVersionArgs_rows :: "('p, 'e) tlib \<Rightarrow> (BFSS_APIDGetVersionArgs,
    'p, 'e) row list" where
  "BFSS_APIDGetVersionArgs_rows L =
     []"

definition BFSS_APIDGetVersionArgs_Read :: "('p, 'e) tlib \<Rightarrow> (BFSS_APIDGetVersionArgs,
    'p, 'e) reader" where
  "BFSS_APIDGetVersionArgs_Read L =
     read_struct L ''*BFSS_API.BFSS_APIDGetVersionArgs'' (BFSS_APIDGetVersionArgs_rows L)
       []"

definition BFSS_APIDGetVersionArgs_steps :: "('p, 'e) tlib \<Rightarrow> BFSS_APIDGetVersionArgs
    \<Rightarrow> ('p \<Rightarrow> 'e option \<times> 'p) list" where
  "BFSS_APIDGetVersionArgs_steps L p = []"

definition BFSS_APIDGetVersionArgs_Write :: "('p, 'e) tlib
    \<Rightarrow> BFSS_APIDGetVersionArgs option \<Rightarrow> 'p
    \<Rightarrow> 'e option \<times> 'p" where
  "BFSS_APIDGetVersionArgs_Write L = write_struct L ''*BFSS_API.BFSS_APIDGetVersionArgs''
      ''GetVersion_args'' (BFSS_APIDGetVersionArgs_steps L)"

definition BFSS_APIDGetVersionArgs_fields :: "BFSS_APIDGetVersionArgs
    \<Rightarrow> BFSS_APIDGetVersionArgs fld list" where
  "BFSS_APIDGetVersionArgs_fields p =
     []"

definition BFSS_APIDGetVersionArgs_enc :: "BFSS_APIDGetVersionArgs \<Rightarrow> tok list" where
  "BFSS_APIDGetVersionArgs_enc p = enc_struct ''GetVersion_args'' (map enc_fld
      (BFSS_APIDGetVersionArgs_fields p))"

definition BFSS_APIDGetVersionArgs_wf :: "BFSS_APIDGetVersionArgs \<Rightarrow> bool" where
  "BFSS_APIDGetVersionArgs_wf p \<longleftrightarrow> True"

definition BFSS_APIDGetVersionArgs_norm :: "BFSS_APIDGetVersionArgs
    \<Rightarrow> BFSS_APIDGetVersionArgs" where
  "BFSS_APIDGetVersionArgs_norm p = p"

lemma BFSS_APIDGetVersionArgs_writes:
  assumes "protocol_laws L w" and "BFSS_APIDGetVersionArgs_wf a"
  shows "writes w (BFSS_APIDGetVersionArgs_Write L (Some a)) (BFSS_APIDGetVersionArgs_enc a)"
  unfolding BFSS_APIDGetVersionArgs_Write_def BFSS_APIDGetVersionArgs_enc_def
  by (rule writes_struct [OF assms(1)], use assms in \<open>auto simp:
      BFSS_APIDGetVersionArgs_steps_def BFSS_APIDGetVersionArgs_fields_def
    BFSS_APIDGetVersionArgs_wf_def Let_def intro!: writes_intros\<close>)

lemma BFSS_APIDGetVersionArgs_fields_ok:
  assumes "protocol_laws L w" and "BFSS_APIDGetVersionArgs_wf a"
  shows "\<forall>f \<in> set (BFSS_APIDGetVersionArgs_fields a). fld_ok w
      (BFSS_APIDGetVersionArgs_rows L) f"
  using assms by (auto simp: BFSS_APIDGetVersionArgs_fields_def BFSS_APIDGetVersionArgs_rows_def
      BFSS_APIDGetVersionArgs_wf_def fld_ok_def
      intro!: reads_intros split: option.splits)

lemma BFSS_APIDGetVersionArgs_fields_set: "foldl set_fld new_BFSS_APIDGetVersionArgs
    (BFSS_APIDGetVersionArgs_fields a) = BFSS_APIDGetVersionArgs_norm a"
  by (cases a) (auto simp: BFSS_APIDGetVersionArgs_fields_def set_fld_def
      new_BFSS_APIDGetVersionArgs_def BFSS_APIDGetVersionArgs_norm_def)

lemma BFSS_APIDGetVersionArgs_reads:
  assumes "protocol_laws L w" and "BFSS_APIDGetVersionArgs_wf a"
  shows "reads w (BFSS_APIDGetVersionArgs_Read L new_BFSS_APIDGetVersionArgs)
      (BFSS_APIDGetVersionArgs_enc a) (BFSS_APIDGetVersionArgs_norm a)"
  unfolding BFSS_APIDGetVersionArgs_Read_def BFSS_APIDGetVersionArgs_enc_def
  by (intro reads_fields [OF assms(1)] BFSS_APIDGetVersionArgs_fields_ok [OF assms]
      BFSS_APIDGetVersionArgs_fields_set)
    (simp add: BFSS_APIDGetVersionArgs_fields_def BFSS_APIDGetVersionArgs_rows_def present_def)

interpretation getVersionArgs: struct_codec BFSS_APIDGetVersionArgs_enc
    BFSS_APIDGetVersionArgs_wf BFSS_APIDGetVersionArgs_norm
    new_BFSS_APIDGetVersionArgs BFSS_APIDGetVersionArgs_Write BFSS_APIDGetVersionArgs_Read
  by unfold_locales (fact BFSS_APIDGetVersionArgs_writes, fact BFSS_APIDGetVersionArgs_reads)

section \<open>\<^verbatim>\<open>BFSS_APIDGetVersionResult\<close>\<close>

record BFSS_APIDGetVersionResult =
  GetVersionResult_Success :: "string option"

definition new_BFSS_APIDGetVersionResult :: BFSS_APIDGetVersionResult where
  "new_BFSS_APIDGetVersionResult = \<lparr>GetVersionResult_Success = None\<rparr>"

definition BFSS_APIDGetVersionResult_IsSetSuccess :: "BFSS_APIDGetVersionResult
    \<Rightarrow> bool" where
  "BFSS_APIDGetVersionResult_IsSetSuccess p \<longleftrightarrow> GetVersionResult_Success p
      \<noteq> None"

definition BFSS_APIDGetVersionResult_GetSuccess :: "BFSS_APIDGetVersionResult
    \<Rightarrow> string" where
  "BFSS_APIDGetVersionResult_GetSuccess p = (case GetVersionResult_Success p of None
      \<Rightarrow> [] | Some v \<Rightarrow> v)"

definition BFSS_APIDGetVersionResult_rows :: "('p, 'e) tlib \<Rightarrow>
    (BFSS_APIDGetVersionResult, 'p, 'e) row list" where
  "BFSS_APIDGetVersionResult_rows L =
     [\<lparr>row_id = 0, row_type = STRING,
       row_read = read_scalar L 0 (ReadString L)
           (\<lambda>v p. p\<lparr>GetVersionResult_Success := Some v\<rparr>)\<rparr>]"

definition BFSS_APIDGetVersionResult_Read :: "('p, 'e) tlib \<Rightarrow>
    (BFSS_APIDGetVersionResult, 'p, 'e) reader" where
  "BFSS_APIDGetVersionResult_Read L =
     read_struct L ''*BFSS_API.BFSS_APIDGetVersionResult'' (BFSS_APIDGetVersionResult_rows L)
       []"

definition BFSS_APIDGetVersionResult_steps :: "('p, 'e) tlib
    \<Rightarrow> BFSS_APIDGetVersionResult \<Rightarrow> ('p
    \<Rightarrow> 'e option \<times> 'p) list" where
  "BFSS_APIDGetVersionResult_steps L p =
     (let T = ''*BFSS_API.BFSS_APIDGetVersionResult'' in
      [if_set (GetVersionResult_Success p)
          (\<lambda>v. write_scalar L T ''success'' STRING 0 (WriteString L v))])"

definition BFSS_APIDGetVersionResult_Write :: "('p, 'e) tlib
    \<Rightarrow> BFSS_APIDGetVersionResult option \<Rightarrow> 'p
    \<Rightarrow> 'e option \<times> 'p" where
  "BFSS_APIDGetVersionResult_Write L = write_struct L ''*BFSS_API.BFSS_APIDGetVersionResult''
      ''GetVersion_result'' (BFSS_APIDGetVersionResult_steps L)"

definition BFSS_APIDGetVersionResult_fields :: "BFSS_APIDGetVersionResult
    \<Rightarrow> BFSS_APIDGetVersionResult fld list" where
  "BFSS_APIDGetVersionResult_fields p =
     [\<lparr>fld_name = ''success'', fld_type = STRING, fld_id = 0,
       fld_toks = map_option (\<lambda>v. [TString v]) (GetVersionResult_Success p),
       fld_set = \<lambda>q. q\<lparr>GetVersionResult_Success := GetVersionResult_Success
           p\<rparr>\<rparr>]"

definition BFSS_APIDGetVersionResult_enc :: "BFSS_APIDGetVersionResult \<Rightarrow> tok list" where
  "BFSS_APIDGetVersionResult_enc p = enc_struct ''GetVersion_result'' (map enc_fld
      (BFSS_APIDGetVersionResult_fields p))"

definition BFSS_APIDGetVersionResult_wf :: "BFSS_APIDGetVersionResult \<Rightarrow> bool" where
  "BFSS_APIDGetVersionResult_wf p \<longleftrightarrow> True"

definition BFSS_APIDGetVersionResult_norm :: "BFSS_APIDGetVersionResult
    \<Rightarrow> BFSS_APIDGetVersionResult" where
  "BFSS_APIDGetVersionResult_norm p = p"

lemma BFSS_APIDGetVersionResult_writes:
  assumes "protocol_laws L w" and "BFSS_APIDGetVersionResult_wf a"
  shows "writes w (BFSS_APIDGetVersionResult_Write L (Some a)) (BFSS_APIDGetVersionResult_enc a)"
  unfolding BFSS_APIDGetVersionResult_Write_def BFSS_APIDGetVersionResult_enc_def
  by (rule writes_struct [OF assms(1)], use assms in \<open>auto simp:
      BFSS_APIDGetVersionResult_steps_def BFSS_APIDGetVersionResult_fields_def
    BFSS_APIDGetVersionResult_wf_def Let_def intro!: writes_intros\<close>)

lemma BFSS_APIDGetVersionResult_fields_ok:
  assumes "protocol_laws L w" and "BFSS_APIDGetVersionResult_wf a"
  shows "\<forall>f \<in> set (BFSS_APIDGetVersionResult_fields a). fld_ok w
      (BFSS_APIDGetVersionResult_rows L) f"
  using assms by (auto simp: BFSS_APIDGetVersionResult_fields_def
      BFSS_APIDGetVersionResult_rows_def BFSS_APIDGetVersionResult_wf_def fld_ok_def
      intro!: reads_intros split: option.splits)

lemma BFSS_APIDGetVersionResult_fields_set: "foldl set_fld new_BFSS_APIDGetVersionResult
    (BFSS_APIDGetVersionResult_fields a) = BFSS_APIDGetVersionResult_norm a"
  by (cases a) (auto simp: BFSS_APIDGetVersionResult_fields_def set_fld_def
      new_BFSS_APIDGetVersionResult_def BFSS_APIDGetVersionResult_norm_def)

lemma BFSS_APIDGetVersionResult_reads:
  assumes "protocol_laws L w" and "BFSS_APIDGetVersionResult_wf a"
  shows "reads w (BFSS_APIDGetVersionResult_Read L new_BFSS_APIDGetVersionResult)
      (BFSS_APIDGetVersionResult_enc a) (BFSS_APIDGetVersionResult_norm a)"
  unfolding BFSS_APIDGetVersionResult_Read_def BFSS_APIDGetVersionResult_enc_def
  by (intro reads_fields [OF assms(1)] BFSS_APIDGetVersionResult_fields_ok [OF assms]
      BFSS_APIDGetVersionResult_fields_set)
    (simp add: BFSS_APIDGetVersionResult_fields_def BFSS_APIDGetVersionResult_rows_def present_def)

interpretation getVersionResult: struct_codec BFSS_APIDGetVersionResult_enc
    BFSS_APIDGetVersionResult_wf BFSS_APIDGetVersionResult_norm
    new_BFSS_APIDGetVersionResult BFSS_APIDGetVersionResult_Write BFSS_APIDGetVersionResult_Read
  by unfold_locales (fact BFSS_APIDGetVersionResult_writes, fact BFSS_APIDGetVersionResult_reads)

section \<open>\<^verbatim>\<open>BFSS_APIDCreateObjectArgs\<close>\<close>

record BFSS_APIDCreateObjectArgs =
  CreateObjectArgs_Oid :: string
  CreateObjectArgs_Size :: int
  CreateObjectArgs_Flag :: int
  CreateObjectArgs_Tag :: string

definition new_BFSS_APIDCreateObjectArgs :: BFSS_APIDCreateObjectArgs where
  "new_BFSS_APIDCreateObjectArgs = \<lparr>CreateObjectArgs_Oid = [], CreateObjectArgs_Size = 0,
      CreateObjectArgs_Flag = 0, CreateObjectArgs_Tag = []\<rparr>"

definition BFSS_APIDCreateObjectArgs_GetOid :: "BFSS_APIDCreateObjectArgs
    \<Rightarrow> string" where
  "BFSS_APIDCreateObjectArgs_GetOid p = CreateObjectArgs_Oid p"

definition BFSS_APIDCreateObjectArgs_GetSize :: "BFSS_APIDCreateObjectArgs \<Rightarrow> int" where
  "BFSS_APIDCreateObjectArgs_GetSize p = CreateObjectArgs_Size p"

definition BFSS_APIDCreateObjectArgs_GetFlag :: "BFSS_APIDCreateObjectArgs \<Rightarrow> int" where
  "BFSS_APIDCreateObjectArgs_GetFlag p = CreateObjectArgs_Flag p"

definition BFSS_APIDCreateObjectArgs_GetTag :: "BFSS_APIDCreateObjectArgs
    \<Rightarrow> string" where
  "BFSS_APIDCreateObjectArgs_GetTag p = CreateObjectArgs_Tag p"

definition BFSS_APIDCreateObjectArgs_rows :: "('p, 'e) tlib \<Rightarrow>
    (BFSS_APIDCreateObjectArgs, 'p, 'e) row list" where
  "BFSS_APIDCreateObjectArgs_rows L =
     [\<lparr>row_id = 1, row_type = STRING,
       row_read = read_scalar L 1 (ReadString L)
           (\<lambda>v p. p\<lparr>CreateObjectArgs_Oid := v\<rparr>)\<rparr>,
      \<lparr>row_id = 2, row_type = I32,
       row_read = read_scalar L 2 (ReadI32 L)
           (\<lambda>v p. p\<lparr>CreateObjectArgs_Size := v\<rparr>)\<rparr>,
      \<lparr>row_id = 3, row_type = I32,
       row_read = read_scalar L 3 (ReadI32 L)
           (\<lambda>v p. p\<lparr>CreateObjectArgs_Flag := v\<rparr>)\<rparr>,
      \<lparr>row_id = 4, row_type = STRING,
       row_read = read_scalar L 4 (ReadString L)
           (\<lambda>v p. p\<lparr>CreateObjectArgs_Tag := v\<rparr>)\<rparr>]"

definition BFSS_APIDCreateObjectArgs_Read :: "('p, 'e) tlib \<Rightarrow>
    (BFSS_APIDCreateObjectArgs, 'p, 'e) reader" where
  "BFSS_APIDCreateObjectArgs_Read L =
     read_struct L ''*BFSS_API.BFSS_APIDCreateObjectArgs'' (BFSS_APIDCreateObjectArgs_rows L)
       []"

definition BFSS_APIDCreateObjectArgs_steps :: "('p, 'e) tlib
    \<Rightarrow> BFSS_APIDCreateObjectArgs \<Rightarrow> ('p
    \<Rightarrow> 'e option \<times> 'p) list" where
  "BFSS_APIDCreateObjectArgs_steps L p =
     (let T = ''*BFSS_API.BFSS_APIDCreateObjectArgs'' in
      [write_scalar L T ''oid'' STRING 1 (WriteString L (CreateObjectArgs_Oid p)),
       write_scalar L T ''size'' I32 2 (WriteI32 L (CreateObjectArgs_Size p)),
       write_scalar L T ''flag'' I32 3 (WriteI32 L (CreateObjectArgs_Flag p)),
       write_scalar L T ''tag'' STRING 4 (WriteString L (CreateObjectArgs_Tag p))])"

definition BFSS_APIDCreateObjectArgs_Write :: "('p, 'e) tlib
    \<Rightarrow> BFSS_APIDCreateObjectArgs option \<Rightarrow> 'p
    \<Rightarrow> 'e option \<times> 'p" where
  "BFSS_APIDCreateObjectArgs_Write L = write_struct L ''*BFSS_API.BFSS_APIDCreateObjectArgs''
      ''CreateObject_args'' (BFSS_APIDCreateObjectArgs_steps L)"

definition BFSS_APIDCreateObjectArgs_fields :: "BFSS_APIDCreateObjectArgs
    \<Rightarrow> BFSS_APIDCreateObjectArgs fld list" where
  "BFSS_APIDCreateObjectArgs_fields p =
     [\<lparr>fld_name = ''oid'', fld_type = STRING, fld_id = 1,
       fld_toks = Some [TString (CreateObjectArgs_Oid p)],
       fld_set = \<lambda>q. q\<lparr>CreateObjectArgs_Oid := (CreateObjectArgs_Oid
           p)\<rparr>\<rparr>,
      \<lparr>fld_name = ''size'', fld_type = I32, fld_id = 2,
       fld_toks = Some [TI32 (CreateObjectArgs_Size p)],
       fld_set = \<lambda>q. q\<lparr>CreateObjectArgs_Size := (CreateObjectArgs_Size
           p)\<rparr>\<rparr>,
      \<lparr>fld_name = ''flag'', fld_type = I32, fld_id = 3,
       fld_toks = Some [TI32 (CreateObjectArgs_Flag p)],
       fld_set = \<lambda>q. q\<lparr>CreateObjectArgs_Flag := (CreateObjectArgs_Flag
           p)\<rparr>\<rparr>,
      \<lparr>fld_name = ''tag'', fld_type = STRING, fld_id = 4,
       fld_toks = Some [TString (CreateObjectArgs_Tag p)],
       fld_set = \<lambda>q. q\<lparr>CreateObjectArgs_Tag := (CreateObjectArgs_Tag
           p)\<rparr>\<rparr>]"

definition BFSS_APIDCreateObjectArgs_enc :: "BFSS_APIDCreateObjectArgs \<Rightarrow> tok list" where
  "BFSS_APIDCreateObjectArgs_enc p = enc_struct ''CreateObject_args'' (map enc_fld
      (BFSS_APIDCreateObjectArgs_fields p))"

definition BFSS_APIDCreateObjectArgs_wf :: "BFSS_APIDCreateObjectArgs \<Rightarrow> bool" where
  "BFSS_APIDCreateObjectArgs_wf p \<longleftrightarrow> i32 (CreateObjectArgs_Size p) =
      CreateObjectArgs_Size p \<and> i32 (CreateObjectArgs_Flag p) = CreateObjectArgs_Flag p"

definition BFSS_APIDCreateObjectArgs_norm :: "BFSS_APIDCreateObjectArgs
    \<Rightarrow> BFSS_APIDCreateObjectArgs" where
  "BFSS_APIDCreateObjectArgs_norm p = p"

lemma BFSS_APIDCreateObjectArgs_writes:
  assumes "protocol_laws L w" and "BFSS_APIDCreateObjectArgs_wf a"
  shows "writes w (BFSS_APIDCreateObjectArgs_Write L (Some a)) (BFSS_APIDCreateObjectArgs_enc a)"
  unfolding BFSS_APIDCreateObjectArgs_Write_def BFSS_APIDCreateObjectArgs_enc_def
  by (rule writes_struct [OF assms(1)], use assms in \<open>auto simp:
      BFSS_APIDCreateObjectArgs_steps_def BFSS_APIDCreateObjectArgs_fields_def
    BFSS_APIDCreateObjectArgs_wf_def Let_def intro!: writes_intros\<close>)

lemma BFSS_APIDCreateObjectArgs_fields_ok:
  assumes "protocol_laws L w" and "BFSS_APIDCreateObjectArgs_wf a"
  shows "\<forall>f \<in> set (BFSS_APIDCreateObjectArgs_fields a). fld_ok w
      (BFSS_APIDCreateObjectArgs_rows L) f"
  using assms by (auto simp: BFSS_APIDCreateObjectArgs_fields_def
      BFSS_APIDCreateObjectArgs_rows_def BFSS_APIDCreateObjectArgs_wf_def fld_ok_def
      intro!: reads_intros split: option.splits)

lemma BFSS_APIDCreateObjectArgs_fields_set: "foldl set_fld new_BFSS_APIDCreateObjectArgs
    (BFSS_APIDCreateObjectArgs_fields a) = BFSS_APIDCreateObjectArgs_norm a"
  by (cases a) (auto simp: BFSS_APIDCreateObjectArgs_fields_def set_fld_def
      new_BFSS_APIDCreateObjectArgs_def BFSS_APIDCreateObjectArgs_norm_def)

lemma BFSS_APIDCreateObjectArgs_reads:
  assumes "protocol_laws L w" and "BFSS_APIDCreateObjectArgs_wf a"
  shows "reads w (BFSS_APIDCreateObjectArgs_Read L new_BFSS_APIDCreateObjectArgs)
      (BFSS_APIDCreateObjectArgs_enc a) (BFSS_APIDCreateObjectArgs_norm a)"
  unfolding BFSS_APIDCreateObjectArgs_Read_def BFSS_APIDCreateObjectArgs_enc_def
  by (intro reads_fields [OF assms(1)] BFSS_APIDCreateObjectArgs_fields_ok [OF assms]
      BFSS_APIDCreateObjectArgs_fields_set)
    (simp add: BFSS_APIDCreateObjectArgs_fields_def BFSS_APIDCreateObjectArgs_rows_def present_def)

interpretation createObjectArgs: struct_codec BFSS_APIDCreateObjectArgs_enc
    BFSS_APIDCreateObjectArgs_wf BFSS_APIDCreateObjectArgs_norm
    new_BFSS_APIDCreateObjectArgs BFSS_APIDCreateObjectArgs_Write BFSS_APIDCreateObjectArgs_Read
  by unfold_locales (fact BFSS_APIDCreateObjectArgs_writes, fact BFSS_APIDCreateObjectArgs_reads)

section \<open>\<^verbatim>\<open>BFSS_APIDCreateObjectResult\<close>\<close>

record BFSS_APIDCreateObjectResult =
  CreateObjectResult_Success :: "BFSS_RESULT option"

definition new_BFSS_APIDCreateObjectResult :: BFSS_APIDCreateObjectResult where
  "new_BFSS_APIDCreateObjectResult = \<lparr>CreateObjectResult_Success = None\<rparr>"

definition BFSS_APIDCreateObjectResult_IsSetSuccess :: "BFSS_APIDCreateObjectResult
    \<Rightarrow> bool" where
  "BFSS_APIDCreateObjectResult_IsSetSuccess p \<longleftrightarrow> CreateObjectResult_Success p
      \<noteq> None"

definition BFSS_APIDCreateObjectResult_GetSuccess :: "BFSS_APIDCreateObjectResult
    \<Rightarrow> BFSS_RESULT" where
  "BFSS_APIDCreateObjectResult_GetSuccess p = (case CreateObjectResult_Success p of None
      \<Rightarrow> 0 | Some v \<Rightarrow> v)"

definition BFSS_APIDCreateObjectResult_rows :: "('p, 'e) tlib \<Rightarrow>
    (BFSS_APIDCreateObjectResult, 'p, 'e) row list" where
  "BFSS_APIDCreateObjectResult_rows L =
     [\<lparr>row_id = 0, row_type = I32,
       row_read = read_scalar L 0 (ReadI32 L)
           (\<lambda>v p. p\<lparr>CreateObjectResult_Success := Some v\<rparr>)\<rparr>]"

definition BFSS_APIDCreateObjectResult_Read :: "('p, 'e) tlib \<Rightarrow>
    (BFSS_APIDCreateObjectResult, 'p, 'e) reader" where
  "BFSS_APIDCreateObjectResult_Read L =
     read_struct L ''*BFSS_API.BFSS_APIDCreateObjectResult'' (BFSS_APIDCreateObjectResult_rows L)
       []"

definition BFSS_APIDCreateObjectResult_steps :: "('p, 'e) tlib
    \<Rightarrow> BFSS_APIDCreateObjectResult \<Rightarrow> ('p
    \<Rightarrow> 'e option \<times> 'p) list" where
  "BFSS_APIDCreateObjectResult_steps L p =
     (let T = ''*BFSS_API.BFSS_APIDCreateObjectResult'' in
      [if_set (CreateObjectResult_Success p)
          (\<lambda>v. write_scalar L T ''success'' I32 0 (WriteI32 L (i32 v)))])"

definition BFSS_APIDCreateObjectResult_Write :: "('p, 'e) tlib
    \<Rightarrow> BFSS_APIDCreateObjectResult option \<Rightarrow> 'p
    \<Rightarrow> 'e option \<times> 'p" where
  "BFSS_APIDCreateObjectResult_Write L = write_struct L ''*BFSS_API.BFSS_APIDCreateObjectResult''
      ''CreateObject_result'' (BFSS_APIDCreateObjectResult_steps L)"

definition BFSS_APIDCreateObjectResult_fields :: "BFSS_APIDCreateObjectResult
    \<Rightarrow> BFSS_APIDCreateObjectResult fld list" where
  "BFSS_APIDCreateObjectResult_fields p =
     [\<lparr>fld_name = ''success'', fld_type = I32, fld_id = 0,
       fld_toks = map_option (\<lambda>v. [TI32 (i32 v)]) (CreateObjectResult_Success p),
       fld_set = \<lambda>q. q\<lparr>CreateObjectResult_Success := map_option i32
           (CreateObjectResult_Success p)\<rparr>\<rparr>]"

definition BFSS_APIDCreateObjectResult_enc :: "BFSS_APIDCreateObjectResult
    \<Rightarrow> tok list" where
  "BFSS_APIDCreateObjectResult_enc p = enc_struct ''CreateObject_result'' (map enc_fld
      (BFSS_APIDCreateObjectResult_fields p))"

definition BFSS_APIDCreateObjectResult_wf :: "BFSS_APIDCreateObjectResult \<Rightarrow> bool" where
  "BFSS_APIDCreateObjectResult_wf p \<longleftrightarrow> True"

definition BFSS_APIDCreateObjectResult_norm :: "BFSS_APIDCreateObjectResult
    \<Rightarrow> BFSS_APIDCreateObjectResult" where
  "BFSS_APIDCreateObjectResult_norm p = p\<lparr>CreateObjectResult_Success := map_option i32
      (CreateObjectResult_Success p)\<rparr>"

lemma BFSS_APIDCreateObjectResult_writes:
  assumes "protocol_laws L w" and "BFSS_APIDCreateObjectResult_wf a"
  shows "writes w (BFSS_APIDCreateObjectResult_Write L (Some a))
      (BFSS_APIDCreateObjectResult_enc a)"
  unfolding BFSS_APIDCreateObjectResult_Write_def BFSS_APIDCreateObjectResult_enc_def
  by (rule writes_struct [OF assms(1)], use assms in \<open>auto simp:
      BFSS_APIDCreateObjectResult_steps_def BFSS_APIDCreateObjectResult_fields_def
    BFSS_APIDCreateObjectResult_wf_def Let_def intro!: writes_intros\<close>)

lemma BFSS_APIDCreateObjectResult_fields_ok:
  assumes "protocol_laws L w" and "BFSS_APIDCreateObjectResult_wf a"
  shows "\<forall>f \<in> set (BFSS_APIDCreateObjectResult_fields a). fld_ok w
      (BFSS_APIDCreateObjectResult_rows L) f"
  using assms by (auto simp: BFSS_APIDCreateObjectResult_fields_def
      BFSS_APIDCreateObjectResult_rows_def BFSS_APIDCreateObjectResult_wf_def fld_ok_def
      intro!: reads_intros split: option.splits)

lemma BFSS_APIDCreateObjectResult_fields_set: "foldl set_fld new_BFSS_APIDCreateObjectResult
    (BFSS_APIDCreateObjectResult_fields a) = BFSS_APIDCreateObjectResult_norm a"
  by (cases a) (auto simp: BFSS_APIDCreateObjectResult_fields_def set_fld_def
      new_BFSS_APIDCreateObjectResult_def BFSS_APIDCreateObjectResult_norm_def)

lemma BFSS_APIDCreateObjectResult_reads:
  assumes "protocol_laws L w" and "BFSS_APIDCreateObjectResult_wf a"
  shows "reads w (BFSS_APIDCreateObjectResult_Read L new_BFSS_APIDCreateObjectResult)
      (BFSS_APIDCreateObjectResult_enc a) (BFSS_APIDCreateObjectResult_norm a)"
  unfolding BFSS_APIDCreateObjectResult_Read_def BFSS_APIDCreateObjectResult_enc_def
  by (intro reads_fields [OF assms(1)] BFSS_APIDCreateObjectResult_fields_ok [OF assms]
      BFSS_APIDCreateObjectResult_fields_set)
    (simp add: BFSS_APIDCreateObjectResult_fields_def BFSS_APIDCreateObjectResult_rows_def
        present_def)

interpretation createObjectResult: struct_codec BFSS_APIDCreateObjectResult_enc
    BFSS_APIDCreateObjectResult_wf BFSS_APIDCreateObjectResult_norm
    new_BFSS_APIDCreateObjectResult BFSS_APIDCreateObjectResult_Write
        BFSS_APIDCreateObjectResult_Read
  by unfold_locales (fact BFSS_APIDCreateObjectResult_writes,
      fact BFSS_APIDCreateObjectResult_reads)

section \<open>\<^verbatim>\<open>BFSS_APIDDeleteObjectArgs\<close>\<close>

record BFSS_APIDDeleteObjectArgs =
  DeleteObjectArgs_Oid :: string

definition new_BFSS_APIDDeleteObjectArgs :: BFSS_APIDDeleteObjectArgs where
  "new_BFSS_APIDDeleteObjectArgs = \<lparr>DeleteObjectArgs_Oid = []\<rparr>"

definition BFSS_APIDDeleteObjectArgs_GetOid :: "BFSS_APIDDeleteObjectArgs
    \<Rightarrow> string" where
  "BFSS_APIDDeleteObjectArgs_GetOid p = DeleteObjectArgs_Oid p"

definition BFSS_APIDDeleteObjectArgs_rows :: "('p, 'e) tlib \<Rightarrow>
    (BFSS_APIDDeleteObjectArgs, 'p, 'e) row list" where
  "BFSS_APIDDeleteObjectArgs_rows L =
     [\<lparr>row_id = 1, row_type = STRING,
       row_read = read_scalar L 1 (ReadString L)
           (\<lambda>v p. p\<lparr>DeleteObjectArgs_Oid := v\<rparr>)\<rparr>]"

definition BFSS_APIDDeleteObjectArgs_Read :: "('p, 'e) tlib \<Rightarrow>
    (BFSS_APIDDeleteObjectArgs, 'p, 'e) reader" where
  "BFSS_APIDDeleteObjectArgs_Read L =
     read_struct L ''*BFSS_API.BFSS_APIDDeleteObjectArgs'' (BFSS_APIDDeleteObjectArgs_rows L)
       []"

definition BFSS_APIDDeleteObjectArgs_steps :: "('p, 'e) tlib
    \<Rightarrow> BFSS_APIDDeleteObjectArgs \<Rightarrow> ('p
    \<Rightarrow> 'e option \<times> 'p) list" where
  "BFSS_APIDDeleteObjectArgs_steps L p =
     (let T = ''*BFSS_API.BFSS_APIDDeleteObjectArgs'' in
      [write_scalar L T ''oid'' STRING 1 (WriteString L (DeleteObjectArgs_Oid p))])"

definition BFSS_APIDDeleteObjectArgs_Write :: "('p, 'e) tlib
    \<Rightarrow> BFSS_APIDDeleteObjectArgs option \<Rightarrow> 'p
    \<Rightarrow> 'e option \<times> 'p" where
  "BFSS_APIDDeleteObjectArgs_Write L = write_struct L ''*BFSS_API.BFSS_APIDDeleteObjectArgs''
      ''DeleteObject_args'' (BFSS_APIDDeleteObjectArgs_steps L)"

definition BFSS_APIDDeleteObjectArgs_fields :: "BFSS_APIDDeleteObjectArgs
    \<Rightarrow> BFSS_APIDDeleteObjectArgs fld list" where
  "BFSS_APIDDeleteObjectArgs_fields p =
     [\<lparr>fld_name = ''oid'', fld_type = STRING, fld_id = 1,
       fld_toks = Some [TString (DeleteObjectArgs_Oid p)],
       fld_set = \<lambda>q. q\<lparr>DeleteObjectArgs_Oid := (DeleteObjectArgs_Oid
           p)\<rparr>\<rparr>]"

definition BFSS_APIDDeleteObjectArgs_enc :: "BFSS_APIDDeleteObjectArgs \<Rightarrow> tok list" where
  "BFSS_APIDDeleteObjectArgs_enc p = enc_struct ''DeleteObject_args'' (map enc_fld
      (BFSS_APIDDeleteObjectArgs_fields p))"

definition BFSS_APIDDeleteObjectArgs_wf :: "BFSS_APIDDeleteObjectArgs \<Rightarrow> bool" where
  "BFSS_APIDDeleteObjectArgs_wf p \<longleftrightarrow> True"

definition BFSS_APIDDeleteObjectArgs_norm :: "BFSS_APIDDeleteObjectArgs
    \<Rightarrow> BFSS_APIDDeleteObjectArgs" where
  "BFSS_APIDDeleteObjectArgs_norm p = p"

lemma BFSS_APIDDeleteObjectArgs_writes:
  assumes "protocol_laws L w" and "BFSS_APIDDeleteObjectArgs_wf a"
  shows "writes w (BFSS_APIDDeleteObjectArgs_Write L (Some a)) (BFSS_APIDDeleteObjectArgs_enc a)"
  unfolding BFSS_APIDDeleteObjectArgs_Write_def BFSS_APIDDeleteObjectArgs_enc_def
  by (rule writes_struct [OF assms(1)], use assms in \<open>auto simp:
      BFSS_APIDDeleteObjectArgs_steps_def BFSS_APIDDeleteObjectArgs_fields_def
    BFSS_APIDDeleteObjectArgs_wf_def Let_def intro!: writes_intros\<close>)

lemma BFSS_APIDDeleteObjectArgs_fields_ok:
  assumes "protocol_laws L w" and "BFSS_APIDDeleteObjectArgs_wf a"
  shows "\<forall>f \<in> set (BFSS_APIDDeleteObjectArgs_fields a). fld_ok w
      (BFSS_APIDDeleteObjectArgs_rows L) f"
  using assms by (auto simp: BFSS_APIDDeleteObjectArgs_fields_def
      BFSS_APIDDeleteObjectArgs_rows_def BFSS_APIDDeleteObjectArgs_wf_def fld_ok_def
      intro!: reads_intros split: option.splits)

lemma BFSS_APIDDeleteObjectArgs_fields_set: "foldl set_fld new_BFSS_APIDDeleteObjectArgs
    (BFSS_APIDDeleteObjectArgs_fields a) = BFSS_APIDDeleteObjectArgs_norm a"
  by (cases a) (auto simp: BFSS_APIDDeleteObjectArgs_fields_def set_fld_def
      new_BFSS_APIDDeleteObjectArgs_def BFSS_APIDDeleteObjectArgs_norm_def)

lemma BFSS_APIDDeleteObjectArgs_reads:
  assumes "protocol_laws L w" and "BFSS_APIDDeleteObjectArgs_wf a"
  shows "reads w (BFSS_APIDDeleteObjectArgs_Read L new_BFSS_APIDDeleteObjectArgs)
      (BFSS_APIDDeleteObjectArgs_enc a) (BFSS_APIDDeleteObjectArgs_norm a)"
  unfolding BFSS_APIDDeleteObjectArgs_Read_def BFSS_APIDDeleteObjectArgs_enc_def
  by (intro reads_fields [OF assms(1)] BFSS_APIDDeleteObjectArgs_fields_ok [OF assms]
      BFSS_APIDDeleteObjectArgs_fields_set)
    (simp add: BFSS_APIDDeleteObjectArgs_fields_def BFSS_APIDDeleteObjectArgs_rows_def present_def)

interpretation deleteObjectArgs: struct_codec BFSS_APIDDeleteObjectArgs_enc
    BFSS_APIDDeleteObjectArgs_wf BFSS_APIDDeleteObjectArgs_norm
    new_BFSS_APIDDeleteObjectArgs BFSS_APIDDeleteObjectArgs_Write BFSS_APIDDeleteObjectArgs_Read
  by unfold_locales (fact BFSS_APIDDeleteObjectArgs_writes, fact BFSS_APIDDeleteObjectArgs_reads)

section \<open>\<^verbatim>\<open>BFSS_APIDDeleteObjectResult\<close>\<close>

record BFSS_APIDDeleteObjectResult =
  DeleteObjectResult_Success :: "BFSS_RESULT option"

definition new_BFSS_APIDDeleteObjectResult :: BFSS_APIDDeleteObjectResult where
  "new_BFSS_APIDDeleteObjectResult = \<lparr>DeleteObjectResult_Success = None\<rparr>"

definition BFSS_APIDDeleteObjectResult_IsSetSuccess :: "BFSS_APIDDeleteObjectResult
    \<Rightarrow> bool" where
  "BFSS_APIDDeleteObjectResult_IsSetSuccess p \<longleftrightarrow> DeleteObjectResult_Success p
      \<noteq> None"

definition BFSS_APIDDeleteObjectResult_GetSuccess :: "BFSS_APIDDeleteObjectResult
    \<Rightarrow> BFSS_RESULT" where
  "BFSS_APIDDeleteObjectResult_GetSuccess p = (case DeleteObjectResult_Success p of None
      \<Rightarrow> 0 | Some v \<Rightarrow> v)"

definition BFSS_APIDDeleteObjectResult_rows :: "('p, 'e) tlib \<Rightarrow>
    (BFSS_APIDDeleteObjectResult, 'p, 'e) row list" where
  "BFSS_APIDDeleteObjectResult_rows L =
     [\<lparr>row_id = 0, row_type = I32,
       row_read = read_scalar L 0 (ReadI32 L)
           (\<lambda>v p. p\<lparr>DeleteObjectResult_Success := Some v\<rparr>)\<rparr>]"

definition BFSS_APIDDeleteObjectResult_Read :: "('p, 'e) tlib \<Rightarrow>
    (BFSS_APIDDeleteObjectResult, 'p, 'e) reader" where
  "BFSS_APIDDeleteObjectResult_Read L =
     read_struct L ''*BFSS_API.BFSS_APIDDeleteObjectResult'' (BFSS_APIDDeleteObjectResult_rows L)
       []"

definition BFSS_APIDDeleteObjectResult_steps :: "('p, 'e) tlib
    \<Rightarrow> BFSS_APIDDeleteObjectResult \<Rightarrow> ('p
    \<Rightarrow> 'e option \<times> 'p) list" where
  "BFSS_APIDDeleteObjectResult_steps L p =
     (let T = ''*BFSS_API.BFSS_APIDDeleteObjectResult'' in
      [if_set (DeleteObjectResult_Success p)
          (\<lambda>v. write_scalar L T ''success'' I32 0 (WriteI32 L (i32 v)))])"

definition BFSS_APIDDeleteObjectResult_Write :: "('p, 'e) tlib
    \<Rightarrow> BFSS_APIDDeleteObjectResult option \<Rightarrow> 'p
    \<Rightarrow> 'e option \<times> 'p" where
  "BFSS_APIDDeleteObjectResult_Write L = write_struct L ''*BFSS_API.BFSS_APIDDeleteObjectResult''
      ''DeleteObject_result'' (BFSS_APIDDeleteObjectResult_steps L)"

definition BFSS_APIDDeleteObjectResult_fields :: "BFSS_APIDDeleteObjectResult
    \<Rightarrow> BFSS_APIDDeleteObjectResult fld list" where
  "BFSS_APIDDeleteObjectResult_fields p =
     [\<lparr>fld_name = ''success'', fld_type = I32, fld_id = 0,
       fld_toks = map_option (\<lambda>v. [TI32 (i32 v)]) (DeleteObjectResult_Success p),
       fld_set = \<lambda>q. q\<lparr>DeleteObjectResult_Success := map_option i32
           (DeleteObjectResult_Success p)\<rparr>\<rparr>]"

definition BFSS_APIDDeleteObjectResult_enc :: "BFSS_APIDDeleteObjectResult
    \<Rightarrow> tok list" where
  "BFSS_APIDDeleteObjectResult_enc p = enc_struct ''DeleteObject_result'' (map enc_fld
      (BFSS_APIDDeleteObjectResult_fields p))"

definition BFSS_APIDDeleteObjectResult_wf :: "BFSS_APIDDeleteObjectResult \<Rightarrow> bool" where
  "BFSS_APIDDeleteObjectResult_wf p \<longleftrightarrow> True"

definition BFSS_APIDDeleteObjectResult_norm :: "BFSS_APIDDeleteObjectResult
    \<Rightarrow> BFSS_APIDDeleteObjectResult" where
  "BFSS_APIDDeleteObjectResult_norm p = p\<lparr>DeleteObjectResult_Success := map_option i32
      (DeleteObjectResult_Success p)\<rparr>"

lemma BFSS_APIDDeleteObjectResult_writes:
  assumes "protocol_laws L w" and "BFSS_APIDDeleteObjectResult_wf a"
  shows "writes w (BFSS_APIDDeleteObjectResult_Write L (Some a))
      (BFSS_APIDDeleteObjectResult_enc a)"
  unfolding BFSS_APIDDeleteObjectResult_Write_def BFSS_APIDDeleteObjectResult_enc_def
  by (rule writes_struct [OF assms(1)], use assms in \<open>auto simp:
      BFSS_APIDDeleteObjectResult_steps_def BFSS_APIDDeleteObjectResult_fields_def
    BFSS_APIDDeleteObjectResult_wf_def Let_def intro!: writes_intros\<close>)

lemma BFSS_APIDDeleteObjectResult_fields_ok:
  assumes "protocol_laws L w" and "BFSS_APIDDeleteObjectResult_wf a"
  shows "\<forall>f \<in> set (BFSS_APIDDeleteObjectResult_fields a). fld_ok w
      (BFSS_APIDDeleteObjectResult_rows L) f"
  using assms by (auto simp: BFSS_APIDDeleteObjectResult_fields_def
      BFSS_APIDDeleteObjectResult_rows_def BFSS_APIDDeleteObjectResult_wf_def fld_ok_def
      intro!: reads_intros split: option.splits)

lemma BFSS_APIDDeleteObjectResult_fields_set: "foldl set_fld new_BFSS_APIDDeleteObjectResult
    (BFSS_APIDDeleteObjectResult_fields a) = BFSS_APIDDeleteObjectResult_norm a"
  by (cases a) (auto simp: BFSS_APIDDeleteObjectResult_fields_def set_fld_def
      new_BFSS_APIDDeleteObjectResult_def BFSS_APIDDeleteObjectResult_norm_def)

lemma BFSS_APIDDeleteObjectResult_reads:
  assumes "protocol_laws L w" and "BFSS_APIDDeleteObjectResult_wf a"
  shows "reads w (BFSS_APIDDeleteObjectResult_Read L new_BFSS_APIDDeleteObjectResult)
      (BFSS_APIDDeleteObjectResult_enc a) (BFSS_APIDDeleteObjectResult_norm a)"
  unfolding BFSS_APIDDeleteObjectResult_Read_def BFSS_APIDDeleteObjectResult_enc_def
  by (intro reads_fields [OF assms(1)] BFSS_APIDDeleteObjectResult_fields_ok [OF assms]
      BFSS_APIDDeleteObjectResult_fields_set)
    (simp add: BFSS_APIDDeleteObjectResult_fields_def BFSS_APIDDeleteObjectResult_rows_def
        present_def)

interpretation deleteObjectResult: struct_codec BFSS_APIDDeleteObjectResult_enc
    BFSS_APIDDeleteObjectResult_wf BFSS_APIDDeleteObjectResult_norm
    new_BFSS_APIDDeleteObjectResult BFSS_APIDDeleteObjectResult_Write
        BFSS_APIDDeleteObjectResult_Read
  by unfold_locales (fact BFSS_APIDDeleteObjectResult_writes,
      fact BFSS_APIDDeleteObjectResult_reads)

section \<open>\<^verbatim>\<open>BFSS_APIDWriteArgs\<close>\<close>

record BFSS_APIDWriteArgs =
  WriteArgs_Oid :: string
  WriteArgs_Offset :: int
  WriteArgs_Data :: bytes

definition new_BFSS_APIDWriteArgs :: BFSS_APIDWriteArgs where
  "new_BFSS_APIDWriteArgs = \<lparr>WriteArgs_Oid = [], WriteArgs_Offset = 0,
      WriteArgs_Data = None\<rparr>"

definition BFSS_APIDWriteArgs_GetOid :: "BFSS_APIDWriteArgs \<Rightarrow> string" where
  "BFSS_APIDWriteArgs_GetOid p = WriteArgs_Oid p"

definition BFSS_APIDWriteArgs_GetOffset :: "BFSS_APIDWriteArgs \<Rightarrow> int" where
  "BFSS_APIDWriteArgs_GetOffset p = WriteArgs_Offset p"

definition BFSS_APIDWriteArgs_GetData :: "BFSS_APIDWriteArgs \<Rightarrow> bytes" where
  "BFSS_APIDWriteArgs_GetData p = WriteArgs_Data p"

definition BFSS_APIDWriteArgs_rows :: "('p, 'e) tlib \<Rightarrow> (BFSS_APIDWriteArgs, 'p,
    'e) row list" where
  "BFSS_APIDWriteArgs_rows L =
     [\<lparr>row_id = 1, row_type = STRING,
       row_read = read_scalar L 1 (ReadString L)
           (\<lambda>v p. p\<lparr>WriteArgs_Oid := v\<rparr>)\<rparr>,
      \<lparr>row_id = 2, row_type = I32,
       row_read = read_scalar L 2 (ReadI32 L)
           (\<lambda>v p. p\<lparr>WriteArgs_Offset := v\<rparr>)\<rparr>,
      \<lparr>row_id = 3, row_type = STRING,
       row_read = read_scalar L 3 (ReadBinary L)
           (\<lambda>v p. p\<lparr>WriteArgs_Data := v\<rparr>)\<rparr>]"

definition BFSS_APIDWriteArgs_Read :: "('p, 'e) tlib \<Rightarrow> (BFSS_APIDWriteArgs, 'p,
    'e) reader" where
  "BFSS_APIDWriteArgs_Read L =
     read_struct L ''*BFSS_API.BFSS_APIDWriteArgs'' (BFSS_APIDWriteArgs_rows L)
       []"

definition BFSS_APIDWriteArgs_steps :: "('p, 'e) tlib \<Rightarrow> BFSS_APIDWriteArgs
    \<Rightarrow> ('p \<Rightarrow> 'e option \<times> 'p) list" where
  "BFSS_APIDWriteArgs_steps L p =
     (let T = ''*BFSS_API.BFSS_APIDWriteArgs'' in
      [write_scalar L T ''oid'' STRING 1 (WriteString L (WriteArgs_Oid p)),
       write_scalar L T ''offset'' I32 2 (WriteI32 L (WriteArgs_Offset p)),
       write_scalar L T ''data'' STRING 3 (WriteBinary L (WriteArgs_Data p))])"

definition BFSS_APIDWriteArgs_Write :: "('p, 'e) tlib \<Rightarrow> BFSS_APIDWriteArgs option
    \<Rightarrow> 'p \<Rightarrow> 'e option \<times> 'p" where
  "BFSS_APIDWriteArgs_Write L = write_struct L ''*BFSS_API.BFSS_APIDWriteArgs'' ''Write_args''
      (BFSS_APIDWriteArgs_steps L)"

definition BFSS_APIDWriteArgs_fields :: "BFSS_APIDWriteArgs
    \<Rightarrow> BFSS_APIDWriteArgs fld list" where
  "BFSS_APIDWriteArgs_fields p =
     [\<lparr>fld_name = ''oid'', fld_type = STRING, fld_id = 1,
       fld_toks = Some [TString (WriteArgs_Oid p)],
       fld_set = \<lambda>q. q\<lparr>WriteArgs_Oid := (WriteArgs_Oid p)\<rparr>\<rparr>,
      \<lparr>fld_name = ''offset'', fld_type = I32, fld_id = 2,
       fld_toks = Some [TI32 (WriteArgs_Offset p)],
       fld_set = \<lambda>q. q\<lparr>WriteArgs_Offset := (WriteArgs_Offset p)\<rparr>\<rparr>,
      \<lparr>fld_name = ''data'', fld_type = STRING, fld_id = 3,
       fld_toks = Some [TBinary (bytes_of (WriteArgs_Data p))],
       fld_set = \<lambda>q. q\<lparr>WriteArgs_Data := Some (bytes_of (WriteArgs_Data
           p))\<rparr>\<rparr>]"

definition BFSS_APIDWriteArgs_enc :: "BFSS_APIDWriteArgs \<Rightarrow> tok list" where
  "BFSS_APIDWriteArgs_enc p = enc_struct ''Write_args'' (map enc_fld (BFSS_APIDWriteArgs_fields p))"

definition BFSS_APIDWriteArgs_wf :: "BFSS_APIDWriteArgs \<Rightarrow> bool" where
  "BFSS_APIDWriteArgs_wf p \<longleftrightarrow> i32 (WriteArgs_Offset p) = WriteArgs_Offset p"

definition BFSS_APIDWriteArgs_norm :: "BFSS_APIDWriteArgs \<Rightarrow> BFSS_APIDWriteArgs" where
  "BFSS_APIDWriteArgs_norm p = p\<lparr>WriteArgs_Data := Some (bytes_of (WriteArgs_Data
      p))\<rparr>"

lemma BFSS_APIDWriteArgs_writes:
  assumes "protocol_laws L w" and "BFSS_APIDWriteArgs_wf a"
  shows "writes w (BFSS_APIDWriteArgs_Write L (Some a)) (BFSS_APIDWriteArgs_enc a)"
  unfolding BFSS_APIDWriteArgs_Write_def BFSS_APIDWriteArgs_enc_def
  by (rule writes_struct [OF assms(1)], use assms in \<open>auto simp:
      BFSS_APIDWriteArgs_steps_def BFSS_APIDWriteArgs_fields_def
    BFSS_APIDWriteArgs_wf_def Let_def intro!: writes_intros\<close>)

lemma BFSS_APIDWriteArgs_fields_ok:
  assumes "protocol_laws L w" and "BFSS_APIDWriteArgs_wf a"
  shows "\<forall>f \<in> set (BFSS_APIDWriteArgs_fields a). fld_ok w (BFSS_APIDWriteArgs_rows L) f"
  using assms by (auto simp: BFSS_APIDWriteArgs_fields_def BFSS_APIDWriteArgs_rows_def
      BFSS_APIDWriteArgs_wf_def fld_ok_def
      intro!: reads_intros split: option.splits)

lemma BFSS_APIDWriteArgs_fields_set: "foldl set_fld new_BFSS_APIDWriteArgs
    (BFSS_APIDWriteArgs_fields a) = BFSS_APIDWriteArgs_norm a"
  by (cases a) (auto simp: BFSS_APIDWriteArgs_fields_def set_fld_def new_BFSS_APIDWriteArgs_def
      BFSS_APIDWriteArgs_norm_def)

lemma BFSS_APIDWriteArgs_reads:
  assumes "protocol_laws L w" and "BFSS_APIDWriteArgs_wf a"
  shows "reads w (BFSS_APIDWriteArgs_Read L new_BFSS_APIDWriteArgs) (BFSS_APIDWriteArgs_enc a)
      (BFSS_APIDWriteArgs_norm a)"
  unfolding BFSS_APIDWriteArgs_Read_def BFSS_APIDWriteArgs_enc_def
  by (intro reads_fields [OF assms(1)] BFSS_APIDWriteArgs_fields_ok [OF assms]
      BFSS_APIDWriteArgs_fields_set)
    (simp add: BFSS_APIDWriteArgs_fields_def BFSS_APIDWriteArgs_rows_def present_def)

interpretation writeArgs: struct_codec BFSS_APIDWriteArgs_enc BFSS_APIDWriteArgs_wf
    BFSS_APIDWriteArgs_norm
    new_BFSS_APIDWriteArgs BFSS_APIDWriteArgs_Write BFSS_APIDWriteArgs_Read
  by unfold_locales (fact BFSS_APIDWriteArgs_writes, fact BFSS_APIDWriteArgs_reads)

section \<open>\<^verbatim>\<open>BFSS_APIDWriteResult\<close>\<close>

record BFSS_APIDWriteResult =
  WriteResult_Success :: "BFSS_RESULT option"

definition new_BFSS_APIDWriteResult :: BFSS_APIDWriteResult where
  "new_BFSS_APIDWriteResult = \<lparr>WriteResult_Success = None\<rparr>"

definition BFSS_APIDWriteResult_IsSetSuccess :: "BFSS_APIDWriteResult \<Rightarrow> bool" where
  "BFSS_APIDWriteResult_IsSetSuccess p \<longleftrightarrow> WriteResult_Success p \<noteq> None"

definition BFSS_APIDWriteResult_GetSuccess :: "BFSS_APIDWriteResult \<Rightarrow> BFSS_RESULT" where
  "BFSS_APIDWriteResult_GetSuccess p = (case WriteResult_Success p of None
      \<Rightarrow> 0 | Some v \<Rightarrow> v)"

definition BFSS_APIDWriteResult_rows :: "('p, 'e) tlib \<Rightarrow> (BFSS_APIDWriteResult, 'p,
    'e) row list" where
  "BFSS_APIDWriteResult_rows L =
     [\<lparr>row_id = 0, row_type = I32,
       row_read = read_scalar L 0 (ReadI32 L)
           (\<lambda>v p. p\<lparr>WriteResult_Success := Some v\<rparr>)\<rparr>]"

definition BFSS_APIDWriteResult_Read :: "('p, 'e) tlib \<Rightarrow> (BFSS_APIDWriteResult, 'p,
    'e) reader" where
  "BFSS_APIDWriteResult_Read L =
     read_struct L ''*BFSS_API.BFSS_APIDWriteResult'' (BFSS_APIDWriteResult_rows L)
       []"

definition BFSS_APIDWriteResult_steps :: "('p, 'e) tlib \<Rightarrow> BFSS_APIDWriteResult
    \<Rightarrow> ('p \<Rightarrow> 'e option \<times> 'p) list" where
  "BFSS_APIDWriteResult_steps L p =
     (let T = ''*BFSS_API.BFSS_APIDWriteResult'' in
      [if_set (WriteResult_Success p) (\<lambda>v. write_scalar L T ''success'' I32 0 (WriteI32 L
          (i32 v)))])"

definition BFSS_APIDWriteResult_Write :: "('p, 'e) tlib \<Rightarrow> BFSS_APIDWriteResult option
    \<Rightarrow> 'p \<Rightarrow> 'e option \<times> 'p" where
  "BFSS_APIDWriteResult_Write L = write_struct L ''*BFSS_API.BFSS_APIDWriteResult''
      ''Write_result'' (BFSS_APIDWriteResult_steps L)"

definition BFSS_APIDWriteResult_fields :: "BFSS_APIDWriteResult
    \<Rightarrow> BFSS_APIDWriteResult fld list" where
  "BFSS_APIDWriteResult_fields p =
     [\<lparr>fld_name = ''success'', fld_type = I32, fld_id = 0,
       fld_toks = map_option (\<lambda>v. [TI32 (i32 v)]) (WriteResult_Success p),
       fld_set = \<lambda>q. q\<lparr>WriteResult_Success := map_option i32 (WriteResult_Success
           p)\<rparr>\<rparr>]"

definition BFSS_APIDWriteResult_enc :: "BFSS_APIDWriteResult \<Rightarrow> tok list" where
  "BFSS_APIDWriteResult_enc p = enc_struct ''Write_result'' (map enc_fld
      (BFSS_APIDWriteResult_fields p))"

definition BFSS_APIDWriteResult_wf :: "BFSS_APIDWriteResult \<Rightarrow> bool" where
  "BFSS_APIDWriteResult_wf p \<longleftrightarrow> True"

definition BFSS_APIDWriteResult_norm :: "BFSS_APIDWriteResult
    \<Rightarrow> BFSS_APIDWriteResult" where
  "BFSS_APIDWriteResult_norm p = p\<lparr>WriteResult_Success := map_option i32
      (WriteResult_Success p)\<rparr>"

lemma BFSS_APIDWriteResult_writes:
  assumes "protocol_laws L w" and "BFSS_APIDWriteResult_wf a"
  shows "writes w (BFSS_APIDWriteResult_Write L (Some a)) (BFSS_APIDWriteResult_enc a)"
  unfolding BFSS_APIDWriteResult_Write_def BFSS_APIDWriteResult_enc_def
  by (rule writes_struct [OF assms(1)], use assms in \<open>auto simp:
      BFSS_APIDWriteResult_steps_def BFSS_APIDWriteResult_fields_def
    BFSS_APIDWriteResult_wf_def Let_def intro!: writes_intros\<close>)

lemma BFSS_APIDWriteResult_fields_ok:
  assumes "protocol_laws L w" and "BFSS_APIDWriteResult_wf a"
  shows "\<forall>f \<in> set (BFSS_APIDWriteResult_fields a). fld_ok w
      (BFSS_APIDWriteResult_rows L) f"
  using assms by (auto simp: BFSS_APIDWriteResult_fields_def BFSS_APIDWriteResult_rows_def
      BFSS_APIDWriteResult_wf_def fld_ok_def
      intro!: reads_intros split: option.splits)

lemma BFSS_APIDWriteResult_fields_set: "foldl set_fld new_BFSS_APIDWriteResult
    (BFSS_APIDWriteResult_fields a) = BFSS_APIDWriteResult_norm a"
  by (cases a) (auto simp: BFSS_APIDWriteResult_fields_def set_fld_def
      new_BFSS_APIDWriteResult_def BFSS_APIDWriteResult_norm_def)

lemma BFSS_APIDWriteResult_reads:
  assumes "protocol_laws L w" and "BFSS_APIDWriteResult_wf a"
  shows "reads w (BFSS_APIDWriteResult_Read L new_BFSS_APIDWriteResult)
      (BFSS_APIDWriteResult_enc a) (BFSS_APIDWriteResult_norm a)"
  unfolding BFSS_APIDWriteResult_Read_def BFSS_APIDWriteResult_enc_def
  by (intro reads_fields [OF assms(1)] BFSS_APIDWriteResult_fields_ok [OF assms]
      BFSS_APIDWriteResult_fields_set)
    (simp add: BFSS_APIDWriteResult_fields_def BFSS_APIDWriteResult_rows_def present_def)

interpretation writeResult: struct_codec BFSS_APIDWriteResult_enc BFSS_APIDWriteResult_wf
    BFSS_APIDWriteResult_norm
    new_BFSS_APIDWriteResult BFSS_APIDWriteResult_Write BFSS_APIDWriteResult_Read
  by unfold_locales (fact BFSS_APIDWriteResult_writes, fact BFSS_APIDWriteResult_reads)

section \<open>\<^verbatim>\<open>BFSS_APIDResizeObjectArgs\<close>\<close>

record BFSS_APIDResizeObjectArgs =
  ResizeObjectArgs_Oid :: string
  ResizeObjectArgs_Newsize :: int

definition new_BFSS_APIDResizeObjectArgs :: BFSS_APIDResizeObjectArgs where
  "new_BFSS_APIDResizeObjectArgs = \<lparr>ResizeObjectArgs_Oid = [],
      ResizeObjectArgs_Newsize = 0\<rparr>"

definition BFSS_APIDResizeObjectArgs_GetOid :: "BFSS_APIDResizeObjectArgs
    \<Rightarrow> string" where
  "BFSS_APIDResizeObjectArgs_GetOid p = ResizeObjectArgs_Oid p"

definition BFSS_APIDResizeObjectArgs_GetNewsize :: "BFSS_APIDResizeObjectArgs
    \<Rightarrow> int" where
  "BFSS_APIDResizeObjectArgs_GetNewsize p = ResizeObjectArgs_Newsize p"

definition BFSS_APIDResizeObjectArgs_rows :: "('p, 'e) tlib \<Rightarrow>
    (BFSS_APIDResizeObjectArgs, 'p, 'e) row list" where
  "BFSS_APIDResizeObjectArgs_rows L =
     [\<lparr>row_id = 1, row_type = STRING,
       row_read = read_scalar L 1 (ReadString L)
           (\<lambda>v p. p\<lparr>ResizeObjectArgs_Oid := v\<rparr>)\<rparr>,
      \<lparr>row_id = 2, row_type = I32,
       row_read = read_scalar L 2 (ReadI32 L)
           (\<lambda>v p. p\<lparr>ResizeObjectArgs_Newsize := v\<rparr>)\<rparr>]"

definition BFSS_APIDResizeObjectArgs_Read :: "('p, 'e) tlib \<Rightarrow>
    (BFSS_APIDResizeObjectArgs, 'p, 'e) reader" where
  "BFSS_APIDResizeObjectArgs_Read L =
     read_struct L ''*BFSS_API.BFSS_APIDResizeObjectArgs'' (BFSS_APIDResizeObjectArgs_rows L)
       []"

definition BFSS_APIDResizeObjectArgs_steps :: "('p, 'e) tlib
    \<Rightarrow> BFSS_APIDResizeObjectArgs \<Rightarrow> ('p
    \<Rightarrow> 'e option \<times> 'p) list" where
  "BFSS_APIDResizeObjectArgs_steps L p =
     (let T = ''*BFSS_API.BFSS_APIDResizeObjectArgs'' in
      [write_scalar L T ''oid'' STRING 1 (WriteString L (ResizeObjectArgs_Oid p)),
       write_scalar L T ''newsize'' I32 2 (WriteI32 L (ResizeObjectArgs_Newsize p))])"

definition BFSS_APIDResizeObjectArgs_Write :: "('p, 'e) tlib
    \<Rightarrow> BFSS_APIDResizeObjectArgs option \<Rightarrow> 'p
    \<Rightarrow> 'e option \<times> 'p" where
  "BFSS_APIDResizeObjectArgs_Write L = write_struct L ''*BFSS_API.BFSS_APIDResizeObjectArgs''
      ''ResizeObject_args'' (BFSS_APIDResizeObjectArgs_steps L)"

definition BFSS_APIDResizeObjectArgs_fields :: "BFSS_APIDResizeObjectArgs
    \<Rightarrow> BFSS_APIDResizeObjectArgs fld list" where
  "BFSS_APIDResizeObjectArgs_fields p =
     [\<lparr>fld_name = ''oid'', fld_type = STRING, fld_id = 1,
       fld_toks = Some [TString (ResizeObjectArgs_Oid p)],
       fld_set = \<lambda>q. q\<lparr>ResizeObjectArgs_Oid := (ResizeObjectArgs_Oid
           p)\<rparr>\<rparr>,
      \<lparr>fld_name = ''newsize'', fld_type = I32, fld_id = 2,
       fld_toks = Some [TI32 (ResizeObjectArgs_Newsize p)],
       fld_set = \<lambda>q. q\<lparr>ResizeObjectArgs_Newsize := (ResizeObjectArgs_Newsize
           p)\<rparr>\<rparr>]"

definition BFSS_APIDResizeObjectArgs_enc :: "BFSS_APIDResizeObjectArgs \<Rightarrow> tok list" where
  "BFSS_APIDResizeObjectArgs_enc p = enc_struct ''ResizeObject_args'' (map enc_fld
      (BFSS_APIDResizeObjectArgs_fields p))"

definition BFSS_APIDResizeObjectArgs_wf :: "BFSS_APIDResizeObjectArgs \<Rightarrow> bool" where
  "BFSS_APIDResizeObjectArgs_wf p \<longleftrightarrow> i32 (ResizeObjectArgs_Newsize p) =
      ResizeObjectArgs_Newsize p"

definition BFSS_APIDResizeObjectArgs_norm :: "BFSS_APIDResizeObjectArgs
    \<Rightarrow> BFSS_APIDResizeObjectArgs" where
  "BFSS_APIDResizeObjectArgs_norm p = p"

lemma BFSS_APIDResizeObjectArgs_writes:
  assumes "protocol_laws L w" and "BFSS_APIDResizeObjectArgs_wf a"
  shows "writes w (BFSS_APIDResizeObjectArgs_Write L (Some a)) (BFSS_APIDResizeObjectArgs_enc a)"
  unfolding BFSS_APIDResizeObjectArgs_Write_def BFSS_APIDResizeObjectArgs_enc_def
  by (rule writes_struct [OF assms(1)], use assms in \<open>auto simp:
      BFSS_APIDResizeObjectArgs_steps_def BFSS_APIDResizeObjectArgs_fields_def
    BFSS_APIDResizeObjectArgs_wf_def Let_def intro!: writes_intros\<close>)

lemma BFSS_APIDResizeObjectArgs_fields_ok:
  assumes "protocol_laws L w" and "BFSS_APIDResizeObjectArgs_wf a"
  shows "\<forall>f \<in> set (BFSS_APIDResizeObjectArgs_fields a). fld_ok w
      (BFSS_APIDResizeObjectArgs_rows L) f"
  using assms by (auto simp: BFSS_APIDResizeObjectArgs_fields_def
      BFSS_APIDResizeObjectArgs_rows_def BFSS_APIDResizeObjectArgs_wf_def fld_ok_def
      intro!: reads_intros split: option.splits)

lemma BFSS_APIDResizeObjectArgs_fields_set: "foldl set_fld new_BFSS_APIDResizeObjectArgs
    (BFSS_APIDResizeObjectArgs_fields a) = BFSS_APIDResizeObjectArgs_norm a"
  by (cases a) (auto simp: BFSS_APIDResizeObjectArgs_fields_def set_fld_def
      new_BFSS_APIDResizeObjectArgs_def BFSS_APIDResizeObjectArgs_norm_def)

lemma BFSS_APIDResizeObjectArgs_reads:
  assumes "protocol_laws L w" and "BFSS_APIDResizeObjectArgs_wf a"
  shows "reads w (BFSS_APIDResizeObjectArgs_Read L new_BFSS_APIDResizeObjectArgs)
      (BFSS_APIDResizeObjectArgs_enc a) (BFSS_APIDResizeObjectArgs_norm a)"
  unfolding BFSS_APIDResizeObjectArgs_Read_def BFSS_APIDResizeObjectArgs_enc_def
  by (intro reads_fields [OF assms(1)] BFSS_APIDResizeObjectArgs_fields_ok [OF assms]
      BFSS_APIDResizeObjectArgs_fields_set)
    (simp add: BFSS_APIDResizeObjectArgs_fields_def BFSS_APIDResizeObjectArgs_rows_def present_def)

interpretation resizeObjectArgs: struct_codec BFSS_APIDResizeObjectArgs_enc
    BFSS_APIDResizeObjectArgs_wf BFSS_APIDResizeObjectArgs_norm
    new_BFSS_APIDResizeObjectArgs BFSS_APIDResizeObjectArgs_Write BFSS_APIDResizeObjectArgs_Read
  by unfold_locales (fact BFSS_APIDResizeObjectArgs_writes, fact BFSS_APIDResizeObjectArgs_reads)

section \<open>\<^verbatim>\<open>BFSS_APIDResizeObjectResult\<close>\<close>

record BFSS_APIDResizeObjectResult =
  ResizeObjectResult_Success :: "BFSS_RESULT option"

definition new_BFSS_APIDResizeObjectResult :: BFSS_APIDResizeObjectResult where
  "new_BFSS_APIDResizeObjectResult = \<lparr>ResizeObjectResult_Success = None\<rparr>"

definition BFSS_APIDResizeObjectResult_IsSetSuccess :: "BFSS_APIDResizeObjectResult
    \<Rightarrow> bool" where
  "BFSS_APIDResizeObjectResult_IsSetSuccess p \<longleftrightarrow> ResizeObjectResult_Success p
      \<noteq> None"

definition BFSS_APIDResizeObjectResult_GetSuccess :: "BFSS_APIDResizeObjectResult
    \<Rightarrow> BFSS_RESULT" where
  "BFSS_APIDResizeObjectResult_GetSuccess p = (case ResizeObjectResult_Success p of None
      \<Rightarrow> 0 | Some v \<Rightarrow> v)"

definition BFSS_APIDResizeObjectResult_rows :: "('p, 'e) tlib \<Rightarrow>
    (BFSS_APIDResizeObjectResult, 'p, 'e) row list" where
  "BFSS_APIDResizeObjectResult_rows L =
     [\<lparr>row_id = 0, row_type = I32,
       row_read = read_scalar L 0 (ReadI32 L)
           (\<lambda>v p. p\<lparr>ResizeObjectResult_Success := Some v\<rparr>)\<rparr>]"

definition BFSS_APIDResizeObjectResult_Read :: "('p, 'e) tlib \<Rightarrow>
    (BFSS_APIDResizeObjectResult, 'p, 'e) reader" where
  "BFSS_APIDResizeObjectResult_Read L =
     read_struct L ''*BFSS_API.BFSS_APIDResizeObjectResult'' (BFSS_APIDResizeObjectResult_rows L)
       []"

definition BFSS_APIDResizeObjectResult_steps :: "('p, 'e) tlib
    \<Rightarrow> BFSS_APIDResizeObjectResult \<Rightarrow> ('p
    \<Rightarrow> 'e option \<times> 'p) list" where
  "BFSS_APIDResizeObjectResult_steps L p =
     (let T = ''*BFSS_API.BFSS_APIDResizeObjectResult'' in
      [if_set (ResizeObjectResult_Success p)
          (\<lambda>v. write_scalar L T ''success'' I32 0 (WriteI32 L (i32 v)))])"

definition BFSS_APIDResizeObjectResult_Write :: "('p, 'e) tlib
    \<Rightarrow> BFSS_APIDResizeObjectResult option \<Rightarrow> 'p
    \<Rightarrow> 'e option \<times> 'p" where
  "BFSS_APIDResizeObjectResult_Write L = write_struct L ''*BFSS_API.BFSS_APIDResizeObjectResult''
      ''ResizeObject_result'' (BFSS_APIDResizeObjectResult_steps L)"

definition BFSS_APIDResizeObjectResult_fields :: "BFSS_APIDResizeObjectResult
    \<Rightarrow> BFSS_APIDResizeObjectResult fld list" where
  "BFSS_APIDResizeObjectResult_fields p =
     [\<lparr>fld_name = ''success'', fld_type = I32, fld_id = 0,
       fld_toks = map_option (\<lambda>v. [TI32 (i32 v)]) (ResizeObjectResult_Success p),
       fld_set = \<lambda>q. q\<lparr>ResizeObjectResult_Success := map_option i32
           (ResizeObjectResult_Success p)\<rparr>\<rparr>]"

definition BFSS_APIDResizeObjectResult_enc :: "BFSS_APIDResizeObjectResult
    \<Rightarrow> tok list" where
  "BFSS_APIDResizeObjectResult_enc p = enc_struct ''ResizeObject_result'' (map enc_fld
      (BFSS_APIDResizeObjectResult_fields p))"

definition BFSS_APIDResizeObjectResult_wf :: "BFSS_APIDResizeObjectResult \<Rightarrow> bool" where
  "BFSS_APIDResizeObjectResult_wf p \<longleftrightarrow> True"

definition BFSS_APIDResizeObjectResult_norm :: "BFSS_APIDResizeObjectResult
    \<Rightarrow> BFSS_APIDResizeObjectResult" where
  "BFSS_APIDResizeObjectResult_norm p = p\<lparr>ResizeObjectResult_Success := map_option i32
      (ResizeObjectResult_Success p)\<rparr>"

lemma BFSS_APIDResizeObjectResult_writes:
  assumes "protocol_laws L w" and "BFSS_APIDResizeObjectResult_wf a"
  shows "writes w (BFSS_APIDResizeObjectResult_Write L (Some a))
      (BFSS_APIDResizeObjectResult_enc a)"
  unfolding BFSS_APIDResizeObjectResult_Write_def BFSS_APIDResizeObjectResult_enc_def
  by (rule writes_struct [OF assms(1)], use assms in \<open>auto simp:
      BFSS_APIDResizeObjectResult_steps_def BFSS_APIDResizeObjectResult_fields_def
    BFSS_APIDResizeObjectResult_wf_def Let_def intro!: writes_intros\<close>)

lemma BFSS_APIDResizeObjectResult_fields_ok:
  assumes "protocol_laws L w" and "BFSS_APIDResizeObjectResult_wf a"
  shows "\<forall>f \<in> set (BFSS_APIDResizeObjectResult_fields a). fld_ok w
      (BFSS_APIDResizeObjectResult_rows L) f"
  using assms by (auto simp: BFSS_APIDResizeObjectResult_fields_def
      BFSS_APIDResizeObjectResult_rows_def BFSS_APIDResizeObjectResult_wf_def fld_ok_def
      intro!: reads_intros split: option.splits)

lemma BFSS_APIDResizeObjectResult_fields_set: "foldl set_fld new_BFSS_APIDResizeObjectResult
    (BFSS_APIDResizeObjectResult_fields a) = BFSS_APIDResizeObjectResult_norm a"
  by (cases a) (auto simp: BFSS_APIDResizeObjectResult_fields_def set_fld_def
      new_BFSS_APIDResizeObjectResult_def BFSS_APIDResizeObjectResult_norm_def)

lemma BFSS_APIDResizeObjectResult_reads:
  assumes "protocol_laws L w" and "BFSS_APIDResizeObjectResult_wf a"
  shows "reads w (BFSS_APIDResizeObjectResult_Read L new_BFSS_APIDResizeObjectResult)
      (BFSS_APIDResizeObjectResult_enc a) (BFSS_APIDResizeObjectResult_norm a)"
  unfolding BFSS_APIDResizeObjectResult_Read_def BFSS_APIDResizeObjectResult_enc_def
  by (intro reads_fields [OF assms(1)] BFSS_APIDResizeObjectResult_fields_ok [OF assms]
      BFSS_APIDResizeObjectResult_fields_set)
    (simp add: BFSS_APIDResizeObjectResult_fields_def BFSS_APIDResizeObjectResult_rows_def
        present_def)

interpretation resizeObjectResult: struct_codec BFSS_APIDResizeObjectResult_enc
    BFSS_APIDResizeObjectResult_wf BFSS_APIDResizeObjectResult_norm
    new_BFSS_APIDResizeObjectResult BFSS_APIDResizeObjectResult_Write
        BFSS_APIDResizeObjectResult_Read
  by unfold_locales (fact BFSS_APIDResizeObjectResult_writes,
      fact BFSS_APIDResizeObjectResult_reads)

section \<open>\<^verbatim>\<open>BFSS_APIDCompleteObjectArgs\<close>\<close>

record BFSS_APIDCompleteObjectArgs =
  CompleteObjectArgs_Oid :: string

definition new_BFSS_APIDCompleteObjectArgs :: BFSS_APIDCompleteObjectArgs where
  "new_BFSS_APIDCompleteObjectArgs = \<lparr>CompleteObjectArgs_Oid = []\<rparr>"

definition BFSS_APIDCompleteObjectArgs_GetOid :: "BFSS_APIDCompleteObjectArgs
    \<Rightarrow> string" where
  "BFSS_APIDCompleteObjectArgs_GetOid p = CompleteObjectArgs_Oid p"

definition BFSS_APIDCompleteObjectArgs_rows :: "('p, 'e) tlib \<Rightarrow>
    (BFSS_APIDCompleteObjectArgs, 'p, 'e) row list" where
  "BFSS_APIDCompleteObjectArgs_rows L =
     [\<lparr>row_id = 1, row_type = STRING,
       row_read = read_scalar L 1 (ReadString L)
           (\<lambda>v p. p\<lparr>CompleteObjectArgs_Oid := v\<rparr>)\<rparr>]"

definition BFSS_APIDCompleteObjectArgs_Read :: "('p, 'e) tlib \<Rightarrow>
    (BFSS_APIDCompleteObjectArgs, 'p, 'e) reader" where
  "BFSS_APIDCompleteObjectArgs_Read L =
     read_struct L ''*BFSS_API.BFSS_APIDCompleteObjectArgs'' (BFSS_APIDCompleteObjectArgs_rows L)
       []"

definition BFSS_APIDCompleteObjectArgs_steps :: "('p, 'e) tlib
    \<Rightarrow> BFSS_APIDCompleteObjectArgs \<Rightarrow> ('p
    \<Rightarrow> 'e option \<times> 'p) list" where
  "BFSS_APIDCompleteObjectArgs_steps L p =
     (let T = ''*BFSS_API.BFSS_APIDCompleteObjectArgs'' in
      [write_scalar L T ''oid'' STRING 1 (WriteString L (CompleteObjectArgs_Oid p))])"

definition BFSS_APIDCompleteObjectArgs_Write :: "('p, 'e) tlib
    \<Rightarrow> BFSS_APIDCompleteObjectArgs option \<Rightarrow> 'p
    \<Rightarrow> 'e option \<times> 'p" where
  "BFSS_APIDCompleteObjectArgs_Write L = write_struct L ''*BFSS_API.BFSS_APIDCompleteObjectArgs''
      ''CompleteObject_args'' (BFSS_APIDCompleteObjectArgs_steps L)"

definition BFSS_APIDCompleteObjectArgs_fields :: "BFSS_APIDCompleteObjectArgs
    \<Rightarrow> BFSS_APIDCompleteObjectArgs fld list" where
  "BFSS_APIDCompleteObjectArgs_fields p =
     [\<lparr>fld_name = ''oid'', fld_type = STRING, fld_id = 1,
       fld_toks = Some [TString (CompleteObjectArgs_Oid p)],
       fld_set = \<lambda>q. q\<lparr>CompleteObjectArgs_Oid := (CompleteObjectArgs_Oid
           p)\<rparr>\<rparr>]"

definition BFSS_APIDCompleteObjectArgs_enc :: "BFSS_APIDCompleteObjectArgs
    \<Rightarrow> tok list" where
  "BFSS_APIDCompleteObjectArgs_enc p = enc_struct ''CompleteObject_args'' (map enc_fld
      (BFSS_APIDCompleteObjectArgs_fields p))"

definition BFSS_APIDCompleteObjectArgs_wf :: "BFSS_APIDCompleteObjectArgs \<Rightarrow> bool" where
  "BFSS_APIDCompleteObjectArgs_wf p \<longleftrightarrow> True"

definition BFSS_APIDCompleteObjectArgs_norm :: "BFSS_APIDCompleteObjectArgs
    \<Rightarrow> BFSS_APIDCompleteObjectArgs" where
  "BFSS_APIDCompleteObjectArgs_norm p = p"

lemma BFSS_APIDCompleteObjectArgs_writes:
  assumes "protocol_laws L w" and "BFSS_APIDCompleteObjectArgs_wf a"
  shows "writes w (BFSS_APIDCompleteObjectArgs_Write L (Some a))
      (BFSS_APIDCompleteObjectArgs_enc a)"
  unfolding BFSS_APIDCompleteObjectArgs_Write_def BFSS_APIDCompleteObjectArgs_enc_def
  by (rule writes_struct [OF assms(1)], use assms in \<open>auto simp:
      BFSS_APIDCompleteObjectArgs_steps_def BFSS_APIDCompleteObjectArgs_fields_def
    BFSS_APIDCompleteObjectArgs_wf_def Let_def intro!: writes_intros\<close>)

lemma BFSS_APIDCompleteObjectArgs_fields_ok:
  assumes "protocol_laws L w" and "BFSS_APIDCompleteObjectArgs_wf a"
  shows "\<forall>f \<in> set (BFSS_APIDCompleteObjectArgs_fields a). fld_ok w
      (BFSS_APIDCompleteObjectArgs_rows L) f"
  using assms by (auto simp: BFSS_APIDCompleteObjectArgs_fields_def
      BFSS_APIDCompleteObjectArgs_rows_def BFSS_APIDCompleteObjectArgs_wf_def fld_ok_def
      intro!: reads_intros split: option.splits)

lemma BFSS_APIDCompleteObjectArgs_fields_set: "foldl set_fld new_BFSS_APIDCompleteObjectArgs
    (BFSS_APIDCompleteObjectArgs_fields a) = BFSS_APIDCompleteObjectArgs_norm a"
  by (cases a) (auto simp: BFSS_APIDCompleteObjectArgs_fields_def set_fld_def
      new_BFSS_APIDCompleteObjectArgs_def BFSS_APIDCompleteObjectArgs_norm_def)

lemma BFSS_APIDCompleteObjectArgs_reads:
  assumes "protocol_laws L w" and "BFSS_APIDCompleteObjectArgs_wf a"
  shows "reads w (BFSS_APIDCompleteObjectArgs_Read L new_BFSS_APIDCompleteObjectArgs)
      (BFSS_APIDCompleteObjectArgs_enc a) (BFSS_APIDCompleteObjectArgs_norm a)"
  unfolding BFSS_APIDCompleteObjectArgs_Read_def BFSS_APIDCompleteObjectArgs_enc_def
  by (intro reads_fields [OF assms(1)] BFSS_APIDCompleteObjectArgs_fields_ok [OF assms]
      BFSS_APIDCompleteObjectArgs_fields_set)
    (simp add: BFSS_APIDCompleteObjectArgs_fields_def BFSS_APIDCompleteObjectArgs_rows_def
        present_def)

interpretation completeObjectArgs: struct_codec BFSS_APIDCompleteObjectArgs_enc
    BFSS_APIDCompleteObjectArgs_wf BFSS_APIDCompleteObjectArgs_norm
    new_BFSS_APIDCompleteObjectArgs BFSS_APIDCompleteObjectArgs_Write
        BFSS_APIDCompleteObjectArgs_Read
  by unfold_locales (fact BFSS_APIDCompleteObjectArgs_writes,
      fact BFSS_APIDCompleteObjectArgs_reads)

section \<open>\<^verbatim>\<open>BFSS_APIDCompleteObjectResult\<close>\<close>

record BFSS_APIDCompleteObjectResult =
  CompleteObjectResult_Success :: "BFSS_RESULT option"

definition new_BFSS_APIDCompleteObjectResult :: BFSS_APIDCompleteObjectResult where
  "new_BFSS_APIDCompleteObjectResult = \<lparr>CompleteObjectResult_Success = None\<rparr>"

definition BFSS_APIDCompleteObjectResult_IsSetSuccess :: "BFSS_APIDCompleteObjectResult
    \<Rightarrow> bool" where
  "BFSS_APIDCompleteObjectResult_IsSetSuccess p \<longleftrightarrow>
      CompleteObjectResult_Success p \<noteq> None"

definition BFSS_APIDCompleteObjectResult_GetSuccess :: "BFSS_APIDCompleteObjectResult
    \<Rightarrow> BFSS_RESULT" where
  "BFSS_APIDCompleteObjectResult_GetSuccess p = (case CompleteObjectResult_Success p of None
      \<Rightarrow> 0 | Some v \<Rightarrow> v)"

definition BFSS_APIDCompleteObjectResult_rows :: "('p, 'e) tlib \<Rightarrow>
    (BFSS_APIDCompleteObjectResult, 'p, 'e) row list" where
  "BFSS_APIDCompleteObjectResult_rows L =
     [\<lparr>row_id = 0, row_type = I32,
       row_read = read_scalar L 0 (ReadI32 L)
           (\<lambda>v p. p\<lparr>CompleteObjectResult_Success := Some v\<rparr>)\<rparr>]"

definition BFSS_APIDCompleteObjectResult_Read :: "('p, 'e) tlib \<Rightarrow>
    (BFSS_APIDCompleteObjectResult, 'p, 'e) reader" where
  "BFSS_APIDCompleteObjectResult_Read L =
     read_struct L ''*BFSS_API.BFSS_APIDCompleteObjectResult''
         (BFSS_APIDCompleteObjectResult_rows L)
       []"

definition BFSS_APIDCompleteObjectResult_steps :: "('p, 'e) tlib
    \<Rightarrow> BFSS_APIDCompleteObjectResult \<Rightarrow> ('p
    \<Rightarrow> 'e option \<times> 'p) list" where
  "BFSS_APIDCompleteObjectResult_steps L p =
     (let T = ''*BFSS_API.BFSS_APIDCompleteObjectResult'' in
      [if_set (CompleteObjectResult_Success p)
          (\<lambda>v. write_scalar L T ''success'' I32 0 (WriteI32 L (i32 v)))])"

definition BFSS_APIDCompleteObjectResult_Write :: "('p, 'e) tlib
    \<Rightarrow> BFSS_APIDCompleteObjectResult option \<Rightarrow> 'p
    \<Rightarrow> 'e option \<times> 'p" where
  "BFSS_APIDCompleteObjectResult_Write L = write_struct L
      ''*BFSS_API.BFSS_APIDCompleteObjectResult'' ''CompleteObject_result''
      (BFSS_APIDCompleteObjectResult_steps L)"

definition BFSS_APIDCompleteObjectResult_fields :: "BFSS_APIDCompleteObjectResult
    \<Rightarrow> BFSS_APIDCompleteObjectResult fld list" where
  "BFSS_APIDCompleteObjectResult_fields p =
     [\<lparr>fld_name = ''success'', fld_type = I32, fld_id = 0,
       fld_toks = map_option (\<lambda>v. [TI32 (i32 v)]) (CompleteObjectResult_Success p),
       fld_set = \<lambda>q. q\<lparr>CompleteObjectResult_Success := map_option i32
           (CompleteObjectResult_Success p)\<rparr>\<rparr>]"

definition BFSS_APIDCompleteObjectResult_enc :: "BFSS_APIDCompleteObjectResult
    \<Rightarrow> tok list" where
  "BFSS_APIDCompleteObjectResult_enc p = enc_struct ''CompleteObject_result'' (map enc_fld
      (BFSS_APIDCompleteObjectResult_fields p))"

definition BFSS_APIDCompleteObjectResult_wf :: "BFSS_APIDCompleteObjectResult
    \<Rightarrow> bool" where
  "BFSS_APIDCompleteObjectResult_wf p \<longleftrightarrow> True"

definition BFSS_APIDCompleteObjectResult_norm :: "BFSS_APIDCompleteObjectResult
    \<Rightarrow> BFSS_APIDCompleteObjectResult" where
  "BFSS_APIDCompleteObjectResult_norm p = p\<lparr>CompleteObjectResult_Success := map_option i32
      (CompleteObjectResult_Success p)\<rparr>"

lemma BFSS_APIDCompleteObjectResult_writes:
  assumes "protocol_laws L w" and "BFSS_APIDCompleteObjectResult_wf a"
  shows "writes w (BFSS_APIDCompleteObjectResult_Write L (Some a))
      (BFSS_APIDCompleteObjectResult_enc a)"
  unfolding BFSS_APIDCompleteObjectResult_Write_def BFSS_APIDCompleteObjectResult_enc_def
  by (rule writes_struct [OF assms(1)], use assms in \<open>auto simp:
      BFSS_APIDCompleteObjectResult_steps_def BFSS_APIDCompleteObjectResult_fields_def
    BFSS_APIDCompleteObjectResult_wf_def Let_def intro!: writes_intros\<close>)

lemma BFSS_APIDCompleteObjectResult_fields_ok:
  assumes "protocol_laws L w" and "BFSS_APIDCompleteObjectResult_wf a"
  shows "\<forall>f \<in> set (BFSS_APIDCompleteObjectResult_fields a). fld_ok w
      (BFSS_APIDCompleteObjectResult_rows L) f"
  using assms by (auto simp: BFSS_APIDCompleteObjectResult_fields_def
      BFSS_APIDCompleteObjectResult_rows_def BFSS_APIDCompleteObjectResult_wf_def fld_ok_def
      intro!: reads_intros split: option.splits)

lemma BFSS_APIDCompleteObjectResult_fields_set: "foldl set_fld new_BFSS_APIDCompleteObjectResult
    (BFSS_APIDCompleteObjectResult_fields a) = BFSS_APIDCompleteObjectResult_norm a"
  by (cases a) (auto simp: BFSS_APIDCompleteObjectResult_fields_def set_fld_def
      new_BFSS_APIDCompleteObjectResult_def BFSS_APIDCompleteObjectResult_norm_def)

lemma BFSS_APIDCompleteObjectResult_reads:
  assumes "protocol_laws L w" and "BFSS_APIDCompleteObjectResult_wf a"
  shows "reads w (BFSS_APIDCompleteObjectResult_Read L new_BFSS_APIDCompleteObjectResult)
      (BFSS_APIDCompleteObjectResult_enc a) (BFSS_APIDCompleteObjectResult_norm a)"
  unfolding BFSS_APIDCompleteObjectResult_Read_def BFSS_APIDCompleteObjectResult_enc_def
  by (intro reads_fields [OF assms(1)] BFSS_APIDCompleteObjectResult_fields_ok [OF assms]
      BFSS_APIDCompleteObjectResult_fields_set)
    (simp add: BFSS_APIDCompleteObjectResult_fields_def BFSS_APIDCompleteObjectResult_rows_def
        present_def)

interpretation completeObjectResult: struct_codec BFSS_APIDCompleteObjectResult_enc
    BFSS_APIDCompleteObjectResult_wf BFSS_APIDCompleteObjectResult_norm
    new_BFSS_APIDCompleteObjectResult BFSS_APIDCompleteObjectResult_Write
        BFSS_APIDCompleteObjectResult_Read
  by unfold_locales (fact BFSS_APIDCompleteObjectResult_writes,
      fact BFSS_APIDCompleteObjectResult_reads)

section \<open>\<^verbatim>\<open>BFSS_APIDGetObjectInfoArgs\<close>\<close>

record BFSS_APIDGetObjectInfoArgs =
  GetObjectInfoArgs_Oid :: string

definition new_BFSS_APIDGetObjectInfoArgs :: BFSS_APIDGetObjectInfoArgs where
  "new_BFSS_APIDGetObjectInfoArgs = \<lparr>GetObjectInfoArgs_Oid = []\<rparr>"

definition BFSS_APIDGetObjectInfoArgs_GetOid :: "BFSS_APIDGetObjectInfoArgs
    \<Rightarrow> string" where
  "BFSS_APIDGetObjectInfoArgs_GetOid p = GetObjectInfoArgs_Oid p"

definition BFSS_APIDGetObjectInfoArgs_rows :: "('p, 'e) tlib \<Rightarrow>
    (BFSS_APIDGetObjectInfoArgs, 'p, 'e) row list" where
  "BFSS_APIDGetObjectInfoArgs_rows L =
     [\<lparr>row_id = 1, row_type = STRING,
       row_read = read_scalar L 1 (ReadString L)
           (\<lambda>v p. p\<lparr>GetObjectInfoArgs_Oid := v\<rparr>)\<rparr>]"

definition BFSS_APIDGetObjectInfoArgs_Read :: "('p, 'e) tlib \<Rightarrow>
    (BFSS_APIDGetObjectInfoArgs, 'p, 'e) reader" where
  "BFSS_APIDGetObjectInfoArgs_Read L =
     read_struct L ''*BFSS_API.BFSS_APIDGetObjectInfoArgs'' (BFSS_APIDGetObjectInfoArgs_rows L)
       []"

definition BFSS_APIDGetObjectInfoArgs_steps :: "('p, 'e) tlib
    \<Rightarrow> BFSS_APIDGetObjectInfoArgs \<Rightarrow> ('p
    \<Rightarrow> 'e option \<times> 'p) list" where
  "BFSS_APIDGetObjectInfoArgs_steps L p =
     (let T = ''*BFSS_API.BFSS_APIDGetObjectInfoArgs'' in
      [write_scalar L T ''oid'' STRING 1 (WriteString L (GetObjectInfoArgs_Oid p))])"

definition BFSS_APIDGetObjectInfoArgs_Write :: "('p, 'e) tlib
    \<Rightarrow> BFSS_APIDGetObjectInfoArgs option \<Rightarrow> 'p
    \<Rightarrow> 'e option \<times> 'p" where
  "BFSS_APIDGetObjectInfoArgs_Write L = write_struct L ''*BFSS_API.BFSS_APIDGetObjectInfoArgs''
      ''GetObjectInfo_args'' (BFSS_APIDGetObjectInfoArgs_steps L)"

definition BFSS_APIDGetObjectInfoArgs_fields :: "BFSS_APIDGetObjectInfoArgs
    \<Rightarrow> BFSS_APIDGetObjectInfoArgs fld list" where
  "BFSS_APIDGetObjectInfoArgs_fields p =
     [\<lparr>fld_name = ''oid'', fld_type = STRING, fld_id = 1,
       fld_toks = Some [TString (GetObjectInfoArgs_Oid p)],
       fld_set = \<lambda>q. q\<lparr>GetObjectInfoArgs_Oid := (GetObjectInfoArgs_Oid
           p)\<rparr>\<rparr>]"

definition BFSS_APIDGetObjectInfoArgs_enc :: "BFSS_APIDGetObjectInfoArgs
    \<Rightarrow> tok list" where
  "BFSS_APIDGetObjectInfoArgs_enc p = enc_struct ''GetObjectInfo_args'' (map enc_fld
      (BFSS_APIDGetObjectInfoArgs_fields p))"

definition BFSS_APIDGetObjectInfoArgs_wf :: "BFSS_APIDGetObjectInfoArgs \<Rightarrow> bool" where
  "BFSS_APIDGetObjectInfoArgs_wf p \<longleftrightarrow> True"

definition BFSS_APIDGetObjectInfoArgs_norm :: "BFSS_APIDGetObjectInfoArgs
    \<Rightarrow> BFSS_APIDGetObjectInfoArgs" where
  "BFSS_APIDGetObjectInfoArgs_norm p = p"

lemma BFSS_APIDGetObjectInfoArgs_writes:
  assumes "protocol_laws L w" and "BFSS_APIDGetObjectInfoArgs_wf a"
  shows "writes w (BFSS_APIDGetObjectInfoArgs_Write L (Some a)) (BFSS_APIDGetObjectInfoArgs_enc a)"
  unfolding BFSS_APIDGetObjectInfoArgs_Write_def BFSS_APIDGetObjectInfoArgs_enc_def
  by (rule writes_struct [OF assms(1)], use assms in \<open>auto simp:
      BFSS_APIDGetObjectInfoArgs_steps_def BFSS_APIDGetObjectInfoArgs_fields_def
    BFSS_APIDGetObjectInfoArgs_wf_def Let_def intro!: writes_intros\<close>)

lemma BFSS_APIDGetObjectInfoArgs_fields_ok:
  assumes "protocol_laws L w" and "BFSS_APIDGetObjectInfoArgs_wf a"
  shows "\<forall>f \<in> set (BFSS_APIDGetObjectInfoArgs_fields a). fld_ok w
      (BFSS_APIDGetObjectInfoArgs_rows L) f"
  using assms by (auto simp: BFSS_APIDGetObjectInfoArgs_fields_def
      BFSS_APIDGetObjectInfoArgs_rows_def BFSS_APIDGetObjectInfoArgs_wf_def fld_ok_def
      intro!: reads_intros split: option.splits)

lemma BFSS_APIDGetObjectInfoArgs_fields_set: "foldl set_fld new_BFSS_APIDGetObjectInfoArgs
    (BFSS_APIDGetObjectInfoArgs_fields a) = BFSS_APIDGetObjectInfoArgs_norm a"
  by (cases a) (auto simp: BFSS_APIDGetObjectInfoArgs_fields_def set_fld_def
      new_BFSS_APIDGetObjectInfoArgs_def BFSS_APIDGetObjectInfoArgs_norm_def)

lemma BFSS_APIDGetObjectInfoArgs_reads:
  assumes "protocol_laws L w" and "BFSS_APIDGetObjectInfoArgs_wf a"
  shows "reads w (BFSS_APIDGetObjectInfoArgs_Read L new_BFSS_APIDGetObjectInfoArgs)
      (BFSS_APIDGetObjectInfoArgs_enc a) (BFSS_APIDGetObjectInfoArgs_norm a)"
  unfolding BFSS_APIDGetObjectInfoArgs_Read_def BFSS_APIDGetObjectInfoArgs_enc_def
  by (intro reads_fields [OF assms(1)] BFSS_APIDGetObjectInfoArgs_fields_ok [OF assms]
      BFSS_APIDGetObjectInfoArgs_fields_set)
    (simp add: BFSS_APIDGetObjectInfoArgs_fields_def BFSS_APIDGetObjectInfoArgs_rows_def
        present_def)

interpretation getObjectInfoArgs: struct_codec BFSS_APIDGetObjectInfoArgs_enc
    BFSS_APIDGetObjectInfoArgs_wf BFSS_APIDGetObjectInfoArgs_norm
    new_BFSS_APIDGetObjectInfoArgs BFSS_APIDGetObjectInfoArgs_Write BFSS_APIDGetObjectInfoArgs_Read
  by unfold_locales (fact BFSS_APIDGetObjectInfoArgs_writes, fact BFSS_APIDGetObjectInfoArgs_reads)

section \<open>\<^verbatim>\<open>BFSS_APIDGetObjectInfoResult\<close>\<close>

record BFSS_APIDGetObjectInfoResult =
  GetObjectInfoResult_Success :: "OBJECT_INFO_RESULT option"

definition new_BFSS_APIDGetObjectInfoResult :: BFSS_APIDGetObjectInfoResult where
  "new_BFSS_APIDGetObjectInfoResult = \<lparr>GetObjectInfoResult_Success = None\<rparr>"

definition BFSS_APIDGetObjectInfoResult_IsSetSuccess :: "BFSS_APIDGetObjectInfoResult
    \<Rightarrow> bool" where
  "BFSS_APIDGetObjectInfoResult_IsSetSuccess p \<longleftrightarrow> GetObjectInfoResult_Success
      p \<noteq> None"

definition BFSS_APIDGetObjectInfoResult_GetSuccess :: "BFSS_APIDGetObjectInfoResult
    \<Rightarrow> OBJECT_INFO_RESULT option" where
  "BFSS_APIDGetObjectInfoResult_GetSuccess p = (if \<not>
      BFSS_APIDGetObjectInfoResult_IsSetSuccess p then None else GetObjectInfoResult_Success p)"

definition BFSS_APIDGetObjectInfoResult_rows :: "('p, 'e) tlib \<Rightarrow>
    (BFSS_APIDGetObjectInfoResult, 'p, 'e) row list" where
  "BFSS_APIDGetObjectInfoResult_rows L =
     [\<lparr>row_id = 0, row_type = STRUCT,
       row_read = read_nested L ''*BFSS_API.OBJECT_INFO_RESULT'' (OBJECT_INFO_RESULT_Read L
           new_OBJECT_INFO_RESULT) (\<lambda>v p. p\<lparr>GetObjectInfoResult_Success := Some
           v\<rparr>)\<rparr>]"

definition BFSS_APIDGetObjectInfoResult_Read :: "('p, 'e) tlib \<Rightarrow>
    (BFSS_APIDGetObjectInfoResult, 'p, 'e) reader" where
  "BFSS_APIDGetObjectInfoResult_Read L =
     read_struct L ''*BFSS_API.BFSS_APIDGetObjectInfoResult'' (BFSS_APIDGetObjectInfoResult_rows L)
       []"

definition BFSS_APIDGetObjectInfoResult_steps :: "('p, 'e) tlib
    \<Rightarrow> BFSS_APIDGetObjectInfoResult \<Rightarrow> ('p
    \<Rightarrow> 'e option \<times> 'p) list" where
  "BFSS_APIDGetObjectInfoResult_steps L p =
     (let T = ''*BFSS_API.BFSS_APIDGetObjectInfoResult'' in
      [if_set (GetObjectInfoResult_Success p)
          (\<lambda>x. write_nested L T ''success'' 0 ''*BFSS_API.OBJECT_INFO_RESULT''
          (OBJECT_INFO_RESULT_Write L (Some x)))])"

definition BFSS_APIDGetObjectInfoResult_Write :: "('p, 'e) tlib
    \<Rightarrow> BFSS_APIDGetObjectInfoResult option \<Rightarrow> 'p
    \<Rightarrow> 'e option \<times> 'p" where
  "BFSS_APIDGetObjectInfoResult_Write L = write_struct L
      ''*BFSS_API.BFSS_APIDGetObjectInfoResult'' ''GetObjectInfo_result''
      (BFSS_APIDGetObjectInfoResult_steps L)"

definition BFSS_APIDGetObjectInfoResult_fields :: "BFSS_APIDGetObjectInfoResult
    \<Rightarrow> BFSS_APIDGetObjectInfoResult fld list" where
  "BFSS_APIDGetObjectInfoResult_fields p =
     [\<lparr>fld_name = ''success'', fld_type = STRUCT, fld_id = 0,
       fld_toks = map_option OBJECT_INFO_RESULT_enc (GetObjectInfoResult_Success p),
       fld_set = \<lambda>q. q\<lparr>GetObjectInfoResult_Success := map_option
           OBJECT_INFO_RESULT_norm (GetObjectInfoResult_Success p)\<rparr>\<rparr>]"

definition BFSS_APIDGetObjectInfoResult_enc :: "BFSS_APIDGetObjectInfoResult
    \<Rightarrow> tok list" where
  "BFSS_APIDGetObjectInfoResult_enc p = enc_struct ''GetObjectInfo_result'' (map enc_fld
      (BFSS_APIDGetObjectInfoResult_fields p))"

definition BFSS_APIDGetObjectInfoResult_wf :: "BFSS_APIDGetObjectInfoResult
    \<Rightarrow> bool" where
  "BFSS_APIDGetObjectInfoResult_wf p \<longleftrightarrow> pred_option OBJECT_INFO_RESULT_wf
      (GetObjectInfoResult_Success p)"

definition BFSS_APIDGetObjectInfoResult_norm :: "BFSS_APIDGetObjectInfoResult
    \<Rightarrow> BFSS_APIDGetObjectInfoResult" where
  "BFSS_APIDGetObjectInfoResult_norm p = p\<lparr>GetObjectInfoResult_Success := map_option
      OBJECT_INFO_RESULT_norm (GetObjectInfoResult_Success p)\<rparr>"

lemma BFSS_APIDGetObjectInfoResult_writes:
  assumes "protocol_laws L w" and "BFSS_APIDGetObjectInfoResult_wf a"
  shows "writes w (BFSS_APIDGetObjectInfoResult_Write L (Some a))
      (BFSS_APIDGetObjectInfoResult_enc a)"
  unfolding BFSS_APIDGetObjectInfoResult_Write_def BFSS_APIDGetObjectInfoResult_enc_def
  by (rule writes_struct [OF assms(1)], use assms in \<open>auto simp:
      BFSS_APIDGetObjectInfoResult_steps_def BFSS_APIDGetObjectInfoResult_fields_def
    BFSS_APIDGetObjectInfoResult_wf_def Let_def intro!: writes_intros
        OBJECT_INFO_RESULT_writes\<close>)

lemma BFSS_APIDGetObjectInfoResult_fields_ok:
  assumes "protocol_laws L w" and "BFSS_APIDGetObjectInfoResult_wf a"
  shows "\<forall>f \<in> set (BFSS_APIDGetObjectInfoResult_fields a). fld_ok w
      (BFSS_APIDGetObjectInfoResult_rows L) f"
  using assms by (auto simp: BFSS_APIDGetObjectInfoResult_fields_def
      BFSS_APIDGetObjectInfoResult_rows_def BFSS_APIDGetObjectInfoResult_wf_def fld_ok_def
      intro!: reads_intros OBJECT_INFO_RESULT_reads split: option.splits)

lemma BFSS_APIDGetObjectInfoResult_fields_set: "foldl set_fld new_BFSS_APIDGetObjectInfoResult
    (BFSS_APIDGetObjectInfoResult_fields a) = BFSS_APIDGetObjectInfoResult_norm a"
  by (cases a) (auto simp: BFSS_APIDGetObjectInfoResult_fields_def set_fld_def
      new_BFSS_APIDGetObjectInfoResult_def BFSS_APIDGetObjectInfoResult_norm_def)

lemma BFSS_APIDGetObjectInfoResult_reads:
  assumes "protocol_laws L w" and "BFSS_APIDGetObjectInfoResult_wf a"
  shows "reads w (BFSS_APIDGetObjectInfoResult_Read L new_BFSS_APIDGetObjectInfoResult)
      (BFSS_APIDGetObjectInfoResult_enc a) (BFSS_APIDGetObjectInfoResult_norm a)"
  unfolding BFSS_APIDGetObjectInfoResult_Read_def BFSS_APIDGetObjectInfoResult_enc_def
  by (intro reads_fields [OF assms(1)] BFSS_APIDGetObjectInfoResult_fields_ok [OF assms]
      BFSS_APIDGetObjectInfoResult_fields_set)
    (simp add: BFSS_APIDGetObjectInfoResult_fields_def BFSS_APIDGetObjectInfoResult_rows_def
        present_def)

interpretation getObjectInfoResult: struct_codec BFSS_APIDGetObjectInfoResult_enc
    BFSS_APIDGetObjectInfoResult_wf BFSS_APIDGetObjectInfoResult_norm
    new_BFSS_APIDGetObjectInfoResult BFSS_APIDGetObjectInfoResult_Write
        BFSS_APIDGetObjectInfoResult_Read
  by unfold_locales (fact BFSS_APIDGetObjectInfoResult_writes,
      fact BFSS_APIDGetObjectInfoResult_reads)

section \<open>\<^verbatim>\<open>BFSS_APIDObjectLockHasHashArgs\<close>\<close>

record BFSS_APIDObjectLockHasHashArgs =
  ObjectLockHasHashArgs_Hash :: string
  ObjectLockHasHashArgs_Size :: int
  ObjectLockHasHashArgs_Head :: bytes

definition new_BFSS_APIDObjectLockHasHashArgs :: BFSS_APIDObjectLockHasHashArgs where
  "new_BFSS_APIDObjectLockHasHashArgs = \<lparr>ObjectLockHasHashArgs_Hash = [],
      ObjectLockHasHashArgs_Size = 0, ObjectLockHasHashArgs_Head = None\<rparr>"

definition BFSS_APIDObjectLockHasHashArgs_GetHash :: "BFSS_APIDObjectLockHasHashArgs
    \<Rightarrow> string" where
  "BFSS_APIDObjectLockHasHashArgs_GetHash p = ObjectLockHasHashArgs_Hash p"

definition BFSS_APIDObjectLockHasHashArgs_GetSize :: "BFSS_APIDObjectLockHasHashArgs
    \<Rightarrow> int" where
  "BFSS_APIDObjectLockHasHashArgs_GetSize p = ObjectLockHasHashArgs_Size p"

definition BFSS_APIDObjectLockHasHashArgs_GetHead :: "BFSS_APIDObjectLockHasHashArgs
    \<Rightarrow> bytes" where
  "BFSS_APIDObjectLockHasHashArgs_GetHead p = ObjectLockHasHashArgs_Head p"

definition BFSS_APIDObjectLockHasHashArgs_rows :: "('p, 'e) tlib \<Rightarrow>
    (BFSS_APIDObjectLockHasHashArgs, 'p, 'e) row list" where
  "BFSS_APIDObjectLockHasHashArgs_rows L =
     [\<lparr>row_id = 1, row_type = STRING,
       row_read = read_scalar L 1 (ReadString L)
           (\<lambda>v p. p\<lparr>ObjectLockHasHashArgs_Hash := v\<rparr>)\<rparr>,
      \<lparr>row_id = 2, row_type = I32,
       row_read = read_scalar L 2 (ReadI32 L)
           (\<lambda>v p. p\<lparr>ObjectLockHasHashArgs_Size := v\<rparr>)\<rparr>,
      \<lparr>row_id = 3, row_type = STRING,
       row_read = read_scalar L 3 (ReadBinary L)
           (\<lambda>v p. p\<lparr>ObjectLockHasHashArgs_Head := v\<rparr>)\<rparr>]"

definition BFSS_APIDObjectLockHasHashArgs_Read :: "('p, 'e) tlib \<Rightarrow>
    (BFSS_APIDObjectLockHasHashArgs, 'p, 'e) reader" where
  "BFSS_APIDObjectLockHasHashArgs_Read L =
     read_struct L ''*BFSS_API.BFSS_APIDObjectLockHasHashArgs''
         (BFSS_APIDObjectLockHasHashArgs_rows L)
       []"

definition BFSS_APIDObjectLockHasHashArgs_steps :: "('p, 'e) tlib
    \<Rightarrow> BFSS_APIDObjectLockHasHashArgs \<Rightarrow> ('p
    \<Rightarrow> 'e option \<times> 'p) list" where
  "BFSS_APIDObjectLockHasHashArgs_steps L p =
     (let T = ''*BFSS_API.BFSS_APIDObjectLockHasHashArgs'' in
      [write_scalar L T ''hash'' STRING 1 (WriteString L (ObjectLockHasHashArgs_Hash p)),
       write_scalar L T ''size'' I32 2 (WriteI32 L (ObjectLockHasHashArgs_Size p)),
       write_scalar L T ''head'' STRING 3 (WriteBinary L (ObjectLockHasHashArgs_Head p))])"

definition BFSS_APIDObjectLockHasHashArgs_Write :: "('p, 'e) tlib
    \<Rightarrow> BFSS_APIDObjectLockHasHashArgs option \<Rightarrow> 'p
    \<Rightarrow> 'e option \<times> 'p" where
  "BFSS_APIDObjectLockHasHashArgs_Write L = write_struct L
      ''*BFSS_API.BFSS_APIDObjectLockHasHashArgs'' ''ObjectLockHasHash_args''
      (BFSS_APIDObjectLockHasHashArgs_steps L)"

definition BFSS_APIDObjectLockHasHashArgs_fields :: "BFSS_APIDObjectLockHasHashArgs
    \<Rightarrow> BFSS_APIDObjectLockHasHashArgs fld list" where
  "BFSS_APIDObjectLockHasHashArgs_fields p =
     [\<lparr>fld_name = ''hash'', fld_type = STRING, fld_id = 1,
       fld_toks = Some [TString (ObjectLockHasHashArgs_Hash p)],
       fld_set = \<lambda>q. q\<lparr>ObjectLockHasHashArgs_Hash := (ObjectLockHasHashArgs_Hash
           p)\<rparr>\<rparr>,
      \<lparr>fld_name = ''size'', fld_type = I32, fld_id = 2,
       fld_toks = Some [TI32 (ObjectLockHasHashArgs_Size p)],
       fld_set = \<lambda>q. q\<lparr>ObjectLockHasHashArgs_Size := (ObjectLockHasHashArgs_Size
           p)\<rparr>\<rparr>,
      \<lparr>fld_name = ''head'', fld_type = STRING, fld_id = 3,
       fld_toks = Some [TBinary (bytes_of (ObjectLockHasHashArgs_Head p))],
       fld_set = \<lambda>q. q\<lparr>ObjectLockHasHashArgs_Head := Some (bytes_of
           (ObjectLockHasHashArgs_Head p))\<rparr>\<rparr>]"

definition BFSS_APIDObjectLockHasHashArgs_enc :: "BFSS_APIDObjectLockHasHashArgs
    \<Rightarrow> tok list" where
  "BFSS_APIDObjectLockHasHashArgs_enc p = enc_struct ''ObjectLockHasHash_args'' (map enc_fld
      (BFSS_APIDObjectLockHasHashArgs_fields p))"

definition BFSS_APIDObjectLockHasHashArgs_wf :: "BFSS_APIDObjectLockHasHashArgs
    \<Rightarrow> bool" where
  "BFSS_APIDObjectLockHasHashArgs_wf p \<longleftrightarrow> i32 (ObjectLockHasHashArgs_Size p) =
      ObjectLockHasHashArgs_Size p"

definition BFSS_APIDObjectLockHasHashArgs_norm :: "BFSS_APIDObjectLockHasHashArgs
    \<Rightarrow> BFSS_APIDObjectLockHasHashArgs" where
  "BFSS_APIDObjectLockHasHashArgs_norm p = p\<lparr>ObjectLockHasHashArgs_Head := Some (bytes_of
      (ObjectLockHasHashArgs_Head p))\<rparr>"

lemma BFSS_APIDObjectLockHasHashArgs_writes:
  assumes "protocol_laws L w" and "BFSS_APIDObjectLockHasHashArgs_wf a"
  shows "writes w (BFSS_APIDObjectLockHasHashArgs_Write L (Some a))
      (BFSS_APIDObjectLockHasHashArgs_enc a)"
  unfolding BFSS_APIDObjectLockHasHashArgs_Write_def BFSS_APIDObjectLockHasHashArgs_enc_def
  by (rule writes_struct [OF assms(1)], use assms in \<open>auto simp:
      BFSS_APIDObjectLockHasHashArgs_steps_def BFSS_APIDObjectLockHasHashArgs_fields_def
    BFSS_APIDObjectLockHasHashArgs_wf_def Let_def intro!: writes_intros\<close>)

lemma BFSS_APIDObjectLockHasHashArgs_fields_ok:
  assumes "protocol_laws L w" and "BFSS_APIDObjectLockHasHashArgs_wf a"
  shows "\<forall>f \<in> set (BFSS_APIDObjectLockHasHashArgs_fields a). fld_ok w
      (BFSS_APIDObjectLockHasHashArgs_rows L) f"
  using assms by (auto simp: BFSS_APIDObjectLockHasHashArgs_fields_def
      BFSS_APIDObjectLockHasHashArgs_rows_def BFSS_APIDObjectLockHasHashArgs_wf_def fld_ok_def
      intro!: reads_intros split: option.splits)

lemma BFSS_APIDObjectLockHasHashArgs_fields_set: "foldl set_fld
    new_BFSS_APIDObjectLockHasHashArgs (BFSS_APIDObjectLockHasHashArgs_fields a) =
    BFSS_APIDObjectLockHasHashArgs_norm a"
  by (cases a) (auto simp: BFSS_APIDObjectLockHasHashArgs_fields_def set_fld_def
      new_BFSS_APIDObjectLockHasHashArgs_def BFSS_APIDObjectLockHasHashArgs_norm_def)

lemma BFSS_APIDObjectLockHasHashArgs_reads:
  assumes "protocol_laws L w" and "BFSS_APIDObjectLockHasHashArgs_wf a"
  shows "reads w (BFSS_APIDObjectLockHasHashArgs_Read L new_BFSS_APIDObjectLockHasHashArgs)
      (BFSS_APIDObjectLockHasHashArgs_enc a) (BFSS_APIDObjectLockHasHashArgs_norm a)"
  unfolding BFSS_APIDObjectLockHasHashArgs_Read_def BFSS_APIDObjectLockHasHashArgs_enc_def
  by (intro reads_fields [OF assms(1)] BFSS_APIDObjectLockHasHashArgs_fields_ok [OF assms]
      BFSS_APIDObjectLockHasHashArgs_fields_set)
    (simp add: BFSS_APIDObjectLockHasHashArgs_fields_def BFSS_APIDObjectLockHasHashArgs_rows_def
        present_def)

interpretation objectLockHasHashArgs: struct_codec BFSS_APIDObjectLockHasHashArgs_enc
    BFSS_APIDObjectLockHasHashArgs_wf BFSS_APIDObjectLockHasHashArgs_norm
    new_BFSS_APIDObjectLockHasHashArgs BFSS_APIDObjectLockHasHashArgs_Write
        BFSS_APIDObjectLockHasHashArgs_Read
  by unfold_locales (fact BFSS_APIDObjectLockHasHashArgs_writes,
      fact BFSS_APIDObjectLockHasHashArgs_reads)

section \<open>\<^verbatim>\<open>BFSS_APIDObjectLockHasHashResult\<close>\<close>

record BFSS_APIDObjectLockHasHashResult =
  ObjectLockHasHashResult_Success :: "BFSS_RESULT option"

definition new_BFSS_APIDObjectLockHasHashResult :: BFSS_APIDObjectLockHasHashResult where
  "new_BFSS_APIDObjectLockHasHashResult = \<lparr>ObjectLockHasHashResult_Success = None\<rparr>"

definition BFSS_APIDObjectLockHasHashResult_IsSetSuccess :: "BFSS_APIDObjectLockHasHashResult
    \<Rightarrow> bool" where
  "BFSS_APIDObjectLockHasHashResult_IsSetSuccess p \<longleftrightarrow>
      ObjectLockHasHashResult_Success p \<noteq> None"

definition BFSS_APIDObjectLockHasHashResult_GetSuccess :: "BFSS_APIDObjectLockHasHashResult
    \<Rightarrow> BFSS_RESULT" where
  "BFSS_APIDObjectLockHasHashResult_GetSuccess p = (case ObjectLockHasHashResult_Success p of
      None \<Rightarrow> 0 | Some v \<Rightarrow> v)"

definition BFSS_APIDObjectLockHasHashResult_rows :: "('p, 'e) tlib \<Rightarrow>
    (BFSS_APIDObjectLockHasHashResult, 'p, 'e) row list" where
  "BFSS_APIDObjectLockHasHashResult_rows L =
     [\<lparr>row_id = 0, row_type = I32,
       row_read = read_scalar L 0 (ReadI32 L)
           (\<lambda>v p. p\<lparr>ObjectLockHasHashResult_Success := Some v\<rparr>)\<rparr>]"

definition BFSS_APIDObjectLockHasHashResult_Read :: "('p, 'e) tlib \<Rightarrow>
    (BFSS_APIDObjectLockHasHashResult, 'p, 'e) reader" where
  "BFSS_APIDObjectLockHasHashResult_Read L =
     read_struct L ''*BFSS_API.BFSS_APIDObjectLockHasHashResult''
         (BFSS_APIDObjectLockHasHashResult_rows L)
       []"

definition BFSS_APIDObjectLockHasHashResult_steps :: "('p, 'e) tlib
    \<Rightarrow> BFSS_APIDObjectLockHasHashResult \<Rightarrow> ('p
    \<Rightarrow> 'e option \<times> 'p) list" where
  "BFSS_APIDObjectLockHasHashResult_steps L p =
     (let T = ''*BFSS_API.BFSS_APIDObjectLockHasHashResult'' in
      [if_set (ObjectLockHasHashResult_Success p)
          (\<lambda>v. write_scalar L T ''success'' I32 0 (WriteI32 L (i32 v)))])"

definition BFSS_APIDObjectLockHasHashResult_Write :: "('p, 'e) tlib
    \<Rightarrow> BFSS_APIDObjectLockHasHashResult option \<Rightarrow> 'p
    \<Rightarrow> 'e option \<times> 'p" where
  "BFSS_APIDObjectLockHasHashResult_Write L = write_struct L
      ''*BFSS_API.BFSS_APIDObjectLockHasHashResult'' ''ObjectLockHasHash_result''
      (BFSS_APIDObjectLockHasHashResult_steps L)"

definition BFSS_APIDObjectLockHasHashResult_fields :: "BFSS_APIDObjectLockHasHashResult
    \<Rightarrow> BFSS_APIDObjectLockHasHashResult fld list" where
  "BFSS_APIDObjectLockHasHashResult_fields p =
     [\<lparr>fld_name = ''success'', fld_type = I32, fld_id = 0,
       fld_toks = map_option (\<lambda>v. [TI32 (i32 v)]) (ObjectLockHasHashResult_Success p),
       fld_set = \<lambda>q. q\<lparr>ObjectLockHasHashResult_Success := map_option i32
           (ObjectLockHasHashResult_Success p)\<rparr>\<rparr>]"

definition BFSS_APIDObjectLockHasHashResult_enc :: "BFSS_APIDObjectLockHasHashResult
    \<Rightarrow> tok list" where
  "BFSS_APIDObjectLockHasHashResult_enc p = enc_struct ''ObjectLockHasHash_result'' (map enc_fld
      (BFSS_APIDObjectLockHasHashResult_fields p))"

definition BFSS_APIDObjectLockHasHashResult_wf :: "BFSS_APIDObjectLockHasHashResult
    \<Rightarrow> bool" where
  "BFSS_APIDObjectLockHasHashResult_wf p \<longleftrightarrow> True"

definition BFSS_APIDObjectLockHasHashResult_norm :: "BFSS_APIDObjectLockHasHashResult
    \<Rightarrow> BFSS_APIDObjectLockHasHashResult" where
  "BFSS_APIDObjectLockHasHashResult_norm p = p\<lparr>ObjectLockHasHashResult_Success :=
      map_option i32 (ObjectLockHasHashResult_Success p)\<rparr>"

lemma BFSS_APIDObjectLockHasHashResult_writes:
  assumes "protocol_laws L w" and "BFSS_APIDObjectLockHasHashResult_wf a"
  shows "writes w (BFSS_APIDObjectLockHasHashResult_Write L (Some a))
      (BFSS_APIDObjectLockHasHashResult_enc a)"
  unfolding BFSS_APIDObjectLockHasHashResult_Write_def BFSS_APIDObjectLockHasHashResult_enc_def
  by (rule writes_struct [OF assms(1)], use assms in \<open>auto simp:
      BFSS_APIDObjectLockHasHashResult_steps_def BFSS_APIDObjectLockHasHashResult_fields_def
    BFSS_APIDObjectLockHasHashResult_wf_def Let_def intro!: writes_intros\<close>)

lemma BFSS_APIDObjectLockHasHashResult_fields_ok:
  assumes "protocol_laws L w" and "BFSS_APIDObjectLockHasHashResult_wf a"
  shows "\<forall>f \<in> set (BFSS_APIDObjectLockHasHashResult_fields a). fld_ok w
      (BFSS_APIDObjectLockHasHashResult_rows L) f"
  using assms by (auto simp: BFSS_APIDObjectLockHasHashResult_fields_def
      BFSS_APIDObjectLockHasHashResult_rows_def BFSS_APIDObjectLockHasHashResult_wf_def fld_ok_def
      intro!: reads_intros split: option.splits)

lemma BFSS_APIDObjectLockHasHashResult_fields_set: "foldl set_fld
    new_BFSS_APIDObjectLockHasHashResult
    (BFSS_APIDObjectLockHasHashResult_fields a) = BFSS_APIDObjectLockHasHashResult_norm a"
  by (cases a) (auto simp: BFSS_APIDObjectLockHasHashResult_fields_def set_fld_def
      new_BFSS_APIDObjectLockHasHashResult_def BFSS_APIDObjectLockHasHashResult_norm_def)

lemma BFSS_APIDObjectLockHasHashResult_reads:
  assumes "protocol_laws L w" and "BFSS_APIDObjectLockHasHashResult_wf a"
  shows "reads w (BFSS_APIDObjectLockHasHashResult_Read L new_BFSS_APIDObjectLockHasHashResult)
      (BFSS_APIDObjectLockHasHashResult_enc a) (BFSS_APIDObjectLockHasHashResult_norm a)"
  unfolding BFSS_APIDObjectLockHasHashResult_Read_def BFSS_APIDObjectLockHasHashResult_enc_def
  by (intro reads_fields [OF assms(1)] BFSS_APIDObjectLockHasHashResult_fields_ok [OF assms]
      BFSS_APIDObjectLockHasHashResult_fields_set)
    (simp add: BFSS_APIDObjectLockHasHashResult_fields_def
        BFSS_APIDObjectLockHasHashResult_rows_def present_def)

interpretation objectLockHasHashResult: struct_codec BFSS_APIDObjectLockHasHashResult_enc
    BFSS_APIDObjectLockHasHashResult_wf BFSS_APIDObjectLockHasHashResult_norm
    new_BFSS_APIDObjectLockHasHashResult BFSS_APIDObjectLockHasHashResult_Write
        BFSS_APIDObjectLockHasHashResult_Read
  by unfold_locales (fact BFSS_APIDObjectLockHasHashResult_writes,
      fact BFSS_APIDObjectLockHasHashResult_reads)

section \<open>\<^verbatim>\<open>BFSS_APIDCreateObjectLinkArgs\<close>\<close>

record BFSS_APIDCreateObjectLinkArgs =
  CreateObjectLinkArgs_Oid :: string
  CreateObjectLinkArgs_Hash :: string
  CreateObjectLinkArgs_Size :: int
  CreateObjectLinkArgs_Head :: bytes
  CreateObjectLinkArgs_Flag :: int
  CreateObjectLinkArgs_Tag :: string

definition new_BFSS_APIDCreateObjectLinkArgs :: BFSS_APIDCreateObjectLinkArgs where
  "new_BFSS_APIDCreateObjectLinkArgs = \<lparr>CreateObjectLinkArgs_Oid = [],
      CreateObjectLinkArgs_Hash = [], CreateObjectLinkArgs_Size = 0,
      CreateObjectLinkArgs_Head = None, CreateObjectLinkArgs_Flag = 0,
      CreateObjectLinkArgs_Tag = []\<rparr>"

definition BFSS_APIDCreateObjectLinkArgs_GetOid :: "BFSS_APIDCreateObjectLinkArgs
    \<Rightarrow> string" where
  "BFSS_APIDCreateObjectLinkArgs_GetOid p = CreateObjectLinkArgs_Oid p"

definition BFSS_APIDCreateObjectLinkArgs_GetHash :: "BFSS_APIDCreateObjectLinkArgs
    \<Rightarrow> string" where
  "BFSS_APIDCreateObjectLinkArgs_GetHash p = CreateObjectLinkArgs_Hash p"

definition BFSS_APIDCreateObjectLinkArgs_GetSize :: "BFSS_APIDCreateObjectLinkArgs
    \<Rightarrow> int" where
  "BFSS_APIDCreateObjectLinkArgs_GetSize p = CreateObjectLinkArgs_Size p"

definition BFSS_APIDCreateObjectLinkArgs_GetHead :: "BFSS_APIDCreateObjectLinkArgs
    \<Rightarrow> bytes" where
  "BFSS_APIDCreateObjectLinkArgs_GetHead p = CreateObjectLinkArgs_Head p"

definition BFSS_APIDCreateObjectLinkArgs_GetFlag :: "BFSS_APIDCreateObjectLinkArgs
    \<Rightarrow> int" where
  "BFSS_APIDCreateObjectLinkArgs_GetFlag p = CreateObjectLinkArgs_Flag p"

definition BFSS_APIDCreateObjectLinkArgs_GetTag :: "BFSS_APIDCreateObjectLinkArgs
    \<Rightarrow> string" where
  "BFSS_APIDCreateObjectLinkArgs_GetTag p = CreateObjectLinkArgs_Tag p"

definition BFSS_APIDCreateObjectLinkArgs_rows :: "('p, 'e) tlib \<Rightarrow>
    (BFSS_APIDCreateObjectLinkArgs, 'p, 'e) row list" where
  "BFSS_APIDCreateObjectLinkArgs_rows L =
     [\<lparr>row_id = 1, row_type = STRING,
       row_read = read_scalar L 1 (ReadString L)
           (\<lambda>v p. p\<lparr>CreateObjectLinkArgs_Oid := v\<rparr>)\<rparr>,
      \<lparr>row_id = 2, row_type = STRING,
       row_read = read_scalar L 2 (ReadString L)
           (\<lambda>v p. p\<lparr>CreateObjectLinkArgs_Hash := v\<rparr>)\<rparr>,
      \<lparr>row_id = 3, row_type = I32,
       row_read = read_scalar L 3 (ReadI32 L)
           (\<lambda>v p. p\<lparr>CreateObjectLinkArgs_Size := v\<rparr>)\<rparr>,
      \<lparr>row_id = 4, row_type = STRING,
       row_read = read_scalar L 4 (ReadBinary L)
           (\<lambda>v p. p\<lparr>CreateObjectLinkArgs_Head := v\<rparr>)\<rparr>,
      \<lparr>row_id = 5, row_type = I32,
       row_read = read_scalar L 5 (ReadI32 L)
           (\<lambda>v p. p\<lparr>CreateObjectLinkArgs_Flag := v\<rparr>)\<rparr>,
      \<lparr>row_id = 6, row_type = STRING,
       row_read = read_scalar L 6 (ReadString L)
           (\<lambda>v p. p\<lparr>CreateObjectLinkArgs_Tag := v\<rparr>)\<rparr>]"

definition BFSS_APIDCreateObjectLinkArgs_Read :: "('p, 'e) tlib \<Rightarrow>
    (BFSS_APIDCreateObjectLinkArgs, 'p, 'e) reader" where
  "BFSS_APIDCreateObjectLinkArgs_Read L =
     read_struct L ''*BFSS_API.BFSS_APIDCreateObjectLinkArgs''
         (BFSS_APIDCreateObjectLinkArgs_rows L)
       []"

definition BFSS_APIDCreateObjectLinkArgs_steps :: "('p, 'e) tlib
    \<Rightarrow> BFSS_APIDCreateObjectLinkArgs \<Rightarrow> ('p
    \<Rightarrow> 'e option \<times> 'p) list" where
  "BFSS_APIDCreateObjectLinkArgs_steps L p =
     (let T = ''*BFSS_API.BFSS_APIDCreateObjectLinkArgs'' in
      [write_scalar L T ''oid'' STRING 1 (WriteString L (CreateObjectLinkArgs_Oid p)),
       write_scalar L T ''hash'' STRING 2 (WriteString L (CreateObjectLinkArgs_Hash p)),
       write_scalar L T ''size'' I32 3 (WriteI32 L (CreateObjectLinkArgs_Size p)),
       write_scalar L T ''head'' STRING 4 (WriteBinary L (CreateObjectLinkArgs_Head p)),
       write_scalar L T ''flag'' I32 5 (WriteI32 L (CreateObjectLinkArgs_Flag p)),
       write_scalar L T ''tag'' STRING 6 (WriteString L (CreateObjectLinkArgs_Tag p))])"

definition BFSS_APIDCreateObjectLinkArgs_Write :: "('p, 'e) tlib
    \<Rightarrow> BFSS_APIDCreateObjectLinkArgs option \<Rightarrow> 'p
    \<Rightarrow> 'e option \<times> 'p" where
  "BFSS_APIDCreateObjectLinkArgs_Write L = write_struct L
      ''*BFSS_API.BFSS_APIDCreateObjectLinkArgs'' ''CreateObjectLink_args''
      (BFSS_APIDCreateObjectLinkArgs_steps L)"

definition BFSS_APIDCreateObjectLinkArgs_fields :: "BFSS_APIDCreateObjectLinkArgs
    \<Rightarrow> BFSS_APIDCreateObjectLinkArgs fld list" where
  "BFSS_APIDCreateObjectLinkArgs_fields p =
     [\<lparr>fld_name = ''oid'', fld_type = STRING, fld_id = 1,
       fld_toks = Some [TString (CreateObjectLinkArgs_Oid p)],
       fld_set = \<lambda>q. q\<lparr>CreateObjectLinkArgs_Oid := (CreateObjectLinkArgs_Oid
           p)\<rparr>\<rparr>,
      \<lparr>fld_name = ''hash'', fld_type = STRING, fld_id = 2,
       fld_toks = Some [TString (CreateObjectLinkArgs_Hash p)],
       fld_set = \<lambda>q. q\<lparr>CreateObjectLinkArgs_Hash := (CreateObjectLinkArgs_Hash
           p)\<rparr>\<rparr>,
      \<lparr>fld_name = ''size'', fld_type = I32, fld_id = 3,
       fld_toks = Some [TI32 (CreateObjectLinkArgs_Size p)],
       fld_set = \<lambda>q. q\<lparr>CreateObjectLinkArgs_Size := (CreateObjectLinkArgs_Size
           p)\<rparr>\<rparr>,
      \<lparr>fld_name = ''head'', fld_type = STRING, fld_id = 4,
       fld_toks = Some [TBinary (bytes_of (CreateObjectLinkArgs_Head p))],
       fld_set = \<lambda>q. q\<lparr>CreateObjectLinkArgs_Head := Some (bytes_of
           (CreateObjectLinkArgs_Head p))\<rparr>\<rparr>,
      \<lparr>fld_name = ''flag'', fld_type = I32, fld_id = 5,
       fld_toks = Some [TI32 (CreateObjectLinkArgs_Flag p)],
       fld_set = \<lambda>q. q\<lparr>CreateObjectLinkArgs_Flag := (CreateObjectLinkArgs_Flag
           p)\<rparr>\<rparr>,
      \<lparr>fld_name = ''tag'', fld_type = STRING, fld_id = 6,
       fld_toks = Some [TString (CreateObjectLinkArgs_Tag p)],
       fld_set = \<lambda>q. q\<lparr>CreateObjectLinkArgs_Tag := (CreateObjectLinkArgs_Tag
           p)\<rparr>\<rparr>]"

definition BFSS_APIDCreateObjectLinkArgs_enc :: "BFSS_APIDCreateObjectLinkArgs
    \<Rightarrow> tok list" where
  "BFSS_APIDCreateObjectLinkArgs_enc p = enc_struct ''CreateObjectLink_args'' (map enc_fld
      (BFSS_APIDCreateObjectLinkArgs_fields p))"

definition BFSS_APIDCreateObjectLinkArgs_wf :: "BFSS_APIDCreateObjectLinkArgs
    \<Rightarrow> bool" where
  "BFSS_APIDCreateObjectLinkArgs_wf p \<longleftrightarrow> i32 (CreateObjectLinkArgs_Size p) =
      CreateObjectLinkArgs_Size p \<and> i32 (CreateObjectLinkArgs_Flag p) =
      CreateObjectLinkArgs_Flag p"

definition BFSS_APIDCreateObjectLinkArgs_norm :: "BFSS_APIDCreateObjectLinkArgs
    \<Rightarrow> BFSS_APIDCreateObjectLinkArgs" where
  "BFSS_APIDCreateObjectLinkArgs_norm p = p\<lparr>CreateObjectLinkArgs_Head := Some (bytes_of
      (CreateObjectLinkArgs_Head p))\<rparr>"

lemma BFSS_APIDCreateObjectLinkArgs_writes:
  assumes "protocol_laws L w" and "BFSS_APIDCreateObjectLinkArgs_wf a"
  shows "writes w (BFSS_APIDCreateObjectLinkArgs_Write L (Some a))
      (BFSS_APIDCreateObjectLinkArgs_enc a)"
  unfolding BFSS_APIDCreateObjectLinkArgs_Write_def BFSS_APIDCreateObjectLinkArgs_enc_def
  by (rule writes_struct [OF assms(1)], use assms in \<open>auto simp:
      BFSS_APIDCreateObjectLinkArgs_steps_def BFSS_APIDCreateObjectLinkArgs_fields_def
    BFSS_APIDCreateObjectLinkArgs_wf_def Let_def intro!: writes_intros\<close>)

lemma BFSS_APIDCreateObjectLinkArgs_fields_ok:
  assumes "protocol_laws L w" and "BFSS_APIDCreateObjectLinkArgs_wf a"
  shows "\<forall>f \<in> set (BFSS_APIDCreateObjectLinkArgs_fields a). fld_ok w
      (BFSS_APIDCreateObjectLinkArgs_rows L) f"
  using assms by (auto simp: BFSS_APIDCreateObjectLinkArgs_fields_def
      BFSS_APIDCreateObjectLinkArgs_rows_def BFSS_APIDCreateObjectLinkArgs_wf_def fld_ok_def
      intro!: reads_intros split: option.splits)

lemma BFSS_APIDCreateObjectLinkArgs_fields_set: "foldl set_fld new_BFSS_APIDCreateObjectLinkArgs
    (BFSS_APIDCreateObjectLinkArgs_fields a) = BFSS_APIDCreateObjectLinkArgs_norm a"
  by (cases a) (auto simp: BFSS_APIDCreateObjectLinkArgs_fields_def set_fld_def
      new_BFSS_APIDCreateObjectLinkArgs_def BFSS_APIDCreateObjectLinkArgs_norm_def)

lemma BFSS_APIDCreateObjectLinkArgs_reads:
  assumes "protocol_laws L w" and "BFSS_APIDCreateObjectLinkArgs_wf a"
  shows "reads w (BFSS_APIDCreateObjectLinkArgs_Read L new_BFSS_APIDCreateObjectLinkArgs)
      (BFSS_APIDCreateObjectLinkArgs_enc a) (BFSS_APIDCreateObjectLinkArgs_norm a)"
  unfolding BFSS_APIDCreateObjectLinkArgs_Read_def BFSS_APIDCreateObjectLinkArgs_enc_def
  by (intro reads_fields [OF assms(1)] BFSS_APIDCreateObjectLinkArgs_fields_ok [OF assms]
      BFSS_APIDCreateObjectLinkArgs_fields_set)
    (simp add: BFSS_APIDCreateObjectLinkArgs_fields_def BFSS_APIDCreateObjectLinkArgs_rows_def
        present_def)

interpretation createObjectLinkArgs: struct_codec BFSS_APIDCreateObjectLinkArgs_enc
    BFSS_APIDCreateObjectLinkArgs_wf BFSS_APIDCreateObjectLinkArgs_norm
    new_BFSS_APIDCreateObjectLinkArgs BFSS_APIDCreateObjectLinkArgs_Write
        BFSS_APIDCreateObjectLinkArgs_Read
  by unfold_locales (fact BFSS_APIDCreateObjectLinkArgs_writes,
      fact BFSS_APIDCreateObjectLinkArgs_reads)

section \<open>\<^verbatim>\<open>BFSS_APIDCreateObjectLinkResult\<close>\<close>

record BFSS_APIDCreateObjectLinkResult =
  CreateObjectLinkResult_Success :: "BFSS_RESULT option"

definition new_BFSS_APIDCreateObjectLinkResult :: BFSS_APIDCreateObjectLinkResult where
  "new_BFSS_APIDCreateObjectLinkResult = \<lparr>CreateObjectLinkResult_Success = None\<rparr>"

definition BFSS_APIDCreateObjectLinkResult_IsSetSuccess :: "BFSS_APIDCreateObjectLinkResult
    \<Rightarrow> bool" where
  "BFSS_APIDCreateObjectLinkResult_IsSetSuccess p \<longleftrightarrow>
      CreateObjectLinkResult_Success p \<noteq> None"

definition BFSS_APIDCreateObjectLinkResult_GetSuccess :: "BFSS_APIDCreateObjectLinkResult
    \<Rightarrow> BFSS_RESULT" where
  "BFSS_APIDCreateObjectLinkResult_GetSuccess p = (case CreateObjectLinkResult_Success p of None
      \<Rightarrow> 0 | Some v \<Rightarrow> v)"

definition BFSS_APIDCreateObjectLinkResult_rows :: "('p, 'e) tlib \<Rightarrow>
    (BFSS_APIDCreateObjectLinkResult, 'p, 'e) row list" where
  "BFSS_APIDCreateObjectLinkResult_rows L =
     [\<lparr>row_id = 0, row_type = I32,
       row_read = read_scalar L 0 (ReadI32 L)
           (\<lambda>v p. p\<lparr>CreateObjectLinkResult_Success := Some v\<rparr>)\<rparr>]"

definition BFSS_APIDCreateObjectLinkResult_Read :: "('p, 'e) tlib \<Rightarrow>
    (BFSS_APIDCreateObjectLinkResult, 'p, 'e) reader" where
  "BFSS_APIDCreateObjectLinkResult_Read L =
     read_struct L ''*BFSS_API.BFSS_APIDCreateObjectLinkResult''
         (BFSS_APIDCreateObjectLinkResult_rows L)
       []"

definition BFSS_APIDCreateObjectLinkResult_steps :: "('p, 'e) tlib
    \<Rightarrow> BFSS_APIDCreateObjectLinkResult \<Rightarrow> ('p
    \<Rightarrow> 'e option \<times> 'p) list" where
  "BFSS_APIDCreateObjectLinkResult_steps L p =
     (let T = ''*BFSS_API.BFSS_APIDCreateObjectLinkResult'' in
      [if_set (CreateObjectLinkResult_Success p)
          (\<lambda>v. write_scalar L T ''success'' I32 0 (WriteI32 L (i32 v)))])"

definition BFSS_APIDCreateObjectLinkResult_Write :: "('p, 'e) tlib
    \<Rightarrow> BFSS_APIDCreateObjectLinkResult option \<Rightarrow> 'p
    \<Rightarrow> 'e option \<times> 'p" where
  "BFSS_APIDCreateObjectLinkResult_Write L = write_struct L
      ''*BFSS_API.BFSS_APIDCreateObjectLinkResult'' ''CreateObjectLink_result''
      (BFSS_APIDCreateObjectLinkResult_steps L)"

definition BFSS_APIDCreateObjectLinkResult_fields :: "BFSS_APIDCreateObjectLinkResult
    \<Rightarrow> BFSS_APIDCreateObjectLinkResult fld list" where
  "BFSS_APIDCreateObjectLinkResult_fields p =
     [\<lparr>fld_name = ''success'', fld_type = I32, fld_id = 0,
       fld_toks = map_option (\<lambda>v. [TI32 (i32 v)]) (CreateObjectLinkResult_Success p),
       fld_set = \<lambda>q. q\<lparr>CreateObjectLinkResult_Success := map_option i32
           (CreateObjectLinkResult_Success p)\<rparr>\<rparr>]"

definition BFSS_APIDCreateObjectLinkResult_enc :: "BFSS_APIDCreateObjectLinkResult
    \<Rightarrow> tok list" where
  "BFSS_APIDCreateObjectLinkResult_enc p = enc_struct ''CreateObjectLink_result'' (map enc_fld
      (BFSS_APIDCreateObjectLinkResult_fields p))"

definition BFSS_APIDCreateObjectLinkResult_wf :: "BFSS_APIDCreateObjectLinkResult
    \<Rightarrow> bool" where
  "BFSS_APIDCreateObjectLinkResult_wf p \<longleftrightarrow> True"

definition BFSS_APIDCreateObjectLinkResult_norm :: "BFSS_APIDCreateObjectLinkResult
    \<Rightarrow> BFSS_APIDCreateObjectLinkResult" where
  "BFSS_APIDCreateObjectLinkResult_norm p = p\<lparr>CreateObjectLinkResult_Success := map_option
      i32 (CreateObjectLinkResult_Success p)\<rparr>"

lemma BFSS_APIDCreateObjectLinkResult_writes:
  assumes "protocol_laws L w" and "BFSS_APIDCreateObjectLinkResult_wf a"
  shows "writes w (BFSS_APIDCreateObjectLinkResult_Write L (Some a))
      (BFSS_APIDCreateObjectLinkResult_enc a)"
  unfolding BFSS_APIDCreateObjectLinkResult_Write_def BFSS_APIDCreateObjectLinkResult_enc_def
  by (rule writes_struct [OF assms(1)], use assms in \<open>auto simp:
      BFSS_APIDCreateObjectLinkResult_steps_def BFSS_APIDCreateObjectLinkResult_fields_def
    BFSS_APIDCreateObjectLinkResult_wf_def Let_def intro!: writes_intros\<close>)

lemma BFSS_APIDCreateObjectLinkResult_fields_ok:
  assumes "protocol_laws L w" and "BFSS_APIDCreateObjectLinkResult_wf a"
  shows "\<forall>f \<in> set (BFSS_APIDCreateObjectLinkResult_fields a). fld_ok w
      (BFSS_APIDCreateObjectLinkResult_rows L) f"
  using assms by (auto simp: BFSS_APIDCreateObjectLinkResult_fields_def
      BFSS_APIDCreateObjectLinkResult_rows_def BFSS_APIDCreateObjectLinkResult_wf_def fld_ok_def
      intro!: reads_intros split: option.splits)

lemma BFSS_APIDCreateObjectLinkResult_fields_set: "foldl set_fld
    new_BFSS_APIDCreateObjectLinkResult (BFSS_APIDCreateObjectLinkResult_fields a) =
    BFSS_APIDCreateObjectLinkResult_norm a"
  by (cases a) (auto simp: BFSS_APIDCreateObjectLinkResult_fields_def set_fld_def
      new_BFSS_APIDCreateObjectLinkResult_def BFSS_APIDCreateObjectLinkResult_norm_def)

lemma BFSS_APIDCreateObjectLinkResult_reads:
  assumes "protocol_laws L w" and "BFSS_APIDCreateObjectLinkResult_wf a"
  shows "reads w (BFSS_APIDCreateObjectLinkResult_Read L new_BFSS_APIDCreateObjectLinkResult)
      (BFSS_APIDCreateObjectLinkResult_enc a) (BFSS_APIDCreateObjectLinkResult_norm a)"
  unfolding BFSS_APIDCreateObjectLinkResult_Read_def BFSS_APIDCreateObjectLinkResult_enc_def
  by (intro reads_fields [OF assms(1)] BFSS_APIDCreateObjectLinkResult_fields_ok [OF assms]
      BFSS_APIDCreateObjectLinkResult_fields_set)
    (simp add: BFSS_APIDCreateObjectLinkResult_fields_def
        BFSS_APIDCreateObjectLinkResult_rows_def present_def)

interpretation createObjectLinkResult: struct_codec BFSS_APIDCreateObjectLinkResult_enc
    BFSS_APIDCreateObjectLinkResult_wf BFSS_APIDCreateObjectLinkResult_norm
    new_BFSS_APIDCreateObjectLinkResult BFSS_APIDCreateObjectLinkResult_Write
        BFSS_APIDCreateObjectLinkResult_Read
  by unfold_locales (fact BFSS_APIDCreateObjectLinkResult_writes,
      fact BFSS_APIDCreateObjectLinkResult_reads)

section \<open>\<^verbatim>\<open>BFSS_APIDReadArgs\<close>\<close>

record BFSS_APIDReadArgs =
  ReadArgs_Oid :: string
  ReadArgs_Size :: int
  ReadArgs_Offset :: int

definition new_BFSS_APIDReadArgs :: BFSS_APIDReadArgs where
  "new_BFSS_APIDReadArgs = \<lparr>ReadArgs_Oid = [], ReadArgs_Size = 0,
      ReadArgs_Offset = 0\<rparr>"

definition BFSS_APIDReadArgs_GetOid :: "BFSS_APIDReadArgs \<Rightarrow> string" where
  "BFSS_APIDReadArgs_GetOid p = ReadArgs_Oid p"

definition BFSS_APIDReadArgs_GetSize :: "BFSS_APIDReadArgs \<Rightarrow> int" where
  "BFSS_APIDReadArgs_GetSize p = ReadArgs_Size p"

definition BFSS_APIDReadArgs_GetOffset :: "BFSS_APIDReadArgs \<Rightarrow> int" where
  "BFSS_APIDReadArgs_GetOffset p = ReadArgs_Offset p"

definition BFSS_APIDReadArgs_rows :: "('p, 'e) tlib \<Rightarrow> (BFSS_APIDReadArgs, 'p,
    'e) row list" where
  "BFSS_APIDReadArgs_rows L =
     [\<lparr>row_id = 1, row_type = STRING,
       row_read = read_scalar L 1 (ReadString L)
           (\<lambda>v p. p\<lparr>ReadArgs_Oid := v\<rparr>)\<rparr>,
      \<lparr>row_id = 2, row_type = I32,
       row_read = read_scalar L 2 (ReadI32 L)
           (\<lambda>v p. p\<lparr>ReadArgs_Size := v\<rparr>)\<rparr>,
      \<lparr>row_id = 3, row_type = I32,
       row_read = read_scalar L 3 (ReadI32 L)
           (\<lambda>v p. p\<lparr>ReadArgs_Offset := v\<rparr>)\<rparr>]"

definition BFSS_APIDReadArgs_Read :: "('p, 'e) tlib \<Rightarrow> (BFSS_APIDReadArgs, 'p,
    'e) reader" where
  "BFSS_APIDReadArgs_Read L =
     read_struct L ''*BFSS_API.BFSS_APIDReadArgs'' (BFSS_APIDReadArgs_rows L)
       []"

definition BFSS_APIDReadArgs_steps :: "('p, 'e) tlib \<Rightarrow> BFSS_APIDReadArgs
    \<Rightarrow> ('p \<Rightarrow> 'e option \<times> 'p) list" where
  "BFSS_APIDReadArgs_steps L p =
     (let T = ''*BFSS_API.BFSS_APIDReadArgs'' in
      [write_scalar L T ''oid'' STRING 1 (WriteString L (ReadArgs_Oid p)),
       write_scalar L T ''size'' I32 2 (WriteI32 L (ReadArgs_Size p)),
       write_scalar L T ''offset'' I32 3 (WriteI32 L (ReadArgs_Offset p))])"

definition BFSS_APIDReadArgs_Write :: "('p, 'e) tlib \<Rightarrow> BFSS_APIDReadArgs option
    \<Rightarrow> 'p \<Rightarrow> 'e option \<times> 'p" where
  "BFSS_APIDReadArgs_Write L = write_struct L ''*BFSS_API.BFSS_APIDReadArgs'' ''Read_args''
      (BFSS_APIDReadArgs_steps L)"

definition BFSS_APIDReadArgs_fields :: "BFSS_APIDReadArgs
    \<Rightarrow> BFSS_APIDReadArgs fld list" where
  "BFSS_APIDReadArgs_fields p =
     [\<lparr>fld_name = ''oid'', fld_type = STRING, fld_id = 1,
       fld_toks = Some [TString (ReadArgs_Oid p)],
       fld_set = \<lambda>q. q\<lparr>ReadArgs_Oid := (ReadArgs_Oid p)\<rparr>\<rparr>,
      \<lparr>fld_name = ''size'', fld_type = I32, fld_id = 2,
       fld_toks = Some [TI32 (ReadArgs_Size p)],
       fld_set = \<lambda>q. q\<lparr>ReadArgs_Size := (ReadArgs_Size p)\<rparr>\<rparr>,
      \<lparr>fld_name = ''offset'', fld_type = I32, fld_id = 3,
       fld_toks = Some [TI32 (ReadArgs_Offset p)],
       fld_set = \<lambda>q. q\<lparr>ReadArgs_Offset := (ReadArgs_Offset p)\<rparr>\<rparr>]"

definition BFSS_APIDReadArgs_enc :: "BFSS_APIDReadArgs \<Rightarrow> tok list" where
  "BFSS_APIDReadArgs_enc p = enc_struct ''Read_args'' (map enc_fld (BFSS_APIDReadArgs_fields p))"

definition BFSS_APIDReadArgs_wf :: "BFSS_APIDReadArgs \<Rightarrow> bool" where
  "BFSS_APIDReadArgs_wf p \<longleftrightarrow> i32 (ReadArgs_Size p) = ReadArgs_Size p
      \<and> i32 (ReadArgs_Offset p) = ReadArgs_Offset p"

definition BFSS_APIDReadArgs_norm :: "BFSS_APIDReadArgs \<Rightarrow> BFSS_APIDReadArgs" where
  "BFSS_APIDReadArgs_norm p = p"

lemma BFSS_APIDReadArgs_writes:
  assumes "protocol_laws L w" and "BFSS_APIDReadArgs_wf a"
  shows "writes w (BFSS_APIDReadArgs_Write L (Some a)) (BFSS_APIDReadArgs_enc a)"
  unfolding BFSS_APIDReadArgs_Write_def BFSS_APIDReadArgs_enc_def
  by (rule writes_struct [OF assms(1)], use assms in \<open>auto simp:
      BFSS_APIDReadArgs_steps_def BFSS_APIDReadArgs_fields_def
    BFSS_APIDReadArgs_wf_def Let_def intro!: writes_intros\<close>)

lemma BFSS_APIDReadArgs_fields_ok:
  assumes "protocol_laws L w" and "BFSS_APIDReadArgs_wf a"
  shows "\<forall>f \<in> set (BFSS_APIDReadArgs_fields a). fld_ok w (BFSS_APIDReadArgs_rows L) f"
  using assms by (auto simp: BFSS_APIDReadArgs_fields_def BFSS_APIDReadArgs_rows_def
      BFSS_APIDReadArgs_wf_def fld_ok_def
      intro!: reads_intros split: option.splits)

lemma BFSS_APIDReadArgs_fields_set: "foldl set_fld new_BFSS_APIDReadArgs
    (BFSS_APIDReadArgs_fields a) = BFSS_APIDReadArgs_norm a"
  by (cases a) (auto simp: BFSS_APIDReadArgs_fields_def set_fld_def new_BFSS_APIDReadArgs_def
      BFSS_APIDReadArgs_norm_def)

lemma BFSS_APIDReadArgs_reads:
  assumes "protocol_laws L w" and "BFSS_APIDReadArgs_wf a"
  shows "reads w (BFSS_APIDReadArgs_Read L new_BFSS_APIDReadArgs) (BFSS_APIDReadArgs_enc a)
      (BFSS_APIDReadArgs_norm a)"
  unfolding BFSS_APIDReadArgs_Read_def BFSS_APIDReadArgs_enc_def
  by (intro reads_fields [OF assms(1)] BFSS_APIDReadArgs_fields_ok [OF assms]
      BFSS_APIDReadArgs_fields_set)
    (simp add: BFSS_APIDReadArgs_fields_def BFSS_APIDReadArgs_rows_def present_def)

interpretation readArgs: struct_codec BFSS_APIDReadArgs_enc BFSS_APIDReadArgs_wf
    BFSS_APIDReadArgs_norm
    new_BFSS_APIDReadArgs BFSS_APIDReadArgs_Write BFSS_APIDReadArgs_Read
  by unfold_locales (fact BFSS_APIDReadArgs_writes, fact BFSS_APIDReadArgs_reads)

section \<open>\<^verbatim>\<open>BFSS_APIDReadResult\<close>\<close>

record BFSS_APIDReadResult =
  ReadResult_Success :: "READ_RESULT option"

definition new_BFSS_APIDReadResult :: BFSS_APIDReadResult where
  "new_BFSS_APIDReadResult = \<lparr>ReadResult_Success = None\<rparr>"

definition BFSS_APIDReadResult_IsSetSuccess :: "BFSS_APIDReadResult \<Rightarrow> bool" where
  "BFSS_APIDReadResult_IsSetSuccess p \<longleftrightarrow> ReadResult_Success p \<noteq> None"

definition BFSS_APIDReadResult_GetSuccess :: "BFSS_APIDReadResult
    \<Rightarrow> READ_RESULT option" where
  "BFSS_APIDReadResult_GetSuccess p = (if \<not> BFSS_APIDReadResult_IsSetSuccess p then None
      else ReadResult_Success p)"

definition BFSS_APIDReadResult_rows :: "('p, 'e) tlib \<Rightarrow> (BFSS_APIDReadResult, 'p,
    'e) row list" where
  "BFSS_APIDReadResult_rows L =
     [\<lparr>row_id = 0, row_type = STRUCT,
       row_read = read_nested L ''*BFSS_API.READ_RESULT'' (READ_RESULT_Read L new_READ_RESULT)
           (\<lambda>v p. p\<lparr>ReadResult_Success := Some v\<rparr>)\<rparr>]"

definition BFSS_APIDReadResult_Read :: "('p, 'e) tlib \<Rightarrow> (BFSS_APIDReadResult, 'p,
    'e) reader" where
  "BFSS_APIDReadResult_Read L =
     read_struct L ''*BFSS_API.BFSS_APIDReadResult'' (BFSS_APIDReadResult_rows L)
       []"

definition BFSS_APIDReadResult_steps :: "('p, 'e) tlib \<Rightarrow> BFSS_APIDReadResult
    \<Rightarrow> ('p \<Rightarrow> 'e option \<times> 'p) list" where
  "BFSS_APIDReadResult_steps L p =
     (let T = ''*BFSS_API.BFSS_APIDReadResult'' in
      [if_set (ReadResult_Success p) (\<lambda>x. write_nested L T ''success'' 0
          ''*BFSS_API.READ_RESULT'' (READ_RESULT_Write L (Some x)))])"

definition BFSS_APIDReadResult_Write :: "('p, 'e) tlib \<Rightarrow> BFSS_APIDReadResult option
    \<Rightarrow> 'p \<Rightarrow> 'e option \<times> 'p" where
  "BFSS_APIDReadResult_Write L = write_struct L ''*BFSS_API.BFSS_APIDReadResult'' ''Read_result''
      (BFSS_APIDReadResult_steps L)"

definition BFSS_APIDReadResult_fields :: "BFSS_APIDReadResult
    \<Rightarrow> BFSS_APIDReadResult fld list" where
  "BFSS_APIDReadResult_fields p =
     [\<lparr>fld_name = ''success'', fld_type = STRUCT, fld_id = 0,
       fld_toks = map_option READ_RESULT_enc (ReadResult_Success p),
       fld_set = \<lambda>q. q\<lparr>ReadResult_Success := map_option READ_RESULT_norm
           (ReadResult_Success p)\<rparr>\<rparr>]"

definition BFSS_APIDReadResult_enc :: "BFSS_APIDReadResult \<Rightarrow> tok list" where
  "BFSS_APIDReadResult_enc p = enc_struct ''Read_result'' (map enc_fld
      (BFSS_APIDReadResult_fields p))"

definition BFSS_APIDReadResult_wf :: "BFSS_APIDReadResult \<Rightarrow> bool" where
  "BFSS_APIDReadResult_wf p \<longleftrightarrow> pred_option READ_RESULT_wf (ReadResult_Success p)"

definition BFSS_APIDReadResult_norm :: "BFSS_APIDReadResult \<Rightarrow> BFSS_APIDReadResult" where
  "BFSS_APIDReadResult_norm p = p\<lparr>ReadResult_Success := map_option READ_RESULT_norm
      (ReadResult_Success p)\<rparr>"

lemma BFSS_APIDReadResult_writes:
  assumes "protocol_laws L w" and "BFSS_APIDReadResult_wf a"
  shows "writes w (BFSS_APIDReadResult_Write L (Some a)) (BFSS_APIDReadResult_enc a)"
  unfolding BFSS_APIDReadResult_Write_def BFSS_APIDReadResult_enc_def
  by (rule writes_struct [OF assms(1)], use assms in \<open>auto simp:
      BFSS_APIDReadResult_steps_def BFSS_APIDReadResult_fields_def
    BFSS_APIDReadResult_wf_def Let_def intro!: writes_intros READ_RESULT_writes\<close>)

lemma BFSS_APIDReadResult_fields_ok:
  assumes "protocol_laws L w" and "BFSS_APIDReadResult_wf a"
  shows "\<forall>f \<in> set (BFSS_APIDReadResult_fields a). fld_ok w
      (BFSS_APIDReadResult_rows L) f"
  using assms by (auto simp: BFSS_APIDReadResult_fields_def BFSS_APIDReadResult_rows_def
      BFSS_APIDReadResult_wf_def fld_ok_def
      intro!: reads_intros READ_RESULT_reads split: option.splits)

lemma BFSS_APIDReadResult_fields_set: "foldl set_fld new_BFSS_APIDReadResult
    (BFSS_APIDReadResult_fields a) = BFSS_APIDReadResult_norm a"
  by (cases a) (auto simp: BFSS_APIDReadResult_fields_def set_fld_def new_BFSS_APIDReadResult_def
      BFSS_APIDReadResult_norm_def)

lemma BFSS_APIDReadResult_reads:
  assumes "protocol_laws L w" and "BFSS_APIDReadResult_wf a"
  shows "reads w (BFSS_APIDReadResult_Read L new_BFSS_APIDReadResult) (BFSS_APIDReadResult_enc a)
      (BFSS_APIDReadResult_norm a)"
  unfolding BFSS_APIDReadResult_Read_def BFSS_APIDReadResult_enc_def
  by (intro reads_fields [OF assms(1)] BFSS_APIDReadResult_fields_ok [OF assms]
      BFSS_APIDReadResult_fields_set)
    (simp add: BFSS_APIDReadResult_fields_def BFSS_APIDReadResult_rows_def present_def)

interpretation readResult: struct_codec BFSS_APIDReadResult_enc BFSS_APIDReadResult_wf
    BFSS_APIDReadResult_norm
    new_BFSS_APIDReadResult BFSS_APIDReadResult_Write BFSS_APIDReadResult_Read
  by unfold_locales (fact BFSS_APIDReadResult_writes, fact BFSS_APIDReadResult_reads)

section \<open>\<^verbatim>\<open>BFSS_APIDReadBlkArgs\<close>\<close>

record BFSS_APIDReadBlkArgs =
  ReadBlkArgs_Oid :: string
  ReadBlkArgs_Size :: int
  ReadBlkArgs_Offset :: int

definition new_BFSS_APIDReadBlkArgs :: BFSS_APIDReadBlkArgs where
  "new_BFSS_APIDReadBlkArgs = \<lparr>ReadBlkArgs_Oid = [], ReadBlkArgs_Size = 0,
      ReadBlkArgs_Offset = 0\<rparr>"

definition BFSS_APIDReadBlkArgs_GetOid :: "BFSS_APIDReadBlkArgs \<Rightarrow> string" where
  "BFSS_APIDReadBlkArgs_GetOid p = ReadBlkArgs_Oid p"

definition BFSS_APIDReadBlkArgs_GetSize :: "BFSS_APIDReadBlkArgs \<Rightarrow> int" where
  "BFSS_APIDReadBlkArgs_GetSize p = ReadBlkArgs_Size p"

definition BFSS_APIDReadBlkArgs_GetOffset :: "BFSS_APIDReadBlkArgs \<Rightarrow> int" where
  "BFSS_APIDReadBlkArgs_GetOffset p = ReadBlkArgs_Offset p"

definition BFSS_APIDReadBlkArgs_rows :: "('p, 'e) tlib \<Rightarrow> (BFSS_APIDReadBlkArgs, 'p,
    'e) row list" where
  "BFSS_APIDReadBlkArgs_rows L =
     [\<lparr>row_id = 1, row_type = STRING,
       row_read = read_scalar L 1 (ReadString L)
           (\<lambda>v p. p\<lparr>ReadBlkArgs_Oid := v\<rparr>)\<rparr>,
      \<lparr>row_id = 2, row_type = I32,
       row_read = read_scalar L 2 (ReadI32 L)
           (\<lambda>v p. p\<lparr>ReadBlkArgs_Size := v\<rparr>)\<rparr>,
      \<lparr>row_id = 3, row_type = I32,
       row_read = read_scalar L 3 (ReadI32 L)
           (\<lambda>v p. p\<lparr>ReadBlkArgs_Offset := v\<rparr>)\<rparr>]"

definition BFSS_APIDReadBlkArgs_Read :: "('p, 'e) tlib \<Rightarrow> (BFSS_APIDReadBlkArgs, 'p,
    'e) reader" where
  "BFSS_APIDReadBlkArgs_Read L =
     read_struct L ''*BFSS_API.BFSS_APIDReadBlkArgs'' (BFSS_APIDReadBlkArgs_rows L)
       []"

definition BFSS_APIDReadBlkArgs_steps :: "('p, 'e) tlib \<Rightarrow> BFSS_APIDReadBlkArgs
    \<Rightarrow> ('p \<Rightarrow> 'e option \<times> 'p) list" where
  "BFSS_APIDReadBlkArgs_steps L p =
     (let T = ''*BFSS_API.BFSS_APIDReadBlkArgs'' in
      [write_scalar L T ''oid'' STRING 1 (WriteString L (ReadBlkArgs_Oid p)),
       write_scalar L T ''size'' I32 2 (WriteI32 L (ReadBlkArgs_Size p)),
       write_scalar L T ''offset'' I32 3 (WriteI32 L (ReadBlkArgs_Offset p))])"

definition BFSS_APIDReadBlkArgs_Write :: "('p, 'e) tlib \<Rightarrow> BFSS_APIDReadBlkArgs option
    \<Rightarrow> 'p \<Rightarrow> 'e option \<times> 'p" where
  "BFSS_APIDReadBlkArgs_Write L = write_struct L ''*BFSS_API.BFSS_APIDReadBlkArgs''
      ''ReadBlk_args'' (BFSS_APIDReadBlkArgs_steps L)"

definition BFSS_APIDReadBlkArgs_fields :: "BFSS_APIDReadBlkArgs
    \<Rightarrow> BFSS_APIDReadBlkArgs fld list" where
  "BFSS_APIDReadBlkArgs_fields p =
     [\<lparr>fld_name = ''oid'', fld_type = STRING, fld_id = 1,
       fld_toks = Some [TString (ReadBlkArgs_Oid p)],
       fld_set = \<lambda>q. q\<lparr>ReadBlkArgs_Oid := (ReadBlkArgs_Oid p)\<rparr>\<rparr>,
      \<lparr>fld_name = ''size'', fld_type = I32, fld_id = 2,
       fld_toks = Some [TI32 (ReadBlkArgs_Size p)],
       fld_set = \<lambda>q. q\<lparr>ReadBlkArgs_Size := (ReadBlkArgs_Size p)\<rparr>\<rparr>,
      \<lparr>fld_name = ''offset'', fld_type = I32, fld_id = 3,
       fld_toks = Some [TI32 (ReadBlkArgs_Offset p)],
       fld_set = \<lambda>q. q\<lparr>ReadBlkArgs_Offset := (ReadBlkArgs_Offset p)\<rparr>\<rparr>]"

definition BFSS_APIDReadBlkArgs_enc :: "BFSS_APIDReadBlkArgs \<Rightarrow> tok list" where
  "BFSS_APIDReadBlkArgs_enc p = enc_struct ''ReadBlk_args'' (map enc_fld
      (BFSS_APIDReadBlkArgs_fields p))"

definition BFSS_APIDReadBlkArgs_wf :: "BFSS_APIDReadBlkArgs \<Rightarrow> bool" where
  "BFSS_APIDReadBlkArgs_wf p \<longleftrightarrow> i32 (ReadBlkArgs_Size p) = ReadBlkArgs_Size p
      \<and> i32 (ReadBlkArgs_Offset p) = ReadBlkArgs_Offset p"

definition BFSS_APIDReadBlkArgs_norm :: "BFSS_APIDReadBlkArgs
    \<Rightarrow> BFSS_APIDReadBlkArgs" where
  "BFSS_APIDReadBlkArgs_norm p = p"

lemma BFSS_APIDReadBlkArgs_writes:
  assumes "protocol_laws L w" and "BFSS_APIDReadBlkArgs_wf a"
  shows "writes w (BFSS_APIDReadBlkArgs_Write L (Some a)) (BFSS_APIDReadBlkArgs_enc a)"
  unfolding BFSS_APIDReadBlkArgs_Write_def BFSS_APIDReadBlkArgs_enc_def
  by (rule writes_struct [OF assms(1)], use assms in \<open>auto simp:
      BFSS_APIDReadBlkArgs_steps_def BFSS_APIDReadBlkArgs_fields_def
    BFSS_APIDReadBlkArgs_wf_def Let_def intro!: writes_intros\<close>)

lemma BFSS_APIDReadBlkArgs_fields_ok:
  assumes "protocol_laws L w" and "BFSS_APIDReadBlkArgs_wf a"
  shows "\<forall>f \<in> set (BFSS_APIDReadBlkArgs_fields a). fld_ok w
      (BFSS_APIDReadBlkArgs_rows L) f"
  using assms by (auto simp: BFSS_APIDReadBlkArgs_fields_def BFSS_APIDReadBlkArgs_rows_def
      BFSS_APIDReadBlkArgs_wf_def fld_ok_def
      intro!: reads_intros split: option.splits)

lemma BFSS_APIDReadBlkArgs_fields_set: "foldl set_fld new_BFSS_APIDReadBlkArgs
    (BFSS_APIDReadBlkArgs_fields a) = BFSS_APIDReadBlkArgs_norm a"
  by (cases a) (auto simp: BFSS_APIDReadBlkArgs_fields_def set_fld_def
      new_BFSS_APIDReadBlkArgs_def BFSS_APIDReadBlkArgs_norm_def)

lemma BFSS_APIDReadBlkArgs_reads:
  assumes "protocol_laws L w" and "BFSS_APIDReadBlkArgs_wf a"
  shows "reads w (BFSS_APIDReadBlkArgs_Read L new_BFSS_APIDReadBlkArgs)
      (BFSS_APIDReadBlkArgs_enc a) (BFSS_APIDReadBlkArgs_norm a)"
  unfolding BFSS_APIDReadBlkArgs_Read_def BFSS_APIDReadBlkArgs_enc_def
  by (intro reads_fields [OF assms(1)] BFSS_APIDReadBlkArgs_fields_ok [OF assms]
      BFSS_APIDReadBlkArgs_fields_set)
    (simp add: BFSS_APIDReadBlkArgs_fields_def BFSS_APIDReadBlkArgs_rows_def present_def)

interpretation readBlkArgs: struct_codec BFSS_APIDReadBlkArgs_enc BFSS_APIDReadBlkArgs_wf
    BFSS_APIDReadBlkArgs_norm
    new_BFSS_APIDReadBlkArgs BFSS_APIDReadBlkArgs_Write BFSS_APIDReadBlkArgs_Read
  by unfold_locales (fact BFSS_APIDReadBlkArgs_writes, fact BFSS_APIDReadBlkArgs_reads)

section \<open>\<^verbatim>\<open>BFSS_APIDReadBlkResult\<close>\<close>

record BFSS_APIDReadBlkResult =
  ReadBlkResult_Success :: "READ_RESULT option"

definition new_BFSS_APIDReadBlkResult :: BFSS_APIDReadBlkResult where
  "new_BFSS_APIDReadBlkResult = \<lparr>ReadBlkResult_Success = None\<rparr>"

definition BFSS_APIDReadBlkResult_IsSetSuccess :: "BFSS_APIDReadBlkResult \<Rightarrow> bool" where
  "BFSS_APIDReadBlkResult_IsSetSuccess p \<longleftrightarrow> ReadBlkResult_Success p \<noteq>
      None"

definition BFSS_APIDReadBlkResult_GetSuccess :: "BFSS_APIDReadBlkResult
    \<Rightarrow> READ_RESULT option" where
  "BFSS_APIDReadBlkResult_GetSuccess p = (if \<not> BFSS_APIDReadBlkResult_IsSetSuccess p then
      None else ReadBlkResult_Success p)"

definition BFSS_APIDReadBlkResult_rows :: "('p, 'e) tlib \<Rightarrow> (BFSS_APIDReadBlkResult,
    'p, 'e) row list" where
  "BFSS_APIDReadBlkResult_rows L =
     [\<lparr>row_id = 0, row_type = STRUCT,
       row_read = read_nested L ''*BFSS_API.READ_RESULT'' (READ_RESULT_Read L new_READ_RESULT)
           (\<lambda>v p. p\<lparr>ReadBlkResult_Success := Some v\<rparr>)\<rparr>]"

definition BFSS_APIDReadBlkResult_Read :: "('p, 'e) tlib \<Rightarrow> (BFSS_APIDReadBlkResult,
    'p, 'e) reader" where
  "BFSS_APIDReadBlkResult_Read L =
     read_struct L ''*BFSS_API.BFSS_APIDReadBlkResult'' (BFSS_APIDReadBlkResult_rows L)
       []"

definition BFSS_APIDReadBlkResult_steps :: "('p, 'e) tlib \<Rightarrow> BFSS_APIDReadBlkResult
    \<Rightarrow> ('p \<Rightarrow> 'e option \<times> 'p) list" where
  "BFSS_APIDReadBlkResult_steps L p =
     (let T = ''*BFSS_API.BFSS_APIDReadBlkResult'' in
      [if_set (ReadBlkResult_Success p) (\<lambda>x. write_nested L T ''success'' 0
          ''*BFSS_API.READ_RESULT'' (READ_RESULT_Write L (Some x)))])"

definition BFSS_APIDReadBlkResult_Write :: "('p, 'e) tlib
    \<Rightarrow> BFSS_APIDReadBlkResult option \<Rightarrow> 'p
    \<Rightarrow> 'e option \<times> 'p" where
  "BFSS_APIDReadBlkResult_Write L = write_struct L ''*BFSS_API.BFSS_APIDReadBlkResult''
      ''ReadBlk_result'' (BFSS_APIDReadBlkResult_steps L)"

definition BFSS_APIDReadBlkResult_fields :: "BFSS_APIDReadBlkResult
    \<Rightarrow> BFSS_APIDReadBlkResult fld list" where
  "BFSS_APIDReadBlkResult_fields p =
     [\<lparr>fld_name = ''success'', fld_type = STRUCT, fld_id = 0,
       fld_toks = map_option READ_RESULT_enc (ReadBlkResult_Success p),
       fld_set = \<lambda>q. q\<lparr>ReadBlkResult_Success := map_option READ_RESULT_norm
           (ReadBlkResult_Success p)\<rparr>\<rparr>]"

definition BFSS_APIDReadBlkResult_enc :: "BFSS_APIDReadBlkResult \<Rightarrow> tok list" where
  "BFSS_APIDReadBlkResult_enc p = enc_struct ''ReadBlk_result'' (map enc_fld
      (BFSS_APIDReadBlkResult_fields p))"

definition BFSS_APIDReadBlkResult_wf :: "BFSS_APIDReadBlkResult \<Rightarrow> bool" where
  "BFSS_APIDReadBlkResult_wf p \<longleftrightarrow> pred_option READ_RESULT_wf
      (ReadBlkResult_Success p)"

definition BFSS_APIDReadBlkResult_norm :: "BFSS_APIDReadBlkResult
    \<Rightarrow> BFSS_APIDReadBlkResult" where
  "BFSS_APIDReadBlkResult_norm p = p\<lparr>ReadBlkResult_Success := map_option READ_RESULT_norm
      (ReadBlkResult_Success p)\<rparr>"

lemma BFSS_APIDReadBlkResult_writes:
  assumes "protocol_laws L w" and "BFSS_APIDReadBlkResult_wf a"
  shows "writes w (BFSS_APIDReadBlkResult_Write L (Some a)) (BFSS_APIDReadBlkResult_enc a)"
  unfolding BFSS_APIDReadBlkResult_Write_def BFSS_APIDReadBlkResult_enc_def
  by (rule writes_struct [OF assms(1)], use assms in \<open>auto simp:
      BFSS_APIDReadBlkResult_steps_def BFSS_APIDReadBlkResult_fields_def
    BFSS_APIDReadBlkResult_wf_def Let_def intro!: writes_intros READ_RESULT_writes\<close>)

lemma BFSS_APIDReadBlkResult_fields_ok:
  assumes "protocol_laws L w" and "BFSS_APIDReadBlkResult_wf a"
  shows "\<forall>f \<in> set (BFSS_APIDReadBlkResult_fields a). fld_ok w
      (BFSS_APIDReadBlkResult_rows L) f"
  using assms by (auto simp: BFSS_APIDReadBlkResult_fields_def BFSS_APIDReadBlkResult_rows_def
      BFSS_APIDReadBlkResult_wf_def fld_ok_def
      intro!: reads_intros READ_RESULT_reads split: option.splits)

lemma BFSS_APIDReadBlkResult_fields_set: "foldl set_fld new_BFSS_APIDReadBlkResult
    (BFSS_APIDReadBlkResult_fields a) = BFSS_APIDReadBlkResult_norm a"
  by (cases a) (auto simp: BFSS_APIDReadBlkResult_fields_def set_fld_def
      new_BFSS_APIDReadBlkResult_def BFSS_APIDReadBlkResult_norm_def)

lemma BFSS_APIDReadBlkResult_reads:
  assumes "protocol_laws L w" and "BFSS_APIDReadBlkResult_wf a"
  shows "reads w (BFSS_APIDReadBlkResult_Read L new_BFSS_APIDReadBlkResult)
      (BFSS_APIDReadBlkResult_enc a) (BFSS_APIDReadBlkResult_norm a)"
  unfolding BFSS_APIDReadBlkResult_Read_def BFSS_APIDReadBlkResult_enc_def
  by (intro reads_fields [OF assms(1)] BFSS_APIDReadBlkResult_fields_ok [OF assms]
      BFSS_APIDReadBlkResult_fields_set)
    (simp add: BFSS_APIDReadBlkResult_fields_def BFSS_APIDReadBlkResult_rows_def present_def)

interpretation readBlkResult: struct_codec BFSS_APIDReadBlkResult_enc BFSS_APIDReadBlkResult_wf
    BFSS_APIDReadBlkResult_norm
    new_BFSS_APIDReadBlkResult BFSS_APIDReadBlkResult_Write BFSS_APIDReadBlkResult_Read
  by unfold_locales (fact BFSS_APIDReadBlkResult_writes, fact BFSS_APIDReadBlkResult_reads)

section \<open>\<^verbatim>\<open>BFSS_APIDGetObjectBlksInfoArgs\<close>\<close>

record BFSS_APIDGetObjectBlksInfoArgs =
  GetObjectBlksInfoArgs_Oid :: string

definition new_BFSS_APIDGetObjectBlksInfoArgs :: BFSS_APIDGetObjectBlksInfoArgs where
  "new_BFSS_APIDGetObjectBlksInfoArgs = \<lparr>GetObjectBlksInfoArgs_Oid = []\<rparr>"

definition BFSS_APIDGetObjectBlksInfoArgs_GetOid :: "BFSS_APIDGetObjectBlksInfoArgs
    \<Rightarrow> string" where
  "BFSS_APIDGetObjectBlksInfoArgs_GetOid p = GetObjectBlksInfoArgs_Oid p"

definition BFSS_APIDGetObjectBlksInfoArgs_rows :: "('p, 'e) tlib \<Rightarrow>
    (BFSS_APIDGetObjectBlksInfoArgs, 'p, 'e) row list" where
  "BFSS_APIDGetObjectBlksInfoArgs_rows L =
     [\<lparr>row_id = 1, row_type = STRING,
       row_read = read_scalar L 1 (ReadString L)
           (\<lambda>v p. p\<lparr>GetObjectBlksInfoArgs_Oid := v\<rparr>)\<rparr>]"

definition BFSS_APIDGetObjectBlksInfoArgs_Read :: "('p, 'e) tlib \<Rightarrow>
    (BFSS_APIDGetObjectBlksInfoArgs, 'p, 'e) reader" where
  "BFSS_APIDGetObjectBlksInfoArgs_Read L =
     read_struct L ''*BFSS_API.BFSS_APIDGetObjectBlksInfoArgs''
         (BFSS_APIDGetObjectBlksInfoArgs_rows L)
       []"

definition BFSS_APIDGetObjectBlksInfoArgs_steps :: "('p, 'e) tlib
    \<Rightarrow> BFSS_APIDGetObjectBlksInfoArgs \<Rightarrow> ('p
    \<Rightarrow> 'e option \<times> 'p) list" where
  "BFSS_APIDGetObjectBlksInfoArgs_steps L p =
     (let T = ''*BFSS_API.BFSS_APIDGetObjectBlksInfoArgs'' in
      [write_scalar L T ''oid'' STRING 1 (WriteString L (GetObjectBlksInfoArgs_Oid p))])"

definition BFSS_APIDGetObjectBlksInfoArgs_Write :: "('p, 'e) tlib
    \<Rightarrow> BFSS_APIDGetObjectBlksInfoArgs option \<Rightarrow> 'p
    \<Rightarrow> 'e option \<times> 'p" where
  "BFSS_APIDGetObjectBlksInfoArgs_Write L = write_struct L
      ''*BFSS_API.BFSS_APIDGetObjectBlksInfoArgs'' ''GetObjectBlksInfo_args''
      (BFSS_APIDGetObjectBlksInfoArgs_steps L)"

definition BFSS_APIDGetObjectBlksInfoArgs_fields :: "BFSS_APIDGetObjectBlksInfoArgs
    \<Rightarrow> BFSS_APIDGetObjectBlksInfoArgs fld list" where
  "BFSS_APIDGetObjectBlksInfoArgs_fields p =
     [\<lparr>fld_name = ''oid'', fld_type = STRING, fld_id = 1,
       fld_toks = Some [TString (GetObjectBlksInfoArgs_Oid p)],
       fld_set = \<lambda>q. q\<lparr>GetObjectBlksInfoArgs_Oid := (GetObjectBlksInfoArgs_Oid
           p)\<rparr>\<rparr>]"

definition BFSS_APIDGetObjectBlksInfoArgs_enc :: "BFSS_APIDGetObjectBlksInfoArgs
    \<Rightarrow> tok list" where
  "BFSS_APIDGetObjectBlksInfoArgs_enc p = enc_struct ''GetObjectBlksInfo_args'' (map enc_fld
      (BFSS_APIDGetObjectBlksInfoArgs_fields p))"

definition BFSS_APIDGetObjectBlksInfoArgs_wf :: "BFSS_APIDGetObjectBlksInfoArgs
    \<Rightarrow> bool" where
  "BFSS_APIDGetObjectBlksInfoArgs_wf p \<longleftrightarrow> True"

definition BFSS_APIDGetObjectBlksInfoArgs_norm :: "BFSS_APIDGetObjectBlksInfoArgs
    \<Rightarrow> BFSS_APIDGetObjectBlksInfoArgs" where
  "BFSS_APIDGetObjectBlksInfoArgs_norm p = p"

lemma BFSS_APIDGetObjectBlksInfoArgs_writes:
  assumes "protocol_laws L w" and "BFSS_APIDGetObjectBlksInfoArgs_wf a"
  shows "writes w (BFSS_APIDGetObjectBlksInfoArgs_Write L (Some a))
      (BFSS_APIDGetObjectBlksInfoArgs_enc a)"
  unfolding BFSS_APIDGetObjectBlksInfoArgs_Write_def BFSS_APIDGetObjectBlksInfoArgs_enc_def
  by (rule writes_struct [OF assms(1)], use assms in \<open>auto simp:
      BFSS_APIDGetObjectBlksInfoArgs_steps_def BFSS_APIDGetObjectBlksInfoArgs_fields_def
    BFSS_APIDGetObjectBlksInfoArgs_wf_def Let_def intro!: writes_intros\<close>)

lemma BFSS_APIDGetObjectBlksInfoArgs_fields_ok:
  assumes "protocol_laws L w" and "BFSS_APIDGetObjectBlksInfoArgs_wf a"
  shows "\<forall>f \<in> set (BFSS_APIDGetObjectBlksInfoArgs_fields a). fld_ok w
      (BFSS_APIDGetObjectBlksInfoArgs_rows L) f"
  using assms by (auto simp: BFSS_APIDGetObjectBlksInfoArgs_fields_def
      BFSS_APIDGetObjectBlksInfoArgs_rows_def BFSS_APIDGetObjectBlksInfoArgs_wf_def fld_ok_def
      intro!: reads_intros split: option.splits)

lemma BFSS_APIDGetObjectBlksInfoArgs_fields_set: "foldl set_fld
    new_BFSS_APIDGetObjectBlksInfoArgs (BFSS_APIDGetObjectBlksInfoArgs_fields a) =
    BFSS_APIDGetObjectBlksInfoArgs_norm a"
  by (cases a) (auto simp: BFSS_APIDGetObjectBlksInfoArgs_fields_def set_fld_def
      new_BFSS_APIDGetObjectBlksInfoArgs_def BFSS_APIDGetObjectBlksInfoArgs_norm_def)

lemma BFSS_APIDGetObjectBlksInfoArgs_reads:
  assumes "protocol_laws L w" and "BFSS_APIDGetObjectBlksInfoArgs_wf a"
  shows "reads w (BFSS_APIDGetObjectBlksInfoArgs_Read L new_BFSS_APIDGetObjectBlksInfoArgs)
      (BFSS_APIDGetObjectBlksInfoArgs_enc a) (BFSS_APIDGetObjectBlksInfoArgs_norm a)"
  unfolding BFSS_APIDGetObjectBlksInfoArgs_Read_def BFSS_APIDGetObjectBlksInfoArgs_enc_def
  by (intro reads_fields [OF assms(1)] BFSS_APIDGetObjectBlksInfoArgs_fields_ok [OF assms]
      BFSS_APIDGetObjectBlksInfoArgs_fields_set)
    (simp add: BFSS_APIDGetObjectBlksInfoArgs_fields_def BFSS_APIDGetObjectBlksInfoArgs_rows_def
        present_def)

interpretation getObjectBlksInfoArgs: struct_codec BFSS_APIDGetObjectBlksInfoArgs_enc
    BFSS_APIDGetObjectBlksInfoArgs_wf BFSS_APIDGetObjectBlksInfoArgs_norm
    new_BFSS_APIDGetObjectBlksInfoArgs BFSS_APIDGetObjectBlksInfoArgs_Write
        BFSS_APIDGetObjectBlksInfoArgs_Read
  by unfold_locales (fact BFSS_APIDGetObjectBlksInfoArgs_writes,
      fact BFSS_APIDGetObjectBlksInfoArgs_reads)

section \<open>\<^verbatim>\<open>BFSS_APIDGetObjectBlksInfoResult\<close>\<close>

record BFSS_APIDGetObjectBlksInfoResult =
  GetObjectBlksInfoResult_Success :: "OBJECT_BLKS_RESULT option"

definition new_BFSS_APIDGetObjectBlksInfoResult :: BFSS_APIDGetObjectBlksInfoResult where
  "new_BFSS_APIDGetObjectBlksInfoResult = \<lparr>GetObjectBlksInfoResult_Success = None\<rparr>"

definition BFSS_APIDGetObjectBlksInfoResult_IsSetSuccess :: "BFSS_APIDGetObjectBlksInfoResult
    \<Rightarrow> bool" where
  "BFSS_APIDGetObjectBlksInfoResult_IsSetSuccess p \<longleftrightarrow>
      GetObjectBlksInfoResult_Success p \<noteq> None"

definition BFSS_APIDGetObjectBlksInfoResult_GetSuccess :: "BFSS_APIDGetObjectBlksInfoResult
    \<Rightarrow> OBJECT_BLKS_RESULT option" where
  "BFSS_APIDGetObjectBlksInfoResult_GetSuccess p = (if \<not>
      BFSS_APIDGetObjectBlksInfoResult_IsSetSuccess p then None else
      GetObjectBlksInfoResult_Success p)"

definition BFSS_APIDGetObjectBlksInfoResult_rows :: "('p, 'e) tlib \<Rightarrow>
    (BFSS_APIDGetObjectBlksInfoResult, 'p, 'e) row list" where
  "BFSS_APIDGetObjectBlksInfoResult_rows L =
     [\<lparr>row_id = 0, row_type = STRUCT,
       row_read = read_nested L ''*BFSS_API.OBJECT_BLKS_RESULT'' (OBJECT_BLKS_RESULT_Read L
           new_OBJECT_BLKS_RESULT) (\<lambda>v p. p\<lparr>GetObjectBlksInfoResult_Success :=
           Some v\<rparr>)\<rparr>]"

definition BFSS_APIDGetObjectBlksInfoResult_Read :: "('p, 'e) tlib \<Rightarrow>
    (BFSS_APIDGetObjectBlksInfoResult, 'p, 'e) reader" where
  "BFSS_APIDGetObjectBlksInfoResult_Read L =
     read_struct L ''*BFSS_API.BFSS_APIDGetObjectBlksInfoResult''
         (BFSS_APIDGetObjectBlksInfoResult_rows L)
       []"

definition BFSS_APIDGetObjectBlksInfoResult_steps :: "('p, 'e) tlib
    \<Rightarrow> BFSS_APIDGetObjectBlksInfoResult \<Rightarrow> ('p
    \<Rightarrow> 'e option \<times> 'p) list" where
  "BFSS_APIDGetObjectBlksInfoResult_steps L p =
     (let T = ''*BFSS_API.BFSS_APIDGetObjectBlksInfoResult'' in
      [if_set (GetObjectBlksInfoResult_Success p)
          (\<lambda>x. write_nested L T ''success'' 0 ''*BFSS_API.OBJECT_BLKS_RESULT''
          (OBJECT_BLKS_RESULT_Write L (Some x)))])"

definition BFSS_APIDGetObjectBlksInfoResult_Write :: "('p, 'e) tlib
    \<Rightarrow> BFSS_APIDGetObjectBlksInfoResult option \<Rightarrow> 'p
    \<Rightarrow> 'e option \<times> 'p" where
  "BFSS_APIDGetObjectBlksInfoResult_Write L = write_struct L
      ''*BFSS_API.BFSS_APIDGetObjectBlksInfoResult'' ''GetObjectBlksInfo_result''
      (BFSS_APIDGetObjectBlksInfoResult_steps L)"

definition BFSS_APIDGetObjectBlksInfoResult_fields :: "BFSS_APIDGetObjectBlksInfoResult
    \<Rightarrow> BFSS_APIDGetObjectBlksInfoResult fld list" where
  "BFSS_APIDGetObjectBlksInfoResult_fields p =
     [\<lparr>fld_name = ''success'', fld_type = STRUCT, fld_id = 0,
       fld_toks = map_option OBJECT_BLKS_RESULT_enc (GetObjectBlksInfoResult_Success p),
       fld_set = \<lambda>q. q\<lparr>GetObjectBlksInfoResult_Success := map_option
           OBJECT_BLKS_RESULT_norm (GetObjectBlksInfoResult_Success p)\<rparr>\<rparr>]"

definition BFSS_APIDGetObjectBlksInfoResult_enc :: "BFSS_APIDGetObjectBlksInfoResult
    \<Rightarrow> tok list" where
  "BFSS_APIDGetObjectBlksInfoResult_enc p = enc_struct ''GetObjectBlksInfo_result'' (map enc_fld
      (BFSS_APIDGetObjectBlksInfoResult_fields p))"

definition BFSS_APIDGetObjectBlksInfoResult_wf :: "BFSS_APIDGetObjectBlksInfoResult
    \<Rightarrow> bool" where
  "BFSS_APIDGetObjectBlksInfoResult_wf p \<longleftrightarrow> pred_option OBJECT_BLKS_RESULT_wf
      (GetObjectBlksInfoResult_Success p)"

definition BFSS_APIDGetObjectBlksInfoResult_norm :: "BFSS_APIDGetObjectBlksInfoResult
    \<Rightarrow> BFSS_APIDGetObjectBlksInfoResult" where
  "BFSS_APIDGetObjectBlksInfoResult_norm p = p\<lparr>GetObjectBlksInfoResult_Success :=
      map_option OBJECT_BLKS_RESULT_norm (GetObjectBlksInfoResult_Success p)\<rparr>"

lemma BFSS_APIDGetObjectBlksInfoResult_writes:
  assumes "protocol_laws L w" and "BFSS_APIDGetObjectBlksInfoResult_wf a"
  shows "writes w (BFSS_APIDGetObjectBlksInfoResult_Write L (Some a))
      (BFSS_APIDGetObjectBlksInfoResult_enc a)"
  unfolding BFSS_APIDGetObjectBlksInfoResult_Write_def BFSS_APIDGetObjectBlksInfoResult_enc_def
  by (rule writes_struct [OF assms(1)], use assms in \<open>auto simp:
      BFSS_APIDGetObjectBlksInfoResult_steps_def BFSS_APIDGetObjectBlksInfoResult_fields_def
    BFSS_APIDGetObjectBlksInfoResult_wf_def Let_def intro!: writes_intros
        OBJECT_BLKS_RESULT_writes\<close>)

lemma BFSS_APIDGetObjectBlksInfoResult_fields_ok:
  assumes "protocol_laws L w" and "BFSS_APIDGetObjectBlksInfoResult_wf a"
  shows "\<forall>f \<in> set (BFSS_APIDGetObjectBlksInfoResult_fields a). fld_ok w
      (BFSS_APIDGetObjectBlksInfoResult_rows L) f"
  using assms by (auto simp: BFSS_APIDGetObjectBlksInfoResult_fields_def
      BFSS_APIDGetObjectBlksInfoResult_rows_def BFSS_APIDGetObjectBlksInfoResult_wf_def fld_ok_def
      intro!: reads_intros OBJECT_BLKS_RESULT_reads split: option.splits)

lemma BFSS_APIDGetObjectBlksInfoResult_fields_set: "foldl set_fld
    new_BFSS_APIDGetObjectBlksInfoResult
    (BFSS_APIDGetObjectBlksInfoResult_fields a) = BFSS_APIDGetObjectBlksInfoResult_norm a"
  by (cases a) (auto simp: BFSS_APIDGetObjectBlksInfoResult_fields_def set_fld_def
      new_BFSS_APIDGetObjectBlksInfoResult_def BFSS_APIDGetObjectBlksInfoResult_norm_def)

lemma BFSS_APIDGetObjectBlksInfoResult_reads:
  assumes "protocol_laws L w" and "BFSS_APIDGetObjectBlksInfoResult_wf a"
  shows "reads w (BFSS_APIDGetObjectBlksInfoResult_Read L new_BFSS_APIDGetObjectBlksInfoResult)
      (BFSS_APIDGetObjectBlksInfoResult_enc a) (BFSS_APIDGetObjectBlksInfoResult_norm a)"
  unfolding BFSS_APIDGetObjectBlksInfoResult_Read_def BFSS_APIDGetObjectBlksInfoResult_enc_def
  by (intro reads_fields [OF assms(1)] BFSS_APIDGetObjectBlksInfoResult_fields_ok [OF assms]
      BFSS_APIDGetObjectBlksInfoResult_fields_set)
    (simp add: BFSS_APIDGetObjectBlksInfoResult_fields_def
        BFSS_APIDGetObjectBlksInfoResult_rows_def present_def)

interpretation getObjectBlksInfoResult: struct_codec BFSS_APIDGetObjectBlksInfoResult_enc
    BFSS_APIDGetObjectBlksInfoResult_wf BFSS_APIDGetObjectBlksInfoResult_norm
    new_BFSS_APIDGetObjectBlksInfoResult BFSS_APIDGetObjectBlksInfoResult_Write
        BFSS_APIDGetObjectBlksInfoResult_Read
  by unfold_locales (fact BFSS_APIDGetObjectBlksInfoResult_writes,
      fact BFSS_APIDGetObjectBlksInfoResult_reads)

section \<open>\<^verbatim>\<open>BFSS_APIDGetObjectBlkKeyArgs\<close>\<close>

record BFSS_APIDGetObjectBlkKeyArgs =
  GetObjectBlkKeyArgs_Oid :: string
  GetObjectBlkKeyArgs_Offset :: int

definition new_BFSS_APIDGetObjectBlkKeyArgs :: BFSS_APIDGetObjectBlkKeyArgs where
  "new_BFSS_APIDGetObjectBlkKeyArgs = \<lparr>GetObjectBlkKeyArgs_Oid = [],
      GetObjectBlkKeyArgs_Offset = 0\<rparr>"

definition BFSS_APIDGetObjectBlkKeyArgs_GetOid :: "BFSS_APIDGetObjectBlkKeyArgs
    \<Rightarrow> string" where
  "BFSS_APIDGetObjectBlkKeyArgs_GetOid p = GetObjectBlkKeyArgs_Oid p"

definition BFSS_APIDGetObjectBlkKeyArgs_GetOffset :: "BFSS_APIDGetObjectBlkKeyArgs
    \<Rightarrow> int" where
  "BFSS_APIDGetObjectBlkKeyArgs_GetOffset p = GetObjectBlkKeyArgs_Offset p"

definition BFSS_APIDGetObjectBlkKeyArgs_rows :: "('p, 'e) tlib \<Rightarrow>
    (BFSS_APIDGetObjectBlkKeyArgs, 'p, 'e) row list" where
  "BFSS_APIDGetObjectBlkKeyArgs_rows L =
     [\<lparr>row_id = 1, row_type = STRING,
       row_read = read_scalar L 1 (ReadString L)
           (\<lambda>v p. p\<lparr>GetObjectBlkKeyArgs_Oid := v\<rparr>)\<rparr>,
      \<lparr>row_id = 2, row_type = I32,
       row_read = read_scalar L 2 (ReadI32 L)
           (\<lambda>v p. p\<lparr>GetObjectBlkKeyArgs_Offset := v\<rparr>)\<rparr>]"

definition BFSS_APIDGetObjectBlkKeyArgs_Read :: "('p, 'e) tlib \<Rightarrow>
    (BFSS_APIDGetObjectBlkKeyArgs, 'p, 'e) reader" where
  "BFSS_APIDGetObjectBlkKeyArgs_Read L =
     read_struct L ''*BFSS_API.BFSS_APIDGetObjectBlkKeyArgs'' (BFSS_APIDGetObjectBlkKeyArgs_rows L)
       []"

definition BFSS_APIDGetObjectBlkKeyArgs_steps :: "('p, 'e) tlib
    \<Rightarrow> BFSS_APIDGetObjectBlkKeyArgs \<Rightarrow> ('p
    \<Rightarrow> 'e option \<times> 'p) list" where
  "BFSS_APIDGetObjectBlkKeyArgs_steps L p =
     (let T = ''*BFSS_API.BFSS_APIDGetObjectBlkKeyArgs'' in
      [write_scalar L T ''oid'' STRING 1 (WriteString L (GetObjectBlkKeyArgs_Oid p)),
       write_scalar L T ''offset'' I32 2 (WriteI32 L (GetObjectBlkKeyArgs_Offset p))])"

definition BFSS_APIDGetObjectBlkKeyArgs_Write :: "('p, 'e) tlib
    \<Rightarrow> BFSS_APIDGetObjectBlkKeyArgs option \<Rightarrow> 'p
    \<Rightarrow> 'e option \<times> 'p" where
  "BFSS_APIDGetObjectBlkKeyArgs_Write L = write_struct L
      ''*BFSS_API.BFSS_APIDGetObjectBlkKeyArgs'' ''GetObjectBlkKey_args''
      (BFSS_APIDGetObjectBlkKeyArgs_steps L)"

definition BFSS_APIDGetObjectBlkKeyArgs_fields :: "BFSS_APIDGetObjectBlkKeyArgs
    \<Rightarrow> BFSS_APIDGetObjectBlkKeyArgs fld list" where
  "BFSS_APIDGetObjectBlkKeyArgs_fields p =
     [\<lparr>fld_name = ''oid'', fld_type = STRING, fld_id = 1,
       fld_toks = Some [TString (GetObjectBlkKeyArgs_Oid p)],
       fld_set = \<lambda>q. q\<lparr>GetObjectBlkKeyArgs_Oid := (GetObjectBlkKeyArgs_Oid
           p)\<rparr>\<rparr>,
      \<lparr>fld_name = ''offset'', fld_type = I32, fld_id = 2,
       fld_toks = Some [TI32 (GetObjectBlkKeyArgs_Offset p)],
       fld_set = \<lambda>q. q\<lparr>GetObjectBlkKeyArgs_Offset := (GetObjectBlkKeyArgs_Offset
           p)\<rparr>\<rparr>]"

definition BFSS_APIDGetObjectBlkKeyArgs_enc :: "BFSS_APIDGetObjectBlkKeyArgs
    \<Rightarrow> tok list" where
  "BFSS_APIDGetObjectBlkKeyArgs_enc p = enc_struct ''GetObjectBlkKey_args'' (map enc_fld
      (BFSS_APIDGetObjectBlkKeyArgs_fields p))"

definition BFSS_APIDGetObjectBlkKeyArgs_wf :: "BFSS_APIDGetObjectBlkKeyArgs
    \<Rightarrow> bool" where
  "BFSS_APIDGetObjectBlkKeyArgs_wf p \<longleftrightarrow> i32 (GetObjectBlkKeyArgs_Offset p) =
      GetObjectBlkKeyArgs_Offset p"

definition BFSS_APIDGetObjectBlkKeyArgs_norm :: "BFSS_APIDGetObjectBlkKeyArgs
    \<Rightarrow> BFSS_APIDGetObjectBlkKeyArgs" where
  "BFSS_APIDGetObjectBlkKeyArgs_norm p = p"

lemma BFSS_APIDGetObjectBlkKeyArgs_writes:
  assumes "protocol_laws L w" and "BFSS_APIDGetObjectBlkKeyArgs_wf a"
  shows "writes w (BFSS_APIDGetObjectBlkKeyArgs_Write L (Some a))
      (BFSS_APIDGetObjectBlkKeyArgs_enc a)"
  unfolding BFSS_APIDGetObjectBlkKeyArgs_Write_def BFSS_APIDGetObjectBlkKeyArgs_enc_def
  by (rule writes_struct [OF assms(1)], use assms in \<open>auto simp:
      BFSS_APIDGetObjectBlkKeyArgs_steps_def BFSS_APIDGetObjectBlkKeyArgs_fields_def
    BFSS_APIDGetObjectBlkKeyArgs_wf_def Let_def intro!: writes_intros\<close>)

lemma BFSS_APIDGetObjectBlkKeyArgs_fields_ok:
  assumes "protocol_laws L w" and "BFSS_APIDGetObjectBlkKeyArgs_wf a"
  shows "\<forall>f \<in> set (BFSS_APIDGetObjectBlkKeyArgs_fields a). fld_ok w
      (BFSS_APIDGetObjectBlkKeyArgs_rows L) f"
  using assms by (auto simp: BFSS_APIDGetObjectBlkKeyArgs_fields_def
      BFSS_APIDGetObjectBlkKeyArgs_rows_def BFSS_APIDGetObjectBlkKeyArgs_wf_def fld_ok_def
      intro!: reads_intros split: option.splits)

lemma BFSS_APIDGetObjectBlkKeyArgs_fields_set: "foldl set_fld new_BFSS_APIDGetObjectBlkKeyArgs
    (BFSS_APIDGetObjectBlkKeyArgs_fields a) = BFSS_APIDGetObjectBlkKeyArgs_norm a"
  by (cases a) (auto simp: BFSS_APIDGetObjectBlkKeyArgs_fields_def set_fld_def
      new_BFSS_APIDGetObjectBlkKeyArgs_def BFSS_APIDGetObjectBlkKeyArgs_norm_def)

lemma BFSS_APIDGetObjectBlkKeyArgs_reads:
  assumes "protocol_laws L w" and "BFSS_APIDGetObjectBlkKeyArgs_wf a"
  shows "reads w (BFSS_APIDGetObjectBlkKeyArgs_Read L new_BFSS_APIDGetObjectBlkKeyArgs)
      (BFSS_APIDGetObjectBlkKeyArgs_enc a) (BFSS_APIDGetObjectBlkKeyArgs_norm a)"
  unfolding BFSS_APIDGetObjectBlkKeyArgs_Read_def BFSS_APIDGetObjectBlkKeyArgs_enc_def
  by (intro reads_fields [OF assms(1)] BFSS_APIDGetObjectBlkKeyArgs_fields_ok [OF assms]
      BFSS_APIDGetObjectBlkKeyArgs_fields_set)
    (simp add: BFSS_APIDGetObjectBlkKeyArgs_fields_def BFSS_APIDGetObjectBlkKeyArgs_rows_def
        present_def)

interpretation getObjectBlkKeyArgs: struct_codec BFSS_APIDGetObjectBlkKeyArgs_enc
    BFSS_APIDGetObjectBlkKeyArgs_wf BFSS_APIDGetObjectBlkKeyArgs_norm
    new_BFSS_APIDGetObjectBlkKeyArgs BFSS_APIDGetObjectBlkKeyArgs_Write
        BFSS_APIDGetObjectBlkKeyArgs_Read
  by unfold_locales (fact BFSS_APIDGetObjectBlkKeyArgs_writes,
      fact BFSS_APIDGetObjectBlkKeyArgs_reads)

section \<open>\<^verbatim>\<open>BFSS_APIDGetObjectBlkKeyResult\<close>\<close>

record BFSS_APIDGetObjectBlkKeyResult =
  GetObjectBlkKeyResult_Success :: "BLK_KEY_RESULT option"

definition new_BFSS_APIDGetObjectBlkKeyResult :: BFSS_APIDGetObjectBlkKeyResult where
  "new_BFSS_APIDGetObjectBlkKeyResult = \<lparr>GetObjectBlkKeyResult_Success = None\<rparr>"

definition BFSS_APIDGetObjectBlkKeyResult_IsSetSuccess :: "BFSS_APIDGetObjectBlkKeyResult
    \<Rightarrow> bool" where
  "BFSS_APIDGetObjectBlkKeyResult_IsSetSuccess p \<longleftrightarrow>
      GetObjectBlkKeyResult_Success p \<noteq> None"

definition BFSS_APIDGetObjectBlkKeyResult_GetSuccess :: "BFSS_APIDGetObjectBlkKeyResult
    \<Rightarrow> BLK_KEY_RESULT option" where
  "BFSS_APIDGetObjectBlkKeyResult_GetSuccess p = (if \<not>
      BFSS_APIDGetObjectBlkKeyResult_IsSetSuccess p then None else GetObjectBlkKeyResult_Success p)"

definition BFSS_APIDGetObjectBlkKeyResult_rows :: "('p, 'e) tlib \<Rightarrow>
    (BFSS_APIDGetObjectBlkKeyResult, 'p, 'e) row list" where
  "BFSS_APIDGetObjectBlkKeyResult_rows L =
     [\<lparr>row_id = 0, row_type = STRUCT,
       row_read = read_nested L ''*BFSS_API.BLK_KEY_RESULT'' (BLK_KEY_RESULT_Read L
           new_BLK_KEY_RESULT) (\<lambda>v p. p\<lparr>GetObjectBlkKeyResult_Success := Some
           v\<rparr>)\<rparr>]"

definition BFSS_APIDGetObjectBlkKeyResult_Read :: "('p, 'e) tlib \<Rightarrow>
    (BFSS_APIDGetObjectBlkKeyResult, 'p, 'e) reader" where
  "BFSS_APIDGetObjectBlkKeyResult_Read L =
     read_struct L ''*BFSS_API.BFSS_APIDGetObjectBlkKeyResult''
         (BFSS_APIDGetObjectBlkKeyResult_rows L)
       []"

definition BFSS_APIDGetObjectBlkKeyResult_steps :: "('p, 'e) tlib
    \<Rightarrow> BFSS_APIDGetObjectBlkKeyResult \<Rightarrow> ('p
    \<Rightarrow> 'e option \<times> 'p) list" where
  "BFSS_APIDGetObjectBlkKeyResult_steps L p =
     (let T = ''*BFSS_API.BFSS_APIDGetObjectBlkKeyResult'' in
      [if_set (GetObjectBlkKeyResult_Success p)
          (\<lambda>x. write_nested L T ''success'' 0 ''*BFSS_API.BLK_KEY_RESULT''
          (BLK_KEY_RESULT_Write L (Some x)))])"

definition BFSS_APIDGetObjectBlkKeyResult_Write :: "('p, 'e) tlib
    \<Rightarrow> BFSS_APIDGetObjectBlkKeyResult option \<Rightarrow> 'p
    \<Rightarrow> 'e option \<times> 'p" where
  "BFSS_APIDGetObjectBlkKeyResult_Write L = write_struct L
      ''*BFSS_API.BFSS_APIDGetObjectBlkKeyResult'' ''GetObjectBlkKey_result''
      (BFSS_APIDGetObjectBlkKeyResult_steps L)"

definition BFSS_APIDGetObjectBlkKeyResult_fields :: "BFSS_APIDGetObjectBlkKeyResult
    \<Rightarrow> BFSS_APIDGetObjectBlkKeyResult fld list" where
  "BFSS_APIDGetObjectBlkKeyResult_fields p =
     [\<lparr>fld_name = ''success'', fld_type = STRUCT, fld_id = 0,
       fld_toks = map_option BLK_KEY_RESULT_enc (GetObjectBlkKeyResult_Success p),
       fld_set = \<lambda>q. q\<lparr>GetObjectBlkKeyResult_Success := map_option
           BLK_KEY_RESULT_norm (GetObjectBlkKeyResult_Success p)\<rparr>\<rparr>]"

definition BFSS_APIDGetObjectBlkKeyResult_enc :: "BFSS_APIDGetObjectBlkKeyResult
    \<Rightarrow> tok list" where
  "BFSS_APIDGetObjectBlkKeyResult_enc p = enc_struct ''GetObjectBlkKey_result'' (map enc_fld
      (BFSS_APIDGetObjectBlkKeyResult_fields p))"

definition BFSS_APIDGetObjectBlkKeyResult_wf :: "BFSS_APIDGetObjectBlkKeyResult
    \<Rightarrow> bool" where
  "BFSS_APIDGetObjectBlkKeyResult_wf p \<longleftrightarrow> pred_option BLK_KEY_RESULT_wf
      (GetObjectBlkKeyResult_Success p)"

definition BFSS_APIDGetObjectBlkKeyResult_norm :: "BFSS_APIDGetObjectBlkKeyResult
    \<Rightarrow> BFSS_APIDGetObjectBlkKeyResult" where
  "BFSS_APIDGetObjectBlkKeyResult_norm p = p\<lparr>GetObjectBlkKeyResult_Success := map_option
      BLK_KEY_RESULT_norm (GetObjectBlkKeyResult_Success p)\<rparr>"

lemma BFSS_APIDGetObjectBlkKeyResult_writes:
  assumes "protocol_laws L w" and "BFSS_APIDGetObjectBlkKeyResult_wf a"
  shows "writes w (BFSS_APIDGetObjectBlkKeyResult_Write L (Some a))
      (BFSS_APIDGetObjectBlkKeyResult_enc a)"
  unfolding BFSS_APIDGetObjectBlkKeyResult_Write_def BFSS_APIDGetObjectBlkKeyResult_enc_def
  by (rule writes_struct [OF assms(1)], use assms in \<open>auto simp:
      BFSS_APIDGetObjectBlkKeyResult_steps_def BFSS_APIDGetObjectBlkKeyResult_fields_def
    BFSS_APIDGetObjectBlkKeyResult_wf_def Let_def intro!: writes_intros
        BLK_KEY_RESULT_writes\<close>)

lemma BFSS_APIDGetObjectBlkKeyResult_fields_ok:
  assumes "protocol_laws L w" and "BFSS_APIDGetObjectBlkKeyResult_wf a"
  shows "\<forall>f \<in> set (BFSS_APIDGetObjectBlkKeyResult_fields a). fld_ok w
      (BFSS_APIDGetObjectBlkKeyResult_rows L) f"
  using assms by (auto simp: BFSS_APIDGetObjectBlkKeyResult_fields_def
      BFSS_APIDGetObjectBlkKeyResult_rows_def BFSS_APIDGetObjectBlkKeyResult_wf_def fld_ok_def
      intro!: reads_intros BLK_KEY_RESULT_reads split: option.splits)

lemma BFSS_APIDGetObjectBlkKeyResult_fields_set: "foldl set_fld
    new_BFSS_APIDGetObjectBlkKeyResult (BFSS_APIDGetObjectBlkKeyResult_fields a) =
    BFSS_APIDGetObjectBlkKeyResult_norm a"
  by (cases a) (auto simp: BFSS_APIDGetObjectBlkKeyResult_fields_def set_fld_def
      new_BFSS_APIDGetObjectBlkKeyResult_def BFSS_APIDGetObjectBlkKeyResult_norm_def)

lemma BFSS_APIDGetObjectBlkKeyResult_reads:
  assumes "protocol_laws L w" and "BFSS_APIDGetObjectBlkKeyResult_wf a"
  shows "reads w (BFSS_APIDGetObjectBlkKeyResult_Read L new_BFSS_APIDGetObjectBlkKeyResult)
      (BFSS_APIDGetObjectBlkKeyResult_enc a) (BFSS_APIDGetObjectBlkKeyResult_norm a)"
  unfolding BFSS_APIDGetObjectBlkKeyResult_Read_def BFSS_APIDGetObjectBlkKeyResult_enc_def
  by (intro reads_fields [OF assms(1)] BFSS_APIDGetObjectBlkKeyResult_fields_ok [OF assms]
      BFSS_APIDGetObjectBlkKeyResult_fields_set)
    (simp add: BFSS_APIDGetObjectBlkKeyResult_fields_def BFSS_APIDGetObjectBlkKeyResult_rows_def
        present_def)

interpretation getObjectBlkKeyResult: struct_codec BFSS_APIDGetObjectBlkKeyResult_enc
    BFSS_APIDGetObjectBlkKeyResult_wf BFSS_APIDGetObjectBlkKeyResult_norm
    new_BFSS_APIDGetObjectBlkKeyResult BFSS_APIDGetObjectBlkKeyResult_Write
        BFSS_APIDGetObjectBlkKeyResult_Read
  by unfold_locales (fact BFSS_APIDGetObjectBlkKeyResult_writes,
      fact BFSS_APIDGetObjectBlkKeyResult_reads)

section \<open>\<^verbatim>\<open>BFSS_APIDManageMessageArgs\<close>\<close>

record BFSS_APIDManageMessageArgs =
  ManageMessageArgs_CmdId :: int
  ManageMessageArgs_Param :: int
  ManageMessageArgs_Data :: bytes

definition new_BFSS_APIDManageMessageArgs :: BFSS_APIDManageMessageArgs where
  "new_BFSS_APIDManageMessageArgs = \<lparr>ManageMessageArgs_CmdId = 0,
      ManageMessageArgs_Param = 0, ManageMessageArgs_Data = None\<rparr>"

definition BFSS_APIDManageMessageArgs_GetCmdId :: "BFSS_APIDManageMessageArgs
    \<Rightarrow> int" where
  "BFSS_APIDManageMessageArgs_GetCmdId p = ManageMessageArgs_CmdId p"

definition BFSS_APIDManageMessageArgs_GetParam :: "BFSS_APIDManageMessageArgs
    \<Rightarrow> int" where
  "BFSS_APIDManageMessageArgs_GetParam p = ManageMessageArgs_Param p"

definition BFSS_APIDManageMessageArgs_GetData :: "BFSS_APIDManageMessageArgs
    \<Rightarrow> bytes" where
  "BFSS_APIDManageMessageArgs_GetData p = ManageMessageArgs_Data p"

definition BFSS_APIDManageMessageArgs_rows :: "('p, 'e) tlib \<Rightarrow>
    (BFSS_APIDManageMessageArgs, 'p, 'e) row list" where
  "BFSS_APIDManageMessageArgs_rows L =
     [\<lparr>row_id = 1, row_type = I32,
       row_read = read_scalar L 1 (ReadI32 L)
           (\<lambda>v p. p\<lparr>ManageMessageArgs_CmdId := v\<rparr>)\<rparr>,
      \<lparr>row_id = 2, row_type = I32,
       row_read = read_scalar L 2 (ReadI32 L)
           (\<lambda>v p. p\<lparr>ManageMessageArgs_Param := v\<rparr>)\<rparr>,
      \<lparr>row_id = 3, row_type = STRING,
       row_read = read_scalar L 3 (ReadBinary L)
           (\<lambda>v p. p\<lparr>ManageMessageArgs_Data := v\<rparr>)\<rparr>]"

definition BFSS_APIDManageMessageArgs_Read :: "('p, 'e) tlib \<Rightarrow>
    (BFSS_APIDManageMessageArgs, 'p, 'e) reader" where
  "BFSS_APIDManageMessageArgs_Read L =
     read_struct L ''*BFSS_API.BFSS_APIDManageMessageArgs'' (BFSS_APIDManageMessageArgs_rows L)
       []"

definition BFSS_APIDManageMessageArgs_steps :: "('p, 'e) tlib
    \<Rightarrow> BFSS_APIDManageMessageArgs \<Rightarrow> ('p
    \<Rightarrow> 'e option \<times> 'p) list" where
  "BFSS_APIDManageMessageArgs_steps L p =
     (let T = ''*BFSS_API.BFSS_APIDManageMessageArgs'' in
      [write_scalar L T ''CmdId'' I32 1 (WriteI32 L (ManageMessageArgs_CmdId p)),
       write_scalar L T ''Param'' I32 2 (WriteI32 L (ManageMessageArgs_Param p)),
       write_scalar L T ''Data'' STRING 3 (WriteBinary L (ManageMessageArgs_Data p))])"

definition BFSS_APIDManageMessageArgs_Write :: "('p, 'e) tlib
    \<Rightarrow> BFSS_APIDManageMessageArgs option \<Rightarrow> 'p
    \<Rightarrow> 'e option \<times> 'p" where
  "BFSS_APIDManageMessageArgs_Write L = write_struct L ''*BFSS_API.BFSS_APIDManageMessageArgs''
      ''ManageMessage_args'' (BFSS_APIDManageMessageArgs_steps L)"

definition BFSS_APIDManageMessageArgs_fields :: "BFSS_APIDManageMessageArgs
    \<Rightarrow> BFSS_APIDManageMessageArgs fld list" where
  "BFSS_APIDManageMessageArgs_fields p =
     [\<lparr>fld_name = ''CmdId'', fld_type = I32, fld_id = 1,
       fld_toks = Some [TI32 (ManageMessageArgs_CmdId p)],
       fld_set = \<lambda>q. q\<lparr>ManageMessageArgs_CmdId := (ManageMessageArgs_CmdId
           p)\<rparr>\<rparr>,
      \<lparr>fld_name = ''Param'', fld_type = I32, fld_id = 2,
       fld_toks = Some [TI32 (ManageMessageArgs_Param p)],
       fld_set = \<lambda>q. q\<lparr>ManageMessageArgs_Param := (ManageMessageArgs_Param
           p)\<rparr>\<rparr>,
      \<lparr>fld_name = ''Data'', fld_type = STRING, fld_id = 3,
       fld_toks = Some [TBinary (bytes_of (ManageMessageArgs_Data p))],
       fld_set = \<lambda>q. q\<lparr>ManageMessageArgs_Data := Some (bytes_of
           (ManageMessageArgs_Data p))\<rparr>\<rparr>]"

definition BFSS_APIDManageMessageArgs_enc :: "BFSS_APIDManageMessageArgs
    \<Rightarrow> tok list" where
  "BFSS_APIDManageMessageArgs_enc p = enc_struct ''ManageMessage_args'' (map enc_fld
      (BFSS_APIDManageMessageArgs_fields p))"

definition BFSS_APIDManageMessageArgs_wf :: "BFSS_APIDManageMessageArgs \<Rightarrow> bool" where
  "BFSS_APIDManageMessageArgs_wf p \<longleftrightarrow> i32 (ManageMessageArgs_CmdId p) =
      ManageMessageArgs_CmdId p \<and> i32 (ManageMessageArgs_Param p) = ManageMessageArgs_Param p"

definition BFSS_APIDManageMessageArgs_norm :: "BFSS_APIDManageMessageArgs
    \<Rightarrow> BFSS_APIDManageMessageArgs" where
  "BFSS_APIDManageMessageArgs_norm p = p\<lparr>ManageMessageArgs_Data := Some (bytes_of
      (ManageMessageArgs_Data p))\<rparr>"

lemma BFSS_APIDManageMessageArgs_writes:
  assumes "protocol_laws L w" and "BFSS_APIDManageMessageArgs_wf a"
  shows "writes w (BFSS_APIDManageMessageArgs_Write L (Some a)) (BFSS_APIDManageMessageArgs_enc a)"
  unfolding BFSS_APIDManageMessageArgs_Write_def BFSS_APIDManageMessageArgs_enc_def
  by (rule writes_struct [OF assms(1)], use assms in \<open>auto simp:
      BFSS_APIDManageMessageArgs_steps_def BFSS_APIDManageMessageArgs_fields_def
    BFSS_APIDManageMessageArgs_wf_def Let_def intro!: writes_intros\<close>)

lemma BFSS_APIDManageMessageArgs_fields_ok:
  assumes "protocol_laws L w" and "BFSS_APIDManageMessageArgs_wf a"
  shows "\<forall>f \<in> set (BFSS_APIDManageMessageArgs_fields a). fld_ok w
      (BFSS_APIDManageMessageArgs_rows L) f"
  using assms by (auto simp: BFSS_APIDManageMessageArgs_fields_def
      BFSS_APIDManageMessageArgs_rows_def BFSS_APIDManageMessageArgs_wf_def fld_ok_def
      intro!: reads_intros split: option.splits)

lemma BFSS_APIDManageMessageArgs_fields_set: "foldl set_fld new_BFSS_APIDManageMessageArgs
    (BFSS_APIDManageMessageArgs_fields a) = BFSS_APIDManageMessageArgs_norm a"
  by (cases a) (auto simp: BFSS_APIDManageMessageArgs_fields_def set_fld_def
      new_BFSS_APIDManageMessageArgs_def BFSS_APIDManageMessageArgs_norm_def)

lemma BFSS_APIDManageMessageArgs_reads:
  assumes "protocol_laws L w" and "BFSS_APIDManageMessageArgs_wf a"
  shows "reads w (BFSS_APIDManageMessageArgs_Read L new_BFSS_APIDManageMessageArgs)
      (BFSS_APIDManageMessageArgs_enc a) (BFSS_APIDManageMessageArgs_norm a)"
  unfolding BFSS_APIDManageMessageArgs_Read_def BFSS_APIDManageMessageArgs_enc_def
  by (intro reads_fields [OF assms(1)] BFSS_APIDManageMessageArgs_fields_ok [OF assms]
      BFSS_APIDManageMessageArgs_fields_set)
    (simp add: BFSS_APIDManageMessageArgs_fields_def BFSS_APIDManageMessageArgs_rows_def
        present_def)

interpretation manageMessageArgs: struct_codec BFSS_APIDManageMessageArgs_enc
    BFSS_APIDManageMessageArgs_wf BFSS_APIDManageMessageArgs_norm
    new_BFSS_APIDManageMessageArgs BFSS_APIDManageMessageArgs_Write BFSS_APIDManageMessageArgs_Read
  by unfold_locales (fact BFSS_APIDManageMessageArgs_writes, fact BFSS_APIDManageMessageArgs_reads)

section \<open>\<^verbatim>\<open>BFSS_APIDManageMessageResult\<close>\<close>

record BFSS_APIDManageMessageResult =
  ManageMessageResult_Success :: "MESSAGE_RESULT option"

definition new_BFSS_APIDManageMessageResult :: BFSS_APIDManageMessageResult where
  "new_BFSS_APIDManageMessageResult = \<lparr>ManageMessageResult_Success = None\<rparr>"

definition BFSS_APIDManageMessageResult_IsSetSuccess :: "BFSS_APIDManageMessageResult
    \<Rightarrow> bool" where
  "BFSS_APIDManageMessageResult_IsSetSuccess p \<longleftrightarrow> ManageMessageResult_Success
      p \<noteq> None"

definition BFSS_APIDManageMessageResult_GetSuccess :: "BFSS_APIDManageMessageResult
    \<Rightarrow> MESSAGE_RESULT option" where
  "BFSS_APIDManageMessageResult_GetSuccess p = (if \<not>
      BFSS_APIDManageMessageResult_IsSetSuccess p then None else ManageMessageResult_Success p)"

definition BFSS_APIDManageMessageResult_rows :: "('p, 'e) tlib \<Rightarrow>
    (BFSS_APIDManageMessageResult, 'p, 'e) row list" where
  "BFSS_APIDManageMessageResult_rows L =
     [\<lparr>row_id = 0, row_type = STRUCT,
       row_read = read_nested L ''*BFSS_API.MESSAGE_RESULT'' (MESSAGE_RESULT_Read L
           new_MESSAGE_RESULT) (\<lambda>v p. p\<lparr>ManageMessageResult_Success := Some
           v\<rparr>)\<rparr>]"

definition BFSS_APIDManageMessageResult_Read :: "('p, 'e) tlib \<Rightarrow>
    (BFSS_APIDManageMessageResult, 'p, 'e) reader" where
  "BFSS_APIDManageMessageResult_Read L =
     read_struct L ''*BFSS_API.BFSS_APIDManageMessageResult'' (BFSS_APIDManageMessageResult_rows L)
       []"

definition BFSS_APIDManageMessageResult_steps :: "('p, 'e) tlib
    \<Rightarrow> BFSS_APIDManageMessageResult \<Rightarrow> ('p
    \<Rightarrow> 'e option \<times> 'p) list" where
  "BFSS_APIDManageMessageResult_steps L p =
     (let T = ''*BFSS_API.BFSS_APIDManageMessageResult'' in
      [if_set (ManageMessageResult_Success p)
          (\<lambda>x. write_nested L T ''success'' 0 ''*BFSS_API.MESSAGE_RESULT''
          (MESSAGE_RESULT_Write L (Some x)))])"

definition BFSS_APIDManageMessageResult_Write :: "('p, 'e) tlib
    \<Rightarrow> BFSS_APIDManageMessageResult option \<Rightarrow> 'p
    \<Rightarrow> 'e option \<times> 'p" where
  "BFSS_APIDManageMessageResult_Write L = write_struct L
      ''*BFSS_API.BFSS_APIDManageMessageResult'' ''ManageMessage_result''
      (BFSS_APIDManageMessageResult_steps L)"

definition BFSS_APIDManageMessageResult_fields :: "BFSS_APIDManageMessageResult
    \<Rightarrow> BFSS_APIDManageMessageResult fld list" where
  "BFSS_APIDManageMessageResult_fields p =
     [\<lparr>fld_name = ''success'', fld_type = STRUCT, fld_id = 0,
       fld_toks = map_option MESSAGE_RESULT_enc (ManageMessageResult_Success p),
       fld_set = \<lambda>q. q\<lparr>ManageMessageResult_Success := map_option
           MESSAGE_RESULT_norm (ManageMessageResult_Success p)\<rparr>\<rparr>]"

definition BFSS_APIDManageMessageResult_enc :: "BFSS_APIDManageMessageResult
    \<Rightarrow> tok list" where
  "BFSS_APIDManageMessageResult_enc p = enc_struct ''ManageMessage_result'' (map enc_fld
      (BFSS_APIDManageMessageResult_fields p))"

definition BFSS_APIDManageMessageResult_wf :: "BFSS_APIDManageMessageResult
    \<Rightarrow> bool" where
  "BFSS_APIDManageMessageResult_wf p \<longleftrightarrow> pred_option MESSAGE_RESULT_wf
      (ManageMessageResult_Success p)"

definition BFSS_APIDManageMessageResult_norm :: "BFSS_APIDManageMessageResult
    \<Rightarrow> BFSS_APIDManageMessageResult" where
  "BFSS_APIDManageMessageResult_norm p = p\<lparr>ManageMessageResult_Success := map_option
      MESSAGE_RESULT_norm (ManageMessageResult_Success p)\<rparr>"

lemma BFSS_APIDManageMessageResult_writes:
  assumes "protocol_laws L w" and "BFSS_APIDManageMessageResult_wf a"
  shows "writes w (BFSS_APIDManageMessageResult_Write L (Some a))
      (BFSS_APIDManageMessageResult_enc a)"
  unfolding BFSS_APIDManageMessageResult_Write_def BFSS_APIDManageMessageResult_enc_def
  by (rule writes_struct [OF assms(1)], use assms in \<open>auto simp:
      BFSS_APIDManageMessageResult_steps_def BFSS_APIDManageMessageResult_fields_def
    BFSS_APIDManageMessageResult_wf_def Let_def intro!: writes_intros MESSAGE_RESULT_writes\<close>)

lemma BFSS_APIDManageMessageResult_fields_ok:
  assumes "protocol_laws L w" and "BFSS_APIDManageMessageResult_wf a"
  shows "\<forall>f \<in> set (BFSS_APIDManageMessageResult_fields a). fld_ok w
      (BFSS_APIDManageMessageResult_rows L) f"
  using assms by (auto simp: BFSS_APIDManageMessageResult_fields_def
      BFSS_APIDManageMessageResult_rows_def BFSS_APIDManageMessageResult_wf_def fld_ok_def
      intro!: reads_intros MESSAGE_RESULT_reads split: option.splits)

lemma BFSS_APIDManageMessageResult_fields_set: "foldl set_fld new_BFSS_APIDManageMessageResult
    (BFSS_APIDManageMessageResult_fields a) = BFSS_APIDManageMessageResult_norm a"
  by (cases a) (auto simp: BFSS_APIDManageMessageResult_fields_def set_fld_def
      new_BFSS_APIDManageMessageResult_def BFSS_APIDManageMessageResult_norm_def)

lemma BFSS_APIDManageMessageResult_reads:
  assumes "protocol_laws L w" and "BFSS_APIDManageMessageResult_wf a"
  shows "reads w (BFSS_APIDManageMessageResult_Read L new_BFSS_APIDManageMessageResult)
      (BFSS_APIDManageMessageResult_enc a) (BFSS_APIDManageMessageResult_norm a)"
  unfolding BFSS_APIDManageMessageResult_Read_def BFSS_APIDManageMessageResult_enc_def
  by (intro reads_fields [OF assms(1)] BFSS_APIDManageMessageResult_fields_ok [OF assms]
      BFSS_APIDManageMessageResult_fields_set)
    (simp add: BFSS_APIDManageMessageResult_fields_def BFSS_APIDManageMessageResult_rows_def
        present_def)

interpretation manageMessageResult: struct_codec BFSS_APIDManageMessageResult_enc
    BFSS_APIDManageMessageResult_wf BFSS_APIDManageMessageResult_norm
    new_BFSS_APIDManageMessageResult BFSS_APIDManageMessageResult_Write
        BFSS_APIDManageMessageResult_Read
  by unfold_locales (fact BFSS_APIDManageMessageResult_writes,
      fact BFSS_APIDManageMessageResult_reads)

end
