(* ===== verification/Thrift_Service.thy ===== *)
theory Thrift_Service
  imports Thrift_Codec
begin

text \<open>
  The shape of a generated service: a client method packs its parameters into the arguments struct,
  hands it to the Thrift client, and unpacks the result struct; a processor reads the arguments,
  calls the handler and writes the result or an exception. The message functions of the Thrift
  library are the parameter \<open>mlib\<close>, the Thrift client is the parameter \<open>call\<close>.

  A processor reads from one protocol and writes to another; they do not share state.
\<close>

section \<open>The library\<close>

datatype exc_kind = UNKNOWN_METHOD | INTERNAL_ERROR | PROTOCOL_ERROR

type_synonym app_exception = "exc_kind \<times> string"

record ('p, 'e) mlib =
  base :: "('p, 'e) tlib"
  ReadMessageBegin :: "'p \<Rightarrow> ('e option \<times> string \<times> mtype \<times> int) \<times> 'p"
  ReadMessageEnd :: "'p \<Rightarrow> 'e option \<times> 'p"
  WriteMessageBegin :: "string \<Rightarrow> mtype \<Rightarrow> int \<Rightarrow> 'p \<Rightarrow> 'e option \<times> 'p"
  WriteMessageEnd :: "'p \<Rightarrow> 'e option \<times> 'p"
  Flush :: "'p \<Rightarrow> 'e option \<times> 'p"
  WriteException :: "app_exception \<Rightarrow> 'p \<Rightarrow> 'e option \<times> 'p"
  exception_error :: "app_exception \<Rightarrow> 'e"
  error_text :: "'e \<Rightarrow> string"

section \<open>The client\<close>

text \<open>
  A call gives the Thrift client the name, the arguments and a new result struct to fill; the
  state \<open>'s\<close> is that of the server. On an error the result is the zero value of its type.
\<close>

type_synonym ('a, 'r, 's, 'e) caller = "string \<Rightarrow> 'a \<Rightarrow> 'r \<Rightarrow> 's \<Rightarrow> ('e option \<times> 'r) \<times> 's"

definition client_call ::
  "('a, 'r, 's, 'e) caller \<Rightarrow> string \<Rightarrow> 'a \<Rightarrow> 'r \<Rightarrow> ('r \<Rightarrow> 'v) \<Rightarrow> 'v \<Rightarrow> 's \<Rightarrow> ('v \<times> 'e option) \<times> 's" where
  "client_call call m args result get_success zero s =
     (case call m args result s of
        ((Some err, r), s') \<Rightarrow> ((zero, Some err), s')
      | ((None, r), s') \<Rightarrow> ((get_success r, None), s'))"

section \<open>The processor\<close>

text \<open>All steps are run, whatever their errors; the first error is kept.\<close>

fun run_all :: "('p \<Rightarrow> 'e option \<times> 'p) list \<Rightarrow> 'p \<Rightarrow> 'e option \<times> 'p" where
  "run_all [] p = (None, p)"
| "run_all (f # fs) p =
     (case f p of (err, p') \<Rightarrow>
        (case run_all fs p' of (err2, p'') \<Rightarrow>
           (case err of None \<Rightarrow> err2 | Some e \<Rightarrow> Some e, p'')))"

definition reply_exception ::
  "('p, 'e) mlib \<Rightarrow> string \<Rightarrow> int \<Rightarrow> app_exception \<Rightarrow> 'p \<Rightarrow> 'p" where
  "reply_exception M m seq x q =
     snd (run_all [WriteMessageBegin M m EXCEPTION seq, WriteException M x, WriteMessageEnd M, Flush M] q)"

definition process_call ::
  "('p, 'e) mlib \<Rightarrow> string \<Rightarrow> ('p \<Rightarrow> ('e option \<times> 'a \<times> 'p) option)
     \<Rightarrow> ('a \<Rightarrow> 's \<Rightarrow> ('v \<times> 'e option) \<times> 's) \<Rightarrow> ('v \<Rightarrow> 'p \<Rightarrow> 'e option \<times> 'p) \<Rightarrow> int \<Rightarrow> 'p \<Rightarrow> 'p \<Rightarrow> 's
     \<Rightarrow> ((bool \<times> 'e option) \<times> 'p \<times> 'p \<times> 's) option" where
  "process_call M m read_args handle write_result seq p q s =
     (case read_args p of
        None \<Rightarrow> None
      | Some (Some err, args, p1) \<Rightarrow>
          Some ((False, Some err), snd (ReadMessageEnd M p1),
            reply_exception M m seq (PROTOCOL_ERROR, error_text M err) q, s)
      | Some (None, args, p1) \<Rightarrow>
          let p2 = snd (ReadMessageEnd M p1) in
          (case handle args s of
             ((retval, Some err2), s') \<Rightarrow>
               Some ((True, Some err2), p2,
                 reply_exception M m seq
                   (INTERNAL_ERROR, ''Internal error processing '' @ m @ '': '' @ error_text M err2) q, s')
           | ((retval, None), s') \<Rightarrow>
               (case run_all [WriteMessageBegin M m REPLY seq, write_result retval,
                              WriteMessageEnd M, Flush M] q of
                  (Some err, q') \<Rightarrow> Some ((False, Some err), p2, q', s')
                | (None, q') \<Rightarrow> Some ((True, None), p2, q', s'))))"

text \<open>A function of the processor map; the state of a processor is its map.\<close>

type_synonym ('p, 'e, 's) process_fun =
  "int \<Rightarrow> 'p \<Rightarrow> 'p \<Rightarrow> 's \<Rightarrow> ((bool \<times> 'e option) \<times> 'p \<times> 'p \<times> 's) option"

section \<open>What the library promises\<close>

definition message_laws :: "('p, 'e) mlib \<Rightarrow> 'p wire \<Rightarrow> bool" where
  "message_laws M w \<longleftrightarrow>
     protocol_laws (base M) w
     \<and> (\<forall>m k i p. WriteMessageBegin M m k i p = (None, put w (TMsg m k i) p))
     \<and> (\<forall>p. WriteMessageEnd M p = (None, put w TMsgEnd p))
     \<and> (\<forall>p. fst (Flush M p) = None \<and> sent w (snd (Flush M p)) = sent w p)
     \<and> (\<forall>m k i ts p. recv w p = TMsg m k i # ts \<longrightarrow>
          ReadMessageBegin M p = ((None, m, k, i), adv w p))
     \<and> (\<forall>ts p. recv w p = TMsgEnd # ts \<longrightarrow> ReadMessageEnd M p = (None, adv w p))"

text \<open>
  A server answers the arguments \<open>ts\<close> of a call of \<open>m\<close> with the result \<open>rs\<close>, going from state
  \<open>s\<close> to \<open>s'\<close>; a Thrift client that is connected to a server gives the caller what the
  server has answered.
\<close>

definition answers ::
  "'p wire \<Rightarrow> ('p \<Rightarrow> 'p \<Rightarrow> 's \<Rightarrow> ((bool \<times> 'e option) \<times> 'p \<times> 'p \<times> 's) option) \<Rightarrow> string
     \<Rightarrow> tok list \<Rightarrow> 's \<Rightarrow> tok list \<Rightarrow> 's \<Rightarrow> bool" where
  "answers w server m ts s rs s' \<longleftrightarrow>
     (\<forall>p q seq rest. recv w p = TMsg m CALL seq # ts @ TMsgEnd # rest \<longrightarrow>
        (\<exists>p' q'. server p q s = Some ((True, None), p', q', s') \<and> recv w p' = rest
           \<and> sent w q' = sent w q @ TMsg m REPLY seq # rs @ [TMsgEnd]))"

definition connected ::
  "'p wire \<Rightarrow> ('p \<Rightarrow> 'p \<Rightarrow> 's \<Rightarrow> ((bool \<times> 'e option) \<times> 'p \<times> 'p \<times> 's) option)
     \<Rightarrow> ('a \<Rightarrow> 'p \<Rightarrow> 'e option \<times> 'p) \<Rightarrow> ('r \<Rightarrow> 'p \<Rightarrow> ('e option \<times> 'r \<times> 'p) option)
     \<Rightarrow> ('a, 'r, 's, 'e) caller \<Rightarrow> bool" where
  "connected w server write_args read_result call \<longleftrightarrow>
     (\<forall>m a r0 r s s' ts rs. writes w (write_args a) ts \<longrightarrow> answers w server m ts s rs s' \<longrightarrow>
        reads w (read_result r0) rs r \<longrightarrow> call m a r0 s = ((None, r), s'))"

section \<open>Lemmas\<close>

lemma message_protocol: "message_laws M w \<Longrightarrow> protocol_laws (base M) w"
  by (simp add: message_laws_def)

lemma process_call_ok:
  assumes "message_laws M w" and "reads w rd ts a" and "handle a s = ((v, None), s')"
    and "writes w (wr v) rs" and "recv w p = ts @ TMsgEnd # rest"
  shows "\<exists>p' q'. process_call M m rd handle wr seq p q s = Some ((True, None), p', q', s')
    \<and> recv w p' = rest \<and> sent w q' = sent w q @ TMsg m REPLY seq # rs @ [TMsgEnd]"
proof -
  note laws = assms(1) [unfolded message_laws_def]
  have P: "protocol_laws (base M) w" using laws by simp
  obtain p1 where p1: "rd p = Some (None, a, p1)" "recv w p1 = TMsgEnd # rest"
    using assms(2,5) by (auto simp: reads_def)
  have p2: "ReadMessageEnd M p1 = (None, adv w p1)" using laws p1(2) by blast
  define q3 where "q3 = put w TMsgEnd (fold (put w) rs (put w (TMsg m REPLY seq) q))"
  obtain q4 where q4: "Flush M q3 = (None, q4)" "sent w q4 = sent w q3"
    using laws by (metis prod.collapse)
  have "run_all [WriteMessageBegin M m REPLY seq, wr v, WriteMessageEnd M, Flush M] q = (None, q4)"
    using laws assms(4) q4(1) by (simp add: writes_def q3_def)
  moreover have "sent w q4 = sent w q @ TMsg m REPLY seq # rs @ [TMsgEnd]"
    using sent_fold [OF P, of "[TMsg m REPLY seq] @ rs @ [TMsgEnd]" q]
    by (simp add: q4(2) q3_def)
  ultimately show ?thesis
    using p1 p2 assms(3) recv_adv [OF P p1(2)] by (simp add: process_call_def)
qed

section \<open>The contract of a method\<close>

text \<open>
  A method has an arguments struct and a result struct, a handler, an entry in the processor and
  a method of the client. A call through a connected client then gives what the handler gives.
\<close>

locale service_method =
  args: struct_codec aenc awf anf anew awr ard + result: struct_codec renc rwf rnf rnew rwr rrd
  for aenc :: "'a \<Rightarrow> tok list" and awf anf anew
    and awr :: "('p, 'e) tlib \<Rightarrow> 'a option \<Rightarrow> 'p \<Rightarrow> 'e option \<times> 'p" and ard
    and renc :: "'r \<Rightarrow> tok list" and rwf rnf rnew
    and rwr :: "('p, 'e) tlib \<Rightarrow> 'r option \<Rightarrow> 'p \<Rightarrow> 'e option \<times> 'p" and rrd +
  fixes m :: string and proc :: "('p, 'e) mlib \<Rightarrow> 'h \<Rightarrow> ('p, 'e, 's) process_fun"
    and handle :: "'h \<Rightarrow> 'a \<Rightarrow> 's \<Rightarrow> ('v \<times> 'e option) \<times> 's" and success :: "'v \<Rightarrow> 'r"
    and client :: "('a, 'r, 's, 'e) caller \<Rightarrow> 'a \<Rightarrow> 's \<Rightarrow> ('v \<times> 'e option) \<times> 's"
    and get_success :: "'r \<Rightarrow> 'v" and zero :: 'v
    and server :: "('p, 'e) mlib \<Rightarrow> 'h \<Rightarrow> 'p \<Rightarrow> 'p \<Rightarrow> 's \<Rightarrow> ((bool \<times> 'e option) \<times> 'p \<times> 'p \<times> 's) option"
  assumes proc: "proc M h =
      process_call M m (ard (base M) anew) (handle h) (\<lambda>v. rwr (base M) (Some (success v)))"
    and client: "client call a = client_call call m a rnew get_success zero"
    and server: "ReadMessageBegin M p = ((None, m, k, seq), p1) \<Longrightarrow> server M h p q s = proc M h seq p1 q s"
begin

lemma answers_call:
  assumes "message_laws M w" and "awf a" and "handle h (anf a) s = ((v, None), s')"
    and "rwf (success v)"
  shows "answers w (server M h) m (aenc a) s (renc (success v)) s'"
  unfolding answers_def
proof (intro allI impI)
  fix p q seq rest
  assume r: "recv w p = TMsg m CALL seq # aenc a @ TMsgEnd # rest"
  note P = message_protocol [OF assms(1)]
  have b: "ReadMessageBegin M p = ((None, m, CALL, seq), adv w p)"
    using assms(1) r by (auto simp: message_laws_def)
  have "recv w (adv w p) = aenc a @ TMsgEnd # rest" using recv_adv [OF P r] .
  from process_call_ok [where handle = "handle h" and wr = "\<lambda>v. rwr (base M) (Some (success v))",
      OF assms(1) args.read_enc [OF P assms(2)] assms(3) result.write_enc [OF P assms(4)] this]
  show "\<exists>p' q'. server M h p q s = Some ((True, None), p', q', s') \<and> recv w p' = rest
      \<and> sent w q' = sent w q @ TMsg m REPLY seq # renc (success v) @ [TMsgEnd]"
    by (simp add: server [OF b] proc)
qed

lemma transparent:
  assumes "message_laws M w" and "awf a" and "handle h (anf a) s = ((v, None), s')"
    and "rwf (success v)"
    and "connected w (server M h) (\<lambda>a. awr (base M) (Some a)) (rrd (base M)) call"
  shows "client call a s = ((get_success (rnf (success v)), None), s')"
proof -
  note P = message_protocol [OF assms(1)]
  have "call m a rnew s = ((None, rnf (success v)), s')"
    using assms(5) answers_call [OF assms(1-4)] args.write_enc [OF P assms(2)]
      result.read_enc [OF P assms(4)]
    unfolding connected_def by blast
  then show ?thesis by (simp add: client client_call_def)
qed

end

section \<open>A connection over token lists\<close>

definition token_mlib :: "(tokens, string) mlib" where
  "token_mlib =
     \<lparr>base = token_lib,
      ReadMessageBegin = (\<lambda>p. case next_tok (\<lambda>t. case t of TMsg m k i \<Rightarrow> Some (m, k, i) | _ \<Rightarrow> None) p of
        (Inl e, p') \<Rightarrow> ((Some e, [], CALL, 0), p') | (Inr (m, k, i), p') \<Rightarrow> ((None, m, k, i), p')),
      ReadMessageEnd = next_unit (\<lambda>t. t = TMsgEnd),
      WriteMessageBegin = (\<lambda>m k i. emit (TMsg m k i)), WriteMessageEnd = emit TMsgEnd,
      Flush = (\<lambda>p. (None, p)), WriteException = (\<lambda>x. emit (TString (snd x))),
      exception_error = snd, error_text = (\<lambda>e. e)\<rparr>"

lemma token_messages: "message_laws token_mlib token_wire"
  using token_protocol
  by (simp add: message_laws_def token_mlib_def token_wire_def next_tok_def next_unit_def emit_def)

text \<open>A Thrift client that runs the server on its own request.\<close>

definition token_call ::
  "(tokens \<Rightarrow> tokens \<Rightarrow> 's \<Rightarrow> ((bool \<times> string option) \<times> tokens \<times> tokens \<times> 's) option)
     \<Rightarrow> ('a \<Rightarrow> tokens \<Rightarrow> string option \<times> tokens)
     \<Rightarrow> ('r \<Rightarrow> tokens \<Rightarrow> (string option \<times> 'r \<times> tokens) option) \<Rightarrow> ('a, 'r, 's, string) caller" where
  "token_call server write_args read_result m a r0 s =
     (case server ([], TMsg m CALL 0 # fst (snd (write_args a ([], []))) @ [TMsgEnd]) ([], []) s of
        None \<Rightarrow> ((Some ''no answer'', r0), s)
      | Some (_, p', q', s') \<Rightarrow>
          (case read_result r0 ([], butlast (tl (fst q'))) of
             None \<Rightarrow> ((Some ''no result'', r0), s')
           | Some (err, r, _) \<Rightarrow> ((err, r), s')))"

lemma token_connected:
  "connected token_wire server write_args read_result (token_call server write_args read_result)"
  unfolding connected_def
proof (intro allI impI)
  fix m a r0 r s s' ts rs
  assume w: "writes token_wire (write_args a) ts" and a: "answers token_wire server m ts s rs s'"
    and r: "reads token_wire (read_result r0) rs r"
  have "sent token_wire (fold (put token_wire) ts ([], [])) = ts"
    using sent_fold [OF token_protocol, of ts "([], [])"] by (simp add: token_wire_def)
  then have ts: "fst (snd (write_args a ([], []))) = ts"
    using w by (simp add: writes_def token_wire_def)
  have "recv token_wire ([], TMsg m CALL 0 # ts @ [TMsgEnd]) = TMsg m CALL 0 # ts @ TMsgEnd # []"
    by (simp add: token_wire_def)
  then obtain p' q' where "server ([], TMsg m CALL 0 # ts @ [TMsgEnd]) ([], []) s =
      Some ((True, None), p', q', s')" "sent token_wire q' = TMsg m REPLY 0 # rs @ [TMsgEnd]"
    using a unfolding answers_def by (fastforce simp: token_wire_def)
  moreover obtain p2 where "read_result r0 ([], rs) = Some (None, r, p2)"
    using r [unfolded reads_def, rule_format, of "([], rs)" "[]"] by (auto simp: token_wire_def)
  ultimately show "token_call server write_args read_result m a r0 s = ((None, r), s')"
    by (simp add: token_call_def ts token_wire_def butlast_append)
qed

end
