(* ===== verification/BFSS_API_Service.thy ===== *)
theory BFSS_API_Service
  imports BFSS_API_Args Thrift_Service
begin

text \<open>
  The service \<^verbatim>\<open>BFSS_APID\<close> of \<^verbatim>\<open>bfss_api.go\<close>: the interface of the handler, the client and the
  processor, a definition for each method. Each method interprets \<open>service_method\<close>: a call through
  a client connected to the processor gives what the handler gives.
\<close>

section \<open>The handler\<close>

text \<open>
  The interface \<^verbatim>\<open>BFSS_APID\<close>: what the server provides,
      over its state \<open>'s\<close>; the context is left out.
\<close>

record ('s, 'e) BFSS_APID =
  h_GetVersion :: "'s \<Rightarrow> (string \<times> 'e option) \<times> 's"
  h_CreateObject :: "string \<Rightarrow> int \<Rightarrow> int \<Rightarrow> string
      \<Rightarrow> 's \<Rightarrow> (BFSS_RESULT \<times> 'e option) \<times> 's"
  h_DeleteObject :: "string \<Rightarrow> 's \<Rightarrow>
      (BFSS_RESULT \<times> 'e option) \<times> 's"
  h_Write :: "string \<Rightarrow> int \<Rightarrow> bytes \<Rightarrow> 's \<Rightarrow>
      (BFSS_RESULT \<times> 'e option) \<times> 's"
  h_ResizeObject :: "string \<Rightarrow> int \<Rightarrow> 's \<Rightarrow>
      (BFSS_RESULT \<times> 'e option) \<times> 's"
  h_CompleteObject :: "string \<Rightarrow> 's \<Rightarrow>
      (BFSS_RESULT \<times> 'e option) \<times> 's"
  h_GetObjectInfo :: "string \<Rightarrow> 's
      \<Rightarrow> (OBJECT_INFO_RESULT option \<times> 'e option) \<times> 's"
  h_ObjectLockHasHash :: "string \<Rightarrow> int \<Rightarrow> bytes \<Rightarrow> 's
      \<Rightarrow> (BFSS_RESULT \<times> 'e option) \<times> 's"
  h_CreateObjectLink :: "string \<Rightarrow> string \<Rightarrow> int \<Rightarrow> bytes
      \<Rightarrow> int \<Rightarrow> string \<Rightarrow> 's \<Rightarrow>
      (BFSS_RESULT \<times> 'e option) \<times> 's"
  h_Read :: "string \<Rightarrow> int \<Rightarrow> int \<Rightarrow> 's
      \<Rightarrow> (READ_RESULT option \<times> 'e option) \<times> 's"
  h_ReadBlk :: "string \<Rightarrow> int \<Rightarrow> int \<Rightarrow> 's
      \<Rightarrow> (READ_RESULT option \<times> 'e option) \<times> 's"
  h_GetObjectBlksInfo :: "string \<Rightarrow> 's
      \<Rightarrow> (OBJECT_BLKS_RESULT option \<times> 'e option) \<times> 's"
  h_GetObjectBlkKey :: "string \<Rightarrow> int \<Rightarrow> 's
      \<Rightarrow> (BLK_KEY_RESULT option \<times> 'e option) \<times> 's"
  h_ManageMessage :: "int \<Rightarrow> int \<Rightarrow> bytes \<Rightarrow> 's
      \<Rightarrow> (MESSAGE_RESULT option \<times> 'e option) \<times> 's"

section \<open>The client\<close>

definition BFSS_APIDClient_GetVersion ::
  "(BFSS_APIDGetVersionArgs, BFSS_APIDGetVersionResult, 's, 'e) caller \<Rightarrow> 's
     \<Rightarrow> (string \<times> 'e option) \<times> 's" where
  "BFSS_APIDClient_GetVersion call =
     client_call call ''GetVersion''
       (new_BFSS_APIDGetVersionArgs)
       new_BFSS_APIDGetVersionResult BFSS_APIDGetVersionResult_GetSuccess []"

definition BFSS_APIDClient_CreateObject ::
  "(BFSS_APIDCreateObjectArgs, BFSS_APIDCreateObjectResult, 's, 'e) caller \<Rightarrow> string
      \<Rightarrow> int \<Rightarrow> int \<Rightarrow> string \<Rightarrow> 's
     \<Rightarrow> (BFSS_RESULT \<times> 'e option) \<times> 's" where
  "BFSS_APIDClient_CreateObject call oid size0 flag tag =
     client_call call ''CreateObject''
       (new_BFSS_APIDCreateObjectArgs\<lparr>CreateObjectArgs_Oid := oid,
           CreateObjectArgs_Size := size0, CreateObjectArgs_Flag := flag,
           CreateObjectArgs_Tag := tag\<rparr>)
       new_BFSS_APIDCreateObjectResult BFSS_APIDCreateObjectResult_GetSuccess 0"

definition BFSS_APIDClient_DeleteObject ::
  "(BFSS_APIDDeleteObjectArgs, BFSS_APIDDeleteObjectResult, 's, 'e) caller \<Rightarrow> string
      \<Rightarrow> 's
     \<Rightarrow> (BFSS_RESULT \<times> 'e option) \<times> 's" where
  "BFSS_APIDClient_DeleteObject call oid =
     client_call call ''DeleteObject''
       (new_BFSS_APIDDeleteObjectArgs\<lparr>DeleteObjectArgs_Oid := oid\<rparr>)
       new_BFSS_APIDDeleteObjectResult BFSS_APIDDeleteObjectResult_GetSuccess 0"

definition BFSS_APIDClient_Write ::
  "(BFSS_APIDWriteArgs, BFSS_APIDWriteResult, 's, 'e) caller \<Rightarrow> string
      \<Rightarrow> int \<Rightarrow> bytes \<Rightarrow> 's
     \<Rightarrow> (BFSS_RESULT \<times> 'e option) \<times> 's" where
  "BFSS_APIDClient_Write call oid offset0 data0 =
     client_call call ''Write''
       (new_BFSS_APIDWriteArgs\<lparr>WriteArgs_Oid := oid, WriteArgs_Offset := offset0,
           WriteArgs_Data := data0\<rparr>)
       new_BFSS_APIDWriteResult BFSS_APIDWriteResult_GetSuccess 0"

definition BFSS_APIDClient_ResizeObject ::
  "(BFSS_APIDResizeObjectArgs, BFSS_APIDResizeObjectResult, 's, 'e) caller \<Rightarrow> string
      \<Rightarrow> int \<Rightarrow> 's
     \<Rightarrow> (BFSS_RESULT \<times> 'e option) \<times> 's" where
  "BFSS_APIDClient_ResizeObject call oid newsize =
     client_call call ''ResizeObject''
       (new_BFSS_APIDResizeObjectArgs\<lparr>ResizeObjectArgs_Oid := oid,
           ResizeObjectArgs_Newsize := newsize\<rparr>)
       new_BFSS_APIDResizeObjectResult BFSS_APIDResizeObjectResult_GetSuccess 0"

definition BFSS_APIDClient_CompleteObject ::
  "(BFSS_APIDCompleteObjectArgs, BFSS_APIDCompleteObjectResult, 's, 'e) caller
      \<Rightarrow> string \<Rightarrow> 's
     \<Rightarrow> (BFSS_RESULT \<times> 'e option) \<times> 's" where
  "BFSS_APIDClient_CompleteObject call oid =
     client_call call ''CompleteObject''
       (new_BFSS_APIDCompleteObjectArgs\<lparr>CompleteObjectArgs_Oid := oid\<rparr>)
       new_BFSS_APIDCompleteObjectResult BFSS_APIDCompleteObjectResult_GetSuccess 0"

definition BFSS_APIDClient_GetObjectInfo ::
  "(BFSS_APIDGetObjectInfoArgs, BFSS_APIDGetObjectInfoResult, 's, 'e) caller \<Rightarrow> string
      \<Rightarrow> 's
     \<Rightarrow> (OBJECT_INFO_RESULT option \<times> 'e option) \<times> 's" where
  "BFSS_APIDClient_GetObjectInfo call oid =
     client_call call ''GetObjectInfo''
       (new_BFSS_APIDGetObjectInfoArgs\<lparr>GetObjectInfoArgs_Oid := oid\<rparr>)
       new_BFSS_APIDGetObjectInfoResult GetObjectInfoResult_Success None"

definition BFSS_APIDClient_ObjectLockHasHash ::
  "(BFSS_APIDObjectLockHasHashArgs, BFSS_APIDObjectLockHasHashResult, 's, 'e) caller
      \<Rightarrow> string \<Rightarrow> int \<Rightarrow> bytes \<Rightarrow> 's
     \<Rightarrow> (BFSS_RESULT \<times> 'e option) \<times> 's" where
  "BFSS_APIDClient_ObjectLockHasHash call hash0 size0 head =
     client_call call ''ObjectLockHasHash''
       (new_BFSS_APIDObjectLockHasHashArgs\<lparr>ObjectLockHasHashArgs_Hash := hash0,
           ObjectLockHasHashArgs_Size := size0, ObjectLockHasHashArgs_Head := head\<rparr>)
       new_BFSS_APIDObjectLockHasHashResult BFSS_APIDObjectLockHasHashResult_GetSuccess 0"

definition BFSS_APIDClient_CreateObjectLink ::
  "(BFSS_APIDCreateObjectLinkArgs, BFSS_APIDCreateObjectLinkResult, 's, 'e) caller
      \<Rightarrow> string \<Rightarrow> string \<Rightarrow> int \<Rightarrow> bytes
      \<Rightarrow> int \<Rightarrow> string \<Rightarrow> 's
     \<Rightarrow> (BFSS_RESULT \<times> 'e option) \<times> 's" where
  "BFSS_APIDClient_CreateObjectLink call oid hash0 size0 head flag tag =
     client_call call ''CreateObjectLink''
       (new_BFSS_APIDCreateObjectLinkArgs\<lparr>CreateObjectLinkArgs_Oid := oid,
           CreateObjectLinkArgs_Hash := hash0, CreateObjectLinkArgs_Size := size0,
           CreateObjectLinkArgs_Head := head, CreateObjectLinkArgs_Flag := flag,
           CreateObjectLinkArgs_Tag := tag\<rparr>)
       new_BFSS_APIDCreateObjectLinkResult BFSS_APIDCreateObjectLinkResult_GetSuccess 0"

definition BFSS_APIDClient_Read ::
  "(BFSS_APIDReadArgs, BFSS_APIDReadResult, 's, 'e) caller \<Rightarrow> string \<Rightarrow> int
      \<Rightarrow> int \<Rightarrow> 's
     \<Rightarrow> (READ_RESULT option \<times> 'e option) \<times> 's" where
  "BFSS_APIDClient_Read call oid size0 offset0 =
     client_call call ''Read''
       (new_BFSS_APIDReadArgs\<lparr>ReadArgs_Oid := oid, ReadArgs_Size := size0,
           ReadArgs_Offset := offset0\<rparr>)
       new_BFSS_APIDReadResult ReadResult_Success None"

definition BFSS_APIDClient_ReadBlk ::
  "(BFSS_APIDReadBlkArgs, BFSS_APIDReadBlkResult, 's, 'e) caller \<Rightarrow> string
      \<Rightarrow> int \<Rightarrow> int \<Rightarrow> 's
     \<Rightarrow> (READ_RESULT option \<times> 'e option) \<times> 's" where
  "BFSS_APIDClient_ReadBlk call oid size0 offset0 =
     client_call call ''ReadBlk''
       (new_BFSS_APIDReadBlkArgs\<lparr>ReadBlkArgs_Oid := oid, ReadBlkArgs_Size := size0,
           ReadBlkArgs_Offset := offset0\<rparr>)
       new_BFSS_APIDReadBlkResult ReadBlkResult_Success None"

definition BFSS_APIDClient_GetObjectBlksInfo ::
  "(BFSS_APIDGetObjectBlksInfoArgs, BFSS_APIDGetObjectBlksInfoResult, 's, 'e) caller
      \<Rightarrow> string \<Rightarrow> 's
     \<Rightarrow> (OBJECT_BLKS_RESULT option \<times> 'e option) \<times> 's" where
  "BFSS_APIDClient_GetObjectBlksInfo call oid =
     client_call call ''GetObjectBlksInfo''
       (new_BFSS_APIDGetObjectBlksInfoArgs\<lparr>GetObjectBlksInfoArgs_Oid := oid\<rparr>)
       new_BFSS_APIDGetObjectBlksInfoResult GetObjectBlksInfoResult_Success None"

definition BFSS_APIDClient_GetObjectBlkKey ::
  "(BFSS_APIDGetObjectBlkKeyArgs, BFSS_APIDGetObjectBlkKeyResult, 's, 'e) caller
      \<Rightarrow> string \<Rightarrow> int \<Rightarrow> 's
     \<Rightarrow> (BLK_KEY_RESULT option \<times> 'e option) \<times> 's" where
  "BFSS_APIDClient_GetObjectBlkKey call oid offset0 =
     client_call call ''GetObjectBlkKey''
       (new_BFSS_APIDGetObjectBlkKeyArgs\<lparr>GetObjectBlkKeyArgs_Oid := oid,
           GetObjectBlkKeyArgs_Offset := offset0\<rparr>)
       new_BFSS_APIDGetObjectBlkKeyResult GetObjectBlkKeyResult_Success None"

definition BFSS_APIDClient_ManageMessage ::
  "(BFSS_APIDManageMessageArgs, BFSS_APIDManageMessageResult, 's, 'e) caller \<Rightarrow> int
      \<Rightarrow> int \<Rightarrow> bytes \<Rightarrow> 's
     \<Rightarrow> (MESSAGE_RESULT option \<times> 'e option) \<times> 's" where
  "BFSS_APIDClient_ManageMessage call cmdid param data0 =
     client_call call ''ManageMessage''
       (new_BFSS_APIDManageMessageArgs\<lparr>ManageMessageArgs_CmdId := cmdid,
           ManageMessageArgs_Param := param, ManageMessageArgs_Data := data0\<rparr>)
       new_BFSS_APIDManageMessageResult ManageMessageResult_Success None"

section \<open>The processor\<close>

definition bFSS_APIDProcessorGetVersion_Process ::
  "('p, 'e) mlib \<Rightarrow> ('s, 'e) BFSS_APID \<Rightarrow> ('p, 'e, 's) process_fun" where
  "bFSS_APIDProcessorGetVersion_Process M h =
     process_call M ''GetVersion'' (BFSS_APIDGetVersionArgs_Read (base M)
         new_BFSS_APIDGetVersionArgs)
       (\<lambda>args. h_GetVersion h)
       (\<lambda>retval. BFSS_APIDGetVersionResult_Write (base M) (Some
           (new_BFSS_APIDGetVersionResult\<lparr>GetVersionResult_Success := Some retval\<rparr>)))"

definition bFSS_APIDProcessorCreateObject_Process ::
  "('p, 'e) mlib \<Rightarrow> ('s, 'e) BFSS_APID \<Rightarrow> ('p, 'e, 's) process_fun" where
  "bFSS_APIDProcessorCreateObject_Process M h =
     process_call M ''CreateObject'' (BFSS_APIDCreateObjectArgs_Read (base M)
         new_BFSS_APIDCreateObjectArgs)
       (\<lambda>args. h_CreateObject h (CreateObjectArgs_Oid args) (CreateObjectArgs_Size args)
           (CreateObjectArgs_Flag args) (CreateObjectArgs_Tag args))
       (\<lambda>retval. BFSS_APIDCreateObjectResult_Write (base M) (Some
           (new_BFSS_APIDCreateObjectResult\<lparr>CreateObjectResult_Success := Some
           retval\<rparr>)))"

definition bFSS_APIDProcessorDeleteObject_Process ::
  "('p, 'e) mlib \<Rightarrow> ('s, 'e) BFSS_APID \<Rightarrow> ('p, 'e, 's) process_fun" where
  "bFSS_APIDProcessorDeleteObject_Process M h =
     process_call M ''DeleteObject'' (BFSS_APIDDeleteObjectArgs_Read (base M)
         new_BFSS_APIDDeleteObjectArgs)
       (\<lambda>args. h_DeleteObject h (DeleteObjectArgs_Oid args))
       (\<lambda>retval. BFSS_APIDDeleteObjectResult_Write (base M) (Some
           (new_BFSS_APIDDeleteObjectResult\<lparr>DeleteObjectResult_Success := Some
           retval\<rparr>)))"

definition bFSS_APIDProcessorWrite_Process ::
  "('p, 'e) mlib \<Rightarrow> ('s, 'e) BFSS_APID \<Rightarrow> ('p, 'e, 's) process_fun" where
  "bFSS_APIDProcessorWrite_Process M h =
     process_call M ''Write'' (BFSS_APIDWriteArgs_Read (base M) new_BFSS_APIDWriteArgs)
       (\<lambda>args. h_Write h (WriteArgs_Oid args) (WriteArgs_Offset args) (WriteArgs_Data args))
       (\<lambda>retval. BFSS_APIDWriteResult_Write (base M) (Some
           (new_BFSS_APIDWriteResult\<lparr>WriteResult_Success := Some retval\<rparr>)))"

definition bFSS_APIDProcessorResizeObject_Process ::
  "('p, 'e) mlib \<Rightarrow> ('s, 'e) BFSS_APID \<Rightarrow> ('p, 'e, 's) process_fun" where
  "bFSS_APIDProcessorResizeObject_Process M h =
     process_call M ''ResizeObject'' (BFSS_APIDResizeObjectArgs_Read (base M)
         new_BFSS_APIDResizeObjectArgs)
       (\<lambda>args. h_ResizeObject h (ResizeObjectArgs_Oid args) (ResizeObjectArgs_Newsize args))
       (\<lambda>retval. BFSS_APIDResizeObjectResult_Write (base M) (Some
           (new_BFSS_APIDResizeObjectResult\<lparr>ResizeObjectResult_Success := Some
           retval\<rparr>)))"

definition bFSS_APIDProcessorCompleteObject_Process ::
  "('p, 'e) mlib \<Rightarrow> ('s, 'e) BFSS_APID \<Rightarrow> ('p, 'e, 's) process_fun" where
  "bFSS_APIDProcessorCompleteObject_Process M h =
     process_call M ''CompleteObject'' (BFSS_APIDCompleteObjectArgs_Read (base M)
         new_BFSS_APIDCompleteObjectArgs)
       (\<lambda>args. h_CompleteObject h (CompleteObjectArgs_Oid args))
       (\<lambda>retval. BFSS_APIDCompleteObjectResult_Write (base M) (Some
           (new_BFSS_APIDCompleteObjectResult\<lparr>CompleteObjectResult_Success := Some
           retval\<rparr>)))"

definition bFSS_APIDProcessorGetObjectInfo_Process ::
  "('p, 'e) mlib \<Rightarrow> ('s, 'e) BFSS_APID \<Rightarrow> ('p, 'e, 's) process_fun" where
  "bFSS_APIDProcessorGetObjectInfo_Process M h =
     process_call M ''GetObjectInfo'' (BFSS_APIDGetObjectInfoArgs_Read (base M)
         new_BFSS_APIDGetObjectInfoArgs)
       (\<lambda>args. h_GetObjectInfo h (GetObjectInfoArgs_Oid args))
       (\<lambda>retval. BFSS_APIDGetObjectInfoResult_Write (base M) (Some
           (new_BFSS_APIDGetObjectInfoResult\<lparr>GetObjectInfoResult_Success :=
           retval\<rparr>)))"

definition bFSS_APIDProcessorObjectLockHasHash_Process ::
  "('p, 'e) mlib \<Rightarrow> ('s, 'e) BFSS_APID \<Rightarrow> ('p, 'e, 's) process_fun" where
  "bFSS_APIDProcessorObjectLockHasHash_Process M h =
     process_call M ''ObjectLockHasHash''
         (BFSS_APIDObjectLockHasHashArgs_Read (base M) new_BFSS_APIDObjectLockHasHashArgs)
       (\<lambda>args. h_ObjectLockHasHash h (ObjectLockHasHashArgs_Hash args)
           (ObjectLockHasHashArgs_Size args) (ObjectLockHasHashArgs_Head args))
       (\<lambda>retval. BFSS_APIDObjectLockHasHashResult_Write (base M) (Some
           (new_BFSS_APIDObjectLockHasHashResult\<lparr>ObjectLockHasHashResult_Success := Some
           retval\<rparr>)))"

definition bFSS_APIDProcessorCreateObjectLink_Process ::
  "('p, 'e) mlib \<Rightarrow> ('s, 'e) BFSS_APID \<Rightarrow> ('p, 'e, 's) process_fun" where
  "bFSS_APIDProcessorCreateObjectLink_Process M h =
     process_call M ''CreateObjectLink''
         (BFSS_APIDCreateObjectLinkArgs_Read (base M) new_BFSS_APIDCreateObjectLinkArgs)
       (\<lambda>args. h_CreateObjectLink h (CreateObjectLinkArgs_Oid args)
           (CreateObjectLinkArgs_Hash args) (CreateObjectLinkArgs_Size args)
           (CreateObjectLinkArgs_Head args) (CreateObjectLinkArgs_Flag args)
           (CreateObjectLinkArgs_Tag args))
       (\<lambda>retval. BFSS_APIDCreateObjectLinkResult_Write (base M) (Some
           (new_BFSS_APIDCreateObjectLinkResult\<lparr>CreateObjectLinkResult_Success := Some
           retval\<rparr>)))"

definition bFSS_APIDProcessorRead_Process ::
  "('p, 'e) mlib \<Rightarrow> ('s, 'e) BFSS_APID \<Rightarrow> ('p, 'e, 's) process_fun" where
  "bFSS_APIDProcessorRead_Process M h =
     process_call M ''Read'' (BFSS_APIDReadArgs_Read (base M) new_BFSS_APIDReadArgs)
       (\<lambda>args. h_Read h (ReadArgs_Oid args) (ReadArgs_Size args) (ReadArgs_Offset args))
       (\<lambda>retval. BFSS_APIDReadResult_Write (base M) (Some
           (new_BFSS_APIDReadResult\<lparr>ReadResult_Success := retval\<rparr>)))"

definition bFSS_APIDProcessorReadBlk_Process ::
  "('p, 'e) mlib \<Rightarrow> ('s, 'e) BFSS_APID \<Rightarrow> ('p, 'e, 's) process_fun" where
  "bFSS_APIDProcessorReadBlk_Process M h =
     process_call M ''ReadBlk'' (BFSS_APIDReadBlkArgs_Read (base M) new_BFSS_APIDReadBlkArgs)
       (\<lambda>args. h_ReadBlk h (ReadBlkArgs_Oid args) (ReadBlkArgs_Size args)
           (ReadBlkArgs_Offset args))
       (\<lambda>retval. BFSS_APIDReadBlkResult_Write (base M) (Some
           (new_BFSS_APIDReadBlkResult\<lparr>ReadBlkResult_Success := retval\<rparr>)))"

definition bFSS_APIDProcessorGetObjectBlksInfo_Process ::
  "('p, 'e) mlib \<Rightarrow> ('s, 'e) BFSS_APID \<Rightarrow> ('p, 'e, 's) process_fun" where
  "bFSS_APIDProcessorGetObjectBlksInfo_Process M h =
     process_call M ''GetObjectBlksInfo''
         (BFSS_APIDGetObjectBlksInfoArgs_Read (base M) new_BFSS_APIDGetObjectBlksInfoArgs)
       (\<lambda>args. h_GetObjectBlksInfo h (GetObjectBlksInfoArgs_Oid args))
       (\<lambda>retval. BFSS_APIDGetObjectBlksInfoResult_Write (base M) (Some
           (new_BFSS_APIDGetObjectBlksInfoResult\<lparr>GetObjectBlksInfoResult_Success :=
           retval\<rparr>)))"

definition bFSS_APIDProcessorGetObjectBlkKey_Process ::
  "('p, 'e) mlib \<Rightarrow> ('s, 'e) BFSS_APID \<Rightarrow> ('p, 'e, 's) process_fun" where
  "bFSS_APIDProcessorGetObjectBlkKey_Process M h =
     process_call M ''GetObjectBlkKey'' (BFSS_APIDGetObjectBlkKeyArgs_Read (base M)
         new_BFSS_APIDGetObjectBlkKeyArgs)
       (\<lambda>args. h_GetObjectBlkKey h (GetObjectBlkKeyArgs_Oid args)
           (GetObjectBlkKeyArgs_Offset args))
       (\<lambda>retval. BFSS_APIDGetObjectBlkKeyResult_Write (base M) (Some
           (new_BFSS_APIDGetObjectBlkKeyResult\<lparr>GetObjectBlkKeyResult_Success :=
           retval\<rparr>)))"

definition bFSS_APIDProcessorManageMessage_Process ::
  "('p, 'e) mlib \<Rightarrow> ('s, 'e) BFSS_APID \<Rightarrow> ('p, 'e, 's) process_fun" where
  "bFSS_APIDProcessorManageMessage_Process M h =
     process_call M ''ManageMessage'' (BFSS_APIDManageMessageArgs_Read (base M)
         new_BFSS_APIDManageMessageArgs)
       (\<lambda>args. h_ManageMessage h (ManageMessageArgs_CmdId args) (ManageMessageArgs_Param
           args) (ManageMessageArgs_Data args))
       (\<lambda>retval. BFSS_APIDManageMessageResult_Write (base M) (Some
           (new_BFSS_APIDManageMessageResult\<lparr>ManageMessageResult_Success :=
           retval\<rparr>)))"

text \<open>The map from names to functions.\<close>

type_synonym ('p, 'e, 's) processor_map = "string \<Rightarrow> ('p, 'e, 's) process_fun option"

definition AddToProcessorMap ::
  "string \<Rightarrow> ('p, 'e, 's) process_fun \<Rightarrow> ('p, 'e, 's) processor_map
      \<Rightarrow> ('p, 'e, 's) processor_map"
where
  "AddToProcessorMap key f pm = pm(key \<mapsto> f)"

definition GetProcessorFunction ::
  "string \<Rightarrow> ('p, 'e, 's) processor_map \<Rightarrow> ('p, 'e,
      's) process_fun option" where
  "GetProcessorFunction key pm = pm key"

definition NewBFSS_APIDProcessor ::
  "('p, 'e) mlib \<Rightarrow> ('s, 'e) BFSS_APID \<Rightarrow> ('p, 'e, 's) processor_map" where
  "NewBFSS_APIDProcessor M h = map_of
     [(''GetVersion'', bFSS_APIDProcessorGetVersion_Process M h),
      (''CreateObject'', bFSS_APIDProcessorCreateObject_Process M h),
      (''DeleteObject'', bFSS_APIDProcessorDeleteObject_Process M h),
      (''Write'', bFSS_APIDProcessorWrite_Process M h),
      (''ResizeObject'', bFSS_APIDProcessorResizeObject_Process M h),
      (''CompleteObject'', bFSS_APIDProcessorCompleteObject_Process M h),
      (''GetObjectInfo'', bFSS_APIDProcessorGetObjectInfo_Process M h),
      (''ObjectLockHasHash'', bFSS_APIDProcessorObjectLockHasHash_Process M h),
      (''CreateObjectLink'', bFSS_APIDProcessorCreateObjectLink_Process M h),
      (''Read'', bFSS_APIDProcessorRead_Process M h),
      (''ReadBlk'', bFSS_APIDProcessorReadBlk_Process M h),
      (''GetObjectBlksInfo'', bFSS_APIDProcessorGetObjectBlksInfo_Process M h),
      (''GetObjectBlkKey'', bFSS_APIDProcessorGetObjectBlkKey_Process M h),
      (''ManageMessage'', bFSS_APIDProcessorManageMessage_Process M h)]"

definition BFSS_APIDProcessor_Process ::
  "('p, 'e) mlib \<Rightarrow> ('p, 'e, 's) processor_map \<Rightarrow> 'p \<Rightarrow> 'p
      \<Rightarrow> 's
     \<Rightarrow> ((bool \<times> 'e option) \<times> 'p \<times> 'p \<times> 's) option" where
  "BFSS_APIDProcessor_Process M pm p q s =
     (case ReadMessageBegin M p of
        ((Some err, nm, k, seq), p1) \<Rightarrow> Some ((False, Some err), p1, q, s)
      | ((None, nm, k, seq), p1) \<Rightarrow>
          (case GetProcessorFunction nm pm of
             Some processor \<Rightarrow> processor seq p1 q s
           | None \<Rightarrow>
               let p3 = snd (ReadMessageEnd M (snd (Skip (base M) STRUCT p1)));
                   x30 = (UNKNOWN_METHOD, ''Unknown function '' @ nm)
               in Some ((False, Some (exception_error M x30)), p3, reply_exception M nm seq x30 q,
                   s)))"

section \<open>Every method meets the contract\<close>

interpretation getVersion_call: service_method
    BFSS_APIDGetVersionArgs_enc BFSS_APIDGetVersionArgs_wf BFSS_APIDGetVersionArgs_norm
        new_BFSS_APIDGetVersionArgs BFSS_APIDGetVersionArgs_Write BFSS_APIDGetVersionArgs_Read
    BFSS_APIDGetVersionResult_enc BFSS_APIDGetVersionResult_wf BFSS_APIDGetVersionResult_norm
        new_BFSS_APIDGetVersionResult BFSS_APIDGetVersionResult_Write BFSS_APIDGetVersionResult_Read
    "''GetVersion''" bFSS_APIDProcessorGetVersion_Process "\<lambda>h a. h_GetVersion h"
    "\<lambda>v. new_BFSS_APIDGetVersionResult\<lparr>GetVersionResult_Success := Some v\<rparr>"
    "\<lambda>call a. BFSS_APIDClient_GetVersion call"
    BFSS_APIDGetVersionResult_GetSuccess "[]" "\<lambda>M h. BFSS_APIDProcessor_Process M
        (NewBFSS_APIDProcessor M h)"
  by unfold_locales
    (simp_all add: bFSS_APIDProcessorGetVersion_Process_def BFSS_APIDClient_GetVersion_def
        new_BFSS_APIDGetVersionArgs_def
      BFSS_APIDProcessor_Process_def GetProcessorFunction_def NewBFSS_APIDProcessor_def)

lemma BFSS_APIDCreateObjectArgs_eta:
  "new_BFSS_APIDCreateObjectArgs\<lparr>CreateObjectArgs_Oid := CreateObjectArgs_Oid a,
      CreateObjectArgs_Size := CreateObjectArgs_Size a,
      CreateObjectArgs_Flag := CreateObjectArgs_Flag a,
      CreateObjectArgs_Tag := CreateObjectArgs_Tag a\<rparr> = a"
  by (cases a) (simp add: new_BFSS_APIDCreateObjectArgs_def)

interpretation createObject_call: service_method
    BFSS_APIDCreateObjectArgs_enc BFSS_APIDCreateObjectArgs_wf BFSS_APIDCreateObjectArgs_norm
        new_BFSS_APIDCreateObjectArgs BFSS_APIDCreateObjectArgs_Write BFSS_APIDCreateObjectArgs_Read
    BFSS_APIDCreateObjectResult_enc BFSS_APIDCreateObjectResult_wf
        BFSS_APIDCreateObjectResult_norm new_BFSS_APIDCreateObjectResult
        BFSS_APIDCreateObjectResult_Write BFSS_APIDCreateObjectResult_Read
    "''CreateObject''" bFSS_APIDProcessorCreateObject_Process "\<lambda>h a. h_CreateObject h
        (CreateObjectArgs_Oid a) (CreateObjectArgs_Size a) (CreateObjectArgs_Flag a)
        (CreateObjectArgs_Tag a)"
    "\<lambda>v. new_BFSS_APIDCreateObjectResult\<lparr>CreateObjectResult_Success := Some
        v\<rparr>"
    "\<lambda>call a. BFSS_APIDClient_CreateObject call (CreateObjectArgs_Oid a)
        (CreateObjectArgs_Size a) (CreateObjectArgs_Flag a) (CreateObjectArgs_Tag a)"
    BFSS_APIDCreateObjectResult_GetSuccess "0" "\<lambda>M h. BFSS_APIDProcessor_Process M
        (NewBFSS_APIDProcessor M h)"
  by unfold_locales
    (simp_all add: bFSS_APIDProcessorCreateObject_Process_def BFSS_APIDClient_CreateObject_def
        BFSS_APIDCreateObjectArgs_eta
      BFSS_APIDProcessor_Process_def GetProcessorFunction_def NewBFSS_APIDProcessor_def)

lemma BFSS_APIDDeleteObjectArgs_eta:
  "new_BFSS_APIDDeleteObjectArgs\<lparr>DeleteObjectArgs_Oid := DeleteObjectArgs_Oid a\<rparr> = a"
  by (cases a) (simp add: new_BFSS_APIDDeleteObjectArgs_def)

interpretation deleteObject_call: service_method
    BFSS_APIDDeleteObjectArgs_enc BFSS_APIDDeleteObjectArgs_wf BFSS_APIDDeleteObjectArgs_norm
        new_BFSS_APIDDeleteObjectArgs BFSS_APIDDeleteObjectArgs_Write BFSS_APIDDeleteObjectArgs_Read
    BFSS_APIDDeleteObjectResult_enc BFSS_APIDDeleteObjectResult_wf
        BFSS_APIDDeleteObjectResult_norm new_BFSS_APIDDeleteObjectResult
        BFSS_APIDDeleteObjectResult_Write BFSS_APIDDeleteObjectResult_Read
    "''DeleteObject''" bFSS_APIDProcessorDeleteObject_Process "\<lambda>h a. h_DeleteObject h
        (DeleteObjectArgs_Oid a)"
    "\<lambda>v. new_BFSS_APIDDeleteObjectResult\<lparr>DeleteObjectResult_Success := Some
        v\<rparr>"
    "\<lambda>call a. BFSS_APIDClient_DeleteObject call (DeleteObjectArgs_Oid a)"
    BFSS_APIDDeleteObjectResult_GetSuccess "0" "\<lambda>M h. BFSS_APIDProcessor_Process M
        (NewBFSS_APIDProcessor M h)"
  by unfold_locales
    (simp_all add: bFSS_APIDProcessorDeleteObject_Process_def BFSS_APIDClient_DeleteObject_def
        BFSS_APIDDeleteObjectArgs_eta
      BFSS_APIDProcessor_Process_def GetProcessorFunction_def NewBFSS_APIDProcessor_def)

lemma BFSS_APIDWriteArgs_eta:
  "new_BFSS_APIDWriteArgs\<lparr>WriteArgs_Oid := WriteArgs_Oid a,
      WriteArgs_Offset := WriteArgs_Offset a, WriteArgs_Data := WriteArgs_Data a\<rparr> = a"
  by (cases a) (simp add: new_BFSS_APIDWriteArgs_def)

interpretation write_call: service_method
    BFSS_APIDWriteArgs_enc BFSS_APIDWriteArgs_wf BFSS_APIDWriteArgs_norm new_BFSS_APIDWriteArgs
        BFSS_APIDWriteArgs_Write BFSS_APIDWriteArgs_Read
    BFSS_APIDWriteResult_enc BFSS_APIDWriteResult_wf BFSS_APIDWriteResult_norm
        new_BFSS_APIDWriteResult BFSS_APIDWriteResult_Write BFSS_APIDWriteResult_Read
    "''Write''" bFSS_APIDProcessorWrite_Process "\<lambda>h a. h_Write h (WriteArgs_Oid a)
        (WriteArgs_Offset a) (WriteArgs_Data a)"
    "\<lambda>v. new_BFSS_APIDWriteResult\<lparr>WriteResult_Success := Some v\<rparr>"
    "\<lambda>call a. BFSS_APIDClient_Write call (WriteArgs_Oid a) (WriteArgs_Offset a)
        (WriteArgs_Data a)"
    BFSS_APIDWriteResult_GetSuccess "0" "\<lambda>M h. BFSS_APIDProcessor_Process M
        (NewBFSS_APIDProcessor M h)"
  by unfold_locales
    (simp_all add: bFSS_APIDProcessorWrite_Process_def BFSS_APIDClient_Write_def
        BFSS_APIDWriteArgs_eta
      BFSS_APIDProcessor_Process_def GetProcessorFunction_def NewBFSS_APIDProcessor_def)

lemma BFSS_APIDResizeObjectArgs_eta:
  "new_BFSS_APIDResizeObjectArgs\<lparr>ResizeObjectArgs_Oid := ResizeObjectArgs_Oid a,
      ResizeObjectArgs_Newsize := ResizeObjectArgs_Newsize a\<rparr> = a"
  by (cases a) (simp add: new_BFSS_APIDResizeObjectArgs_def)

interpretation resizeObject_call: service_method
    BFSS_APIDResizeObjectArgs_enc BFSS_APIDResizeObjectArgs_wf BFSS_APIDResizeObjectArgs_norm
        new_BFSS_APIDResizeObjectArgs BFSS_APIDResizeObjectArgs_Write BFSS_APIDResizeObjectArgs_Read
    BFSS_APIDResizeObjectResult_enc BFSS_APIDResizeObjectResult_wf
        BFSS_APIDResizeObjectResult_norm new_BFSS_APIDResizeObjectResult
        BFSS_APIDResizeObjectResult_Write BFSS_APIDResizeObjectResult_Read
    "''ResizeObject''" bFSS_APIDProcessorResizeObject_Process "\<lambda>h a. h_ResizeObject h
        (ResizeObjectArgs_Oid a) (ResizeObjectArgs_Newsize a)"
    "\<lambda>v. new_BFSS_APIDResizeObjectResult\<lparr>ResizeObjectResult_Success := Some
        v\<rparr>"
    "\<lambda>call a. BFSS_APIDClient_ResizeObject call (ResizeObjectArgs_Oid a)
        (ResizeObjectArgs_Newsize a)"
    BFSS_APIDResizeObjectResult_GetSuccess "0" "\<lambda>M h. BFSS_APIDProcessor_Process M
        (NewBFSS_APIDProcessor M h)"
  by unfold_locales
    (simp_all add: bFSS_APIDProcessorResizeObject_Process_def BFSS_APIDClient_ResizeObject_def
        BFSS_APIDResizeObjectArgs_eta
      BFSS_APIDProcessor_Process_def GetProcessorFunction_def NewBFSS_APIDProcessor_def)

lemma BFSS_APIDCompleteObjectArgs_eta:
  "new_BFSS_APIDCompleteObjectArgs\<lparr>CompleteObjectArgs_Oid := CompleteObjectArgs_Oid
      a\<rparr> = a"
  by (cases a) (simp add: new_BFSS_APIDCompleteObjectArgs_def)

interpretation completeObject_call: service_method
    BFSS_APIDCompleteObjectArgs_enc BFSS_APIDCompleteObjectArgs_wf
        BFSS_APIDCompleteObjectArgs_norm new_BFSS_APIDCompleteObjectArgs
        BFSS_APIDCompleteObjectArgs_Write BFSS_APIDCompleteObjectArgs_Read
    BFSS_APIDCompleteObjectResult_enc BFSS_APIDCompleteObjectResult_wf
        BFSS_APIDCompleteObjectResult_norm new_BFSS_APIDCompleteObjectResult
        BFSS_APIDCompleteObjectResult_Write BFSS_APIDCompleteObjectResult_Read
    "''CompleteObject''" bFSS_APIDProcessorCompleteObject_Process "\<lambda>h a. h_CompleteObject
        h (CompleteObjectArgs_Oid a)"
    "\<lambda>v. new_BFSS_APIDCompleteObjectResult\<lparr>CompleteObjectResult_Success := Some
        v\<rparr>"
    "\<lambda>call a. BFSS_APIDClient_CompleteObject call (CompleteObjectArgs_Oid a)"
    BFSS_APIDCompleteObjectResult_GetSuccess "0" "\<lambda>M h. BFSS_APIDProcessor_Process M
        (NewBFSS_APIDProcessor M h)"
  by unfold_locales
    (simp_all add: bFSS_APIDProcessorCompleteObject_Process_def
        BFSS_APIDClient_CompleteObject_def BFSS_APIDCompleteObjectArgs_eta
      BFSS_APIDProcessor_Process_def GetProcessorFunction_def NewBFSS_APIDProcessor_def)

lemma BFSS_APIDGetObjectInfoArgs_eta:
  "new_BFSS_APIDGetObjectInfoArgs\<lparr>GetObjectInfoArgs_Oid := GetObjectInfoArgs_Oid a\<rparr>
      = a"
  by (cases a) (simp add: new_BFSS_APIDGetObjectInfoArgs_def)

interpretation getObjectInfo_call: service_method
    BFSS_APIDGetObjectInfoArgs_enc BFSS_APIDGetObjectInfoArgs_wf BFSS_APIDGetObjectInfoArgs_norm
        new_BFSS_APIDGetObjectInfoArgs BFSS_APIDGetObjectInfoArgs_Write
        BFSS_APIDGetObjectInfoArgs_Read
    BFSS_APIDGetObjectInfoResult_enc BFSS_APIDGetObjectInfoResult_wf
        BFSS_APIDGetObjectInfoResult_norm new_BFSS_APIDGetObjectInfoResult
        BFSS_APIDGetObjectInfoResult_Write BFSS_APIDGetObjectInfoResult_Read
    "''GetObjectInfo''" bFSS_APIDProcessorGetObjectInfo_Process "\<lambda>h a. h_GetObjectInfo h
        (GetObjectInfoArgs_Oid a)"
    "\<lambda>v. new_BFSS_APIDGetObjectInfoResult\<lparr>GetObjectInfoResult_Success := v\<rparr>"
    "\<lambda>call a. BFSS_APIDClient_GetObjectInfo call (GetObjectInfoArgs_Oid a)"
    GetObjectInfoResult_Success "None" "\<lambda>M h. BFSS_APIDProcessor_Process M
        (NewBFSS_APIDProcessor M h)"
  by unfold_locales
    (simp_all add: bFSS_APIDProcessorGetObjectInfo_Process_def BFSS_APIDClient_GetObjectInfo_def
        BFSS_APIDGetObjectInfoArgs_eta
      BFSS_APIDProcessor_Process_def GetProcessorFunction_def NewBFSS_APIDProcessor_def)

lemma BFSS_APIDObjectLockHasHashArgs_eta:
  "new_BFSS_APIDObjectLockHasHashArgs\<lparr>ObjectLockHasHashArgs_Hash :=
      ObjectLockHasHashArgs_Hash a, ObjectLockHasHashArgs_Size := ObjectLockHasHashArgs_Size a,
      ObjectLockHasHashArgs_Head := ObjectLockHasHashArgs_Head a\<rparr> = a"
  by (cases a) (simp add: new_BFSS_APIDObjectLockHasHashArgs_def)

interpretation objectLockHasHash_call: service_method
    BFSS_APIDObjectLockHasHashArgs_enc BFSS_APIDObjectLockHasHashArgs_wf
        BFSS_APIDObjectLockHasHashArgs_norm new_BFSS_APIDObjectLockHasHashArgs
        BFSS_APIDObjectLockHasHashArgs_Write BFSS_APIDObjectLockHasHashArgs_Read
    BFSS_APIDObjectLockHasHashResult_enc BFSS_APIDObjectLockHasHashResult_wf
        BFSS_APIDObjectLockHasHashResult_norm new_BFSS_APIDObjectLockHasHashResult
        BFSS_APIDObjectLockHasHashResult_Write BFSS_APIDObjectLockHasHashResult_Read
    "''ObjectLockHasHash''" bFSS_APIDProcessorObjectLockHasHash_Process "\<lambda>h a.
        h_ObjectLockHasHash h (ObjectLockHasHashArgs_Hash a) (ObjectLockHasHashArgs_Size a)
        (ObjectLockHasHashArgs_Head a)"
    "\<lambda>v. new_BFSS_APIDObjectLockHasHashResult\<lparr>ObjectLockHasHashResult_Success :=
        Some v\<rparr>"
    "\<lambda>call a. BFSS_APIDClient_ObjectLockHasHash call (ObjectLockHasHashArgs_Hash a)
        (ObjectLockHasHashArgs_Size a) (ObjectLockHasHashArgs_Head a)"
    BFSS_APIDObjectLockHasHashResult_GetSuccess "0" "\<lambda>M h. BFSS_APIDProcessor_Process M
        (NewBFSS_APIDProcessor M h)"
  by unfold_locales
    (simp_all add: bFSS_APIDProcessorObjectLockHasHash_Process_def
        BFSS_APIDClient_ObjectLockHasHash_def BFSS_APIDObjectLockHasHashArgs_eta
      BFSS_APIDProcessor_Process_def GetProcessorFunction_def NewBFSS_APIDProcessor_def)

lemma BFSS_APIDCreateObjectLinkArgs_eta:
  "new_BFSS_APIDCreateObjectLinkArgs\<lparr>CreateObjectLinkArgs_Oid := CreateObjectLinkArgs_Oid
      a, CreateObjectLinkArgs_Hash := CreateObjectLinkArgs_Hash a,
      CreateObjectLinkArgs_Size := CreateObjectLinkArgs_Size a,
      CreateObjectLinkArgs_Head := CreateObjectLinkArgs_Head a,
      CreateObjectLinkArgs_Flag := CreateObjectLinkArgs_Flag a,
      CreateObjectLinkArgs_Tag := CreateObjectLinkArgs_Tag a\<rparr> = a"
  by (cases a) (simp add: new_BFSS_APIDCreateObjectLinkArgs_def)

interpretation createObjectLink_call: service_method
    BFSS_APIDCreateObjectLinkArgs_enc BFSS_APIDCreateObjectLinkArgs_wf
        BFSS_APIDCreateObjectLinkArgs_norm new_BFSS_APIDCreateObjectLinkArgs
        BFSS_APIDCreateObjectLinkArgs_Write BFSS_APIDCreateObjectLinkArgs_Read
    BFSS_APIDCreateObjectLinkResult_enc BFSS_APIDCreateObjectLinkResult_wf
        BFSS_APIDCreateObjectLinkResult_norm new_BFSS_APIDCreateObjectLinkResult
        BFSS_APIDCreateObjectLinkResult_Write BFSS_APIDCreateObjectLinkResult_Read
    "''CreateObjectLink''" bFSS_APIDProcessorCreateObjectLink_Process "\<lambda>h a.
        h_CreateObjectLink h (CreateObjectLinkArgs_Oid a) (CreateObjectLinkArgs_Hash a)
        (CreateObjectLinkArgs_Size a) (CreateObjectLinkArgs_Head a) (CreateObjectLinkArgs_Flag a)
        (CreateObjectLinkArgs_Tag a)"
    "\<lambda>v. new_BFSS_APIDCreateObjectLinkResult\<lparr>CreateObjectLinkResult_Success :=
        Some v\<rparr>"
    "\<lambda>call a. BFSS_APIDClient_CreateObjectLink call (CreateObjectLinkArgs_Oid a)
        (CreateObjectLinkArgs_Hash a) (CreateObjectLinkArgs_Size a) (CreateObjectLinkArgs_Head a)
        (CreateObjectLinkArgs_Flag a) (CreateObjectLinkArgs_Tag a)"
    BFSS_APIDCreateObjectLinkResult_GetSuccess "0" "\<lambda>M h. BFSS_APIDProcessor_Process M
        (NewBFSS_APIDProcessor M h)"
  by unfold_locales
    (simp_all add: bFSS_APIDProcessorCreateObjectLink_Process_def
        BFSS_APIDClient_CreateObjectLink_def BFSS_APIDCreateObjectLinkArgs_eta
      BFSS_APIDProcessor_Process_def GetProcessorFunction_def NewBFSS_APIDProcessor_def)

lemma BFSS_APIDReadArgs_eta:
  "new_BFSS_APIDReadArgs\<lparr>ReadArgs_Oid := ReadArgs_Oid a, ReadArgs_Size := ReadArgs_Size a,
      ReadArgs_Offset := ReadArgs_Offset a\<rparr> = a"
  by (cases a) (simp add: new_BFSS_APIDReadArgs_def)

interpretation read_call: service_method
    BFSS_APIDReadArgs_enc BFSS_APIDReadArgs_wf BFSS_APIDReadArgs_norm new_BFSS_APIDReadArgs
        BFSS_APIDReadArgs_Write BFSS_APIDReadArgs_Read
    BFSS_APIDReadResult_enc BFSS_APIDReadResult_wf BFSS_APIDReadResult_norm
        new_BFSS_APIDReadResult BFSS_APIDReadResult_Write BFSS_APIDReadResult_Read
    "''Read''" bFSS_APIDProcessorRead_Process "\<lambda>h a. h_Read h (ReadArgs_Oid a)
        (ReadArgs_Size a) (ReadArgs_Offset a)"
    "\<lambda>v. new_BFSS_APIDReadResult\<lparr>ReadResult_Success := v\<rparr>"
    "\<lambda>call a. BFSS_APIDClient_Read call (ReadArgs_Oid a) (ReadArgs_Size a)
        (ReadArgs_Offset a)"
    ReadResult_Success "None" "\<lambda>M h. BFSS_APIDProcessor_Process M (NewBFSS_APIDProcessor
        M h)"
  by unfold_locales
    (simp_all add: bFSS_APIDProcessorRead_Process_def BFSS_APIDClient_Read_def BFSS_APIDReadArgs_eta
      BFSS_APIDProcessor_Process_def GetProcessorFunction_def NewBFSS_APIDProcessor_def)

lemma BFSS_APIDReadBlkArgs_eta:
  "new_BFSS_APIDReadBlkArgs\<lparr>ReadBlkArgs_Oid := ReadBlkArgs_Oid a,
      ReadBlkArgs_Size := ReadBlkArgs_Size a,
      ReadBlkArgs_Offset := ReadBlkArgs_Offset a\<rparr> = a"
  by (cases a) (simp add: new_BFSS_APIDReadBlkArgs_def)

interpretation readBlk_call: service_method
    BFSS_APIDReadBlkArgs_enc BFSS_APIDReadBlkArgs_wf BFSS_APIDReadBlkArgs_norm
        new_BFSS_APIDReadBlkArgs BFSS_APIDReadBlkArgs_Write BFSS_APIDReadBlkArgs_Read
    BFSS_APIDReadBlkResult_enc BFSS_APIDReadBlkResult_wf BFSS_APIDReadBlkResult_norm
        new_BFSS_APIDReadBlkResult BFSS_APIDReadBlkResult_Write BFSS_APIDReadBlkResult_Read
    "''ReadBlk''" bFSS_APIDProcessorReadBlk_Process "\<lambda>h a. h_ReadBlk h (ReadBlkArgs_Oid
        a) (ReadBlkArgs_Size a) (ReadBlkArgs_Offset a)"
    "\<lambda>v. new_BFSS_APIDReadBlkResult\<lparr>ReadBlkResult_Success := v\<rparr>"
    "\<lambda>call a. BFSS_APIDClient_ReadBlk call (ReadBlkArgs_Oid a) (ReadBlkArgs_Size a)
        (ReadBlkArgs_Offset a)"
    ReadBlkResult_Success "None" "\<lambda>M h. BFSS_APIDProcessor_Process M
        (NewBFSS_APIDProcessor M h)"
  by unfold_locales
    (simp_all add: bFSS_APIDProcessorReadBlk_Process_def BFSS_APIDClient_ReadBlk_def
        BFSS_APIDReadBlkArgs_eta
      BFSS_APIDProcessor_Process_def GetProcessorFunction_def NewBFSS_APIDProcessor_def)

lemma BFSS_APIDGetObjectBlksInfoArgs_eta:
  "new_BFSS_APIDGetObjectBlksInfoArgs\<lparr>GetObjectBlksInfoArgs_Oid :=
      GetObjectBlksInfoArgs_Oid a\<rparr> = a"
  by (cases a) (simp add: new_BFSS_APIDGetObjectBlksInfoArgs_def)

interpretation getObjectBlksInfo_call: service_method
    BFSS_APIDGetObjectBlksInfoArgs_enc BFSS_APIDGetObjectBlksInfoArgs_wf
        BFSS_APIDGetObjectBlksInfoArgs_norm new_BFSS_APIDGetObjectBlksInfoArgs
        BFSS_APIDGetObjectBlksInfoArgs_Write BFSS_APIDGetObjectBlksInfoArgs_Read
    BFSS_APIDGetObjectBlksInfoResult_enc BFSS_APIDGetObjectBlksInfoResult_wf
        BFSS_APIDGetObjectBlksInfoResult_norm new_BFSS_APIDGetObjectBlksInfoResult
        BFSS_APIDGetObjectBlksInfoResult_Write BFSS_APIDGetObjectBlksInfoResult_Read
    "''GetObjectBlksInfo''" bFSS_APIDProcessorGetObjectBlksInfo_Process "\<lambda>h a.
        h_GetObjectBlksInfo h (GetObjectBlksInfoArgs_Oid a)"
    "\<lambda>v. new_BFSS_APIDGetObjectBlksInfoResult\<lparr>GetObjectBlksInfoResult_Success :=
        v\<rparr>"
    "\<lambda>call a. BFSS_APIDClient_GetObjectBlksInfo call (GetObjectBlksInfoArgs_Oid a)"
    GetObjectBlksInfoResult_Success "None" "\<lambda>M h. BFSS_APIDProcessor_Process M
        (NewBFSS_APIDProcessor M h)"
  by unfold_locales
    (simp_all add: bFSS_APIDProcessorGetObjectBlksInfo_Process_def
        BFSS_APIDClient_GetObjectBlksInfo_def BFSS_APIDGetObjectBlksInfoArgs_eta
      BFSS_APIDProcessor_Process_def GetProcessorFunction_def NewBFSS_APIDProcessor_def)

lemma BFSS_APIDGetObjectBlkKeyArgs_eta:
  "new_BFSS_APIDGetObjectBlkKeyArgs\<lparr>GetObjectBlkKeyArgs_Oid := GetObjectBlkKeyArgs_Oid a,
      GetObjectBlkKeyArgs_Offset := GetObjectBlkKeyArgs_Offset a\<rparr> = a"
  by (cases a) (simp add: new_BFSS_APIDGetObjectBlkKeyArgs_def)

interpretation getObjectBlkKey_call: service_method
    BFSS_APIDGetObjectBlkKeyArgs_enc BFSS_APIDGetObjectBlkKeyArgs_wf
        BFSS_APIDGetObjectBlkKeyArgs_norm new_BFSS_APIDGetObjectBlkKeyArgs
        BFSS_APIDGetObjectBlkKeyArgs_Write BFSS_APIDGetObjectBlkKeyArgs_Read
    BFSS_APIDGetObjectBlkKeyResult_enc BFSS_APIDGetObjectBlkKeyResult_wf
        BFSS_APIDGetObjectBlkKeyResult_norm new_BFSS_APIDGetObjectBlkKeyResult
        BFSS_APIDGetObjectBlkKeyResult_Write BFSS_APIDGetObjectBlkKeyResult_Read
    "''GetObjectBlkKey''" bFSS_APIDProcessorGetObjectBlkKey_Process "\<lambda>h a.
        h_GetObjectBlkKey h (GetObjectBlkKeyArgs_Oid a) (GetObjectBlkKeyArgs_Offset a)"
    "\<lambda>v. new_BFSS_APIDGetObjectBlkKeyResult\<lparr>GetObjectBlkKeyResult_Success :=
        v\<rparr>"
    "\<lambda>call a. BFSS_APIDClient_GetObjectBlkKey call (GetObjectBlkKeyArgs_Oid a)
        (GetObjectBlkKeyArgs_Offset a)"
    GetObjectBlkKeyResult_Success "None" "\<lambda>M h. BFSS_APIDProcessor_Process M
        (NewBFSS_APIDProcessor M h)"
  by unfold_locales
    (simp_all add: bFSS_APIDProcessorGetObjectBlkKey_Process_def
        BFSS_APIDClient_GetObjectBlkKey_def BFSS_APIDGetObjectBlkKeyArgs_eta
      BFSS_APIDProcessor_Process_def GetProcessorFunction_def NewBFSS_APIDProcessor_def)

lemma BFSS_APIDManageMessageArgs_eta:
  "new_BFSS_APIDManageMessageArgs\<lparr>ManageMessageArgs_CmdId := ManageMessageArgs_CmdId a,
      ManageMessageArgs_Param := ManageMessageArgs_Param a,
      ManageMessageArgs_Data := ManageMessageArgs_Data a\<rparr> = a"
  by (cases a) (simp add: new_BFSS_APIDManageMessageArgs_def)

interpretation manageMessage_call: service_method
    BFSS_APIDManageMessageArgs_enc BFSS_APIDManageMessageArgs_wf BFSS_APIDManageMessageArgs_norm
        new_BFSS_APIDManageMessageArgs BFSS_APIDManageMessageArgs_Write
        BFSS_APIDManageMessageArgs_Read
    BFSS_APIDManageMessageResult_enc BFSS_APIDManageMessageResult_wf
        BFSS_APIDManageMessageResult_norm new_BFSS_APIDManageMessageResult
        BFSS_APIDManageMessageResult_Write BFSS_APIDManageMessageResult_Read
    "''ManageMessage''" bFSS_APIDProcessorManageMessage_Process "\<lambda>h a. h_ManageMessage h
        (ManageMessageArgs_CmdId a) (ManageMessageArgs_Param a) (ManageMessageArgs_Data a)"
    "\<lambda>v. new_BFSS_APIDManageMessageResult\<lparr>ManageMessageResult_Success := v\<rparr>"
    "\<lambda>call a. BFSS_APIDClient_ManageMessage call (ManageMessageArgs_CmdId a)
        (ManageMessageArgs_Param a) (ManageMessageArgs_Data a)"
    ManageMessageResult_Success "None" "\<lambda>M h. BFSS_APIDProcessor_Process M
        (NewBFSS_APIDProcessor M h)"
  by unfold_locales
    (simp_all add: bFSS_APIDProcessorManageMessage_Process_def BFSS_APIDClient_ManageMessage_def
        BFSS_APIDManageMessageArgs_eta
      BFSS_APIDProcessor_Process_def GetProcessorFunction_def NewBFSS_APIDProcessor_def)

section \<open>Properties\<close>

text \<open>
  Claim C12: a client whose Thrift client is connected to the processor of a handler is a faithful
  proxy of it: writing data to an object through the client runs the handler once, on the same
  object, offset and data (a nil slice being sent as an empty one), and returns its result code
  as an \<^verbatim>\<open>int32\<close>.
\<close>

theorem Write_transparent:
  assumes "message_laws M w" and "i32 offset0 = offset0"
    and "connected w (BFSS_APIDProcessor_Process M (NewBFSS_APIDProcessor M h))
      (\<lambda>a. BFSS_APIDWriteArgs_Write (base M) (Some a)) (BFSS_APIDWriteResult_Read (base M)) call"
    and "h_Write h oid offset0 (Some (bytes_of data0)) s = ((v, None), s')"
  shows "BFSS_APIDClient_Write call oid offset0 data0 s = ((i32 v, None), s')"
  using write_call.transparent [OF assms(1), where call = call and h = h and s = s and s' = s' and v = v
      and a = "new_BFSS_APIDWriteArgs\<lparr>WriteArgs_Oid := oid, WriteArgs_Offset := offset0,
        WriteArgs_Data := data0\<rparr>"] assms(2-4)
  by (simp add: BFSS_APIDWriteArgs_wf_def BFSS_APIDWriteArgs_norm_def BFSS_APIDWriteResult_wf_def
      BFSS_APIDWriteResult_norm_def BFSS_APIDWriteResult_GetSuccess_def new_BFSS_APIDWriteArgs_def
      new_BFSS_APIDWriteResult_def)

text \<open>A handler over the bytes written so far, which answers nothing else than writes.\<close>

definition not_served :: "'v \<Rightarrow> 's \<Rightarrow> ('v \<times> string option) \<times> 's" where
  "not_served v s = ((v, Some ''not served''), s)"

definition demo_handler :: "(byte list, string) BFSS_APID" where
  "demo_handler =
     \<lparr>h_GetVersion = not_served [], h_CreateObject = (\<lambda>oid size flag tag. not_served 0), h_DeleteObject = (\<lambda>oid. not_served 0),
      h_Write = (\<lambda>oid offset0 data0 s. ((0, None), s @ bytes_of data0)),
      h_ResizeObject = (\<lambda>oid n. not_served 0), h_CompleteObject = (\<lambda>oid. not_served 0),
      h_GetObjectInfo = (\<lambda>oid. not_served None), h_ObjectLockHasHash = (\<lambda>hash size hd. not_served 0),
      h_CreateObjectLink = (\<lambda>oid hash size hd flag tag. not_served 0),
      h_Read = (\<lambda>oid size offset0. not_served None), h_ReadBlk = (\<lambda>oid size offset0. not_served None),
      h_GetObjectBlksInfo = (\<lambda>oid. not_served None), h_GetObjectBlkKey = (\<lambda>oid offset0. not_served None),
      h_ManageMessage = (\<lambda>cmd param data0. not_served None)\<rparr>"

abbreviation demo_server where
  "demo_server \<equiv> BFSS_APIDProcessor_Process token_mlib (NewBFSS_APIDProcessor token_mlib demo_handler)"

theorem Write_transparent_witness:
  "BFSS_APIDClient_Write
     (token_call demo_server (\<lambda>a. BFSS_APIDWriteArgs_Write (base token_mlib) (Some a))
        (BFSS_APIDWriteResult_Read (base token_mlib))) ''a'' 7 (Some [1, 2]) [9] = ((0, None), [9, 1, 2])"
proof -
  have "h_Write demo_handler ''a'' 7 (Some (bytes_of (Some [1, 2]))) [9] = ((0, None), [9, 1, 2])"
    by (simp add: demo_handler_def bytes_of_def)
  from Write_transparent [OF token_messages _ token_connected this] show ?thesis
    by (simp add: i32_def)
qed

text \<open>
  Reading through the client gives the handler's result as well, a pointer to a struct:
  nil when the handler gives nil, else the same data with the result code as an \<^verbatim>\<open>int32\<close>.
\<close>

theorem Read_transparent:
  assumes "message_laws M w" and "i32 size0 = size0" and "i32 offset0 = offset0"
    and "connected w (BFSS_APIDProcessor_Process M (NewBFSS_APIDProcessor M h))
      (\<lambda>a. BFSS_APIDReadArgs_Write (base M) (Some a)) (BFSS_APIDReadResult_Read (base M)) call"
    and "h_Read h oid size0 offset0 s = ((v, None), s')"
  shows "BFSS_APIDClient_Read call oid size0 offset0 s =
    ((map_option (\<lambda>r. r\<lparr>rr_Result := i32 (rr_Result r)\<rparr>) v, None), s')"
  using read_call.transparent [OF assms(1), where call = call and h = h and s = s and s' = s' and v = v
      and a = "new_BFSS_APIDReadArgs\<lparr>ReadArgs_Oid := oid, ReadArgs_Size := size0,
        ReadArgs_Offset := offset0\<rparr>"] assms(2-5)
  by (simp add: BFSS_APIDReadArgs_wf_def BFSS_APIDReadArgs_norm_def BFSS_APIDReadResult_wf_def
      BFSS_APIDReadResult_norm_def new_BFSS_APIDReadArgs_def new_BFSS_APIDReadResult_def
      READ_RESULT_wf_def READ_RESULT_norm_def option.pred_set cong: option.map_cong)

definition demo_reader :: "(byte list, string) BFSS_APID" where
  "demo_reader = demo_handler\<lparr>h_Read := \<lambda>oid size offset0 s.
     ((Some \<lparr>rr_Result = 0, rr_Data = Some (take (nat size) (drop (nat offset0) s))\<rparr>, None), s)\<rparr>"

theorem Read_transparent_witness:
  "BFSS_APIDClient_Read
     (token_call
        (BFSS_APIDProcessor_Process token_mlib (NewBFSS_APIDProcessor token_mlib demo_reader))
        (\<lambda>a. BFSS_APIDReadArgs_Write (base token_mlib) (Some a))
        (BFSS_APIDReadResult_Read (base token_mlib))) ''a'' 2 1 [9, 8, 7, 6]
   = ((Some \<lparr>rr_Result = 0, rr_Data = Some [8, 7]\<rparr>, None), [9, 8, 7, 6])"
proof -
  have "h_Read demo_reader ''a'' 2 1 [9, 8, 7, 6]
      = ((Some \<lparr>rr_Result = 0, rr_Data = Some [8, 7]\<rparr>, None), [9, 8, 7, 6])"
    by (simp add: demo_reader_def)
  from Read_transparent [OF token_messages _ _ token_connected this] show ?thesis
    by (simp add: i32_def)
qed

definition methods :: "string list" where
  "methods =
     [''GetVersion'', ''CreateObject'', ''DeleteObject'', ''Write'', ''ResizeObject'',
      ''CompleteObject'', ''GetObjectInfo'', ''ObjectLockHasHash'', ''CreateObjectLink'', ''Read'',
      ''ReadBlk'', ''GetObjectBlksInfo'', ''GetObjectBlkKey'', ''ManageMessage'']"

lemma processor_dom: "NewBFSS_APIDProcessor M h nm = None \<longleftrightarrow> nm \<notin> set methods"
  by (simp add: NewBFSS_APIDProcessor_def methods_def)





text \<open>
  A client cannot tell a missing result from success: when a server answers a call of
  \<^verbatim>\<open>CreateObject\<close> with a result struct that has no field, the client returns \<^verbatim>\<open>BFSS_SUCCESS\<close> and
  no error.
\<close>

theorem CreateObject_empty_result:
  assumes "message_laws M w" and "i32 size0 = size0" and "i32 flag = flag"
    and "connected w server
      (\<lambda>a. BFSS_APIDCreateObjectArgs_Write (base M) (Some a))
      (BFSS_APIDCreateObjectResult_Read (base M)) call"
    and "answers w server ''CreateObject'' (BFSS_APIDCreateObjectArgs_enc
      \<lparr>CreateObjectArgs_Oid = oid, CreateObjectArgs_Size = size0, CreateObjectArgs_Flag = flag,
       CreateObjectArgs_Tag = tag\<rparr>) s (enc_struct n []) s'"
  shows "BFSS_APIDClient_CreateObject call oid size0 flag tag s = ((BFSS_SUCCESS, None), s')"
proof -
  note P = message_protocol [OF assms(1)]
  let ?a = "\<lparr>CreateObjectArgs_Oid = oid, CreateObjectArgs_Size = size0,
    CreateObjectArgs_Flag = flag, CreateObjectArgs_Tag = tag\<rparr>"
  have "writes w (BFSS_APIDCreateObjectArgs_Write (base M) (Some ?a)) (BFSS_APIDCreateObjectArgs_enc ?a)"
    using assms(2,3) by (intro BFSS_APIDCreateObjectArgs_writes [OF P])
      (simp add: BFSS_APIDCreateObjectArgs_wf_def)
  moreover have "reads w (BFSS_APIDCreateObjectResult_Read (base M) new_BFSS_APIDCreateObjectResult)
      (enc_struct n []) new_BFSS_APIDCreateObjectResult"
    unfolding BFSS_APIDCreateObjectResult_Read_def
    by (rule reads_fields [OF P, where fs = "[]", unfolded list.map]) simp_all
  ultimately have "call ''CreateObject'' ?a new_BFSS_APIDCreateObjectResult s =
      ((None, new_BFSS_APIDCreateObjectResult), s')"
    using assms(4,5) unfolding connected_def by blast
  then show ?thesis
    by (simp add: BFSS_APIDClient_CreateObject_def client_call_def new_BFSS_APIDCreateObjectArgs_def
        BFSS_APIDCreateObjectResult_GetSuccess_def new_BFSS_APIDCreateObjectResult_def BFSS_SUCCESS_def)
qed

definition empty_server :: "tokens \<Rightarrow> tokens \<Rightarrow> nat \<Rightarrow> ((bool \<times> string option) \<times> tokens \<times> tokens \<times> nat) option"
where
  "empty_server p q s =
     (case snd p of
        TMsg m k seq # ts \<Rightarrow>
          Some ((True, None), (fst p, tl (dropWhile (\<lambda>t. t \<noteq> TMsgEnd) ts)),
            (fst q @ TMsg m REPLY seq # enc_struct ''r'' [] @ [TMsgEnd], snd q), Suc s)
      | _ \<Rightarrow> None)"

theorem CreateObject_empty_result_witness:
  "BFSS_APIDClient_CreateObject
     (token_call empty_server (\<lambda>a. BFSS_APIDCreateObjectArgs_Write (base token_mlib) (Some a))
        (BFSS_APIDCreateObjectResult_Read (base token_mlib))) ''a'' 1 0 ''t'' 0
   = ((BFSS_SUCCESS, None), 1)"
proof -
  have no_end: "TMsgEnd \<notin> set (BFSS_APIDCreateObjectArgs_enc a)" for a
    by (simp add: BFSS_APIDCreateObjectArgs_enc_def BFSS_APIDCreateObjectArgs_fields_def
        enc_struct_def enc_fld_def enc_field_def)
  have dw: "dropWhile (\<lambda>t. t \<noteq> TMsgEnd) (BFSS_APIDCreateObjectArgs_enc a @ TMsgEnd # rest)
      = TMsgEnd # rest" for a rest
    using no_end [of a] by (subst dropWhile_append2) auto
  have "answers token_wire empty_server ''CreateObject'' (BFSS_APIDCreateObjectArgs_enc
      \<lparr>CreateObjectArgs_Oid = ''a'', CreateObjectArgs_Size = 1, CreateObjectArgs_Flag = 0,
       CreateObjectArgs_Tag = ''t''\<rparr>) 0 (enc_struct ''r'' []) 1"
    by (simp add: answers_def empty_server_def token_wire_def dw)
  from CreateObject_empty_result [OF token_messages _ _ token_connected this] show ?thesis
    by (simp add: i32_def)
qed

end
