(* ===== verification/Load_Service.thy ===== *)
theory Load_Service
  imports Load_Driver BFSS_API_Service
begin

text \<open>
  The load tester over the generated service: the calls it makes are the methods of the generated
  client, whose Thrift client is connected to the processor of a handler. The laws the tester
  relies on (\<open>object_store\<close>, \<open>complete_quiet\<close>, \<open>hash_check\<close>) follow from laws of the handler, through
  the encodings of arguments and results and the dispatch of the processor.
\<close>

section \<open>The calls\<close>

record ('s, 'e) callers =
  call_CreateObject :: "(BFSS_APIDCreateObjectArgs, BFSS_APIDCreateObjectResult, 's, 'e) caller"
  call_Write :: "(BFSS_APIDWriteArgs, BFSS_APIDWriteResult, 's, 'e) caller"
  call_CompleteObject :: "(BFSS_APIDCompleteObjectArgs, BFSS_APIDCompleteObjectResult, 's, 'e) caller"
  call_ObjectLockHasHash ::
    "(BFSS_APIDObjectLockHasHashArgs, BFSS_APIDObjectLockHasHashResult, 's, 'e) caller"

abbreviation server_of where
  "server_of M h \<equiv> BFSS_APIDProcessor_Process M (NewBFSS_APIDProcessor M h)"

definition connected_callers ::
  "('p, 'e) mlib \<Rightarrow> 'p wire \<Rightarrow> ('s, 'e) BFSS_APID \<Rightarrow> ('s, 'e) callers \<Rightarrow> bool" where
  "connected_callers M wi h c \<longleftrightarrow>
     connected wi (server_of M h) (\<lambda>a. BFSS_APIDCreateObjectArgs_Write (base M) (Some a))
       (BFSS_APIDCreateObjectResult_Read (base M)) (call_CreateObject c)
     \<and> connected wi (server_of M h) (\<lambda>a. BFSS_APIDWriteArgs_Write (base M) (Some a))
       (BFSS_APIDWriteResult_Read (base M)) (call_Write c)
     \<and> connected wi (server_of M h) (\<lambda>a. BFSS_APIDCompleteObjectArgs_Write (base M) (Some a))
       (BFSS_APIDCompleteObjectResult_Read (base M)) (call_CompleteObject c)
     \<and> connected wi (server_of M h) (\<lambda>a. BFSS_APIDObjectLockHasHashArgs_Write (base M) (Some a))
       (BFSS_APIDObjectLockHasHashResult_Read (base M)) (call_ObjectLockHasHash c)"

text \<open>The world whose calls go through the generated client; its parameters are \<^verbatim>\<open>int32\<close>.\<close>

definition rpc_world ::
  "('s, string) callers \<Rightarrow> ('s, 'm) driver_world_scheme \<Rightarrow> ('s, 'm) driver_world_scheme" where
  "rpc_world c w = w
     \<lparr>cl_CreateObject := (\<lambda>oid size0 flag tag.
        BFSS_APIDClient_CreateObject (call_CreateObject c) oid (i32 size0) (i32 flag) tag),
      cl_Write := (\<lambda>oid offset0 data0. BFSS_APIDClient_Write (call_Write c) oid (i32 offset0) data0),
      cl_CompleteObject := BFSS_APIDClient_CompleteObject (call_CompleteObject c),
      cl_ObjectLockHasHash := (\<lambda>hash0 size0 hd.
        BFSS_APIDClient_ObjectLockHasHash (call_ObjectLockHasHash c) hash0 (i32 size0) hd)\<rparr>"

section \<open>The handler\<close>

text \<open>
  A handler that reports through its result codes, \<^verbatim>\<open>int32\<close> values, and not through errors; that
  creates empty objects, accepts a write only at the end of its object and appends the data, keeps
  what is stored when it completes an object, and checks hashes against what it stores.
\<close>

definition code_result :: "(BFSS_RESULT \<times> 'e option) \<times> 's \<Rightarrow> bool" where
  "code_result r \<longleftrightarrow> snd (fst r) = None \<and> i32 (fst (fst r)) = fst (fst r)"

definition handler_store ::
  "('s, 'e) BFSS_APID \<Rightarrow> ('s \<Rightarrow> string \<Rightarrow> byte list option) \<Rightarrow> (byte list \<Rightarrow> string) \<Rightarrow> bool" where
  "handler_store h content hash \<longleftrightarrow>
     (\<forall>oid n f tag s. code_result (h_CreateObject h oid n f tag s))
     \<and> (\<forall>oid off d s. code_result (h_Write h oid off d s))
     \<and> (\<forall>oid s. code_result (h_CompleteObject h oid s))
     \<and> (\<forall>hs n hd s. code_result (h_ObjectLockHasHash h hs n hd s))
     \<and> (\<forall>oid n f tag s s'. h_CreateObject h oid n f tag s = ((BFSS_SUCCESS, None), s') \<longrightarrow>
          content s oid = None \<and> content s' = (content s)(oid \<mapsto> []))
     \<and> (\<forall>oid off d c s s'. h_Write h oid off (Some d) s = ((BFSS_SUCCESS, None), s') \<longrightarrow>
          content s oid = Some c \<longrightarrow> off = int (length c) \<and> content s' = (content s)(oid \<mapsto> c @ d))
     \<and> (\<forall>oid s. content (snd (h_CompleteObject h oid s)) = content s)
     \<and> (\<forall>hs n hd s. content (snd (h_ObjectLockHasHash h hs n hd s)) = content s
          \<and> (fst (fst (h_ObjectLockHasHash h hs n hd s)) = BFSS_SUCCESS \<longleftrightarrow>
               (\<exists>oid d. content s oid = Some d \<and> hs = hash d \<and> n = int (length d)
                  \<and> bytes_of hd = take 16 d)))"

lemma handler_storeD:
  assumes "handler_store h content hash"
  shows "code_result (h_CreateObject h oid n f tag s)" and "code_result (h_Write h oid off d s)"
    and "code_result (h_CompleteObject h oid s)" and "code_result (h_ObjectLockHasHash h hs n d s)"
    and "h_CreateObject h oid n f tag s = ((BFSS_SUCCESS, None), s') \<Longrightarrow>
      content s oid = None \<and> content s' = (content s)(oid \<mapsto> [])"
    and "h_Write h oid off (Some e) s = ((BFSS_SUCCESS, None), s') \<Longrightarrow> content s oid = Some a \<Longrightarrow>
      content s' = (content s)(oid \<mapsto> a @ e)"
    and "content (snd (h_CompleteObject h oid s)) = content s"
    and "content (snd (h_ObjectLockHasHash h hs n d s)) = content s"
    and "fst (fst (h_ObjectLockHasHash h hs n d s)) = BFSS_SUCCESS \<longleftrightarrow>
      (\<exists>oid e. content s oid = Some e \<and> hs = hash e \<and> n = int (length e) \<and> bytes_of d = take 16 e)"
  using assms unfolding handler_store_def by simp_all

section \<open>Calls give what the handler gives\<close>

lemma code_resultD: "code_result r \<Longrightarrow> \<exists>v s'. r = ((v, None), s') \<and> i32 v = v"
  by (cases r) (auto simp: code_result_def)

lemma i32_i32 [simp]: "i32 (i32 x) = i32 x"
  by (rule i32.wrap_wrap)

lemmas struct_defs =
  BFSS_APIDCreateObjectArgs_wf_def BFSS_APIDCreateObjectArgs_norm_def BFSS_APIDCreateObjectResult_wf_def
  BFSS_APIDCreateObjectResult_norm_def BFSS_APIDCreateObjectResult_GetSuccess_def
  new_BFSS_APIDCreateObjectArgs_def new_BFSS_APIDCreateObjectResult_def
  BFSS_APIDWriteArgs_wf_def BFSS_APIDWriteArgs_norm_def BFSS_APIDWriteResult_wf_def
  BFSS_APIDWriteResult_norm_def BFSS_APIDWriteResult_GetSuccess_def new_BFSS_APIDWriteArgs_def
  new_BFSS_APIDWriteResult_def
  BFSS_APIDCompleteObjectArgs_wf_def BFSS_APIDCompleteObjectArgs_norm_def
  BFSS_APIDCompleteObjectResult_wf_def BFSS_APIDCompleteObjectResult_norm_def
  BFSS_APIDCompleteObjectResult_GetSuccess_def new_BFSS_APIDCompleteObjectArgs_def
  new_BFSS_APIDCompleteObjectResult_def
  BFSS_APIDObjectLockHasHashArgs_wf_def BFSS_APIDObjectLockHasHashArgs_norm_def
  BFSS_APIDObjectLockHasHashResult_wf_def BFSS_APIDObjectLockHasHashResult_norm_def
  BFSS_APIDObjectLockHasHashResult_GetSuccess_def new_BFSS_APIDObjectLockHasHashArgs_def
  new_BFSS_APIDObjectLockHasHashResult_def

lemma served_calls:
  assumes "message_laws M wi" and "connected_callers M wi h c"
  shows "code_result (h_CreateObject h oid (i32 n) (i32 f) tag s) \<Longrightarrow>
      BFSS_APIDClient_CreateObject (call_CreateObject c) oid (i32 n) (i32 f) tag s
        = h_CreateObject h oid (i32 n) (i32 f) tag s"
    and "code_result (h_Write h oid (i32 off) (Some (bytes_of d)) s) \<Longrightarrow>
      BFSS_APIDClient_Write (call_Write c) oid (i32 off) d s
        = h_Write h oid (i32 off) (Some (bytes_of d)) s"
    and "code_result (h_CompleteObject h oid s) \<Longrightarrow>
      BFSS_APIDClient_CompleteObject (call_CompleteObject c) oid s = h_CompleteObject h oid s"
    and "code_result (h_ObjectLockHasHash h hs (i32 n) (Some (bytes_of d)) s) \<Longrightarrow>
      BFSS_APIDClient_ObjectLockHasHash (call_ObjectLockHasHash c) hs (i32 n) d s
        = h_ObjectLockHasHash h hs (i32 n) (Some (bytes_of d)) s"
proof -
  note C = assms(2) [unfolded connected_callers_def]
  show "BFSS_APIDClient_CreateObject (call_CreateObject c) oid (i32 n) (i32 f) tag s
        = h_CreateObject h oid (i32 n) (i32 f) tag s"
    if "code_result (h_CreateObject h oid (i32 n) (i32 f) tag s)"
    using createObject_call.transparent [OF assms(1), where call = "call_CreateObject c" and h = h
        and a = "new_BFSS_APIDCreateObjectArgs\<lparr>CreateObjectArgs_Oid := oid,
          CreateObjectArgs_Size := i32 n, CreateObjectArgs_Flag := i32 f, CreateObjectArgs_Tag := tag\<rparr>"]
      code_resultD [OF that] C by (auto simp: struct_defs)
  show "BFSS_APIDClient_Write (call_Write c) oid (i32 off) d s
        = h_Write h oid (i32 off) (Some (bytes_of d)) s"
    if "code_result (h_Write h oid (i32 off) (Some (bytes_of d)) s)"
    using write_call.transparent [OF assms(1), where call = "call_Write c" and h = h
        and a = "new_BFSS_APIDWriteArgs\<lparr>WriteArgs_Oid := oid, WriteArgs_Offset := i32 off,
          WriteArgs_Data := d\<rparr>"]
      code_resultD [OF that] C by (auto simp: struct_defs)
  show "BFSS_APIDClient_CompleteObject (call_CompleteObject c) oid s = h_CompleteObject h oid s"
    if "code_result (h_CompleteObject h oid s)"
    using completeObject_call.transparent [OF assms(1), where call = "call_CompleteObject c" and h = h
        and a = "new_BFSS_APIDCompleteObjectArgs\<lparr>CompleteObjectArgs_Oid := oid\<rparr>"]
      code_resultD [OF that] C by (auto simp: struct_defs)
  show "BFSS_APIDClient_ObjectLockHasHash (call_ObjectLockHasHash c) hs (i32 n) d s
        = h_ObjectLockHasHash h hs (i32 n) (Some (bytes_of d)) s"
    if "code_result (h_ObjectLockHasHash h hs (i32 n) (Some (bytes_of d)) s)"
    using objectLockHasHash_call.transparent [OF assms(1), where call = "call_ObjectLockHasHash c" and h = h
        and a = "new_BFSS_APIDObjectLockHasHashArgs\<lparr>ObjectLockHasHashArgs_Hash := hs,
          ObjectLockHasHashArgs_Size := i32 n, ObjectLockHasHashArgs_Head := d\<rparr>"]
      code_resultD [OF that] C by (auto simp: struct_defs)
qed

section \<open>The laws of the tester\<close>

lemma rpc_world_fields [simp]:
  "now (rpc_world c w) = now w" "rand_bytes (rpc_world c w) = rand_bytes w" "rand_Intn (rpc_world c w) = rand_Intn w"
  "uuid (rpc_world c w) = uuid w" "sha256_hex (rpc_world c w) = sha256_hex w"
  "new_client (rpc_world c w) = new_client w" "close_client (rpc_world c w) = close_client w"
  "ipc_UpdateProgress (rpc_world c w) = ipc_UpdateProgress w" "ipc_UpdateStatus (rpc_world c w) = ipc_UpdateStatus w"
  by (simp_all add: rpc_world_def)

lemma served_world:
  fixes w :: "('s, 'm) driver_world_scheme"
  assumes "message_laws M wi" and "connected_callers M wi h c" and "handler_store h content hash"
  shows "cl_CreateObject (rpc_world c w) oid n f tag s = h_CreateObject h oid (i32 n) (i32 f) tag s"
    and "cl_Write (rpc_world c w) oid off d s = h_Write h oid (i32 off) (Some (bytes_of d)) s"
    and "cl_CompleteObject (rpc_world c w) oid s = h_CompleteObject h oid s"
    and "cl_ObjectLockHasHash (rpc_world c w) hs n d s = h_ObjectLockHasHash h hs (i32 n) (Some (bytes_of d)) s"
  using assms(3) by (simp_all add: rpc_world_def served_calls [OF assms(1,2)] handler_store_def)

lemma served_object_store:
  fixes w :: "('s, 'm) driver_world_scheme"
  assumes "message_laws M wi" and "connected_callers M wi h c" and "handler_store h content hash"
    and "local_quiet w content" and "random_source w"
  shows "object_store (rpc_world c w) content"
proof -
  note H = handler_storeD [OF assms(3)] and S = served_world [OF assms(1-3)]
  have "local_quiet (rpc_world c w) content" "random_source (rpc_world c w)"
    using assms(4,5) by (simp_all add: local_quiet_def random_source_def)
  moreover have "content s' = content s" if "h_CompleteObject h oid s = (r, s')" for oid s r s'
    using H(7) [of oid s] that by simp
  moreover have "content s' = (content s)(oid \<mapsto> a @ d)"
    if "h_Write h oid (i32 (int (length a))) (Some d) s = ((BFSS_SUCCESS, None), s')" "content s oid = Some a"
    for oid a d s s'
    using H(6) that by blast
  ultimately show ?thesis
    using H(5) by (simp add: object_store_def S bytes_of_def)
qed

lemma served_checks:
  fixes w :: "('s, 'm) driver_world_scheme"
  assumes "message_laws M wi" and "connected_callers M wi h c" and "handler_store h content hash"
    and "local_quiet w content"
  shows "complete_quiet (rpc_world c w) content" and "hash_check (rpc_world c w) content hash"
proof -
  note H = handler_storeD [OF assms(3)] and S = served_world [OF assms(1-3)]
  show "complete_quiet (rpc_world c w) content"
    using H(7) assms(4) by (simp add: complete_quiet_def S local_quiet_def quiet_def)
  have "call_failed (fst (h_ObjectLockHasHash h hs n d s)) \<longleftrightarrow>
      fst (fst (h_ObjectLockHasHash h hs n d s)) \<noteq> BFSS_SUCCESS" for hs n d s
    using code_resultD [OF H(4) [of hs n d s]] by (auto simp: call_failed_def)
  then show "hash_check (rpc_world c w) content hash"
    by (simp add: hash_check_def S H(8,9) bytes_of_def)
qed

section \<open>Properties\<close>


text \<open>A handler over a map of objects, and callers that run its processor.\<close>

definition store_handler :: "(store, string) BFSS_APID" where
  "store_handler =
     \<lparr>h_GetVersion = not_served [],
      h_CreateObject = (\<lambda>oid size flag tag. cl_CreateObject demo_world oid size flag tag),
      h_DeleteObject = (\<lambda>oid. not_served 0), h_Write = demo_write,
      h_ResizeObject = (\<lambda>oid n. not_served 0), h_CompleteObject = (\<lambda>oid s. ((BFSS_SUCCESS, None), s)),
      h_GetObjectInfo = (\<lambda>oid. not_served None),
      h_ObjectLockHasHash = (\<lambda>hash n hd. cl_ObjectLockHasHash check_driver hash n hd),
      h_CreateObjectLink = (\<lambda>oid hash size hd flag tag. not_served 0),
      h_Read = (\<lambda>oid size offset0. not_served None), h_ReadBlk = (\<lambda>oid size offset0. not_served None),
      h_GetObjectBlksInfo = (\<lambda>oid. not_served None), h_GetObjectBlkKey = (\<lambda>oid offset0. not_served None),
      h_ManageMessage = (\<lambda>cmd param data0. not_served None)\<rparr>"

lemma store_handler_store: "handler_store store_handler fst (sha256_hex demo_driver)"
proof -
  note D = store_handler_def demo_world_def demo_write_def check_driver_def
  show ?thesis
    unfolding handler_store_def
    by (intro conjI allI impI; (auto simp: D code_result_def result_code_defs i32_def
      split: option.splits if_splits)?)
qed

definition demo_callers :: "(store, string) callers" where
  "demo_callers =
     \<lparr>call_CreateObject = token_call (server_of token_mlib store_handler)
        (\<lambda>a. BFSS_APIDCreateObjectArgs_Write (base token_mlib) (Some a))
        (BFSS_APIDCreateObjectResult_Read (base token_mlib)),
      call_Write = token_call (server_of token_mlib store_handler)
        (\<lambda>a. BFSS_APIDWriteArgs_Write (base token_mlib) (Some a)) (BFSS_APIDWriteResult_Read (base token_mlib)),
      call_CompleteObject = token_call (server_of token_mlib store_handler)
        (\<lambda>a. BFSS_APIDCompleteObjectArgs_Write (base token_mlib) (Some a))
        (BFSS_APIDCompleteObjectResult_Read (base token_mlib)),
      call_ObjectLockHasHash = token_call (server_of token_mlib store_handler)
        (\<lambda>a. BFSS_APIDObjectLockHasHashArgs_Write (base token_mlib) (Some a))
        (BFSS_APIDObjectLockHasHashResult_Read (base token_mlib))\<rparr>"

lemma demo_callers_connected: "connected_callers token_mlib token_wire store_handler demo_callers"
  by (simp add: connected_callers_def demo_callers_def token_connected)


text \<open>
  One failing call of \<^verbatim>\<open>GetObjectInfo\<close> ends the program: the generated client returns a nil
  result with the error, and the error path of the test asks that result for its code, which is a
  nil pointer dereference.
\<close>

theorem GetObjectInfo_crash:
  assumes "Files stats \<noteq> []" and "fst (new_client w s) = None"
    and "\<And>oid. cl_GetObjectInfo w oid = BFSS_APIDClient_GetObjectInfo call oid"
    and "\<And>m a r s. fst (fst (call m a r s)) \<noteq> None"
  shows "GetObjectInfo w stats s = None"
proof -
  have "fst (fst (client_call call m a r g None s)) = None" for m a r g s
    using assms(4) [of m a r s] by (cases "call m a r s"; cases "fst (call m a r s)") (auto simp: client_call_def)
  then have "fst (fst (cl_GetObjectInfo w oid s)) = None" for oid s
    by (simp add: assms(3) BFSS_APIDClient_GetObjectInfo_def)
  then have "GetObjectInfo_one w f stats s = None" for f stats s
    by (simp add: GetObjectInfo_one_def Let_def case_prod_beta)
  then show ?thesis
    using assms(1,2)
    by (cases "Files stats"; cases "new_client w s")
      (simp_all add: GetObjectInfo_def with_client_def over_files_def)
qed

theorem GetObjectInfo_crash_witness:
  "GetObjectInfo (fast_demo\<lparr>cl_GetObjectInfo := BFSS_APIDClient_GetObjectInfo (\<lambda>m a r s. ((Some ''broken pipe'', r), s))\<rparr>)
     (zero_PerfStats\<lparr>Files := [new_FileStats ''a'' 1 0]\<rparr>) (Map.empty, 0) = None"
  by (rule GetObjectInfo_crash [where call = "\<lambda>m a r s. ((Some ''broken pipe'', r), s)"])
    (simp_all add: fast_demo_def demo_world_def)

end
