(* ===== verification/Load_Fast_Live.thy ===== *)
theory Load_Fast_Live
  imports Load_Fast_Safety
begin

text \<open>
  \<^verbatim>\<open>FastWrite\<close> gets to its end: with a service that accepts the calls, at every moment of every
  interleaving there is a way on to the return of \<^verbatim>\<open>FastWrite\<close> with the expected bytes written. So
  no interleaving can lead the writer and its generators into a deadlock or lose the files they work
  with.
\<close>

section \<open>A service that accepts the calls\<close>

text \<open>Connections are made, names are new, new objects and writes at the end are accepted.\<close>

definition reliable :: "('s, 'm) world_scheme \<Rightarrow> ('s \<Rightarrow> string \<Rightarrow> byte list option) \<Rightarrow> bool" where
  "reliable w content \<longleftrightarrow>
     accepting w content \<and> (\<forall>s. fst (new_client w s) = None)
     \<and> (\<forall>s. content s (fst (uuid w s)) = None)
     \<and> (\<forall>s oid sz flag tag. content s oid = None \<longrightarrow>
          fst (cl_CreateObject w oid sz flag tag s) = (BFSS_SUCCESS, None))"

lemma genFile_reliable:
  assumes "object_store w content" and "reliable w content" and "\<And>t s. content (rand_Seed w t s) = content s"
    and "sized f"
  shows "\<exists>g s'. genFile w verify f s = Some ((None, g), s')"
proof -
  obtain nm s1 where 1: "uuid w s = (nm, s1)" by fastforce
  obtain t s2 where 2: "now w s1 = (t, s2)" by fastforce
  obtain d s3 where 3: "rand_bytes w (length (sf_Data f)) (rand_Seed w t s2) = (d, s3)" by fastforce
  obtain t0 s4 where 4: "now w s3 = (t0, s4)" by fastforce
  obtain t1 s5 where 5: "now w s4 = (t1, s5)" by fastforce
  have len: "length d = length (sf_Data f)" "16 \<le> length (sf_Data f)"
    using store_quiet(2) [OF assms(1) 3] assms(4) by (simp_all add: sized_def)
  have "content s5 = content s"
    using store_quiet(3) [OF assms(1) 1] store_quiet(1) [OF assms(1) 2] store_quiet(2) [OF assms(1) 3]
      store_quiet(1) [OF assms(1) 4] store_quiet(1) [OF assms(1) 5] assms(3) by simp
  moreover have "content s nm = None" using assms(2) 1 unfolding reliable_def by (metis fst_conv)
  ultimately have "fst (cl_CreateObject w nm sz flag tag s5) = (BFSS_SUCCESS, None)" for sz flag tag
    using assms(2) by (simp add: reliable_def)
  then show ?thesis
    unfolding genFile_def Let_def 1 2 3 4 5 prod.case
    using len by (auto split: prod.splits) (metis call_failed_success fst_conv)+
qed

lemma fastWriteFile_reliable:
  assumes "object_store w content" and "reliable w content" and "ready_file w verify (content s) f"
    and "0 < m" and "m < 2147483648" and "fs_Name fs = sf_Name f" and "fs_Size fs = sf_Size f"
  shows "\<exists>fs' s'. fastWriteFile w fs f m s = Some ((BFSS_SUCCESS, None), fs', s') \<and> fs_Size fs' = fs_Size fs"
proof -
  have *: "0 < fs_Size fs" "fs_Size fs = int (length (sf_Data f))" "fs_Size fs < 2147483648"
      "content s (fs_Name fs) = Some (take (nat 0) (sf_Data f))"
    using assms(3,6,7) by (auto simp: ready_file_def sized_def)
  have "\<exists>re fs' s'. fastWriteFile_loop w fs f m 0 0 s = Some (re, fs', s')
    \<and> (\<not> call_failed re \<longrightarrow> content s' = (content s)(fs_Name fs \<mapsto> sf_Data f)
        \<and> (\<exists>n t. fs' = fs\<lparr>fs_WriteCount := n, fs_WriteTime := t\<rparr>))
    \<and> (accepting w content \<longrightarrow> \<not> call_failed re)"
    by (rule fastWriteFile_loop_spec [OF assms(1,4,5) _ *]) simp
  then show ?thesis
    using assms(2) by (auto simp: reliable_def fastWriteFile_def not_call_failed)
qed

text \<open>The cache is filled, with at least one file when every file of the sample fits.\<close>

lemma genCacheFiles_loop_reliable:
  assumes "strict_store w content" and "reliable w content" and "Sample stats \<noteq> SMax"
    and "CacheSize stats + 2097152000 < 9223372036854775808" and "0 \<le> gs" and "gs \<le> CacheSize stats"
  shows "\<exists>files' s'. genCacheFiles_loop w verify stats gs files s = Some (Inr files', s')
    \<and> length files \<le> length files'
    \<and> (gs = 0 \<longrightarrow> (\<forall>v \<in> set (mapSample (Sample stats)). v \<le> CacheSize stats) \<longrightarrow> length files < length files')"
  using assms(5,6)
proof (induction "nat (CacheSize stats - gs)" arbitrary: gs files s rule: less_induct)
  case less
  have O: "object_store w content" and seed: "\<And>t s. content (rand_Seed w t s) = content s"
    using assms(1) by (simp_all add: strict_store_def)
  obtain sz s1 where g: "genFileSize w (Sample stats) s = (sz, s1)" by fastforce
  note sz = genFileSize_spec [OF O assms(3) g]
  have wrap: "i64 (gs + sz) = gs + sz" using sz less.prems assms(4) by (intro i64.wrap_id) auto
  show ?case
  proof (cases "CacheSize stats < gs + sz")
    case True
    then show ?thesis using sz by (subst genCacheFiles_loop.simps) (auto simp: g wrap intro!: bexI [of _ sz])
  next
    case False
    have "sized (new_sliceFile sz)" using sz by (intro new_sliceFile_sized) simp_all
    then obtain h s2 where h: "genFile w verify (new_sliceFile sz) s1 = Some ((None, h), s2)"
      using genFile_reliable [OF O assms(2) seed] by blast
    have "nat (CacheSize stats - (gs + sz)) < nat (CacheSize stats - gs)" "0 \<le> gs + sz"
      using sz False less.prems by auto
    from less.hyps [OF this] False
    obtain files' s' where "genCacheFiles_loop w verify stats (gs + sz) (files @ [h]) s2 = Some (Inr files', s')"
        "length (files @ [h]) \<le> length files'"
      by fastforce
    then show ?thesis
      using False by (subst genCacheFiles_loop.simps) (simp add: g wrap h)
  qed
qed

section \<open>What holds on the way\<close>

text \<open>
  The file that is being written is not empty and still needed; until the writer leaves, no file has
  been lost and no generator is gone; it leaves when the expected bytes are written.
\<close>

fun writing_ok :: "int \<Rightarrow> PerfStats \<Rightarrow> main_pc \<Rightarrow> bool" where
  "writing_ok n st (Storing p ps fs) \<longleftrightarrow> 16 \<le> fs_Size fs \<and> fs_Size fs < 2147483648 \<and> TotalWrites st < n"
| "writing_ok n st (Creating p ps fs) \<longleftrightarrow> 16 \<le> fs_Size fs \<and> fs_Size fs < 2147483648 \<and> TotalWrites st < n"
| "writing_ok n st (Adding p ps fs) \<longleftrightarrow> 16 \<le> fs_Size fs \<and> fs_Size fs < 2147483648 \<and> TotalWrites st < n"
| "writing_ok n st (Leaving e) \<longleftrightarrow> e = None \<and> n \<le> TotalWrites st"
| "writing_ok n st _ \<longleftrightarrow> True"

fun leaving :: "main_pc \<Rightarrow> bool" where
  "leaving (Leaving e) \<longleftrightarrow> True"
| "leaving _ \<longleftrightarrow> False"

definition fast_alive :: "int \<Rightarrow> 's fast \<Rightarrow> bool" where
  "fast_alive n S \<longleftrightarrow>
     ExpectedWrites (fw_stats S) = n \<and> n + 2147483648 < 9223372036854775808
     \<and> 0 \<le> TotalWrites (fw_stats S) \<and> TotalWrites (fw_stats S) < 9223372036854775808
     \<and> writing_ok n (fw_stats S) (fw_main S) \<and> fw_gens S \<noteq> [] \<and> 0 < fw_cap S
     \<and> size (owned S) \<le> fw_cap S
     \<and> (\<not> leaving (fw_main S) \<longrightarrow> size (owned S) = fw_cap S \<and> Exited \<notin> set (fw_gens S))"

lemma owned_same:
  "fast_step w verify is_ipc S S' \<Longrightarrow> size (owned S') \<le> size (owned S) \<and> fw_cap S' = fw_cap S"
  using owned_step [of w verify is_ipc S S'] by (auto dest: size_mset_mono)

lemma main_step_alive:
  assumes "main_step w is_ipc S S'" and "strict_store w content" and "reliable w content"
    and "fast_good w verify content old S" and "fast_alive n S"
  shows "fast_alive n S'"
proof -
  have O: "object_store w content" using assms(2) by (simp add: strict_store_def)
  note G = fast_goodD [OF assms(4)]
  have own: "size (owned S') \<le> size (owned S)" "fw_cap S' = fw_cap S"
    using owned_same [OF fast_step.main [OF assms(1), of undefined]] by simp_all
  from assms(1) show ?thesis
  proof cases
    case (finish p ps)
    then show ?thesis using own assms(5) by (simp add: fast_alive_def)
  next
    case (serve p ps t s')
    have "p \<in># owned S" using serve(2) by (simp add: owned_def fresh_ptrs_def)
    then show ?thesis
      using serve G(4) [of p] assms(5)
      by (simp add: fast_alive_def ptrs_defs sized_def fast_FileStats_def new_FileStats_def)
  next
    case (store p ps fs re fs' s')
    have p: "p \<in># fresh_ptrs S" using store(2) by (simp add: fresh_ptrs_def)
    have m: "fs_Name fs = sf_Name (fw_heap S p)" "fs_Size fs = sf_Size (fw_heap S p)"
      using G(5) store(2) by simp_all
    have r: "ready_file w verify (content (fw_world S)) (fw_heap S p)"
      using G(6) p by (auto simp: files_ok_def)
    have "re = (BFSS_SUCCESS, None)" "fs_Size fs' = fs_Size fs"
      using fastWriteFile_reliable [OF O assms(3) r G(2,3) m] store(3) by auto
    then show ?thesis
      using store assms(5) by (simp add: fast_alive_def ptrs_defs)
  next
    case (add p ps fs)
    then have "0 \<le> TotalWrites (fw_stats S)" "TotalWrites (fw_stats S) < n" "16 \<le> fs_Size fs"
        "fs_Size fs < 2147483648" "n + 2147483648 < 9223372036854775808"
      using assms(5) by (simp_all add: fast_alive_def)
    then show ?thesis
      using add assms(5) by (simp add: fast_alive_def ptrs_defs Add_def i64.wrap_id)
  qed (use assms(5) in \<open>simp_all add: fast_alive_def ptrs_defs\<close>)
qed

lemma gen_step_alive:
  assumes "gen_step w verify S g S1 g'" and "fw_gens S = gs @ g # hs" and "strict_store w content"
    and "reliable w content" and "fast_good w verify content old S" and "fast_alive n S"
  shows "fast_alive n (S1\<lparr>fw_gens := gs @ g' # hs\<rparr>)"
proof -
  have O: "object_store w content" and seed: "\<And>t s. content (rand_Seed w t s) = content s"
    using assms(3) by (simp_all add: strict_store_def)
  note G = fast_goodD [OF assms(5)]
  from assms(1) show ?thesis
  proof cases
    case (connect err s')
    have "err = None" using connect(4) assms(4) unfolding reliable_def by (metis fst_conv)
    then show ?thesis using connect assms(2,6) by (simp add: fast_alive_def ptrs_defs)
  next
    case (fill p err f s')
    have "p \<in># owned S" using fill(1) assms(2) by (simp add: owned_def busy_ptrs_def)
    then have "err = None"
      using genFile_reliable [OF O assms(4) seed G(4), of p verify "fw_world S"] fill(4) by auto
    then show ?thesis using fill assms(2,6) by (simp add: fast_alive_def ptrs_defs)
  qed (use assms(2,6) in \<open>simp_all add: fast_alive_def ptrs_defs\<close>)
qed

lemma fast_step_alive:
  assumes "fast_step w verify is_ipc S S'" and "strict_store w content" and "reliable w content"
    and "fast_good w verify content old S \<and> fast_alive n S"
  shows "fast_good w verify content old S' \<and> fast_alive n S'"
proof
  show "fast_good w verify content old S'" using fast_step_good assms by blast
  from assms(1) show "fast_alive n S'"
  proof cases
    case main
    then show ?thesis using main_step_alive assms(2-4) by blast
  next
    case (generator gs g hs S1 g')
    then show ?thesis using gen_step_alive assms(2-4) by blast
  qed
qed

section \<open>The way on\<close>

definition alive ::
  "('s, 'm) fast_world_scheme \<Rightarrow> bool \<Rightarrow> ('s \<Rightarrow> string \<Rightarrow> byte list option) \<Rightarrow> FileStats list \<Rightarrow> int
     \<Rightarrow> 's fast \<Rightarrow> bool" where
  "alive w verify content old n S \<longleftrightarrow>
     strict_store w content \<and> reliable w content \<and> fast_good w verify content old S \<and> fast_alive n S"

definition leads ::
  "('s, 'm) fast_world_scheme \<Rightarrow> bool \<Rightarrow> bool \<Rightarrow> 's fast \<Rightarrow> ('s fast \<Rightarrow> bool) \<Rightarrow> bool" where
  "leads w verify is_ipc S P \<longleftrightarrow> (\<exists>S'. (fast_step w verify is_ipc)\<^sup>*\<^sup>* S S' \<and> P S')"

lemma alive_step: "fast_step w verify is_ipc S S' \<Longrightarrow> alive w verify content old n S \<Longrightarrow> alive w verify content old n S'"
  using fast_step_alive unfolding alive_def by blast

lemma alive_steps:
  assumes "(fast_step w verify is_ipc)\<^sup>*\<^sup>* S S'" and "alive w verify content old n S"
  shows "alive w verify content old n S'"
  using assms(1) alive_step assms(2) by (rule ownership.invariant_steps [where I = "alive w verify content old n"])

lemma leads_now: "P S \<Longrightarrow> leads w verify is_ipc S P"
  unfolding leads_def by blast

lemma leads_step:
  "fast_step w verify is_ipc S S' \<Longrightarrow> leads w verify is_ipc S' P \<Longrightarrow> leads w verify is_ipc S P"
  unfolding leads_def by (meson converse_rtranclp_into_rtranclp)

text \<open>Ways are put together, and the invariant holds all along.\<close>

lemma leads_trans:
  assumes "alive w verify content old n S" and "leads w verify is_ipc S Q"
    and "\<And>S'. alive w verify content old n S' \<Longrightarrow> Q S' \<Longrightarrow> leads w verify is_ipc S' P"
  shows "leads w verify is_ipc S P"
  using assms alive_steps unfolding leads_def by (metis rtranclp_trans)

lemma alive_room:
  assumes "alive w verify content old n S"
  shows "fw_gens S = gs @ Giving p # hs \<Longrightarrow> length (fw_read S) < fw_cap S"
    and "fw_main S = Creating p ps fs \<Longrightarrow> length (fw_create S) < fw_cap S"
proof -
  have "size (owned S) \<le> fw_cap S" using assms by (simp add: alive_def fast_alive_def)
  then show "fw_gens S = gs @ Giving p # hs \<Longrightarrow> length (fw_read S) < fw_cap S"
    "fw_main S = Creating p ps fs \<Longrightarrow> length (fw_create S) < fw_cap S"
    by (auto simp: ptrs_defs)
qed

subsection \<open>The generators feed the writer\<close>

definition fed :: "'s fast \<Rightarrow> 's fast \<Rightarrow> bool" where
  "fed S S' \<longleftrightarrow> fw_main S' = fw_main S \<and> fw_stats S' = fw_stats S \<and> fw_read S' \<noteq> []"

lemma fed_step:
  assumes "fast_step w verify is_ipc S S'" and "leads w verify is_ipc S' (fed S')"
    and "fw_main S' = fw_main S" and "fw_stats S' = fw_stats S"
  shows "leads w verify is_ipc S (fed S)"
  using leads_step [OF assms(1,2)] assms(3,4) by (simp add: fed_def [abs_def])

lemma give_feeds:
  assumes "alive w verify content old n S" and "fw_gens S = gs @ Giving p # hs"
  shows "leads w verify is_ipc S (fed S)"
  by (rule leads_step [OF fast_step.generator [OF assms(2) gen_step.give [OF alive_room(1) [OF assms]]]])
    (simp add: leads_now fed_def)

lemma hold_feeds:
  assumes "alive w verify content old n S" and "fw_gens S = gs @ Holding p # hs"
  shows "leads w verify is_ipc S (fed S)"
proof -
  have "p \<in># owned S" using assms(2) by (simp add: ptrs_defs)
  then have "sized (fw_heap S p)" using assms(1) fast_goodD(4) unfolding alive_def by blast
  then obtain g s' where "genFile w verify (fw_heap S p) (fw_world S) = Some ((None, g), s')"
    using assms(1) genFile_reliable unfolding alive_def strict_store_def by metis
  note step = fast_step.generator [where w = w and verify = verify and is_ipc = is_ipc, OF assms(2) gen_step.fill [OF this]]
  let ?S = "S\<lparr>fw_heap := (fw_heap S)(p := g), fw_world := s', fw_gens := gs @ Giving p # hs\<rparr>"
  have st: "fast_step w verify is_ipc S ?S" using step by simp
  have "leads w verify is_ipc ?S (fed ?S)"
    by (rule give_feeds [OF alive_step [OF st assms(1)]]) simp
  then show ?thesis by (rule fed_step [OF st]) simp_all
qed

lemma select_feeds:
  assumes "alive w verify content old n S" and "fw_gens S = gs @ Selecting # hs" and "fw_create S \<noteq> []"
  shows "leads w verify is_ipc S (fed S)"
proof -
  obtain p ps where "fw_create S = p # ps" using assms(3) by (cases "fw_create S") auto
  note step = fast_step.generator [where w = w and verify = verify and is_ipc = is_ipc, OF assms(2) gen_step.take [OF this]]
  let ?S = "S\<lparr>fw_create := ps, fw_gens := gs @ Holding p # hs\<rparr>"
  have st: "fast_step w verify is_ipc S ?S" using step by simp
  have "leads w verify is_ipc ?S (fed ?S)"
    by (rule hold_feeds [OF alive_step [OF st assms(1)]]) simp
  then show ?thesis by (rule fed_step [OF st]) simp_all
qed

lemma open_feeds:
  assumes "alive w verify content old n S" and "fw_gens S = gs @ Opening # hs" and "fw_create S \<noteq> []"
  shows "leads w verify is_ipc S (fed S)"
proof -
  obtain s' where "new_client w (fw_world S) = (None, s')"
    using assms(1) unfolding alive_def reliable_def by (metis prod.exhaust_sel)
  note step = fast_step.generator [where w = w and verify = verify and is_ipc = is_ipc, OF assms(2) gen_step.connect [OF this]]
  let ?S = "S\<lparr>fw_world := s', fw_gens := gs @ Selecting # hs\<rparr>"
  have st: "fast_step w verify is_ipc S ?S" using step by simp
  have "leads w verify is_ipc ?S (fed ?S)"
    by (rule select_feeds [OF alive_step [OF st assms(1)]]) (simp_all add: assms(3))
  then show ?thesis by (rule fed_step [OF st]) simp_all
qed

lemma reading_fed:
  assumes "alive w verify content old n S" and "fw_main S = Reading []"
  shows "leads w verify is_ipc S (fed S)"
proof (cases "fw_read S = []")
  case True
  have a: "size (owned S) = fw_cap S" "0 < fw_cap S" "Exited \<notin> set (fw_gens S)" "fw_gens S \<noteq> []"
    using assms by (simp_all add: alive_def fast_alive_def)
  then obtain p where "p \<in># owned S" by (metis nonempty_has_size multiset_nonemptyE)
  then consider g where "g \<in> set (fw_gens S)" "p \<in> set (gen_fresh g)"
    | g where "g \<in> set (fw_gens S)" "p \<in> set (gen_busy g)" | "p \<in> set (fw_create S)"
    using assms(2) True by (auto simp: ptrs_defs)
  then show ?thesis
  proof cases
    case 1
    have "g = Giving p" using 1(2) by (cases g) simp_all
    then have "Giving p \<in> set (fw_gens S)" using 1(1) by simp
    then show ?thesis using give_feeds [OF assms(1)] by (metis in_set_conv_decomp)
  next
    case 2
    have "g = Holding p" using 2(2) by (cases g) simp_all
    then have "Holding p \<in> set (fw_gens S)" using 2(1) by simp
    then show ?thesis using hold_feeds [OF assms(1)] by (metis in_set_conv_decomp)
  next
    case 3
    then have c: "fw_create S \<noteq> []" by auto
    obtain g hs where g: "fw_gens S = [] @ g # hs" using a(4) by (cases "fw_gens S") auto
    show ?thesis
    proof (cases g)
      case (Holding q)
      then show ?thesis using hold_feeds [OF assms(1)] g by metis
    next
      case (Giving q)
      then show ?thesis using give_feeds [OF assms(1)] g by metis
    next
      case Opening
      then show ?thesis using open_feeds [OF assms(1) _ c] g by metis
    next
      case Selecting
      then show ?thesis using select_feeds [OF assms(1) _ c] g by metis
    next
      case Exited
      then show ?thesis using a(3) g by simp
    qed
  qed
qed (simp add: leads_now fed_def)

subsection \<open>The writer gets on\<close>

definition further :: "'s fast \<Rightarrow> 's fast \<Rightarrow> bool" where
  "further S S' \<longleftrightarrow> \<not> leaving (fw_main S') \<and> TotalWrites (fw_stats S) < TotalWrites (fw_stats S')"

lemma further_step:
  assumes "fast_step w verify is_ipc S S'" and "leads w verify is_ipc S' (further S')"
    and "fw_stats S' = fw_stats S"
  shows "leads w verify is_ipc S (further S)"
  using leads_step [OF assms(1,2)] assms(3) by (simp add: further_def [abs_def])

lemma add_further:
  assumes "alive w verify content old n S" and "fw_main S = Adding p ps fs"
  shows "leads w verify is_ipc S (further S)"
proof (rule leads_step [OF fast_step.main [OF main_step.add [OF assms(2)]]], rule leads_now)
  have "16 \<le> fs_Size fs" "fs_Size fs < 2147483648" "TotalWrites (fw_stats S) < n"
      "n + 2147483648 < 9223372036854775808" "0 \<le> TotalWrites (fw_stats S)"
    using assms by (simp_all add: alive_def fast_alive_def)
  then show "further S (S\<lparr>fw_main := Serving ps, fw_stats := Add fs (fw_stats S), fw_heads := fw_heads S @ [Some p]\<rparr>)"
    by (simp add: further_def Add_def i64.wrap_id)
qed

lemma create_further:
  assumes "alive w verify content old n S" and "fw_main S = Creating p ps fs"
  shows "leads w verify is_ipc S (further S)"
proof -
  let ?S = "S\<lparr>fw_main := Adding p ps fs, fw_create := fw_create S @ [p]\<rparr>"
  have st: "fast_step w verify is_ipc S ?S"
    by (rule fast_step.main [OF main_step.create [OF assms(2) alive_room(2) [OF assms]]])
  have "leads w verify is_ipc ?S (further ?S)"
    by (rule add_further [OF alive_step [OF st assms(1)]]) simp
  then show ?thesis by (rule further_step [OF st]) simp
qed

lemma store_further:
  assumes "alive w verify content old n S" and "fw_main S = Storing p ps fs"
  shows "leads w verify is_ipc S (further S)"
proof -
  have st: "object_store w content" "reliable w content" and g: "fast_good w verify content old S"
    using assms(1) by (simp_all add: alive_def strict_store_def)
  note G = fast_goodD [OF g]
  have "p \<in># fresh_ptrs S" using assms(2) by (simp add: fresh_ptrs_def)
  then have r: "ready_file w verify (content (fw_world S)) (fw_heap S p)"
    using G(6) by (auto simp: files_ok_def)
  have m: "fs_Name fs = sf_Name (fw_heap S p)" "fs_Size fs = sf_Size (fw_heap S p)"
    using G(5) assms(2) by simp_all
  obtain fs' s' where f: "fastWriteFile w fs (fw_heap S p) (MaxSlice (fw_stats S)) (fw_world S)
      = Some ((BFSS_SUCCESS, None), fs', s')"
    using fastWriteFile_reliable [OF st r G(2,3) m] by blast
  let ?S = "S\<lparr>fw_main := Creating p ps fs', fw_world := s'\<rparr>"
  have st: "fast_step w verify is_ipc S ?S"
    using fast_step.main [OF main_step.store [OF assms(2) f], of verify is_ipc] by simp
  have "leads w verify is_ipc ?S (further ?S)"
    by (rule create_further [OF alive_step [OF st assms(1)]]) simp
  then show ?thesis by (rule further_step [OF st]) simp
qed

lemma serve_further:
  assumes "alive w verify content old n S" and "fw_main S = Serving (p # ps)"
    and "TotalWrites (fw_stats S) < ExpectedWrites (fw_stats S)"
  shows "leads w verify is_ipc S (further S)"
proof -
  obtain t s' where t: "now w (if is_ipc then updateRoutine w (fw_stats S) (fw_world S) else fw_world S) = (t, s')"
    by fastforce
  let ?S = "S\<lparr>fw_main := Storing p ps (fast_FileStats (fw_heap S p) t), fw_world := s'\<rparr>"
  have st: "fast_step w verify is_ipc S ?S"
    by (rule fast_step.main [OF main_step.serve [OF assms(2,3) t]])
  have "leads w verify is_ipc ?S (further ?S)"
    by (rule store_further [OF alive_step [OF st assms(1)]]) simp
  then show ?thesis by (rule further_step [OF st]) simp
qed

definition served :: "'s fast \<Rightarrow> 's fast \<Rightarrow> bool" where
  "served S S' \<longleftrightarrow> (\<exists>p ps. fw_main S' = Serving (p # ps)) \<and> fw_stats S' = fw_stats S"

lemma served_step:
  assumes "fast_step w verify is_ipc S S'" and "leads w verify is_ipc S' (served S')"
    and "fw_stats S' = fw_stats S"
  shows "leads w verify is_ipc S (served S)"
  using leads_step [OF assms(1,2)] assms(3) by (simp add: served_def [abs_def])

lemma receive_all:
  "fw_main S = Reading acc \<Longrightarrow> acc \<noteq> [] \<or> fw_read S \<noteq> [] \<Longrightarrow> leads w verify is_ipc S (served S)"
proof (induction "fw_read S" arbitrary: S acc)
  case Nil
  obtain p ps where "acc = p # ps" using Nil by (cases acc) auto
  then show ?case
    by (intro leads_step [OF fast_step.main [OF main_step.read_all [OF Nil.prems(1) Nil.hyps [symmetric]]]])
      (simp add: leads_now served_def)
next
  case (Cons p ps)
  let ?S = "S\<lparr>fw_main := Reading (acc @ [p]), fw_read := ps\<rparr>"
  have st: "fast_step w verify is_ipc S ?S"
    by (rule fast_step.main [OF main_step.receive [OF Cons.prems(1) Cons.hyps(2) [symmetric]]])
  have "leads w verify is_ipc ?S (served ?S)"
    by (rule Cons.hyps(1) [of _ "acc @ [p]"]) simp_all
  then show ?case by (rule served_step [OF st]) simp
qed

lemma reading_serves:
  assumes "alive w verify content old n S" and "fw_main S = Reading acc"
  shows "leads w verify is_ipc S (served S)"
proof (cases "acc = []")
  case True
  show ?thesis
  proof (rule leads_trans [OF assms(1) reading_fed [OF assms(1)]])
    show "fw_main S = Reading []" using assms(2) True by simp
    fix S' assume "fed S S'"
    then show "leads w verify is_ipc S' (served S)"
      using receive_all [of S' "[]"] assms(2) True by (simp add: fed_def served_def [abs_def])
  qed
qed (use receive_all [OF assms(2)] in simp)

lemma gets_to_leave:
  assumes "alive w verify content old n S"
  shows "leads w verify is_ipc S (\<lambda>S'. leaving (fw_main S'))"
  using assms
proof (induction "nat (n - TotalWrites (fw_stats S))" arbitrary: S rule: less_induct)
  case less
  have n: "ExpectedWrites (fw_stats S) = n" if "alive w verify content old n S" for S :: "'a fast"
    using that by (simp add: alive_def fast_alive_def)
  let ?goal = "\<lambda>S'. leaving (fw_main S')"
  have further: "leads w verify is_ipc S ?goal"
    if "leads w verify is_ipc S (further S)" "TotalWrites (fw_stats S) < n"
  proof (rule leads_trans [OF less.prems that(1)])
    fix S' assume "alive w verify content old n S'" "further S S'"
    then show "leads w verify is_ipc S' ?goal"
      using that(2) by (intro less.hyps) (auto simp: further_def)
  qed
  have serving: "leads w verify is_ipc S1 ?goal"
    if a: "alive w verify content old n S1" and m: "fw_main S1 = Serving (p # ps)"
      and e: "fw_stats S1 = fw_stats S" for S1 p ps
  proof (cases "n \<le> TotalWrites (fw_stats S1)")
    case True
    then show ?thesis
      by (intro leads_step [OF fast_step.main [OF main_step.finish [OF m]]])
        (simp_all add: n [OF a] leads_now)
  next
    case False
    then have "leads w verify is_ipc S1 (further S1)"
      by (intro serve_further [OF a m]) (simp add: n [OF a])
    then show ?thesis
    proof (rule leads_trans [OF a])
      fix S' assume "alive w verify content old n S'" "further S1 S'"
      then show "leads w verify is_ipc S' ?goal"
        using False e by (intro less.hyps) (auto simp: further_def)
    qed
  qed
  have reading: "leads w verify is_ipc S1 ?goal"
    if a: "alive w verify content old n S1" and m: "fw_main S1 = Reading acc"
      and e: "fw_stats S1 = fw_stats S" for S1 acc
    by (rule leads_trans [OF a reading_serves [OF a m]]) (use serving e in \<open>auto simp: served_def\<close>)
  show ?case
  proof (cases "fw_main S")
    case (Serving qs)
    show ?thesis
    proof (cases qs)
      case Nil
      then have st: "fast_step w verify is_ipc S (S\<lparr>fw_main := Reading []\<rparr>)"
        using fast_step.main [OF main_step.again] Serving by blast
      show ?thesis by (rule leads_step [OF st reading [OF alive_step [OF st less.prems]]]) simp_all
    qed (use serving [OF less.prems] Serving in simp)
  next
    case Reading
    then show ?thesis using reading [OF less.prems] by simp
  next
    case (Storing p ps fs)
    then show ?thesis
      using further [OF store_further [OF less.prems Storing]] less.prems by (simp add: alive_def fast_alive_def)
  next
    case (Creating p ps fs)
    then show ?thesis
      using further [OF create_further [OF less.prems Creating]] less.prems by (simp add: alive_def fast_alive_def)
  next
    case (Adding p ps fs)
    then show ?thesis
      using further [OF add_further [OF less.prems Adding]] less.prems by (simp add: alive_def fast_alive_def)
  qed (simp add: leads_now)
qed

subsection \<open>The generators stop\<close>

fun gen_rank :: "gen_pc \<Rightarrow> nat" where
  "gen_rank Opening = 2"
| "gen_rank Selecting = 1"
| "gen_rank (Holding p) = 3"
| "gen_rank (Giving p) = 2"
| "gen_rank Exited = 0"

lemma generator_stops:
  assumes "alive w verify content old n S" and "fw_main S = Leaving e"
    and "fw_gens S = gs @ g # hs" and "g \<noteq> Exited"
  shows "\<exists>S' g'. fast_step w verify is_ipc S S' \<and> fw_main S' = fw_main S \<and> fw_stats S' = fw_stats S
    \<and> fw_gens S' = gs @ g' # hs \<and> gen_rank g' < gen_rank g"
proof -
  note step = fast_step.generator [where w = w and verify = verify and is_ipc = is_ipc, OF assms(3)]
  show ?thesis
  proof (cases g)
    case Opening
    obtain err s' where "new_client w (fw_world S) = (err, s')" by fastforce
    from step [unfolded Opening, OF gen_step.connect [OF this]] Opening show ?thesis
      by (intro exI [of _ "S\<lparr>fw_world := s', fw_gens := gs @ (if err = None then Selecting else Exited) # hs\<rparr>"]
        exI [of _ "if err = None then Selecting else Exited"]) simp
  next
    case Selecting
    from step [unfolded Selecting, OF gen_step.stop [OF assms(2)]] Selecting show ?thesis
      by (intro exI [of _ "S\<lparr>fw_gens := gs @ Exited # hs\<rparr>"]
        exI [of _ "Exited"]) simp
  next
    case (Holding p)
    have "p \<in># owned S" using assms(3) Holding by (simp add: ptrs_defs)
    then have "sized (fw_heap S p)" using assms(1) fast_goodD(4) unfolding alive_def by blast
    then obtain f s' where "genFile w verify (fw_heap S p) (fw_world S) = Some ((None, f), s')"
      using assms(1) genFile_reliable unfolding alive_def strict_store_def by metis
    from step [unfolded Holding, OF gen_step.fill [OF this]] Holding show ?thesis
      by (intro exI [of _ "S\<lparr>fw_heap := (fw_heap S)(p := f), fw_world := s', fw_gens := gs @ Giving p # hs\<rparr>"]
        exI [of _ "Giving p"]) simp
  next
    case (Giving p)
    from step [unfolded Giving, OF gen_step.give [OF alive_room(1) [OF assms(1) assms(3) [unfolded Giving]]]]
      Giving show ?thesis
      by (intro exI [of _ "S\<lparr>fw_read := fw_read S @ [p], fw_gens := gs @ Selecting # hs\<rparr>"]
        exI [of _ "Selecting"]) simp
  qed (use assms(4) in simp)
qed

lemma leaving_returns:
  assumes "alive w verify content old n S" and "fw_main S = Leaving e"
  shows "leads w verify is_ipc S (\<lambda>S'. fast_returned S' \<and> fw_main S' = Leaving e \<and> fw_stats S' = fw_stats S)"
  using assms
proof (induction "sum_list (map gen_rank (fw_gens S))" arbitrary: S rule: less_induct)
  case less
  show ?case
  proof (cases "\<exists>g \<in> set (fw_gens S). g \<noteq> Exited")
    case True
    then obtain gs g hs where g: "fw_gens S = gs @ g # hs" "g \<noteq> Exited" by (metis split_list)
    obtain S' g' where s: "fast_step w verify is_ipc S S'" "fw_main S' = fw_main S" "fw_stats S' = fw_stats S"
        "fw_gens S' = gs @ g' # hs" "gen_rank g' < gen_rank g"
      using generator_stops [OF less.prems g] by blast
    have "leads w verify is_ipc S'
        (\<lambda>S''. fast_returned S'' \<and> fw_main S'' = Leaving e \<and> fw_stats S'' = fw_stats S')"
      using s g(1) by (intro less.hyps alive_step [OF s(1) less.prems(1)]) (simp_all add: less.prems(2))
    then show ?thesis using leads_step [OF s(1)] s(3) by simp
  next
    case False
    then show ?thesis
      using less.prems(2) by (intro leads_now) (auto simp: fast_returned_def list_all_iff)
  qed
qed

lemma fast_completes_spec:
  assumes "strict_store w content" and "reliable w content" and "Sample stats \<noteq> SMax"
    and "0 < MaxSlice stats" and "MaxSlice stats < 2147483648"
    and "\<forall>v \<in> set (mapSample (Sample stats)). v \<le> CacheSize stats" and "10485760 \<le> CacheSize stats"
    and "CacheSize stats + 2097152000 < 9223372036854775808" and "0 < ExpectedWrites stats"
    and "ExpectedWrites stats + 2147483648 < 9223372036854775808" and "TotalWrites stats = 0"
  shows "\<exists>S0. FastWrite_start w verify stats s = Some (Inr S0)
    \<and> (\<forall>S. (fast_step w verify is_ipc)\<^sup>*\<^sup>* S0 S \<longrightarrow>
         (\<exists>S'. (fast_step w verify is_ipc)\<^sup>*\<^sup>* S S' \<and> fast_returned S' \<and> fw_main S' = Leaving None
            \<and> ExpectedWrites stats \<le> TotalWrites (fw_stats S')))"
proof -
  have "fst (new_client w s) = None" using assms(2) by (simp add: reliable_def)
  then obtain s1 where c: "new_client w s = (None, s1)" by (cases "new_client w s") auto
  have "0 \<le> CacheSize stats" using assms(7) by simp
  from genCacheFiles_loop_reliable [OF assms(1-3,8) _ this, of verify "[]" s1]
  obtain files s2 where g: "genCacheFiles w verify stats s1 = Some (Inr files, s2)" "files \<noteq> []"
    using assms(6) by (auto simp: genCacheFiles_def)
  let ?S0 = "newAsyncFile files stats s2"
  have start: "FastWrite_start w verify stats s = Some (Inr ?S0)"
    using assms(7,9) c g(1) by (simp add: FastWrite_start_def)
  have "fast_good w verify content (Files stats) ?S0"
    using genCacheFiles_ready [OF assms(1,3) g(1)] assms(4,5) by (rule newAsyncFile_good)
  moreover have "fast_alive (ExpectedWrites stats) ?S0"
    unfolding fast_alive_def owned_init using g(2) assms(10,11)
    by (simp add: newAsyncFile_def async_loops_def Suc_le_eq)
  ultimately have a0: "alive w verify content (Files stats) (ExpectedWrites stats) ?S0"
    using assms(1,2) by (simp add: alive_def)
  have "leads w verify is_ipc S (\<lambda>S'. fast_returned S' \<and> fw_main S' = Leaving None
      \<and> ExpectedWrites stats \<le> TotalWrites (fw_stats S'))"
    if r: "(fast_step w verify is_ipc)\<^sup>*\<^sup>* ?S0 S" for S
  proof -
    note a = alive_steps [OF r a0]
    show ?thesis
    proof (rule leads_trans [OF a gets_to_leave [OF a]])
      fix S1 assume a1: "alive w verify content (Files stats) (ExpectedWrites stats) S1" and "leaving (fw_main S1)"
      then obtain e where m: "fw_main S1 = Leaving e" by (cases "fw_main S1") auto
      have "writing_ok (ExpectedWrites stats) (fw_stats S1) (fw_main S1)"
        using a1 by (simp add: alive_def fast_alive_def)
      then have "e = None" "ExpectedWrites stats \<le> TotalWrites (fw_stats S1)" using m by simp_all
      then show "leads w verify is_ipc S1 (\<lambda>S'. fast_returned S' \<and> fw_main S' = Leaving None
          \<and> ExpectedWrites stats \<le> TotalWrites (fw_stats S'))"
        using leaving_returns [OF a1 m, of is_ipc] unfolding leads_def by metis
    qed
  qed
  then show ?thesis using start unfolding leads_def by blast
qed

text \<open>A service that keeps a list of objects and gives out names longer than all of them.\<close>

definition long_name :: "(string \<times> byte list) list \<Rightarrow> string" where
  "long_name s = replicate (Suc (sum_list (map (length \<circ> fst) s))) CHR ''x''"

lemma long_name_new: "map_of s (long_name s) = None"
proof -
  have "length n \<le> sum_list (map (length \<circ> fst) s)" if "n \<in> fst ` set s" for n
    using that by (force intro!: member_le_sum_list)
  then have "long_name s \<notin> fst ` set s" by (fastforce simp: long_name_def)
  then show ?thesis by (simp add: map_of_eq_None_iff)
qed

definition list_world :: "(string \<times> byte list) list fast_world" where
  "list_world =
     \<lparr>now = (\<lambda>s. (0, s)), time_text = (\<lambda>t. ''now''), rand_bytes = (\<lambda>n s. (replicate n 7, s)),
      rand_Intn = (\<lambda>n s. (0, s)), uuid = (\<lambda>s. (long_name s, s)), sha256_hex = (\<lambda>d. []),
      new_client = (\<lambda>s. (None, s)), close_client = (\<lambda>s. s),
      cl_CreateObject = (\<lambda>oid sz flag tag s.
        if map_of s oid = None then ((BFSS_SUCCESS, None), (oid, []) # s) else ((BFSS_DUPLICATED, None), s)),
      cl_Write = (\<lambda>oid off d s.
        case map_of s oid of
          None \<Rightarrow> ((BFSS_NOTFOUND, None), s)
        | Some c \<Rightarrow> if off = int (length c) then ((BFSS_SUCCESS, None), (oid, c @ bytes_of d) # s)
                    else ((BFSS_PARAM_ERROR, None), s)),
      cl_CompleteObject = (\<lambda>oid s. ((BFSS_SUCCESS, None), s)),
      ipc_UpdateProgress = (\<lambda>t v x s. s), ipc_UpdateStatus = (\<lambda>st s. s),
      md5_hex = (\<lambda>d. []), cl_DeleteObject = (\<lambda>oid s. ((BFSS_SUCCESS, None), s)),
      cl_GetObjectInfo = (\<lambda>oid s. ((None, Some ''no info''), s)),
      cl_CreateObjectLink = (\<lambda>oid h sz hd flag tag s. ((BFSS_SUCCESS, None), s)),
      cl_ObjectLockHasHash = (\<lambda>h sz hd s. ((BFSS_SUCCESS, None), s)),
      rand_Seed = (\<lambda>t s. s), errorf = (\<lambda>m. m)\<rparr>"

lemma list_world_store: "strict_store list_world map_of"
proof -
  have "local_quiet list_world map_of" by (simp add: local_quiet_def quiet_def list_world_def)
  moreover have "random_source list_world" by (simp add: random_source_def list_world_def)
  ultimately show ?thesis
    unfolding strict_store_def object_store_def
    by (intro conjI; (assumption | (simp add: list_world_def call_failed_def result_code_defs bytes_of_def
      split: option.splits if_splits)))
qed

lemma list_world_reliable: "reliable list_world map_of"
  by (simp add: reliable_def accepting_def list_world_def long_name_new)

section \<open>Properties\<close>

text \<open>
  Claim C5: \<^verbatim>\<open>FastWrite\<close> can always get to its end: with a service that accepts connections, new objects
  under new names and writes at the end of an object, and a cache that every file of the sample
  fits, \<^verbatim>\<open>FastWrite\<close> fills its cache and starts, and from every state that any interleaving of the writer
  and the generators can reach there is a way on to its return, without an error and with at least
  the expected bytes written. No interleaving deadlocks or loses the files they work with.
\<close>

theorem fast_completes:
  assumes "strict_store w content" and "reliable w content" and "Sample stats \<noteq> SMax"
    and "0 < MaxSlice stats" and "MaxSlice stats < 2147483648"
    and "\<forall>v \<in> set (mapSample (Sample stats)). v \<le> CacheSize stats" and "10485760 \<le> CacheSize stats"
    and "CacheSize stats + 2097152000 < 9223372036854775808" and "0 < ExpectedWrites stats"
    and "ExpectedWrites stats + 2147483648 < 9223372036854775808" and "TotalWrites stats = 0"
  shows "\<exists>S0. FastWrite_start w verify stats s = Some (Inr S0)
    \<and> (\<forall>S. (fast_step w verify is_ipc)\<^sup>*\<^sup>* S0 S \<longrightarrow>
         (\<exists>S'. (fast_step w verify is_ipc)\<^sup>*\<^sup>* S S' \<and> fast_returned S' \<and> fw_main S' = Leaving None
            \<and> ExpectedWrites stats \<le> TotalWrites (fw_stats S')))"
  using assms by (rule fast_completes_spec)

theorem fast_completes_witness:
  "\<exists>S0 S'. FastWrite_start list_world True fast_demo_stats [] = Some (Inr S0)
     \<and> (fast_step list_world True False)\<^sup>*\<^sup>* S0 S' \<and> fast_returned S' \<and> 1 \<le> TotalWrites (fw_stats S')"
proof -
  have "Sample fast_demo_stats \<noteq> SMax" "0 < MaxSlice fast_demo_stats" "MaxSlice fast_demo_stats < 2147483648"
      "\<forall>v \<in> set (mapSample (Sample fast_demo_stats)). v \<le> CacheSize fast_demo_stats"
      "10485760 \<le> CacheSize fast_demo_stats" "CacheSize fast_demo_stats + 2097152000 < 9223372036854775808"
      "0 < ExpectedWrites fast_demo_stats"
      "ExpectedWrites fast_demo_stats + 2147483648 < 9223372036854775808" "TotalWrites fast_demo_stats = 0"
    by (simp_all add: c1M_def)
  from fast_completes [OF list_world_store list_world_reliable this, of True "[]" False]
  show ?thesis by (metis fast_demo_stats_fields(3) rtranclp.rtrancl_refl)
qed

end
