(* ===== verification/Load_Process.thy ===== *)
theory Load_Process
  imports Load_Driver Load_Fast_Live Web_Handler
begin

text \<open>
  A process of a task as a whole: \<^verbatim>\<open>main\<close> of the process that \<^verbatim>\<open>Task.Start\<close> starts, with its calls to
  the scheduler carried out on the registry of \<^verbatim>\<open>app/task.go\<close>. The state of the world has the
  registry in it (\<open>reg\<close>, \<open>set_reg\<close>). What else happens in the world during the run, other processes of
  the same task and requests from the web included, may change the registry in any way that keeps
  the process where it is and leaves its own entry alone.
\<close>

section \<open>What a run keeps\<close>

text \<open>\<open>others_keep R w\<close>: no operation but the reports to the scheduler leaves the relation \<open>R\<close>.\<close>

definition keeps_snd :: "('s \<Rightarrow> 's \<Rightarrow> bool) \<Rightarrow> ('s \<Rightarrow> 'b \<times> 's) \<Rightarrow> bool" where
  "keeps_snd R f \<longleftrightarrow> (\<forall>s. R s (snd (f s)))"

definition others_keep :: "('s \<Rightarrow> 's \<Rightarrow> bool) \<Rightarrow> ('s, 'm) fast_world_scheme \<Rightarrow> bool" where
  "others_keep R w \<longleftrightarrow>
     keeps_snd R (now w) \<and> (\<forall>n. keeps_snd R (rand_bytes w n)) \<and> (\<forall>n. keeps_snd R (rand_Intn w n))
     \<and> keeps_snd R (uuid w) \<and> keeps_snd R (new_client w) \<and> (\<forall>s. R s (close_client w s))
     \<and> (\<forall>oid sz flag tag. keeps_snd R (cl_CreateObject w oid sz flag tag))
     \<and> (\<forall>oid off d. keeps_snd R (cl_Write w oid off d)) \<and> (\<forall>t s. R s (rand_Seed w t s))"

definition reports_keep :: "('s \<Rightarrow> 's \<Rightarrow> bool) \<Rightarrow> ('s, 'm) fast_world_scheme \<Rightarrow> bool" where
  "reports_keep R w \<longleftrightarrow>
     (\<forall>tg v x s. R s (ipc_UpdateProgress w tg v x s)) \<and> (\<forall>st s. R s (ipc_UpdateStatus w st s))"

lemma keeps_sndD: "keeps_snd R f \<Longrightarrow> f s = (x, s') \<Longrightarrow> R s s'"
  unfolding keeps_snd_def by (metis snd_conv)

lemma others_keepD:
  assumes "others_keep R w"
  shows "now w s = (t, s') \<Longrightarrow> R s s'" and "rand_bytes w n s = (d, s') \<Longrightarrow> R s s'"
    and "rand_Intn w k s = (j, s') \<Longrightarrow> R s s'" and "uuid w s = (nm, s') \<Longrightarrow> R s s'"
    and "new_client w s = (err, s') \<Longrightarrow> R s s'" and "R s (close_client w s)"
    and "cl_CreateObject w oid sz flag tag s = (re, s') \<Longrightarrow> R s s'"
    and "cl_Write w oid off b s = (re, s') \<Longrightarrow> R s s'" and "R s (rand_Seed w t s)"
  using assms unfolding others_keep_def by (meson keeps_sndD)+

lemma genFileSize_keeps:
  "others_keep R w \<Longrightarrow> reflp R \<Longrightarrow> genFileSize w sm s = (sz, s') \<Longrightarrow> R s s'"
  by (auto simp: genFileSize_def Let_def reflpD split: if_splits prod.splits dest: others_keepD(3))

lemma genFile_keeps:
  assumes "others_keep R w" and "transp R" and "genFile w verify f s = Some (r, s')"
  shows "R s s'"
proof -
  obtain nm s1 where 1: "uuid w s = (nm, s1)" by fastforce
  obtain t s2 where 2: "now w s1 = (t, s2)" by fastforce
  obtain d s3 where 3: "rand_bytes w (length (sf_Data f)) (rand_Seed w t s2) = (d, s3)" by fastforce
  obtain t0 s4 where 4: "now w s3 = (t0, s4)" by fastforce
  obtain t1 s5 where 5: "now w s4 = (t1, s5)" by fastforce
  note K = others_keepD [OF assms(1)] and T = transpD [OF assms(2)]
  have R5: "R s s5"
    using T [OF K(4) [OF 1] T [OF K(1) [OF 2] T [OF K(9) T [OF K(2) [OF 3] T [OF K(1) [OF 4] K(1) [OF 5]]]]]] .
  show ?thesis
    using assms(3) unfolding genFile_def Let_def 1 2 3 4 5 prod.case
    by (auto split: if_splits prod.splits dest!: K(7) K(1) intro: T [OF R5] T [OF T [OF R5]])
qed

lemma genCacheFiles_loop_keeps:
  fixes w :: "('s, 'm) fast_world_scheme"
  assumes "genCacheFiles_loop w verify stats gs files s = Some y"
  shows "others_keep R w \<longrightarrow> reflp R \<longrightarrow> transp R \<longrightarrow> R s (snd y)"
proof (rule genCacheFiles_loop.raw_induct [of "\<lambda>w verify stats gs files s y. others_keep R w \<longrightarrow>
    reflp R \<longrightarrow> transp R \<longrightarrow> R s (snd y)", OF _ assms], intro impI)
  fix f w verify stats gs files s and y :: "(error + sliceFile list) \<times> 's"
  assume IH: "\<And>(w :: ('s, 'm) fast_world_scheme) verify stats gs files s y.
      f w verify stats gs files s = Some y \<Longrightarrow> others_keep R w \<longrightarrow> reflp R \<longrightarrow> transp R \<longrightarrow> R s (snd y)"
    and eq: "(let (sz, s1) = genFileSize w (Sample stats) s;
          genSize' = i64 (gs + sz)
      in if CacheSize stats < genSize' then Some (Inr files, s1)
         else Option.bind (genFile w verify (new_sliceFile sz) s1) (\<lambda>((err, g), s2).
                case err of
                  Some e \<Rightarrow> Some (Inl e, s2)
                | None \<Rightarrow> f w verify stats genSize' (files @ [g]) s2)) = Some y"
    and K: "others_keep R w" and r: "reflp R" and t: "transp R"
  obtain sz s1 where g: "genFileSize w (Sample stats) s = (sz, s1)" by fastforce
  note R1 = genFileSize_keeps [OF K r g]
  show "R s (snd y)"
  proof (cases "CacheSize stats < i64 (gs + sz)")
    case True
    then show ?thesis using eq g R1 by auto
  next
    case False
    obtain err h s2 where h: "genFile w verify (new_sliceFile sz) s1 = Some ((err, h), s2)"
      using eq g False by (cases "genFile w verify (new_sliceFile sz) s1") auto
    note R2 = transpD [OF t R1 genFile_keeps [OF K t h]]
    show ?thesis
    proof (cases err)
      case None
      then have "f w verify stats (i64 (gs + sz)) (files @ [h]) s2 = Some y" using eq g False h by simp
      then show ?thesis using IH K r t transpD [OF t R2] by blast
    next
      case (Some e)
      then show ?thesis using eq g False h R2 by auto
    qed
  qed
qed

lemma reports_keepD:
  assumes "reports_keep R w"
  shows "R s (doneRoutine w stats s)" and "transp R \<Longrightarrow> R s (updateRoutine w stats s)"
  using assms unfolding reports_keep_def doneRoutine_def updateRoutine_def Let_def
  by (blast dest: transpD)+

text \<open>The relation of the worlds, and the fields of the statistics that are never written.\<close>

definition run_keeps :: "('s \<Rightarrow> 's \<Rightarrow> bool) \<Rightarrow> 's fast \<Rightarrow> 's fast \<Rightarrow> bool" where
  "run_keeps R S S' \<longleftrightarrow> R (fw_world S) (fw_world S') \<and> Sample (fw_stats S') = Sample (fw_stats S)
     \<and> ExpectedWrites (fw_stats S') = ExpectedWrites (fw_stats S)"

lemma fast_step_keeps:
  assumes "fast_step w verify is_ipc S S'" and "others_keep R w" and "reports_keep R w"
    and "reflp R" and "transp R"
  shows "run_keeps R S S'"
proof -
  note K = others_keepD [OF assms(2)] and T = transpD [OF assms(5)] and r = reflpD [OF assms(4)]
  from assms(1) show ?thesis
  proof cases
    case main
    then show ?thesis
    proof cases
      case (serve p ps t s')
      have "R (fw_world S) (if is_ipc then updateRoutine w (fw_stats S) (fw_world S) else fw_world S)"
        using reports_keepD(2) [OF assms(3,5)] r by simp
      then show ?thesis using serve T [OF _ K(1) [OF serve(4)]] by (simp add: run_keeps_def)
    next
      case (store p ps fs re fs' s')
      have "\<forall>s. R s (snd (now w s))" "\<forall>off d s. R s (snd (cl_Write w (fs_Name fs) off d s))"
        using K(1,8) by (metis prod.collapse)+
      then have "R (fw_world S) s'"
        using fastWriteFile_loop_keeps [OF store(3) [unfolded fastWriteFile_def], of R] assms(5) by simp
      then show ?thesis using store by (simp add: run_keeps_def)
    qed (simp_all add: run_keeps_def r K(6) Add_def)
  next
    case (generator gs g hs S1 g')
    from generator(3) show ?thesis
    proof cases
      case (connect err s')
      then show ?thesis using generator(1) K(5) by (simp add: run_keeps_def)
    next
      case (fill p err f s')
      then show ?thesis using generator(1) genFile_keeps [OF assms(2,5)] by (simp add: run_keeps_def)
    qed (use generator(1) in \<open>simp_all add: run_keeps_def r\<close>)
  qed
qed

lemma FastWrite_keeps:
  assumes "FastWrite w verify is_ipc stats s (e, stats', s')" and "others_keep R w" and "reports_keep R w"
    and "reflp R" and "transp R"
  shows "R s s' \<and> Sample stats' = Sample stats \<and> ExpectedWrites stats' = ExpectedWrites stats"
proof -
  note K = others_keepD [OF assms(2)] and T = transpD [OF assms(5)] and r = reflpD [OF assms(4)]
  have start: "R s (case z of Inl (e, s1) \<Rightarrow> s1 | Inr S0 \<Rightarrow> fw_world S0)
      \<and> (\<forall>S0. z = Inr S0 \<longrightarrow> fw_stats S0 = stats)"
    if "FastWrite_start w verify stats s = Some z" for z
    using that genCacheFiles_loop_keeps [of w verify stats 0 "[]" _ _ R] assms(2,4,5) K(5) T
    by (auto simp: FastWrite_start_def genCacheFiles_def newAsyncFile_def r split: if_splits prod.splits option.splits
      sum.splits) (metis K(5) T snd_conv)+
  have fin: "R s1 (if is_ipc then doneRoutine w st s1 else s1)" for st s1
    using reports_keepD(1) [OF assms(3)] r by simp
  from assms(1) show ?thesis
  proof cases
    case (refused s1)
    then show ?thesis using start [OF refused(4)] T [OF _ fin] by simp
  next
    case (returned S0 S)
    have "run_keeps R S0 S"
      using returned(4)
    proof (induction rule: rtranclp_induct)
      case (step S1 S2)
      then show ?case
        using fast_step_keeps [OF step(2) assms(2-5)] T unfolding run_keeps_def by metis
    qed (simp add: run_keeps_def r)
    then have "R s (fw_world S)" "Sample (fw_stats S) = Sample stats" "ExpectedWrites (fw_stats S) = ExpectedWrites stats"
      using start [OF returned(3)] T [of s "fw_world S0" "fw_world S"] by (simp_all add: run_keeps_def)
    then show ?thesis using returned T [OF _ fin] by simp
  qed
qed

section \<open>The reports of a process\<close>

text \<open>
  The world of the process \<open>pid\<close> of the task \<open>nm\<close>: its calls go to the registry and do not fail on
  the way; \<open>clock\<close> is the clock of the scheduler.
\<close>

definition ipc_world ::
  "('s \<Rightarrow> app_state) \<Rightarrow> (app_state \<Rightarrow> 's \<Rightarrow> 's) \<Rightarrow> ('s \<Rightarrow> int)
     \<Rightarrow> ((int \<times> Routine) list \<Rightarrow> (int \<times> Routine) list) \<Rightarrow> Config \<Rightarrow> int
     \<Rightarrow> ('s, 'm) driver_world_scheme \<Rightarrow> ('s, 'm) driver_world_scheme" where
  "ipc_world reg set_reg clock iter me pid w = w
     \<lparr>ipc_FetchCfg := (\<lambda>cfg s. (snd (Client_FetchCfg None cfg pid cfg (reg s)), s)),
      ipc_UpdateProgress := (\<lambda>tg v x s.
        set_reg (case Client_UpdateProgress None me pid tg v x (reg s) of None \<Rightarrow> reg s | Some (_, a) \<Rightarrow> a) s),
      ipc_UpdateStatus := (\<lambda>st s. set_reg (snd (Client_UpdateStatus None iter (clock s) me pid st (reg s))) s),
      ipc_CommitStats := (\<lambda>stats s. set_reg (snd (Client_CommitStats None me pid stats (reg s))) s)\<rparr>"

text \<open>Where the process is in the registry, and its entry.\<close>

definition process_at :: "string \<Rightarrow> int \<Rightarrow> nat \<Rightarrow> nat \<Rightarrow> app_state \<Rightarrow> bool" where
  "process_at nm pid t p a \<longleftrightarrow> FindTask nm a = Some t \<and> FindProcess pid (the_task a t) = Some p"

definition the_unit :: "app_state \<Rightarrow> nat \<Rightarrow> nat \<Rightarrow> Process" where
  "the_unit a t p = t_Units (the_task a t) ! p"

definition process_kept :: "string \<Rightarrow> int \<Rightarrow> nat \<Rightarrow> nat \<Rightarrow> app_state \<Rightarrow> app_state \<Rightarrow> bool" where
  "process_kept nm pid t p a a' \<longleftrightarrow>
     (process_at nm pid t p a \<longrightarrow>
        process_at nm pid t p a' \<and> t_Cfg (the_task a' t) = t_Cfg (the_task a t)
        \<and> p_ExpectedWrites (the_unit a' t p) = p_ExpectedWrites (the_unit a t p)
        \<and> p_Sample (the_unit a' t p) = p_Sample (the_unit a t p)
        \<and> p_Stats (the_unit a' t p) = p_Stats (the_unit a t p))"

lemma process_kept_refl: "process_kept nm pid t p a a"
  by (simp add: process_kept_def)

lemma process_kept_trans:
  "process_kept nm pid t p a b \<Longrightarrow> process_kept nm pid t p b c \<Longrightarrow> process_kept nm pid t p a c"
  by (simp add: process_kept_def)

text \<open>What a report of the process does: it is valid, and it changes its own entry.\<close>

lemma process_atD:
  assumes "process_at nm pid t p a"
  shows "t < length (tasks a)" and "p < length (t_Units (the_task a t))"
    and "validateRequest \<lparr>TaskName = nm, ProcessID = pid\<rparr> a = Inr (t, p)"
    and "p_ID (the_unit a t p) = pid"
proof -
  show v: "validateRequest \<lparr>TaskName = nm, ProcessID = pid\<rparr> a = Inr (t, p)"
    using assms by (simp add: process_at_def validateRequest_def)
  show "t < length (tasks a)" "p < length (t_Units (the_task a t))" "p_ID (the_unit a t p) = pid"
    using validateRequest_Inr [OF v] by (simp_all add: the_unit_def)
qed

lemma process_at_upd:
  assumes "process_at nm pid t p a" and "\<And>x. t_Name (f x) = t_Name x"
    and "\<And>x. map p_ID (t_Units (f x)) = map p_ID (t_Units x)"
  shows "process_at nm pid t p (upd_task t f a)"
proof -
  note less = process_atD(1) [OF assms(1)]
  have "FindTask nm (upd_task t f a) = FindTask nm a"
    by (rule FindTask_cong) (simp add: assms(2))
  moreover have "FindProcess pid (f (the_task a t)) = FindProcess pid (the_task a t)"
    by (rule FindProcess_cong) (rule assms(3))
  ultimately show ?thesis using assms(1) less by (simp add: process_at_def)
qed

lemma report_status:
  fixes iter k st
  assumes "process_at nm pid t p a" and "cfg_TaskName me = nm"
  defines "a' \<equiv> snd (Client_UpdateStatus None iter k me pid st a)"
  shows "process_at nm pid t p a'"
    and "the_unit a' t p = (the_unit a t p)\<lparr>p_Status := st\<rparr>" and "t_Cfg (the_task a' t) = t_Cfg (the_task a t)"
    and "list_all (\<lambda>u. p_Status u = Done) (t_Units (the_task a' t)) \<Longrightarrow> t_Status (the_task a' t) = Done"
proof -
  note D = process_atD [OF assms(1)]
  let ?f = "UpdateStatus iter k \<circ> upd_unit p (\<lambda>u. u\<lparr>p_Status := st\<rparr>)"
  have a': "a' = upd_task t ?f a"
    using D(3) assms(2) by (simp add: a'_def Client_UpdateStatus_def client_Request_def Server_UpdateStatus_def)
  show "process_at nm pid t p a'"
    unfolding a' by (rule process_at_upd [OF assms(1)]) simp_all
  show "the_unit a' t p = (the_unit a t p)\<lparr>p_Status := st\<rparr>" "t_Cfg (the_task a' t) = t_Cfg (the_task a t)"
    using D(1,2) by (simp_all add: a' the_unit_def upd_unit_def)
  have "t_Units (the_task a' t) \<noteq> []" using D(1,2) by (auto simp: a' upd_unit_def)
  then show "t_Status (the_task a' t) = Done" if "list_all (\<lambda>u. p_Status u = Done) (t_Units (the_task a' t))"
    using that D(1) by (simp add: a' UpdateStatus_Status list_all_iff)
qed

lemma report_progress:
  assumes "process_at nm pid t p a" and "cfg_TaskName me = nm"
  shows "\<exists>e a'. Client_UpdateProgress None me pid tg v x a = Some (e, a') \<and> process_kept nm pid t p a a'"
proof -
  note D = process_atD [OF assms(1)]
  let ?r = "\<lparr>r_Progress = v, r_Speed = x\<rparr>"
  let ?f = "\<lambda>_. (the_task a t)\<lparr>t_Units := (t_Units (the_task a t))
       [p := (the_unit a t p)\<lparr>p_Routines := alist_update tg ?r (p_Routines (the_unit a t p))\<rparr>]\<rparr>"
  have f: "FindProcess pid (the_task a t) = Some p" using assms(1) by (simp add: process_at_def)
  have c: "Client_UpdateProgress None me pid tg v x a = Some (None, upd_task t ?f a)"
    using D assms(2) f
    by (simp add: Client_UpdateProgress_def client_Request_def Server_UpdateProgress_def UpdateProgress_def
      the_unit_def Let_def)
  have "FindTask nm (upd_task t ?f a) = FindTask nm a"
    by (rule FindTask_cong) (use D(1) in \<open>simp add: the_task_def\<close>)
  moreover have "FindProcess pid (?f x) = FindProcess pid (the_task a t)" for x
    by (rule FindProcess_cong) (use D(2) in \<open>simp add: map_update list_update_same_conv the_unit_def\<close>)
  ultimately have "process_kept nm pid t p a (upd_task t ?f a)"
    using assms(1) D(1,2) by (simp add: process_kept_def process_at_def the_unit_def)
  then show ?thesis using c by blast
qed

lemma report_stats:
  fixes stats
  assumes "process_at nm pid t p a" and "cfg_TaskName me = nm"
  defines "a' \<equiv> snd (Client_CommitStats None me pid stats a)"
  shows "process_at nm pid t p a'" and "the_unit a' t p = (the_unit a t p)\<lparr>p_Stats := Some stats\<rparr>"
proof -
  note D = process_atD [OF assms(1)]
  have a': "a' = upd_task t (upd_unit p (\<lambda>u. u\<lparr>p_Stats := Some stats\<rparr>)) a"
    using D(3) assms(2) by (simp add: a'_def Client_CommitStats_def client_Request_def Server_CommitStats_def)
  show "process_at nm pid t p a'"
    unfolding a' by (rule process_at_upd [OF assms(1)]) simp_all
  show "the_unit a' t p = (the_unit a t p)\<lparr>p_Stats := Some stats\<rparr>"
    using D(1,2) by (simp add: a' the_unit_def upd_unit_def)
qed

section \<open>The whole process\<close>

text \<open>
  The command line \<^verbatim>\<open>Task.Start\<close> gives the process, \<open>-ipc-addr addr -task nm -ipc-client -fast\<close>, after
  \<^verbatim>\<open>flag.Parse\<close>, and the configuration it stands for.
\<close>

definition child_flags :: "string \<Rightarrow> string \<Rightarrow> flags" where
  "child_flags addr nm =
     default_flags\<lparr>ipcAddr := addr, taskName := nm, ipcClient := True, enableFast := True\<rparr>"

definition child_Config :: "host \<Rightarrow> string \<Rightarrow> string \<Rightarrow> Config" where
  "child_Config h addr nm = zero_Config
     \<lparr>cfg_Routines := NumCPU h, cfg_Sample := S1M, cfg_ExpectedWrites := 104857600,
      cfg_MaxSlice := 1048576, cfg_CacheSize := 1073741824, cfg_Fast := True, cfg_IpcAddr := addr,
      cfg_TaskName := nm, cfg_IpcClient := True, cfg_WebServer := '':9527''\<rparr>"

lemma child_config:
  "\<exists>f'. ParseArgs h (child_flags addr nm) zero_Config = (None, f', child_Config h addr nm)"
proof -
  have "StrategyFromString ''S1M'' = (S1M, None)" "i32 1048576 = 1048576"
    by code_simp+
  then show ?thesis
    using default_sizes
    by (simp add: ParseArgs_def validateParams_def child_flags_def default_flags_def Let_def
      child_Config_def zero_Config_def)
qed

text \<open>The configuration the process fetches.\<close>

definition fetched_Config :: "app_state \<Rightarrow> nat \<Rightarrow> nat \<Rightarrow> Config \<Rightarrow> Config" where
  "fetched_Config a t p own = gob_decode_Config
     ((t_Cfg (the_task a t))\<lparr>cfg_ExpectedWrites := p_ExpectedWrites (the_unit a t p),
                             cfg_Sample := p_Sample (the_unit a t p)\<rparr>) own"

lemma fetch_config:
  assumes "process_at nm pid t p a" and "cfg_TaskName own = nm"
  shows "snd (Client_FetchCfg None own pid own a) = fetched_Config a t p own"
  using process_atD(3) [OF assms(1)] assms(2)
  by (simp add: Client_FetchCfg_def client_Request_def Server_FetchCfg_def fetched_Config_def the_unit_def Let_def)

lemma fetched_kept:
  "process_kept nm pid t p a a' \<Longrightarrow> process_at nm pid t p a \<Longrightarrow> fetched_Config a' t p own = fetched_Config a t p own"
  by (simp add: process_kept_def fetched_Config_def)

text \<open>The configurations that \<^verbatim>\<open>NewTask\<close> of the web makes, as far as it matters here.\<close>

definition plain_Config :: "Config \<Rightarrow> bool" where
  "plain_Config c \<longleftrightarrow> \<not> cfg_EnableConcurrent c \<and> \<not> cfg_VerifyHash c \<and> \<not> cfg_Profile c \<and> cfg_TaskName c = []"

lemma task_Config_plain: "plain_Config (task_Config tc sm ew)"
  by (simp add: plain_Config_def task_Config_def zero_Config_def)

lemma fetched_fields:
  assumes "plain_Config (t_Cfg (the_task a t))" and "own = child_Config h addr nm"
    and "p_ExpectedWrites (the_unit a t p) \<noteq> 0"
  shows "\<not> cfg_EnableConcurrent (fetched_Config a t p own)" "\<not> cfg_VerifyHash (fetched_Config a t p own)"
    "\<not> cfg_Profile (fetched_Config a t p own)" "cfg_Fast (fetched_Config a t p own)"
    "cfg_IpcClient (fetched_Config a t p own)" "cfg_TaskName (fetched_Config a t p own) = nm"
    "cfg_ExpectedWrites (fetched_Config a t p own) = p_ExpectedWrites (the_unit a t p)"
    "cfg_Sample (fetched_Config a t p own) = gob_field S50K (p_Sample (the_unit a t p)) S1M"
  using assms
  by (auto simp: fetched_Config_def gob_decode_Config_def gob_field_def plain_Config_def child_Config_def zero_Config_def)

text \<open>The other parts of the world leave the process alone, in \<^verbatim>\<open>main.go\<close> too.\<close>

definition left_alone :: "('s \<Rightarrow> 's \<Rightarrow> bool) \<Rightarrow> ('s, 'm) driver_world_scheme \<Rightarrow> bool" where
  "left_alone R w \<longleftrightarrow>
     others_keep R w \<and> (\<forall>s. R s (sleep_5s w s)) \<and> (\<forall>addr. keeps_snd R (ipc_DoInit w addr))
     \<and> (\<forall>d f. keeps_snd R (os_Create w d f)) \<and> (\<forall>sh. keeps_snd R (file_Write w sh))"

lemma ipc_world_fields [simp]:
  fixes reg set_reg clock iter me pid w
  defines "W \<equiv> ipc_world reg set_reg clock iter me pid w"
  shows "now W = now w" "new_client W = new_client w" "sleep_5s W = sleep_5s w" "ipc_DoInit W = ipc_DoInit w"
    "os_Create W = os_Create w" "file_Write W = file_Write w" "run_fast W = run_fast w" "add_sheet W = add_sheet w"
    "others_keep R W = others_keep R w" "date_text W = date_text w" "Getpid W = Getpid w"
  by (simp_all add: W_def ipc_world_def others_keep_def)

lemma reports_kept:
  assumes "\<And>a s. reg (set_reg a s) = a" and "cfg_TaskName me = nm"
  shows "reports_keep (\<lambda>s s'. process_kept nm pid t p (reg s) (reg s')) (ipc_world reg set_reg clock iter me pid w)"
proof -
  let ?R = "process_kept nm pid t p"
  have "?R a (case Client_UpdateProgress None me pid tg v x a of None \<Rightarrow> a | Some (_, a') \<Rightarrow> a')" for tg v x a
  proof (cases "process_at nm pid t p a")
    case True
    from report_progress [OF this assms(2), of tg v x] show ?thesis by (auto split: option.splits)
  qed (simp add: process_kept_def)
  moreover have "?R a (snd (Client_UpdateStatus None iter k me pid st a))" for k st a
  proof (cases "process_at nm pid t p a")
    case True
    note report_status [OF True assms(2), of iter k st]
    then show ?thesis by (simp add: process_kept_def)
  qed (simp add: process_kept_def)
  ultimately show ?thesis by (simp add: reports_keep_def ipc_world_def assms(1))
qed

lemma ExportChartStats_left:
  assumes "left_alone R w" and "keeps_snd R (now w)" and "transp R" and "\<forall>v \<in> set vs. Sample v \<noteq> SMax"
  shows "\<exists>s'. ExportChartStats w cfg vs s = Some s' \<and> R s s'"
proof -
  have L: "keeps_snd R (os_Create w d f)" "keeps_snd R (file_Write w sh)" for d f sh
    using assms(1) by (simp_all add: left_alone_def)
  note K = keeps_sndD [OF L(1)] keeps_sndD [OF L(2)] keeps_sndD [OF assms(2)] and T = transpD [OF assms(3)]
  obtain t s1 where n: "now w s = (t, s1)" by fastforce
  define f where "f = ''perf['' @ itoa (Getpid w) @ '']-'' @ date_text w t @ ''.xlsx''"
  obtain e s2 where c: "os_Create w (cfg_DataDir cfg) f s1 = (e, s2)" by fastforce
  have R2: "R s s2" using T [OF K(3) [OF n] K(1) [OF c]] .
  obtain rs where "chart_rows 0 vs = Some rs" using chart_rows_Some [of 0 vs] assms(4) by auto
  then obtain x where x: "ExportStatsToWriter (add_sheet w) (cfg_Server cfg) vs = Some x"
    by (cases "add_sheet w (''BFSS - '' @ cfg_Server cfg)") (simp_all add: ExportStatsToWriter_def)
  have "R s (snd (file_Write w sh s2))" for sh
    using T [OF R2 K(2) [of sh s2 "fst (file_Write w sh s2)"]] by simp
  then show ?thesis
    using R2 unfolding ExportChartStats_def Let_def n prod.case f_def [symmetric] c x
    by (cases e; cases x) simp_all
qed

text \<open>The steps of \<^verbatim>\<open>doTest\<close>, from the fetched configuration to the last report.\<close>

lemma child_test:
  fixes w :: "('s, 'm) driver_world_scheme" and reg :: "'s \<Rightarrow> app_state"
  defines "R nm pid t p \<equiv> \<lambda>s s'. process_kept nm pid t p (reg s) (reg s')"
  assumes put: "\<And>a s. reg (set_reg a s) = a" and left: "left_alone (R nm pid t p) w"
    and W: "W = ipc_world reg set_reg clock iter me pid w" and me: "cfg_TaskName me = nm"
    and at: "process_at nm pid t p (reg s)" and fast: "cfg_Fast c" "cfg_IpcClient c" "\<not> cfg_VerifyHash c"
      "\<not> cfg_EnableConcurrent c" "\<not> cfg_Profile c" and sm: "cfg_Sample c \<noteq> SMax"
    and run: "\<And>s. \<exists>r. run_fast w False True (test_stats c) s = Some r \<and> FastWrite (fast_world.truncate W) False True (test_stats c) s r"
  shows "\<exists>stats s1 s2. handleTest W c (test_stats c) s = Some (Inr (stats, s1))
    \<and> ExportChartStats W c [stats] s1 = Some s2 \<and> process_at nm pid t p (reg s2)
    \<and> p_Stats (the_unit (reg s2) t p) = Some stats \<and> ExpectedWrites stats = cfg_ExpectedWrites c
    \<and> Sample stats = cfg_Sample c"
proof -
  let ?R = "R nm pid t p"
  have refl: "reflp ?R" and tr: "transp ?R"
    unfolding R_def by (auto intro!: reflpI transpI intro: process_kept_refl process_kept_trans)
  have O: "others_keep ?R W" using left by (simp add: W left_alone_def)
  have P: "reports_keep ?R W" unfolding R_def W using put me by (rule reports_kept [where reg = reg and set_reg = set_reg])
  note K = others_keepD(1) [OF O] and T = transpD [OF tr]
  obtain t0 s1 where n0: "now W s = (t0, s1)" by fastforce
  obtain e st s2 where r: "run_fast w False True (test_stats c) s1 = Some (e, st, s2)"
      "FastWrite (fast_world.truncate W) False True (test_stats c) s1 (e, st, s2)"
    using run [of s1] by auto
  obtain t1 s3 where n1: "now W s2 = (t1, s3)" by fastforce
  have "others_keep ?R (fast_world.truncate W)" "reports_keep ?R (fast_world.truncate W)"
    using O P by (simp_all add: others_keep_def reports_keep_def fast_world.defs)
  note F = FastWrite_keeps [OF r(2) this refl tr]
  have at3: "process_at nm pid t p (reg s3)"
    using T [OF K [OF n0] T [OF conjunct1 [OF F] K [OF n1]]] at by (simp add: R_def process_kept_def)
  define stats where "stats = st\<lparr>TestRunTime := time_Sub t1 t0\<rparr>"
  define s4 where "s4 = set_reg (snd (Client_CommitStats None me pid stats (reg s3))) s3"
  note C = report_stats [OF at3 me, of stats]
  have at4: "process_at nm pid t p (reg s4)" "p_Stats (the_unit (reg s4) t p) = Some stats"
    using C by (simp_all add: s4_def put)
  have h: "handleTest W c (test_stats c) s = Some (Inr (stats, s4))"
    using fast r(1) n0 n1
    by (simp add: handleTest_def start_profile_def heap_profile_def run_test_def oneshotTest_def
      test_routine_def verify_stats_def stats_def s4_def) (simp add: W ipc_world_def)
  have "Sample stats = cfg_Sample c" "ExpectedWrites stats = cfg_ExpectedWrites c"
    using F by (simp_all add: stats_def test_stats_def zero_PerfStats_def)
  moreover have "left_alone ?R W" using left by (simp add: left_alone_def W)
  moreover have "keeps_snd ?R (now W)" using O by (simp add: others_keep_def)
  ultimately obtain s5 where "ExportChartStats W c [stats] s4 = Some s5" "?R s4 s5"
    using ExportChartStats_left [of ?R W "[stats]" c s4] tr sm by auto
  then show ?thesis
    using h at4 \<open>Sample stats = _\<close> \<open>ExpectedWrites stats = _\<close> by (auto simp: R_def process_kept_def)
qed

text \<open>
  A process of a task reports to its task, whatever else happens in the registry meanwhile.
\<close>

theorem child_process_reports:
  fixes w :: "('s, 'm) driver_world_scheme"
  assumes "\<And>a s. reg (set_reg a s) = a"
    and "left_alone (\<lambda>s s'. process_kept nm pid t p (reg s) (reg s')) w"
    and "process_at nm pid t p (reg s)" and "plain_Config (t_Cfg (the_task (reg s) t))"
    and "p_ExpectedWrites (the_unit (reg s) t p) \<noteq> 0" and "p_Sample (the_unit (reg s) t p) \<noteq> SMax"
    and "fst (ipc_DoInit w addr s) = None"
    and "W = ipc_world reg set_reg clock iter (child_Config h addr nm) pid w"
    and "c = fetched_Config (reg s) t p (child_Config h addr nm)"
    and "\<And>s. \<exists>r. run_fast w False True (test_stats c) s = Some r \<and> FastWrite (fast_world.truncate W) False True (test_stats c) s r"
  shows "\<exists>stats s'. pressure_main W h (child_flags addr nm) s = Some (Tested c stats s')
    \<and> process_at nm pid t p (reg s') \<and> p_Stats (the_unit (reg s') t p) = Some stats
    \<and> ExpectedWrites stats = p_ExpectedWrites (the_unit (reg s) t p)
    \<and> p_Status (the_unit (reg s') t p) = Done
    \<and> (list_all (\<lambda>u. p_Status u = Done) (t_Units (the_task (reg s') t)) \<longrightarrow>
         t_Status (the_task (reg s') t) = Done)"
proof -
  let ?R = "\<lambda>s s'. process_kept nm pid t p (reg s) (reg s')" and ?own = "child_Config h addr nm"
  note put = assms(1) and left = assms(2) and at = assms(3)
  have nm: "cfg_TaskName ?own = nm" by (simp add: child_Config_def)
  note fields = fetched_fields [OF assms(4) refl [of ?own] assms(5), folded assms(9)]
  have sm: "cfg_Sample c \<noteq> SMax" using fields(8) assms(6) by (auto simp: gob_field_def)
  obtain f' where args: "ParseArgs h (child_flags addr nm) zero_Config = (None, f', ?own)"
    using child_config [of h addr nm] by auto
  have flags: "\<not> cfg_Ipc ?own" "\<not> cfg_Web ?own" "cfg_IpcClient ?own" "cfg_IpcAddr ?own = addr"
    by (simp_all add: child_Config_def zero_Config_def)
  obtain s1 where i: "ipc_DoInit w addr s = (None, s1)" using assms(7) by (cases "ipc_DoInit w addr s") auto
  define s2 where "s2 = sleep_5s w s1"
  have "keeps_snd ?R (ipc_DoInit w addr)" "?R s1 s2" using left by (simp_all add: left_alone_def s2_def)
  then have R2: "?R s s2" using keeps_sndD i process_kept_trans by metis
  then have at2: "process_at nm pid t p (reg s2)" using at by (simp add: process_kept_def)
  define s3 where "s3 = set_reg (snd (Client_UpdateStatus None iter (clock s2) ?own pid Ready (reg s2))) s2"
  have at3: "process_at nm pid t p (reg s3)"
    using report_status(1) [OF at2 nm] by (simp add: s3_def put)
  have cfg: "test_Config W ?own s1 = (c, s3)"
    using fetch_config [OF at2 nm] fetched_kept [OF R2 at]
    by (simp add: test_Config_def flags assms(8) s2_def [symmetric]) (simp add: ipc_world_def s3_def assms(9))
  obtain stats s4 s5 where t: "handleTest W c (test_stats c) s3 = Some (Inr (stats, s4))"
      "ExportChartStats W c [stats] s4 = Some s5" "process_at nm pid t p (reg s5)"
      "p_Stats (the_unit (reg s5) t p) = Some stats" "ExpectedWrites stats = cfg_ExpectedWrites c"
    using child_test [OF put left assms(8) nm at3 fields(4,5,2,1,3) sm assms(10)] by blast
  define s6 where "s6 = set_reg (snd (Client_UpdateStatus None iter (clock s5) ?own pid Done (reg s5))) s5"
  note D = report_status [OF t(3) nm, of iter "clock s5" Done]
  have "ipc_UpdateStatus W Done s5 = s6" by (simp add: assms(8) ipc_world_def s6_def)
  then have "doTest W ?own s1 = Some (Inr (c, stats, s6))"
    using t(1,2) fields(5) by (simp add: doTest_def cfg)
  then have "pressure_main W h (child_flags addr nm) s = Some (Tested c stats s6)"
    by (simp add: pressure_main_def args flags main_started_def assms(8) i)
  moreover have "reg s6 = snd (Client_UpdateStatus None iter (clock s5) ?own pid Done (reg s5))"
    by (simp add: s6_def put)
  ultimately show ?thesis
    using D t(4,5) fields(7) by (intro exI [of _ stats] exI [of _ s6]) simp
qed

text \<open>
  What a successful \<^verbatim>\<open>Start\<close> gives each process it starts: attempt number \<open>i\<close> is found by its process
  id, and its entry is a new one with the share of the bytes and the sample of the task.
\<close>

lemma Start_process_at:
  fixes os n
  assumes "FindTask nm a = Some t" and "fst (Start os n (the_task a t)) = None"
    and "i < nat (process_total (the_task a t))"
  defines "started \<equiv> upd_task t (\<lambda>tk. snd (Start os n tk)) a"
    and "p \<equiv> length (t_Units (the_task a t)) + i"
  assumes "distinct (map p_ID (t_Units (the_task started t)))"
  shows "process_at nm (pid_of (os i)) t p started"
    and "the_unit started t p
      = new_Process (pid_of (os i)) (process_share (the_task a t)) (cfg_Sample (t_Cfg (the_task a t)))"
    and "t_Cfg (the_task started t) = t_Cfg (the_task a t)"
proof -
  let ?tk = "the_task a t"
  let ?new = "\<lambda>l. new_Process (pid_of (os l)) (process_share ?tk) (cfg_Sample (t_Cfg ?tk))"
  note less = FindTask_less [OF assms(1)]
  have st: "t_Status ?tk \<in> {Ready, Waiting}"
    using assms(2) by (auto simp: Start_def split: if_splits)
  then have "started_upto (nat (process_total ?tk)) os = nat (process_total ?tk)"
    using assms(2) Start_error_iff by blast
  then have "t_Units (snd (Start os n ?tk)) = t_Units ?tk @ map ?new [0..<nat (process_total ?tk)]"
    using st by (auto simp: Start_def start_loop_spec Let_def started_upto_def split: spawn.splits)
  then have us: "t_Units (the_task started t) = t_Units ?tk @ map ?new [0..<nat (process_total ?tk)]"
    using less by (simp add: started_def)
  have same: "t_Name (snd (Start os n ?tk)) = t_Name ?tk" "t_Cfg (snd (Start os n ?tk)) = t_Cfg ?tk"
    by (auto simp: Start_def split: prod.splits option.splits)
  show u: "the_unit started t p = ?new i" using assms(3) by (simp add: the_unit_def us p_def nth_append)
  show "t_Cfg (the_task started t) = t_Cfg ?tk" using same less by (simp add: started_def)
  have "p < length (t_Units (the_task started t))" using assms(3) by (simp add: us p_def)
  then have "FindProcess (pid_of (os i)) (the_task started t) = Some p"
    using units.find_iff [OF assms(6), of "pid_of (os i)" p] u by (simp add: the_unit_def new_Process_def)
  moreover have "FindTask nm started = FindTask nm a"
    by (rule FindTask_cong)
      (use same less in \<open>simp add: started_def upd_task_def map_update list_update_same_conv the_task_def\<close>)
  ultimately show "process_at nm (pid_of (os i)) t p started" using assms(1) by (simp add: process_at_def)
qed


text \<open>A scheduler with one task of one process, and a world that has it beside a storage service.\<close>

definition child_registry :: app_state where
  "child_registry =
     \<lparr>tasks = [(new_Task ''a''
                  (zero_Config\<lparr>cfg_ExpectedWrites := 4096, cfg_Sample := S1M, cfg_CacheSize := 104857600\<rparr>) 1 0)
                 \<lparr>t_Units := [new_Process 41 5120 S1M], t_Status := Running\<rparr>],
      taskChan = []\<rparr>"

definition ready_registry :: app_state where
  "ready_registry =
     \<lparr>tasks = [new_Task ''a''
        (zero_Config\<lparr>cfg_ExpectedWrites := 4096, cfg_Sample := S1M, cfg_CacheSize := 104857600\<rparr>) 1 0],
      taskChan = []\<rparr>"

type_synonym child_state = "app_state \<times> (string \<times> byte list) list"

definition beside :: "((string \<times> byte list) list \<Rightarrow> 'b \<times> (string \<times> byte list) list) \<Rightarrow> child_state \<Rightarrow> 'b \<times> child_state"
where
  "beside f s = (case f (snd s) of (x, l) \<Rightarrow> (x, (fst s, l)))"

definition child_world :: "child_state driver_world" where
  "child_world =
     \<lparr>now = beside (now list_world), time_text = (\<lambda>t. ''now''), rand_bytes = (\<lambda>n. beside (rand_bytes list_world n)),
      rand_Intn = (\<lambda>n. beside (rand_Intn list_world n)), uuid = beside (uuid list_world), sha256_hex = (\<lambda>d. []),
      new_client = beside (new_client list_world), close_client = (\<lambda>s. s),
      cl_CreateObject = (\<lambda>oid sz flag tag. beside (cl_CreateObject list_world oid sz flag tag)),
      cl_Write = (\<lambda>oid off d. beside (cl_Write list_world oid off d)),
      cl_CompleteObject = (\<lambda>oid s. ((BFSS_SUCCESS, None), s)),
      ipc_UpdateProgress = (\<lambda>t v x s. s), ipc_UpdateStatus = (\<lambda>st s. s),
      md5_hex = (\<lambda>d. []), cl_DeleteObject = (\<lambda>oid s. ((BFSS_SUCCESS, None), s)),
      cl_GetObjectInfo = (\<lambda>oid s. ((None, Some ''no info''), s)),
      cl_CreateObjectLink = (\<lambda>oid h sz hd flag tag s. ((BFSS_SUCCESS, None), s)),
      cl_ObjectLockHasHash = (\<lambda>h sz hd s. ((BFSS_SUCCESS, None), s)),
      rand_Seed = (\<lambda>t s. s), errorf = (\<lambda>m. m),
      run_fast = (\<lambda>v i st s. None), run_routines = (\<lambda>cfg list s. None), ipc_FetchCfg = (\<lambda>c s. (c, s)),
      ipc_CommitStats = (\<lambda>st s. s), sleep_5s = (\<lambda>s. s), date_text = (\<lambda>t. ''date''),
      os_Create = (\<lambda>d f s. (None, s)), StartCPUProfile = (\<lambda>s. (None, s)), StopCPUProfile = (\<lambda>s. s),
      WriteHeapProfile = (\<lambda>s. (None, s)), file_Write = (\<lambda>sh s. (None, s)), add_sheet = (\<lambda>n. None),
      Getpid = 41, ipc_StartServer = (\<lambda>s. (Inr ''addr'', s)), ipc_DoInit = (\<lambda>a s. (None, s)),
      web_Start = (\<lambda>a s. (None, s))\<rparr>"

abbreviation child_ipc :: "host \<Rightarrow> child_state driver_world \<Rightarrow> child_state driver_world" where
  "child_ipc h w \<equiv> ipc_world fst (\<lambda>a s. (a, snd s)) (\<lambda>s. 0) id (child_Config h ''x'' ''a'') 41 w"

lemma child_world_left:
  "left_alone (\<lambda>s s'. process_kept nm pid t p (fst s) (fst s')) (child_world\<lparr>run_fast := f\<rparr>)"
  by (simp add: left_alone_def others_keep_def keeps_snd_def child_world_def list_world_def beside_def
    process_kept_refl split: option.split)

lemma child_world_store:
  fixes h f
  defines "W \<equiv> fast_world.truncate (child_ipc h (child_world\<lparr>run_fast := f\<rparr>))"
  shows "strict_store W (\<lambda>s. map_of (snd s))" and "reliable W (\<lambda>s. map_of (snd s))"
proof -
  note D = W_def ipc_world_def fast_world.defs child_world_def list_world_def beside_def
  have "local_quiet W (\<lambda>s. map_of (snd s))" by (simp add: local_quiet_def quiet_def D)
  moreover have "random_source W" by (simp add: random_source_def D)
  ultimately show "strict_store W (\<lambda>s. map_of (snd s))"
    unfolding strict_store_def object_store_def
    by (intro conjI; (assumption | (simp add: D call_failed_def result_code_defs bytes_of_def
      split: option.splits if_splits)))
  show "reliable W (\<lambda>s. map_of (snd s))"
    by (simp add: reliable_def accepting_def D long_name_new)
qed

lemma child_truncate: "fast_world.truncate (child_ipc h (child_world\<lparr>run_fast := f\<rparr>)) = fast_world.truncate (child_ipc h child_world)"
  by (simp add: fast_world.defs ipc_world_def)

lemma FastWrite_possible:
  assumes "strict_store w content" and "reliable w content" and "Sample stats \<noteq> SMax"
    and "0 < MaxSlice stats" and "MaxSlice stats < 2147483648"
    and "\<forall>v \<in> set (mapSample (Sample stats)). v \<le> CacheSize stats" and "10485760 \<le> CacheSize stats"
    and "CacheSize stats + 2097152000 < 9223372036854775808" and "0 < ExpectedWrites stats"
    and "ExpectedWrites stats + 2147483648 < 9223372036854775808" and "TotalWrites stats = 0"
  shows "\<exists>r. FastWrite w verify is_ipc stats s r"
  using fast_completes_spec [OF assms, of verify s is_ipc] FastWrite.returned by (metis rtranclp.rtrancl_refl)


end
