(* ===== verification/Rpc_Client.thy ===== *)
theory Rpc_Client
  imports Go_Prelude
begin

text \<open>
  \<^verbatim>\<open>rpc/bfss.go\<close>: the connections to the storage service. A package variable maps each client to the
  transport it uses; \<^verbatim>\<open>NewClient\<close> and \<^verbatim>\<open>CloseClient\<close> are called by many routines. What the Thrift
  library answers (the socket, the framed transport, its opening) is an argument; a client and a
  transport are fresh numbers.

  \<^verbatim>\<open>NewClient\<close> and \<^verbatim>\<open>CloseClient\<close> are first modelled as functions, then their steps as \<open>rpc_step\<close>: an
  assignment to the map, its deletion and its lookup take time, from one step to the next.
\<close>

section \<open>The functions\<close>

record rpc_state =
  mapClientTransport :: "nat \<rightharpoonup> nat"
  open_transports :: "nat set"
  next_client :: nat

definition init_rpc :: rpc_state where
  "init_rpc = \<lparr>mapClientTransport = Map.empty, open_transports = {}, next_client = 0\<rparr>"

record dial =
  dial_socket :: "error option"
  dial_transport :: "error option"
  dial_open :: "error option"

definition NewClient :: "dial \<Rightarrow> rpc_state \<Rightarrow> (error + nat) \<times> rpc_state" where
  "NewClient d r =
     (case dial_socket d of Some e \<Rightarrow> (Inl e, r) | None \<Rightarrow>
      case dial_transport d of Some e \<Rightarrow> (Inl e, r) | None \<Rightarrow>
      let c = next_client r; r1 = r\<lparr>next_client := Suc c\<rparr> in
      case dial_open d of Some e \<Rightarrow> (Inl e, r1) | None \<Rightarrow>
      (Inr c, r1\<lparr>open_transports := insert c (open_transports r1),
                 mapClientTransport := (mapClientTransport r1)(c \<mapsto> c)\<rparr>))"

definition CloseClient :: "nat \<Rightarrow> rpc_state \<Rightarrow> rpc_state" where
  "CloseClient c r =
     (case mapClientTransport r c of
        None \<Rightarrow> r
      | Some t \<Rightarrow> r\<lparr>open_transports := open_transports r - {t},
                   mapClientTransport := (mapClientTransport r)(c := None)\<rparr>)"

text \<open>The map holds exactly the open transports, each under its own client.\<close>

definition rpc_ok :: "rpc_state \<Rightarrow> bool" where
  "rpc_ok r \<longleftrightarrow> open_transports r = dom (mapClientTransport r)
     \<and> (\<forall>c t. mapClientTransport r c = Some t \<longrightarrow> t = c \<and> c < next_client r)"

lemma NewClient_cases:
  "(\<exists>e n. NewClient d r = (Inl e, r\<lparr>next_client := n\<rparr>) \<and> next_client r \<le> n)
    \<or> NewClient d r = (Inr (next_client r),
        r\<lparr>next_client := Suc (next_client r), open_transports := insert (next_client r) (open_transports r),
          mapClientTransport := (mapClientTransport r)(next_client r \<mapsto> next_client r)\<rparr>)"
  by (cases "dial_socket d"; cases "dial_transport d"; cases "dial_open d")
    (auto simp: NewClient_def Let_def intro: exI [of _ "next_client r"] exI [of _ "Suc (next_client r)"])

lemma NewClient_ok:
  assumes "rpc_ok r"
  shows "rpc_ok (snd (NewClient d r))"
  using NewClient_cases [of d r]
proof (elim disjE exE conjE)
  fix e n assume "NewClient d r = (Inl e, r\<lparr>next_client := n\<rparr>)" "next_client r \<le> n"
  then show ?thesis using assms by (fastforce simp: rpc_ok_def)
next
  assume "NewClient d r = (Inr (next_client r),
        r\<lparr>next_client := Suc (next_client r), open_transports := insert (next_client r) (open_transports r),
          mapClientTransport := (mapClientTransport r)(next_client r \<mapsto> next_client r)\<rparr>)"
  then show ?thesis using assms by (auto simp: rpc_ok_def intro: less_SucI)
qed

lemma CloseClient_ok:
  assumes "rpc_ok r"
  shows "rpc_ok (CloseClient c r)"
proof (cases "mapClientTransport r c")
  case (Some t)
  then have "t = c" using assms by (simp add: rpc_ok_def)
  then show ?thesis using assms Some by (auto simp: rpc_ok_def CloseClient_def)
qed (simp add: assms CloseClient_def)

section \<open>The routines\<close>

text \<open>
  Where a routine is: outside; in \<^verbatim>\<open>NewClient\<close> with an open transport before the lock, in the
  assignment, before the unlock; in \<^verbatim>\<open>CloseClient\<close> in the lookup, which takes no lock, after
  \<^verbatim>\<open>t.Close()\<close>, in the deletion, before the unlock.
\<close>

datatype rpc_pc =
    Outside | Opened nat | Assigning nat | Assigned
  | Looking nat | Closing nat nat | Deleting nat | Deleted

record rpc_system = rpc_state +
  rpc_lock :: bool
  rpc_pcs :: "rpc_pc list"

inductive rpc_move :: "rpc_system \<Rightarrow> rpc_pc \<Rightarrow> rpc_system \<Rightarrow> rpc_pc \<Rightarrow> bool" where
  no_socket: "rpc_move S Outside S Outside"
| not_opened: "rpc_move S Outside (S\<lparr>next_client := Suc (next_client S)\<rparr>) Outside"
| opened: "rpc_move S Outside
    (S\<lparr>next_client := Suc (next_client S),
       open_transports := insert (next_client S) (open_transports S)\<rparr>) (Opened (next_client S))"
| lock_new: "rpc_move S (Opened c) (S\<lparr>rpc_lock := True\<rparr>) (Assigning c)" if "\<not> rpc_lock S"
| assign: "rpc_move S (Assigning c) (S\<lparr>mapClientTransport := (mapClientTransport S)(c \<mapsto> c)\<rparr>) Assigned"
| unlock_new: "rpc_move S Assigned (S\<lparr>rpc_lock := False\<rparr>) Outside"
| look: "rpc_move S Outside S (Looking c)"
| missing: "rpc_move S (Looking c) S Outside" if "mapClientTransport S c = None"
| found: "rpc_move S (Looking c) (S\<lparr>open_transports := open_transports S - {t}\<rparr>) (Closing c t)"
    if "mapClientTransport S c = Some t"
| lock_close: "rpc_move S (Closing c t) (S\<lparr>rpc_lock := True\<rparr>) (Deleting c)" if "\<not> rpc_lock S"
| remove: "rpc_move S (Deleting c)
    (S\<lparr>mapClientTransport := (mapClientTransport S)(c := None)\<rparr>) Deleted"
| unlock_close: "rpc_move S Deleted (S\<lparr>rpc_lock := False\<rparr>) Outside"

inductive rpc_step :: "rpc_system \<Rightarrow> rpc_system \<Rightarrow> bool" where
  move: "rpc_pcs S = ps @ p # qs \<Longrightarrow> rpc_move S p S' p' \<Longrightarrow>
    rpc_step S (S'\<lparr>rpc_pcs := ps @ p' # qs\<rparr>)"

definition init_rpc_system :: "nat \<Rightarrow> rpc_system" where
  "init_rpc_system n = \<lparr>mapClientTransport = Map.empty, open_transports = {}, next_client = 0,
     rpc_lock = False, rpc_pcs = replicate n Outside\<rparr>"

inductive_cases rpc_moveE: "rpc_move S p S' p'"
inductive_cases rpc_stepE: "rpc_step S S'"

text \<open>The routines that hold the lock, those that write the map, those that read it.\<close>

fun holds :: "rpc_pc \<Rightarrow> nat" where
  "holds (Assigning c) = 1"
| "holds Assigned = 1"
| "holds (Deleting c) = 1"
| "holds Deleted = 1"
| "holds _ = 0"

fun writing :: "rpc_pc \<Rightarrow> nat" where
  "writing (Assigning c) = 1"
| "writing (Deleting c) = 1"
| "writing _ = 0"

fun reading :: "rpc_pc \<Rightarrow> nat" where
  "reading (Looking c) = 1"
| "reading _ = 0"

fun pending :: "rpc_pc \<Rightarrow> nat list" where
  "pending (Opened c) = [c]"
| "pending (Assigning c) = [c]"
| "pending _ = []"

fun closed :: "rpc_pc \<Rightarrow> nat list" where
  "closed (Closing c t) = [c]"
| "closed (Deleting c) = [c]"
| "closed _ = []"

text \<open>
  The invariant: the lock is held by one routine at most; clients are below the next number; what a
  routine closes is closed; each open transport is in the map or on its way into it.
\<close>

definition lock_good :: "rpc_system \<Rightarrow> bool" where
  "lock_good S \<longleftrightarrow> sum_list (map holds (rpc_pcs S)) = (if rpc_lock S then 1 else 0)"

definition map_good :: "rpc_system \<Rightarrow> bool" where
  "map_good S \<longleftrightarrow> (\<forall>c t. mapClientTransport S c = Some t \<longrightarrow> t = c \<and> c < next_client S)
     \<and> (\<forall>c \<in> open_transports S. c < next_client S)"

definition pc_good :: "rpc_system \<Rightarrow> rpc_pc \<Rightarrow> bool" where
  "pc_good S p \<longleftrightarrow> (\<forall>c \<in> set (pending p). c < next_client S)
     \<and> (\<forall>c \<in> set (closed p). c < next_client S \<and> c \<notin> open_transports S)"

definition none_lost :: "rpc_system \<Rightarrow> bool" where
  "none_lost S \<longleftrightarrow>
     open_transports S \<subseteq> dom (mapClientTransport S) \<union> (\<Union>p \<in> set (rpc_pcs S). set (pending p))"

definition rpc_good :: "rpc_system \<Rightarrow> bool" where
  "rpc_good S \<longleftrightarrow> lock_good S \<and> map_good S \<and> list_all (pc_good S) (rpc_pcs S) \<and> none_lost S"

lemma rpc_move_grows:
  assumes "rpc_move S p S' p'" and "map_good S" and "pc_good S p"
  shows "map_good S'" and "pc_good S' p'" and "pc_good S q \<Longrightarrow> pc_good S' q"
  using assms by (cases; fastforce simp: map_good_def pc_good_def less_Suc_eq)+

lemma rpc_move_lock:
  assumes "rpc_move S p S' p'" and "n + holds p = (if rpc_lock S then 1 else 0)"
  shows "n + holds p' = (if rpc_lock S' then 1 else 0)"
  using assms by cases (simp_all split: if_splits)

lemma rpc_move_none_lost:
  assumes "rpc_move S p S' p'" and "map_good S" and "pc_good S p"
    and "open_transports S \<subseteq> dom (mapClientTransport S) \<union> (R \<union> set (pending p))"
  shows "open_transports S' \<subseteq> dom (mapClientTransport S') \<union> (R \<union> set (pending p'))"
  using assms by cases (auto simp: map_good_def pc_good_def)

lemma rpc_step_good:
  assumes "rpc_step S S'" and "rpc_good S"
  shows "rpc_good S'"
  using assms(1)
proof cases
  case (move ps p qs S1 p')
  note G = assms(2) [unfolded rpc_good_def move(2)]
  have m: "map_good S" "pc_good S p" "list_all (pc_good S) (ps @ qs)" using G by simp_all
  note g = rpc_move_grows [OF move(3) m(1,2)]
  have "lock_good S'"
    using rpc_move_lock [OF move(3), of "sum_list (map holds (ps @ qs))"] G
    by (simp add: lock_good_def move(1,2) ac_simps)
  moreover have "map_good S'" using g(1) by (simp add: map_good_def move(1))
  moreover have "list_all (pc_good S') (rpc_pcs S')"
    using g(2,3) m(3) by (auto simp: pc_good_def move(1) list_all_iff)
  moreover have "none_lost S'"
    using rpc_move_none_lost [OF move(3) m(1,2), of "\<Union>p \<in> set (ps @ qs). set (pending p)"] G
    by (simp add: none_lost_def move(1,2) ac_simps Un_assoc)
  ultimately show ?thesis by (simp add: rpc_good_def)
qed

lemma rpc_init_good: "rpc_good (init_rpc_system n)"
  by (simp add: rpc_good_def lock_good_def map_good_def none_lost_def init_rpc_system_def
    list_all_iff pc_good_def sum_list_triv)

text \<open>The numbers of the clients only grow.\<close>

lemma rpc_step_grows: "rpc_step S S' \<Longrightarrow> next_client S \<le> next_client S'"
  by (auto elim!: rpc_stepE rpc_moveE)

interpretation connections: forward_system "\<lambda>S S'. next_client S \<le> next_client S'" rpc_step
  by unfold_locales (auto dest: rpc_step_grows)

lemma rpc_reachable_good: "rpc_step\<^sup>*\<^sup>* (init_rpc_system n) S \<Longrightarrow> rpc_good S"
  by (rule connections.invariant_steps) (auto intro: rpc_init_good rpc_step_good)

lemma writing_holds: "writing p \<le> holds p"
  by (cases p) simp_all

section \<open>Properties\<close>

text \<open>
  Claim C20: however many routines open and close connections, and in whatever order their steps
  interleave, at most one of them is ever inside an assignment to the map or a deletion, every open
  connection is in the map or still in the hands of the \<^verbatim>\<open>NewClient\<close> that opened it, so that
  \<^verbatim>\<open>CloseClient\<close> can close it.
\<close>

theorem rpc_connections:
  assumes "rpc_step\<^sup>*\<^sup>* (init_rpc_system n) S"
  shows "sum_list (map writing (rpc_pcs S)) \<le> 1
    \<and> (\<forall>t \<in> open_transports S. mapClientTransport S t = Some t
         \<or> (\<exists>p \<in> set (rpc_pcs S). t \<in> set (pending p)))"
proof (intro conjI)
  have G: "lock_good S" "map_good S" "none_lost S"
    using rpc_reachable_good [OF assms] by (simp_all add: rpc_good_def)
  have "sum_list (map writing (rpc_pcs S)) \<le> sum_list (map holds (rpc_pcs S))"
    by (intro sum_list_mono) (rule writing_holds)
  then show "sum_list (map writing (rpc_pcs S)) \<le> 1"
    using G(1) unfolding lock_good_def by (simp split: if_splits del: sum_list_eq_0_iff)
  show "\<forall>t \<in> open_transports S. mapClientTransport S t = Some t
      \<or> (\<exists>p \<in> set (rpc_pcs S). t \<in> set (pending p))"
    using G(2,3) by (fastforce simp: none_lost_def map_good_def)
qed

text \<open>
  The lookup of \<^verbatim>\<open>CloseClient\<close> takes no lock: there is a run in which one routine reads the map while
  another is writing it, which Go's run-time ends with a fatal error.
\<close>

theorem CloseClient_races:
  "\<exists>S. rpc_step\<^sup>*\<^sup>* (init_rpc_system 2) S
     \<and> sum_list (map writing (rpc_pcs S)) = 1 \<and> sum_list (map reading (rpc_pcs S)) = 1"
proof -
  let ?S0 = "init_rpc_system 2"
  let ?S1 = "?S0\<lparr>next_client := 1, open_transports := {0}, rpc_pcs := [Opened 0, Outside]\<rparr>"
  let ?S2 = "?S1\<lparr>rpc_lock := True, rpc_pcs := [Assigning 0, Outside]\<rparr>"
  let ?S3 = "?S2\<lparr>rpc_pcs := [Assigning 0, Looking 0]\<rparr>"
  have "rpc_step ?S0 ?S1"
    using rpc_step.move [of ?S0 "[]" Outside "[Outside]", OF _ rpc_move.opened]
    by (simp add: init_rpc_system_def numeral_2_eq_2)
  moreover have "rpc_step ?S1 ?S2"
    using rpc_step.move [of ?S1 "[]" "Opened 0" "[Outside]", OF _ rpc_move.lock_new]
    by (simp add: init_rpc_system_def)
  moreover have "rpc_step ?S2 ?S3"
    using rpc_step.move [of ?S2 "[Assigning 0]" Outside "[]", OF _ rpc_move.look [of ?S2 0]]
    by (simp add: init_rpc_system_def)
  ultimately have "rpc_step\<^sup>*\<^sup>* ?S0 ?S3"
    by (meson converse_rtranclp_into_rtranclp rtranclp.rtrancl_refl)
  then show ?thesis by (intro exI [of _ ?S3]) simp
qed

theorem rpc_connections_witness:
  "\<exists>S. rpc_step\<^sup>*\<^sup>* (init_rpc_system 2) S \<and> sum_list (map writing (rpc_pcs S)) = 1
     \<and> (\<forall>t \<in> open_transports S. mapClientTransport S t = Some t
         \<or> (\<exists>p \<in> set (rpc_pcs S). t \<in> set (pending p)))"
proof -
  obtain S where S: "rpc_step\<^sup>*\<^sup>* (init_rpc_system 2) S" "sum_list (map writing (rpc_pcs S)) = 1"
    using CloseClient_races by blast
  then show ?thesis using rpc_connections [OF S(1)] by blast
qed

definition rpc_of :: "rpc_system \<Rightarrow> rpc_state" where
  "rpc_of S = rpc_state.truncate S"

lemma rpc_of_simps [simp]:
  "mapClientTransport (rpc_of S) = mapClientTransport S" "open_transports (rpc_of S) = open_transports S"
  "next_client (rpc_of S) = next_client S"
  by (simp_all add: rpc_of_def rpc_state.defs)

lemma rpc_of_eqI:
  fixes r :: rpc_state
  shows "mapClientTransport S = mapClientTransport r \<Longrightarrow> open_transports S = open_transports r \<Longrightarrow>
    next_client S = next_client r \<Longrightarrow> rpc_of S = r"
  by simp

definition rpc_runs :: "rpc_system \<Rightarrow> rpc_state \<Rightarrow> bool" where
  "rpc_runs S r \<longleftrightarrow> (\<exists>S'. rpc_step\<^sup>*\<^sup>* S S' \<and> rpc_of S' = r \<and> \<not> rpc_lock S' \<and> rpc_pcs S' = rpc_pcs S)"

lemma rpc_runsI: "rpc_step\<^sup>*\<^sup>* S S' \<Longrightarrow> rpc_of S' = r \<Longrightarrow> \<not> rpc_lock S' \<Longrightarrow> rpc_pcs S' = rpc_pcs S \<Longrightarrow> rpc_runs S r"
  by (auto simp: rpc_runs_def)

lemma rpc_steps_new:
  assumes "rpc_pcs S = ps @ Outside # qs" and "\<not> rpc_lock S"
  shows "rpc_step\<^sup>*\<^sup>* S (S\<lparr>next_client := Suc (next_client S),
    open_transports := insert (next_client S) (open_transports S),
    mapClientTransport := (mapClientTransport S)(next_client S \<mapsto> next_client S),
    rpc_lock := False, rpc_pcs := ps @ Outside # qs\<rparr>)" (is "rpc_step\<^sup>*\<^sup>* S ?S4")
proof -
  let ?c = "next_client S"
  let ?S1 = "S\<lparr>next_client := Suc ?c, open_transports := insert ?c (open_transports S),
    rpc_pcs := ps @ Opened ?c # qs\<rparr>"
  let ?S2 = "?S1\<lparr>rpc_lock := True, rpc_pcs := ps @ Assigning ?c # qs\<rparr>"
  let ?S3 = "?S2\<lparr>mapClientTransport := (mapClientTransport S)(?c \<mapsto> ?c), rpc_pcs := ps @ Assigned # qs\<rparr>"
  have "rpc_step S ?S1"
    using rpc_step.move [OF assms(1) rpc_move.opened] by simp
  moreover have "rpc_step ?S1 ?S2"
    using rpc_step.move [of ?S1 ps "Opened ?c" qs, OF _ rpc_move.lock_new] assms(2) by simp
  moreover have "rpc_step ?S2 ?S3"
    using rpc_step.move [of ?S2 ps "Assigning ?c" qs, OF _ rpc_move.assign] by simp
  moreover have "rpc_step ?S3 ?S4"
    using rpc_step.move [of ?S3 ps Assigned qs, OF _ rpc_move.unlock_new] assms by simp
  ultimately show ?thesis by (meson converse_rtranclp_into_rtranclp rtranclp.rtrancl_refl)
qed

lemma rpc_steps_close:
  assumes "rpc_pcs S = ps @ Outside # qs" and "\<not> rpc_lock S" and "mapClientTransport S c = Some t"
  shows "rpc_step\<^sup>*\<^sup>* S (S\<lparr>open_transports := open_transports S - {t},
    mapClientTransport := (mapClientTransport S)(c := None), rpc_lock := False, rpc_pcs := ps @ Outside # qs\<rparr>)" (is "rpc_step\<^sup>*\<^sup>* S ?S5")
proof -
  let ?S1 = "S\<lparr>rpc_pcs := ps @ Looking c # qs\<rparr>"
  let ?S2 = "?S1\<lparr>open_transports := open_transports S - {t}, rpc_pcs := ps @ Closing c t # qs\<rparr>"
  let ?S3 = "?S2\<lparr>rpc_lock := True, rpc_pcs := ps @ Deleting c # qs\<rparr>"
  let ?S4 = "?S3\<lparr>mapClientTransport := (mapClientTransport S)(c := None), rpc_pcs := ps @ Deleted # qs\<rparr>"
  have "rpc_step S ?S1"
    using rpc_step.move [OF assms(1) rpc_move.look] by simp
  moreover have "rpc_step ?S1 ?S2"
    using rpc_step.move [of ?S1 ps "Looking c" qs, OF _ rpc_move.found] assms(3) by simp
  moreover have "rpc_step ?S2 ?S3"
    using rpc_step.move [of ?S2 ps "Closing c t" qs, OF _ rpc_move.lock_close] assms(2) by simp
  moreover have "rpc_step ?S3 ?S4"
    using rpc_step.move [of ?S3 ps "Deleting c" qs, OF _ rpc_move.remove] by simp
  moreover have "rpc_step ?S4 ?S5"
    using rpc_step.move [of ?S4 ps Deleted qs, OF _ rpc_move.unlock_close] assms(1,2) by simp
  ultimately show ?thesis by (meson converse_rtranclp_into_rtranclp rtranclp.rtrancl_refl)
qed



end
