(* ===== verification/Remote_Tool.thy ===== *)
theory Remote_Tool
  imports BFSS_API_Service
begin

text \<open>
  \<^verbatim>\<open>b_f_s_s__a_p_i_d-remote.go\<close>: the generated command line client of the service. Its \<^verbatim>\<open>main\<close> first
  chooses a transport and a protocol from the options (\<open>remote_connect\<close>), then reads the function and
  its arguments from the command line (\<open>remote_request\<close>) and calls the generated client
  (\<open>remote_run\<close>). The Thrift and URL packages are the record \<open>remote_lib\<close>. \<^verbatim>\<open>Usage\<close> ends the process
  with code 0; what is printed is not modelled.
\<close>

section \<open>Options\<close>

text \<open>\<^verbatim>\<open>strings.Split\<close> at a separator of two bytes.\<close>

fun split2 :: "char \<Rightarrow> char \<Rightarrow> string \<Rightarrow> string \<Rightarrow> string list" where
  "split2 a b acc [] = [rev acc]"
| "split2 a b acc [x] = [rev (x # acc)]"
| "split2 a b acc (x # y # zs) =
     (if x = a \<and> y = b then rev acc # split2 a b [] zs else split2 a b (x # acc) (y # zs))"

definition httpHeaders_Set :: "string \<Rightarrow> (string \<rightharpoonup> string) \<Rightarrow> error option \<times> (string \<rightharpoonup> string)" where
  "httpHeaders_Set v h =
     (case split2 CHR '':'' CHR '' '' [] v of
        [k, x] \<Rightarrow> (None, h(k \<mapsto> x))
      | _ \<Rightarrow> (Some (''header should be of format '' @ [CHR 0x27] @ ''Key: Value'' @ [CHR 0x27]), h))"

record remote_options =
  ro_host :: string
  ro_port :: int
  ro_protocol :: string
  ro_urlString :: string
  ro_framed :: bool
  ro_useHttp :: bool
  ro_headers :: "string \<rightharpoonup> string"

text \<open>The defaults \<^verbatim>\<open>main\<close> registers.\<close>

definition default_options :: remote_options where
  "default_options =
     \<lparr>ro_host = ''localhost'', ro_port = 9090, ro_protocol = ''binary'', ro_urlString = [],
      ro_framed = False, ro_useHttp = False, ro_headers = Map.empty\<rparr>"

record url =
  url_Scheme :: string
  url_Host :: string
  url_String :: string

datatype transport = Http string "string \<rightharpoonup> string" | Socket string | Framed string

datatype thrift_protocol = Binary | Compact | SimpleJSON | JSONProtocol

record remote_lib =
  url_Parse :: "string \<Rightarrow> error + url"
  split_host_port :: "string \<Rightarrow> error + string \<times> string"
  NewTHttpClient :: "string \<Rightarrow> error option"
  NewTSocket :: "string \<Rightarrow> error option"
  trans_Open :: "transport \<Rightarrow> error option"

text \<open>The client is ready, or the process exits with a code, or it panics.\<close>

datatype connection = Connected transport thrift_protocol | Exits int | Crashes

definition JoinHostPort :: "string \<Rightarrow> string \<Rightarrow> string" where
  "JoinHostPort host port =
     (if CHR '':'' \<in> set host then ''['' @ host @ '']:'' @ port else host @ '':'' @ port)"

text \<open>The protocol switch; the default case ends in \<^verbatim>\<open>Usage\<close>.\<close>

definition choose_protocol :: "string \<Rightarrow> thrift_protocol option" where
  "choose_protocol p =
     (if p = ''compact'' then Some Compact else if p = ''simplejson'' then Some SimpleJSON
      else if p = ''json'' then Some JSONProtocol else if p = ''binary'' \<or> p = [] then Some Binary
      else None)"

definition open_transport :: "remote_lib \<Rightarrow> remote_options \<Rightarrow> transport \<Rightarrow> connection" where
  "open_transport L ro t =
     (case choose_protocol (ro_protocol ro) of
        None \<Rightarrow> Exits 0
      | Some p \<Rightarrow> if trans_Open L t = None then Connected t p else Exits 1)"

text \<open>
  The transport: \<open>parsedUrl\<close> is nil unless \<^verbatim>\<open>-u\<close> was given. A failed \<^verbatim>\<open>NewTHttpClient\<close> gives a nil
  transport, whose conversion panics when there are headers to set.
\<close>

definition http_transport :: "remote_lib \<Rightarrow> remote_options \<Rightarrow> url option \<Rightarrow> connection" where
  "http_transport L ro parsedUrl =
     (case parsedUrl of
        None \<Rightarrow> Crashes
      | Some u \<Rightarrow>
          (case NewTHttpClient L (url_String u) of
             Some e \<Rightarrow> if ro_headers ro = Map.empty then Exits 1 else Crashes
           | None \<Rightarrow> open_transport L ro (Http (url_String u) (ro_headers ro))))"

definition socket_transport :: "remote_lib \<Rightarrow> remote_options \<Rightarrow> string \<Rightarrow> connection" where
  "socket_transport L ro host0 =
     (case (if CHR '':'' \<in> set host0 then split_host_port L host0 else Inr (host0, itoa (ro_port ro))) of
        Inl e \<Rightarrow> Exits 1
      | Inr (host, port) \<Rightarrow>
          let addr = JoinHostPort host port in
          if NewTSocket L addr \<noteq> None then Exits 1
          else open_transport L ro (if ro_framed ro then Framed addr else Socket addr))"

definition remote_connect :: "remote_lib \<Rightarrow> remote_options \<Rightarrow> connection" where
  "remote_connect L ro =
     (if ro_urlString ro \<noteq> []
      then case url_Parse L (ro_urlString ro) of
             Inl e \<Rightarrow> Exits 0
           | Inr u \<Rightarrow>
               if url_Scheme u = [] \<or> url_Scheme u = ''http'' \<or> url_Scheme u = ''https''
               then http_transport L ro (Some u) else socket_transport L ro (url_Host u)
      else if ro_useHttp ro
      then case url_Parse L (''http://'' @ ro_host ro @ '':'' @ itoa (ro_port ro)) of
             Inl e \<Rightarrow> Exits 0
           | Inr u \<Rightarrow> http_transport L ro None
      else socket_transport L ro (ro_host ro))"

section \<open>The request\<close>

datatype request =
    RGetVersion
  | RCreateObject string int int string
  | RDeleteObject string
  | RWrite string int bytes
  | RResizeObject string int
  | RCompleteObject string
  | RGetObjectInfo string
  | RObjectLockHasHash string int bytes
  | RCreateObjectLink string string int bytes int string
  | RRead string int int
  | RReadBlk string int int
  | RGetObjectBlksInfo string
  | RGetObjectBlkKey string int
  | RManageMessage int int bytes

text \<open>A call of the client, the usage text and an exit, or an unknown function.\<close>

datatype parse_result = Run request | Usage_exit | Invalid_function

definition Arg :: "string list \<Rightarrow> nat \<Rightarrow> string" where
  "Arg args i = (if i < length args then args ! i else [])"

definition require :: "int \<Rightarrow> string list \<Rightarrow> parse_result \<Rightarrow> parse_result" where
  "require n args r = (if int (length args) - 1 \<noteq> n then Usage_exit else r)"

text \<open>\<^verbatim>\<open>strconv.Atoi\<close>, then the conversion to \<^verbatim>\<open>int32\<close>.\<close>

definition int_arg :: "string \<Rightarrow> (int \<Rightarrow> parse_result) \<Rightarrow> parse_result" where
  "int_arg s k = (case ParseInt s of None \<Rightarrow> Usage_exit | Some n \<Rightarrow> k (i32 n))"

definition bytes_arg :: "string \<Rightarrow> bytes" where
  "bytes_arg s = Some (map of_char s)"

definition remote_request :: "string list \<Rightarrow> parse_result" where
  "remote_request args =
     (let cmd = Arg args 0; a = Arg args in
      if cmd = ''GetVersion'' then require 0 args (Run RGetVersion)
      else if cmd = ''CreateObject''
      then require 4 args (int_arg (a 2) (\<lambda>n. int_arg (a 3) (\<lambda>f. Run (RCreateObject (a 1) n f (a 4)))))
      else if cmd = ''DeleteObject'' then require 1 args (Run (RDeleteObject (a 1)))
      else if cmd = ''Write''
      then require 3 args (int_arg (a 2) (\<lambda>n. Run (RWrite (a 1) n (bytes_arg (a 3)))))
      else if cmd = ''ResizeObject''
      then require 2 args (int_arg (a 2) (\<lambda>n. Run (RResizeObject (a 1) n)))
      else if cmd = ''CompleteObject'' then require 1 args (Run (RCompleteObject (a 1)))
      else if cmd = ''GetObjectInfo'' then require 1 args (Run (RGetObjectInfo (a 1)))
      else if cmd = ''ObjectLockHasHash''
      then require 3 args (int_arg (a 2) (\<lambda>n. Run (RObjectLockHasHash (a 1) n (bytes_arg (a 3)))))
      else if cmd = ''CreateObjectLink''
      then require 6 args (int_arg (a 3) (\<lambda>n. int_arg (a 5) (\<lambda>f.
             Run (RCreateObjectLink (a 1) (a 2) n (bytes_arg (a 4)) f (a 6)))))
      else if cmd = ''Read''
      then require 3 args (int_arg (a 2) (\<lambda>n. int_arg (a 3) (\<lambda>k. Run (RRead (a 1) n k))))
      else if cmd = ''ReadBlk''
      then require 3 args (int_arg (a 2) (\<lambda>n. int_arg (a 3) (\<lambda>k. Run (RReadBlk (a 1) n k))))
      else if cmd = ''GetObjectBlksInfo'' then require 1 args (Run (RGetObjectBlksInfo (a 1)))
      else if cmd = ''GetObjectBlkKey''
      then require 2 args (int_arg (a 2) (\<lambda>n. Run (RGetObjectBlkKey (a 1) n)))
      else if cmd = ''ManageMessage''
      then require 3 args (int_arg (a 1) (\<lambda>n. int_arg (a 2) (\<lambda>k.
             Run (RManageMessage n k (bytes_arg (a 3))))))
      else if cmd = [] then Usage_exit else Invalid_function)"

section \<open>The call\<close>

record ('s, 'e) remote_callers =
  rc_GetVersion :: "(BFSS_APIDGetVersionArgs, BFSS_APIDGetVersionResult, 's, 'e) caller"
  rc_CreateObject :: "(BFSS_APIDCreateObjectArgs, BFSS_APIDCreateObjectResult, 's, 'e) caller"
  rc_DeleteObject :: "(BFSS_APIDDeleteObjectArgs, BFSS_APIDDeleteObjectResult, 's, 'e) caller"
  rc_Write :: "(BFSS_APIDWriteArgs, BFSS_APIDWriteResult, 's, 'e) caller"
  rc_ResizeObject :: "(BFSS_APIDResizeObjectArgs, BFSS_APIDResizeObjectResult, 's, 'e) caller"
  rc_CompleteObject :: "(BFSS_APIDCompleteObjectArgs, BFSS_APIDCompleteObjectResult, 's, 'e) caller"
  rc_GetObjectInfo :: "(BFSS_APIDGetObjectInfoArgs, BFSS_APIDGetObjectInfoResult, 's, 'e) caller"
  rc_ObjectLockHasHash :: "(BFSS_APIDObjectLockHasHashArgs, BFSS_APIDObjectLockHasHashResult, 's, 'e) caller"
  rc_CreateObjectLink :: "(BFSS_APIDCreateObjectLinkArgs, BFSS_APIDCreateObjectLinkResult, 's, 'e) caller"
  rc_Read :: "(BFSS_APIDReadArgs, BFSS_APIDReadResult, 's, 'e) caller"
  rc_ReadBlk :: "(BFSS_APIDReadBlkArgs, BFSS_APIDReadBlkResult, 's, 'e) caller"
  rc_GetObjectBlksInfo :: "(BFSS_APIDGetObjectBlksInfoArgs, BFSS_APIDGetObjectBlksInfoResult, 's, 'e) caller"
  rc_GetObjectBlkKey :: "(BFSS_APIDGetObjectBlkKeyArgs, BFSS_APIDGetObjectBlkKeyResult, 's, 'e) caller"
  rc_ManageMessage :: "(BFSS_APIDManageMessageArgs, BFSS_APIDManageMessageResult, 's, 'e) caller"

datatype 'e answer =
    ATextual "string \<times> 'e option" | ACode "BFSS_RESULT \<times> 'e option"
  | AInfo "OBJECT_INFO_RESULT option \<times> 'e option" | AData "READ_RESULT option \<times> 'e option"
  | ABlks "OBJECT_BLKS_RESULT option \<times> 'e option" | AKey "BLK_KEY_RESULT option \<times> 'e option"
  | AMessage "MESSAGE_RESULT option \<times> 'e option"

text \<open>The values \<^verbatim>\<open>fmt.Print\<close> is given.\<close>

fun remote_run :: "('s, 'e) remote_callers \<Rightarrow> request \<Rightarrow> 's \<Rightarrow> 'e answer \<times> 's" where
  "remote_run c RGetVersion s = apfst ATextual (BFSS_APIDClient_GetVersion (rc_GetVersion c) s)"
| "remote_run c (RCreateObject oid n f tag) s =
     apfst ACode (BFSS_APIDClient_CreateObject (rc_CreateObject c) oid n f tag s)"
| "remote_run c (RDeleteObject oid) s =
     apfst ACode (BFSS_APIDClient_DeleteObject (rc_DeleteObject c) oid s)"
| "remote_run c (RWrite oid n d) s = apfst ACode (BFSS_APIDClient_Write (rc_Write c) oid n d s)"
| "remote_run c (RResizeObject oid n) s =
     apfst ACode (BFSS_APIDClient_ResizeObject (rc_ResizeObject c) oid n s)"
| "remote_run c (RCompleteObject oid) s =
     apfst ACode (BFSS_APIDClient_CompleteObject (rc_CompleteObject c) oid s)"
| "remote_run c (RGetObjectInfo oid) s =
     apfst AInfo (BFSS_APIDClient_GetObjectInfo (rc_GetObjectInfo c) oid s)"
| "remote_run c (RObjectLockHasHash h n hdr) s =
     apfst ACode (BFSS_APIDClient_ObjectLockHasHash (rc_ObjectLockHasHash c) h n hdr s)"
| "remote_run c (RCreateObjectLink oid h n hdr f tag) s =
     apfst ACode (BFSS_APIDClient_CreateObjectLink (rc_CreateObjectLink c) oid h n hdr f tag s)"
| "remote_run c (RRead oid n k) s = apfst AData (BFSS_APIDClient_Read (rc_Read c) oid n k s)"
| "remote_run c (RReadBlk oid n k) s = apfst AData (BFSS_APIDClient_ReadBlk (rc_ReadBlk c) oid n k s)"
| "remote_run c (RGetObjectBlksInfo oid) s =
     apfst ABlks (BFSS_APIDClient_GetObjectBlksInfo (rc_GetObjectBlksInfo c) oid s)"
| "remote_run c (RGetObjectBlkKey oid n) s =
     apfst AKey (BFSS_APIDClient_GetObjectBlkKey (rc_GetObjectBlkKey c) oid n s)"
| "remote_run c (RManageMessage n k d) s =
     apfst AMessage (BFSS_APIDClient_ManageMessage (rc_ManageMessage c) n k d s)"

section \<open>Writing a command line\<close>

text \<open>The command line of a request, its integers in decimal, and what the tool makes of it.\<close>

definition text_of :: "bytes \<Rightarrow> string" where
  "text_of b = map (\<lambda>x. char_of (unat x)) (bytes_of b)"

fun argv :: "request \<Rightarrow> string list" where
  "argv RGetVersion = [''GetVersion'']"
| "argv (RCreateObject oid n f tag) = [''CreateObject'', oid, itoa n, itoa f, tag]"
| "argv (RDeleteObject oid) = [''DeleteObject'', oid]"
| "argv (RWrite oid n d) = [''Write'', oid, itoa n, text_of d]"
| "argv (RResizeObject oid n) = [''ResizeObject'', oid, itoa n]"
| "argv (RCompleteObject oid) = [''CompleteObject'', oid]"
| "argv (RGetObjectInfo oid) = [''GetObjectInfo'', oid]"
| "argv (RObjectLockHasHash h n hdr) = [''ObjectLockHasHash'', h, itoa n, text_of hdr]"
| "argv (RCreateObjectLink oid h n hdr f tag) =
     [''CreateObjectLink'', oid, h, itoa n, text_of hdr, itoa f, tag]"
| "argv (RRead oid n k) = [''Read'', oid, itoa n, itoa k]"
| "argv (RReadBlk oid n k) = [''ReadBlk'', oid, itoa n, itoa k]"
| "argv (RGetObjectBlksInfo oid) = [''GetObjectBlksInfo'', oid]"
| "argv (RGetObjectBlkKey oid n) = [''GetObjectBlkKey'', oid, itoa n]"
| "argv (RManageMessage n k d) = [''ManageMessage'', itoa n, itoa k, text_of d]"

fun request_ints :: "request \<Rightarrow> int list" where
  "request_ints (RCreateObject oid n f tag) = [n, f]"
| "request_ints (RWrite oid n d) = [n]"
| "request_ints (RResizeObject oid n) = [n]"
| "request_ints (RObjectLockHasHash h n hdr) = [n]"
| "request_ints (RCreateObjectLink oid h n hdr f tag) = [n, f]"
| "request_ints (RRead oid n k) = [n, k]"
| "request_ints (RReadBlk oid n k) = [n, k]"
| "request_ints (RGetObjectBlkKey oid n) = [n]"
| "request_ints (RManageMessage n k d) = [n, k]"
| "request_ints _ = []"

fun sent_request :: "request \<Rightarrow> request" where
  "sent_request (RCreateObject oid n f tag) = RCreateObject oid (i32 n) (i32 f) tag"
| "sent_request (RWrite oid n d) = RWrite oid (i32 n) (Some (bytes_of d))"
| "sent_request (RResizeObject oid n) = RResizeObject oid (i32 n)"
| "sent_request (RObjectLockHasHash h n hdr) = RObjectLockHasHash h (i32 n) (Some (bytes_of hdr))"
| "sent_request (RCreateObjectLink oid h n hdr f tag) =
     RCreateObjectLink oid h (i32 n) (Some (bytes_of hdr)) (i32 f) tag"
| "sent_request (RRead oid n k) = RRead oid (i32 n) (i32 k)"
| "sent_request (RReadBlk oid n k) = RReadBlk oid (i32 n) (i32 k)"
| "sent_request (RGetObjectBlkKey oid n) = RGetObjectBlkKey oid (i32 n)"
| "sent_request (RManageMessage n k d) = RManageMessage (i32 n) (i32 k) (Some (bytes_of d))"
| "sent_request r = r"

lemma byte_of_char_of [simp]: "of_char (char_of (unat x)) = (x :: byte)"
proof -
  have "unat x < 256" using unsigned_less [of x] by simp
  then have "of_nat (of_char (char_of (unat x)) :: nat) = x" by simp
  then show ?thesis by (simp only: of_nat_of_char)
qed

lemma bytes_arg_text [simp]: "bytes_arg (text_of b) = Some (bytes_of b)"
  by (simp add: bytes_arg_def text_of_def comp_def)

lemma int_arg_itoa:
  "-9223372036854775808 \<le> n \<Longrightarrow> n < 9223372036854775808 \<Longrightarrow> int_arg (itoa n) k = k (i32 n)"
  by (simp add: int_arg_def ParseInt_itoa)

lemma Arg_Cons [simp]: "Arg (x # xs) 0 = x" "Arg (x # xs) (Suc i) = Arg xs i"
  by (simp_all add: Arg_def)

section \<open>Properties\<close>

text \<open>
  Claim C22: the command line is a faithful form of a request as far as \<^verbatim>\<open>int32\<close> reaches: for every
  method, a request written as a command line, its integers in decimal, is read back as the same
  method with the same strings and bytes in the same places, and each integer as \<^verbatim>\<open>int32\<close>; so a
  64-bit value is not refused but silently reduced, an offset of 4 GiB being sent as 0.
\<close>

theorem remote_request_argv:
  assumes "\<forall>n \<in> set (request_ints r). -9223372036854775808 \<le> n \<and> n < 9223372036854775808"
  shows "remote_request (argv r) = Run (sent_request r)"
  using assms
  by (cases r) (simp_all add: remote_request_def require_def int_arg_itoa numeral_eq_Suc)

theorem remote_request_argv_witness:
  "remote_request [''Write'', ''a'', itoa 4294967296, ''xy''] = Run (RWrite ''a'' 0 (Some [120, 121]))"
proof -
  have "text_of (Some [120, 121]) = ''xy''" by code_simp
  moreover have "i32 4294967296 = 0" by (simp add: i32_def)
  ultimately show ?thesis
    using remote_request_argv [of "RWrite ''a'' 4294967296 (Some [120, 121])"] by (simp add: bytes_of_def)
qed

text \<open>
  The option \<^verbatim>\<open>-http\<close> without \<^verbatim>\<open>-u\<close> cannot work: the URL made of the host and the port is
  parsed and dropped, and the HTTP client is made of a nil URL. With that option the tool either
  exits or panics, whatever the host, the port and the libraries answer.
\<close>

theorem remote_http_without_url:
  assumes "ro_useHttp ro" and "ro_urlString ro = []"
  shows "remote_connect L ro = (case url_Parse L (''http://'' @ ro_host ro @ '':'' @ itoa (ro_port ro)) of
      Inl e \<Rightarrow> Exits 0 | Inr u \<Rightarrow> Crashes)"
  using assms by (simp add: remote_connect_def http_transport_def split: sum.split)

theorem remote_http_without_url_witness:
  "remote_connect \<lparr>url_Parse = (\<lambda>t. Inr \<lparr>url_Scheme = ''http'', url_Host = ''localhost'', url_String = t\<rparr>),
     split_host_port = (\<lambda>h. Inl []), NewTHttpClient = (\<lambda>u. None), NewTSocket = (\<lambda>a. None),
     trans_Open = (\<lambda>t. None)\<rparr> (default_options\<lparr>ro_useHttp := True\<rparr>) = Crashes"
  by (subst remote_http_without_url) (simp_all add: default_options_def)

end
