(* ===== verification/Web_Gateway.thy ===== *)
theory Web_Gateway
  imports BFSS_API_Service
begin

text \<open>
  The HTTP gateway of \<^verbatim>\<open>bfss_web\<close>: its configuration (\<^verbatim>\<open>config/config.go\<close>, \<^verbatim>\<open>config/server.go\<close>), the one
  client it shares (\<^verbatim>\<open>common/client.go\<close>), the handler of \<^verbatim>\<open>/readblk\<close> (\<^verbatim>\<open>service/api.go\<close>) and its start
  (\<^verbatim>\<open>main.go\<close>). The file, the YAML and JSON decoders and the sockets are arguments. A function that
  may panic gives the panic as \<open>Some\<close> text; what it has changed by then stays changed.
\<close>

section \<open>Configuration\<close>

record serverCfg =
  ServicePort :: string
  ServiceHost :: string
  BfssApiServicePort :: string
  BfssApiServiceHost :: string

definition zero_serverCfg :: serverCfg where
  "zero_serverCfg = \<lparr>ServicePort = [], ServiceHost = [], BfssApiServicePort = [], BfssApiServiceHost = []\<rparr>"

text \<open>
  The package variables: whether \<^verbatim>\<open>once\<close> has run, \<^verbatim>\<open>globalManager\<close>, whether \<^verbatim>\<open>botOnce\<close> has run, and
  \<^verbatim>\<open>ApiClient\<close> with whether its transport was opened.
\<close>

record gateway =
  once_done :: bool
  globalManager :: "serverCfg option"
  botOnce_done :: bool
  ApiClient :: "bool option"

definition init_gateway :: gateway where
  "init_gateway = \<lparr>once_done = False, globalManager = None, botOnce_done = False, ApiClient = None\<rparr>"

record gateway_env =
  NewWatcher :: "error option"
  ReadFile :: "string \<Rightarrow> error + byte list"
  yaml_Unmarshal :: "byte list \<Rightarrow> serverCfg \<Rightarrow> error option \<times> serverCfg"
  dial_api :: "string \<Rightarrow> error option"
  open_api :: "error option \<Rightarrow> error option option"
  ListenAndServe :: "string \<Rightarrow> error"

definition ServerPath :: string where
  "ServerPath = ''settings/server.yml''"

definition cfg_parse ::
  "gateway_env \<Rightarrow> byte list \<Rightarrow> serverCfg \<Rightarrow> bool \<times> serverCfg" where
  "cfg_parse env bin d = (case yaml_Unmarshal env bin d of (err, d') \<Rightarrow> (err = None, d'))"

definition nil_pointer :: error where
  "nil_pointer = ''invalid memory address or nil pointer dereference''"

text \<open>\<^verbatim>\<open>once.Do\<close> counts as done even when the function panics.\<close>

definition LoadServerConfig :: "gateway_env \<Rightarrow> gateway \<Rightarrow> error option \<times> gateway" where
  "LoadServerConfig env g =
     (if once_done g then (None, g)
      else let g' = g\<lparr>once_done := True\<rparr> in
        case NewWatcher env of Some e \<Rightarrow> (Some e, g') | None \<Rightarrow>
        case ReadFile env ServerPath of Inl e \<Rightarrow> (Some e, g') | Inr bin \<Rightarrow>
        case cfg_parse env bin zero_serverCfg of
          (False, d) \<Rightarrow> (Some (''Failed to parse '' @ ServerPath), g')
        | (True, d) \<Rightarrow> (None, g'\<lparr>globalManager := Some d\<rparr>))"

definition Server :: "gateway \<Rightarrow> serverCfg option" where
  "Server g = globalManager g"

section \<open>The client\<close>

definition join_host_port :: "string \<Rightarrow> string \<Rightarrow> string" where
  "join_host_port host port =
     (if CHR '':'' \<in> set host then ''['' @ host @ '']:'' @ port else host @ '':'' @ port)"

text \<open>
  Errors are logged only, and \<^verbatim>\<open>ApiClient\<close> is set before the transport is opened. \<open>open_api\<close> opens
  the transport over the socket, which is nil when there was an error; \<open>None\<close> is a panic.
\<close>

definition CreateApiClient :: "gateway_env \<Rightarrow> string \<Rightarrow> string \<Rightarrow> gateway \<Rightarrow> error option \<times> gateway" where
  "CreateApiClient env host port g =
     (if botOnce_done g then (None, g)
      else let g' = g\<lparr>botOnce_done := True, ApiClient := Some False\<rparr> in
        case open_api env (dial_api env (join_host_port host port)) of
          None \<Rightarrow> (Some nil_pointer, g')
        | Some (Some e) \<Rightarrow> (None, g')
        | Some None \<Rightarrow> (None, g'\<lparr>ApiClient := Some True\<rparr>))"

section \<open>The start\<close>

definition InitConfig :: "gateway_env \<Rightarrow> gateway \<Rightarrow> error option \<times> gateway" where
  "InitConfig env g =
     (case LoadServerConfig env g of
        (Some e, g') \<Rightarrow> (Some e, g')
      | (None, g') \<Rightarrow>
          (case Server g' of
             None \<Rightarrow> (Some nil_pointer, g')
           | Some c \<Rightarrow> CreateApiClient env (BfssApiServiceHost c) (BfssApiServicePort c) g'))"

text \<open>\<^verbatim>\<open>main\<close> ends with a panic or with the error of the HTTP server.\<close>

definition gateway_main :: "gateway_env \<Rightarrow> gateway \<Rightarrow> error \<times> gateway" where
  "gateway_main env g =
     (case InitConfig env g of
        (Some e, g') \<Rightarrow> (e, g')
      | (None, g') \<Rightarrow>
          (case Server g' of
             None \<Rightarrow> (nil_pointer, g')
           | Some c \<Rightarrow> (ListenAndServe env ('':'' @ ServicePort c), g')))"

section \<open>The handler\<close>

record ReadBlkData =
  rb_OId :: string
  rb_Size :: int
  rb_Offset :: int

definition zero_ReadBlkData :: ReadBlkData where
  "zero_ReadBlkData = \<lparr>rb_OId = [], rb_Size = 0, rb_Offset = 0\<rparr>"

definition defaultErrorResponse :: string where
  "defaultErrorResponse =
     ''{'' @ [CHR 0x22] @ ''Result'' @ [CHR 0x22] @ '':false,'' @ [CHR 0x22] @ ''Data'' @ [CHR 0x22]
     @ '':'' @ [CHR 0x22] @ ''internal error'' @ [CHR 0x22] @ ''}''"

text \<open>
  The body of the response; without one the status is 200 and the body empty. \<open>Aborted\<close> is a
  panic, after which the HTTP server closes the connection.
\<close>

datatype http_reply = Body "byte list" | NoBody | Aborted

definition gateway_ReadBlk ::
  "(BFSS_APIDReadBlkArgs, BFSS_APIDReadBlkResult, 's, 'e) caller option
     \<Rightarrow> (byte list \<Rightarrow> ReadBlkData \<Rightarrow> error option \<times> ReadBlkData) \<Rightarrow> error + byte list \<Rightarrow> 's
     \<Rightarrow> http_reply \<times> 's" where
  "gateway_ReadBlk client json_Unmarshal body s =
     (case body of Inl e \<Rightarrow> (Body (map of_char defaultErrorResponse), s) | Inr data0 \<Rightarrow>
      case json_Unmarshal data0 zero_ReadBlkData of
        (Some e, r) \<Rightarrow> (Body (map of_char defaultErrorResponse), s)
      | (None, r) \<Rightarrow>
          (case client of
             None \<Rightarrow> (Aborted, s)
           | Some call \<Rightarrow>
               (case BFSS_APIDClient_ReadBlk call (rb_OId r) (rb_Size r) (rb_Offset r) s of
                  ((d, Some e), s') \<Rightarrow> (NoBody, s')
                | ((None, None), s') \<Rightarrow> (Aborted, s')
                | ((Some d, None), s') \<Rightarrow> (Body (bytes_of (rr_Data d)), s'))))"

section \<open>Properties\<close>

text \<open>
  Claim C23: a request to \<^verbatim>\<open>/readblk\<close> through the gateway, the generated client and the processor reaches
  the server's handler once, with the object, size and offset of the JSON, and the body of the answer
  is exactly the data the handler gives. The result code is dropped on the way: whatever it is, the
  reader gets the data with status 200, so that a failed read looks like an empty block.
\<close>

theorem gateway_serves:
  assumes "message_laws M w" and "i32 (rb_Size r) = rb_Size r" and "i32 (rb_Offset r) = rb_Offset r"
    and "connected w (BFSS_APIDProcessor_Process M (NewBFSS_APIDProcessor M h))
      (\<lambda>a. BFSS_APIDReadBlkArgs_Write (base M) (Some a)) (BFSS_APIDReadBlkResult_Read (base M)) call"
    and "json_Unmarshal data0 zero_ReadBlkData = (None, r)"
    and "h_ReadBlk h (rb_OId r) (rb_Size r) (rb_Offset r) s = ((Some d, None), s')"
  shows "gateway_ReadBlk (Some call) json_Unmarshal (Inr data0) s = (Body (bytes_of (rr_Data d)), s')"
proof -
  have "BFSS_APIDClient_ReadBlk call (rb_OId r) (rb_Size r) (rb_Offset r) s =
      ((Some (READ_RESULT_norm d), None), s')"
    using readBlk_call.transparent [OF assms(1), where call = call and h = h and s = s and s' = s'
        and v = "Some d" and a = "new_BFSS_APIDReadBlkArgs\<lparr>ReadBlkArgs_Oid := rb_OId r,
          ReadBlkArgs_Size := rb_Size r, ReadBlkArgs_Offset := rb_Offset r\<rparr>"] assms(2-4,6)
    by (simp add: BFSS_APIDReadBlkArgs_wf_def BFSS_APIDReadBlkArgs_norm_def BFSS_APIDReadBlkResult_wf_def
        BFSS_APIDReadBlkResult_norm_def new_BFSS_APIDReadBlkArgs_def new_BFSS_APIDReadBlkResult_def
        READ_RESULT_wf_def)
  then show ?thesis
    using assms(5) by (simp add: gateway_ReadBlk_def READ_RESULT_norm_def bytes_of_def split: option.splits)
qed

definition demo_blocks :: "(byte list, string) BFSS_APID" where
  "demo_blocks = demo_handler\<lparr>h_ReadBlk := \<lambda>oid size offset0 s.
     ((Some \<lparr>rr_Result = BFSS_NOTFOUND, rr_Data = None\<rparr>, None), s)\<rparr>"

theorem gateway_serves_witness:
  "gateway_ReadBlk (Some (token_call
      (BFSS_APIDProcessor_Process token_mlib (NewBFSS_APIDProcessor token_mlib demo_blocks))
      (\<lambda>a. BFSS_APIDReadBlkArgs_Write (base token_mlib) (Some a))
      (BFSS_APIDReadBlkResult_Read (base token_mlib))))
     (\<lambda>b r. (None, r\<lparr>rb_OId := ''a'', rb_Size := -1\<rparr>)) (Inr []) [1, 2] = (Body [], [1, 2])"
proof -
  let ?r = "zero_ReadBlkData\<lparr>rb_OId := ''a'', rb_Size := -1\<rparr>"
  have r: "i32 (rb_Size ?r) = rb_Size ?r" "i32 (rb_Offset ?r) = rb_Offset ?r"
    by (simp_all add: zero_ReadBlkData_def i32_def)
  have h: "h_ReadBlk demo_blocks (rb_OId ?r) (rb_Size ?r) (rb_Offset ?r) [1, 2]
      = ((Some \<lparr>rr_Result = BFSS_NOTFOUND, rr_Data = None\<rparr>, None), [1, 2])"
    by (simp add: demo_blocks_def)
  from gateway_serves [OF token_messages r token_connected _ h,
      of "\<lambda>b r. (None, r\<lparr>rb_OId := ''a'', rb_Size := -1\<rparr>)" "[]"]
  show ?thesis by (simp add: bytes_of_def)
qed

text \<open>
  The configuration is read once and for all: if the first \<^verbatim>\<open>LoadServerConfig\<close> panics and the
  panic is recovered, no later call tries again, whatever the file holds by then; each of them
  returns as if it had worked, \<^verbatim>\<open>Server\<close> stays nil and the start of the gateway ends in a nil
  pointer dereference. If the first has worked, the configuration never changes.
\<close>

theorem LoadServerConfig_once:
  assumes "LoadServerConfig env init_gateway = (err, g)"
  shows "LoadServerConfig env' g = (None, g) \<and> (err = None \<longleftrightarrow> Server g \<noteq> None)
    \<and> (err \<noteq> None \<longrightarrow> gateway_main env' g = (nil_pointer, g))"
proof -
  have once: "once_done g" and ok: "err = None \<longleftrightarrow> Server g \<noteq> None"
    using assms
    by (auto simp: LoadServerConfig_def init_gateway_def Server_def Let_def
      split: option.splits sum.splits prod.splits bool.splits)
  have load: "LoadServerConfig env' g = (None, g)" using once by (simp add: LoadServerConfig_def)
  have "gateway_main env' g = (nil_pointer, g)" if "err \<noteq> None"
    using that ok load by (simp add: gateway_main_def InitConfig_def)
  then show ?thesis using load ok by blast
qed

definition broken_env :: gateway_env where
  "broken_env = \<lparr>NewWatcher = None, ReadFile = (\<lambda>p. Inl ''no such file''),
     yaml_Unmarshal = (\<lambda>b d. (None, d)), dial_api = (\<lambda>a. None), open_api = (\<lambda>e. Some e),
     ListenAndServe = (\<lambda>a. ''closed'')\<rparr>"

definition working_env :: gateway_env where
  "working_env = broken_env\<lparr>ReadFile := \<lambda>p. Inr []\<rparr>"

theorem LoadServerConfig_once_witness:
  "\<exists>g. LoadServerConfig broken_env init_gateway = (Some ''no such file'', g)
     \<and> gateway_main working_env g = (nil_pointer, g)"
proof -
  obtain g where g: "LoadServerConfig broken_env init_gateway = (Some ''no such file'', g)"
    by (simp add: LoadServerConfig_def broken_env_def init_gateway_def)
  from LoadServerConfig_once [OF g, of working_env] show ?thesis using g by blast
qed

end
