(* ===== verification/Spec2Isabelle.thy ===== *)
theory Spec2Isabelle
  imports Pressure_System Load_Service Load_Process Rpc_Client Remote_Tool Web_Gateway
begin

text \<open>
  A verification library for the Go code of the BFSS storage server repository. It covers the load
  tester \<^verbatim>\<open>src/TestCase/pressure\<close> and \<^verbatim>\<open>src/bfss_web\<close>: the generated Thrift service code, its command line client
  and the HTTP gateway.

  \<^bold>\<open>The program.\<close> The load tester writes files to the storage service and measures the time this
  takes. It has a server process with a registry of tasks. A web interface
  (\<^verbatim>\<open>web/handler/task.go\<close>) creates, starts and queries tasks; a schedule loop (\<^verbatim>\<open>app/task.go\<close>) takes
  the tasks to start from a channel and starts the processes of each; a process fetches its
  configuration from the server, writes its files to the storage service with a number of routines
  (\<^verbatim>\<open>test/write.go\<close>), and reports progress, statistics and its status to the server by RPC
  (\<^verbatim>\<open>ipc/server.go\<close>, \<^verbatim>\<open>ipc/client.go\<close>). The processes talk to the storage service through the
  generated client of \<^verbatim>\<open>BFSS_API/bfss_api.go\<close>, whose processor is the server side of the calls. The
  gateway passes \<^verbatim>\<open>/readblk\<close> requests to the service through the same client.

  \<^bold>\<open>The theories\<close>, in the order of their imports:

  \<^item> \<open>Go_Prelude\<close>: Go's integers with their wrap-around, strings, errors, the string functions the
    program uses. \<open>Go_Float\<close>: floating point numbers as rounded rationals.
  \<^item> \<open>App_Strategy\<close>, \<open>App_Config\<close>, \<open>App_Stats\<close>, \<open>App_Task\<close>: \<^verbatim>\<open>app/strategy.go\<close> (samples),
    \<^verbatim>\<open>app/app.go\<close> (\<^verbatim>\<open>Config\<close>, \<^verbatim>\<open>ParseBytes\<close>, \<^verbatim>\<open>validateParams\<close>, \<^verbatim>\<open>ParseArgs\<close>), \<^verbatim>\<open>app/stats.go\<close>
    (\<^verbatim>\<open>PerfStats\<close>, its accumulation, split and merge, byte counts) and \<^verbatim>\<open>app/task.go\<close> (the registry and
    the operations of a task). The package variables are the record \<open>app_state\<close>; a pointer to a task
    is its position in the registry. Locales: \<open>keyed_list\<close> and \<open>keyed_registry\<close>, the searches by
    name and by process id.
  \<^item> \<open>Ipc_Server\<close>: \<^verbatim>\<open>ipc/server.go\<close> and \<^verbatim>\<open>ipc/client.go\<close>, with what the \<^verbatim>\<open>gob\<close> encoding does to a
    configuration. \<open>Web_Handler\<close>: \<^verbatim>\<open>web/handler/task.go\<close>, a handler being a function from the parsed
    request and the registry to the reply and the registry.
  \<^item> \<open>Pressure_System\<close>: the schedule loop \<^verbatim>\<open>startLoop\<close> and the server as a whole, as two step
    relations: \<open>atomic_step\<close> with whole handlers, \<open>fine_step\<close> with the parts of a handler that a
    lock makes atomic. The locale \<open>forward_system\<close> carries what both keep.
  \<^item> \<open>BFSS_Result\<close>: \<^verbatim>\<open>bfss/bfss_result.go\<close>, the result codes.
  \<^item> \<open>Load_Writer\<close>: \<^verbatim>\<open>test/slice.go\<close>, \<^verbatim>\<open>genFileSize\<close> of \<^verbatim>\<open>test/create_object.go\<close>, and \<^verbatim>\<open>Write\<close>,
    \<^verbatim>\<open>writeFile\<close>, \<^verbatim>\<open>fastWriteFile\<close> and the progress reports of \<^verbatim>\<open>test/write.go\<close>. The environment
    of a routine is the record \<open>world\<close>; \<open>object_store\<close> states what the storage service promises.
  \<^item> \<open>Load_Objects\<close>: the tests of single calls (\<^verbatim>\<open>test/create_object.go\<close>, \<^verbatim>\<open>complete_object.go\<close>,
    \<^verbatim>\<open>delete_object.go\<close>, \<^verbatim>\<open>get_object.go\<close>, \<^verbatim>\<open>link.go\<close>) and \<^verbatim>\<open>VerifyHash\<close>.
  \<^item> \<open>Load_Fast\<close>, \<open>Load_Fast_Safety\<close>: \<^verbatim>\<open>FastWrite\<close> and its generators (\<^verbatim>\<open>test/async_file.go\<close>) as the
    step relation \<open>fast_step\<close> on a heap of files, two channels and the places of the routines.
    \<open>Load_Fast_Live\<close>: it can always get to its end.
  \<^item> \<open>Stats_Export\<close>: the spreadsheets of \<^verbatim>\<open>app/stats.go\<close>. \<open>Load_Driver\<close>: \<^verbatim>\<open>main.go\<close>, where the
    routines of a parallel test are a field of the world with the specification \<open>routines_spec\<close>.
    \<open>Load_Process\<close>: a process of a task as a whole, \<^verbatim>\<open>main.go\<close> run against the registry through
    \<^verbatim>\<open>ipc\<close>. \<open>Rpc_Client\<close>: \<^verbatim>\<open>rpc/bfss.go\<close>, the map of connections under its lock.
  \<^item> \<open>Thrift_Protocol\<close>: the shape of a generated \<^verbatim>\<open>Read\<close> and \<^verbatim>\<open>Write\<close> over the functions of the
    Thrift library, which are the parameter \<open>tlib\<close>, and what the code relies on of them,
    \<open>protocol_laws\<close>. \<open>Thrift_Codec\<close>: the contract of a struct, the locale \<open>struct_codec\<close>, and a
    protocol of tokens that satisfies the laws.
  \<^item> \<open>BFSS_API_Types\<close>, \<open>BFSS_API_Args\<close>: the structs of \<^verbatim>\<open>BFSS_API/bfss_api.go\<close>, each with its
    \<^verbatim>\<open>Read\<close> and \<^verbatim>\<open>Write\<close> and an interpretation of \<open>struct_codec\<close>.
  \<^item> \<open>Thrift_Service\<close>: the shape of a client method and of a processor, the locale
    \<open>service_method\<close>, and a transparent connection. \<open>BFSS_API_Service\<close>: the fourteen methods of the
    client and of the processor, each with an interpretation of \<open>service_method\<close>.
  \<^item> \<open>Load_Service\<close>: the tester and the service code together, the calls of the tester being those of
    the generated client. \<open>Remote_Tool\<close>: the generated command line client. \<open>Web_Gateway\<close>: the HTTP
    gateway (\<^verbatim>\<open>bfss_web/main.go\<close>, \<^verbatim>\<open>config\<close>, \<^verbatim>\<open>common\<close>, \<^verbatim>\<open>service\<close>).

  \<^bold>\<open>What is shown.\<close> Statistics: split, separate accumulation and merge give the same as one
  routine; the shares of a split job cover it. Tasks: names stay distinct and find their task;
  starting, progress and status reports do what they say on every branch; a task is done once its
  processes are. The system: an invariant of every interleaving; with whole handlers a task only
  moves forward and is started once, and this fails for the real interleavings; starting all tasks
  gets each running. The writer: it always returns, and what its statistics record is what the
  service stores, with whole files, prepared files, and many routines; a verified run ends with every
  file verified, also through the generated client and processor. \<^verbatim>\<open>FastWrite\<close>: in every interleaving
  a file is with one routine only, no send blocks, what is recorded is stored, and from every
  reachable state it can return with all its files stored, when the service answers. The process: it
  fetches the configuration of its task, runs its share and leaves its status and its statistics in
  the registry, whatever the other processes do in between. The connections:
  the map is written under its lock and loses none. The service code: structs and calls arrive as
  they were sent, for any library that keeps the laws, unknown fields are skipped, and what happens
  on errors. The command line client and the gateway pass on what they are given.

  \<^bold>\<open>Conventions.\<close> \<open>None\<close> of a computation is a run-time panic, an endless loop or a blocked
  sender, as the theory says; the loops that may not end are \<open>partial_function (option)\<close>, and the
  properties state where they return. The readers of \<open>Thrift_Protocol\<close> end because every element
  of the input is consumed. Logging has no effect in the model.

  \<^bold>\<open>Not modelled.\<close> The styles of spreadsheet cells and what the command line client prints; the
  timers of \<^verbatim>\<open>asyncFile\<close>, which are only logged; \<^verbatim>\<open>Close\<close> calls on files. Routes, sockets, files and
  processes themselves are input and output only. The \<^verbatim>\<open>String\<close> methods of the structs print for
  the log. The example client and the Go tests are not part of the program.
\<close>

end
